(* ===== verification/Prelude.thy ===== *)
theory Prelude
  imports Main "HOL-Library.Word"
begin

text \<open>
  Shared vocabulary of the development: the machine types of the C++ sources, byte strings,
  big-endian integer layout, and the lemmas on them that every component uses.

  A \<^verbatim>\<open>std::uint8_t\<close> (or \<^verbatim>\<open>std::byte\<close>) is an \<open>8 word\<close>, a
  \<^verbatim>\<open>std::vector\<close>, \<^verbatim>\<open>std::span\<close> or \<^verbatim>\<open>std::array\<close> of them a list, a
  \<^verbatim>\<open>std::string\<close> a HOL \<open>string\<close>.  A C++ result struct with an error code and a value is
  a sum: \<open>Inl e\<close> is the struct whose error is \<open>e\<close> (never the enumerator \<open>None\<close>) and
  \<open>Inr v\<close> the struct with error \<open>None\<close> and value \<open>v\<close>.
\<close>

unbundle bit_operations_syntax

section \<open>Machine types\<close>

type_synonym u8 = "8 word"
type_synonym u16 = "16 word"
type_synonym u32 = "32 word"
type_synonym u64 = "64 word"
type_synonym bytes = "8 word list"

named_theorems wire_simps \<open>evaluation rules for the wire formats\<close>
named_theorems guard_simps \<open>a chain of guards returns a value exactly when no guard fires\<close>
named_theorems length_simps \<open>lengths of fixed-size encodings\<close>

section \<open>Strings as bytes\<close>

text \<open>Reading the characters of a \<^verbatim>\<open>std::string_view\<close> as octets.\<close>

definition octets :: "string \<Rightarrow> bytes" where
  "octets s = map of_char s"

lemma length_octets [simp, length_simps]: "length (octets s) = length s"
  by (simp add: octets_def)

lemma of_char_u8_eq_iff: "(of_char c :: u8) = of_char d \<longleftrightarrow> c = d"
proof
  assume "(of_char c :: u8) = of_char d"
  then have "unat (of_nat (of_char c) :: u8) = unat (of_nat (of_char d) :: u8)"
    by (simp add: of_nat_of_char)
  then have "(of_char c :: nat) = of_char d"
    by (simp add: unat_of_nat take_bit_nat_eq_self nat_of_char_less_256)
  then show "c = d" by simp
qed simp

lemma octets_eq_iff [simp]: "octets s = octets t \<longleftrightarrow> s = t"
  unfolding octets_def
  by (rule inj_map_eq_map) (simp add: inj_def of_char_u8_eq_iff)

lemma octets_Nil_iff [simp]: "octets s = [] \<longleftrightarrow> s = []"
  by (simp add: octets_def)

lemma octets_Nil_simps [simp]: "octets [] = []"
  by (simp add: octets_def)

section \<open>Big-endian integers\<close>

text \<open>
  The layout every \<^verbatim>\<open>writeU*\<close>, \<^verbatim>\<open>appendU*\<close> and \<^verbatim>\<open>readU*\<close> of the sources computes.
  The components' own routines are proved equal to these two functions.
\<close>

definition be_bytes :: "nat \<Rightarrow> 'a::len word \<Rightarrow> bytes" where
  "be_bytes n v = map (\<lambda>i. ucast (drop_bit (8 * (n - 1 - i)) v)) [0..<n]"

definition be_value :: "bytes \<Rightarrow> 'a::len word" where
  "be_value bs = foldl (\<lambda>v b. push_bit 8 v OR ucast b) 0 bs"

lemma length_be_bytes [simp, length_simps]: "length (be_bytes n v) = n"
  by (simp add: be_bytes_def)

lemma be_value_snoc: "be_value (bs @ [b]) = push_bit 8 (be_value bs) OR ucast b"
  by (simp add: be_value_def)

lemma be_value_Nil [simp]: "be_value [] = 0"
  by (simp add: be_value_def)

lemma bit_be_value:
  "bit (be_value bs :: 'a::len word) k \<longleftrightarrow>
     k < LENGTH('a) \<and> k < 8 * length bs \<and> bit (rev bs ! (k div 8)) (k mod 8)"
proof (induction bs arbitrary: k rule: rev_induct)
  case Nil
  show ?case by simp
next
  case (snoc b bs)
  show ?case
  proof (cases "k < 8")
    case True
    then show ?thesis
      by (auto simp: be_value_snoc bit_simps)
  next
    case False
    then obtain j where k: "k = j + 8" by (metis add.commute le_Suc_ex not_less)
    have "\<not> bit b (j + 8)" by (simp add: bit_word.rep_eq impossible_bit)
    then show ?thesis
      by (auto simp: k be_value_snoc bit_simps snoc.IH div_add_self2 simp flip: not_less)
  qed
qed

lemma be_bytes_nth: "i < n \<Longrightarrow> be_bytes n v ! i = ucast (drop_bit (8 * (n - 1 - i)) v)"
  by (simp add: be_bytes_def)

lemma be_value_bytes:
  fixes v :: "'a::len word"
  assumes "LENGTH('a) \<le> 8 * n"
  shows "be_value (be_bytes n v) = v"
proof (rule bit_word_eqI)
  fix k assume k: "k < LENGTH('a)"
  with assms have "k div 8 < n" by (simp add: less_mult_imp_div_less mult.commute)
  then have "rev (be_bytes n v) ! (k div 8) = ucast (drop_bit (8 * (k div 8)) v)"
    by (simp add: rev_nth be_bytes_nth)
  moreover have "8 * (k div 8) + k mod 8 = k" by simp
  ultimately show "bit (be_value (be_bytes n v) :: 'a word) k = bit v k"
    using k assms by (simp add: bit_be_value bit_simps)
qed

lemma be_bytes_value:
  fixes bs :: bytes
  assumes "8 * length bs \<le> LENGTH('a::len)"
  shows "be_bytes (length bs) (be_value bs :: 'a word) = bs"
proof (rule nth_equalityI)
  show "length (be_bytes (length bs) (be_value bs :: 'a word)) = length bs" by simp
next
  fix i assume "i < length (be_bytes (length bs) (be_value bs :: 'a word))"
  then have i: "i < length bs" by simp
  let ?d = "length bs - 1 - i"
  have r: "rev bs ! ?d = bs ! i" using i by (simp add: rev_nth)
  show "be_bytes (length bs) (be_value bs :: 'a word) ! i = bs ! i"
  proof (rule bit_word_eqI)
    fix k :: nat assume "k < LENGTH(8)"
    then have k: "k < 8" by simp
    have "8 * ?d + k < 8 * length bs" using i k by linarith
    moreover from this assms have "8 * ?d + k < LENGTH('a)" by linarith
    moreover have "(8 * ?d + k) div 8 = ?d" "(8 * ?d + k) mod 8 = k" using k by auto
    ultimately show "bit (be_bytes (length bs) (be_value bs :: 'a word) ! i) k = bit (bs ! i) k"
      using k i r by (simp add: be_bytes_nth bit_be_value bit_simps)
  qed
qed

section \<open>Interfaces of wire formats\<close>

text \<open>
  A prefix-free encoder: the bytes of one value never continue into the bytes of another, so
  that a concatenation of fields can be read back in one way only.  The transcripts and the
  signed inputs of the system are concatenations of such fields.
\<close>

locale prefix_free =
  fixes enc :: "'a \<Rightarrow> 'b list"
    and valid :: "'a \<Rightarrow> bool"
  assumes split: "valid x \<Longrightarrow> valid y \<Longrightarrow> enc x @ r = enc y @ s \<Longrightarrow> x = y \<and> r = s"
begin

lemma inject: "valid x \<Longrightarrow> valid y \<Longrightarrow> enc x = enc y \<Longrightarrow> x = y"
  using split [of x y "[]" "[]"] by simp

lemma append_eq_iff: "valid x \<Longrightarrow> valid y \<Longrightarrow> enc x @ r = enc y @ s \<longleftrightarrow> x = y \<and> r = s"
  using split [of x y r s] by blast

end

text \<open>A codec of fixed width: decoding inverts encoding, and every encoding has the same length.\<close>

locale fixed_codec =
  fixes enc :: "'a \<Rightarrow> 'b list"
    and dec :: "'b list \<Rightarrow> 'a"
    and valid :: "'a \<Rightarrow> bool"
    and width :: nat
  assumes dec_enc: "valid x \<Longrightarrow> dec (enc x) = x"
    and length_enc: "valid x \<Longrightarrow> length (enc x) = width"

sublocale fixed_codec \<subseteq> prefix_free enc valid
proof
  fix x y r s
  assume v: "valid x" "valid y" and eq: "enc x @ r = enc y @ s"
  with length_enc have len: "length (enc x) = length (enc y)" by simp
  from eq len have "enc x = enc y" "r = s" by auto
  with v dec_enc show "x = y \<and> r = s" by metis
qed

interpretation be16: fixed_codec "be_bytes 2 :: u16 \<Rightarrow> bytes" be_value "\<lambda>_. True" 2
  by unfold_locales (simp_all add: be_value_bytes)

interpretation be32: fixed_codec "be_bytes 4 :: u32 \<Rightarrow> bytes" be_value "\<lambda>_. True" 4
  by unfold_locales (simp_all add: be_value_bytes)

interpretation be64: fixed_codec "be_bytes 8 :: u64 \<Rightarrow> bytes" be_value "\<lambda>_. True" 8
  by unfold_locales (simp_all add: be_value_bytes)

lemma be_bytes_eq_iff [simp]:
  "be_bytes 2 (a :: u16) = be_bytes 2 a' \<longleftrightarrow> a = a'"
  "be_bytes 4 (b :: u32) = be_bytes 4 b' \<longleftrightarrow> b = b'"
  "be_bytes 8 (c :: u64) = be_bytes 8 c' \<longleftrightarrow> c = c'"
  using be16.inject be32.inject be64.inject by blast+

text \<open>Fixed-size arrays are their own encoding.\<close>

interpretation array32: fixed_codec "\<lambda>xs :: bytes. xs" "\<lambda>xs. xs" "\<lambda>xs. length xs = 32" 32
  by unfold_locales simp_all

text \<open>
  A string under a 16-bit big-endian length.  The sources narrow the size with a cast; the
  format is prefix-free exactly because the callers reject longer strings first.
\<close>

definition sized16 :: "bytes \<Rightarrow> bytes" where
  "sized16 s = be_bytes 2 (of_nat (length s) :: u16) @ s"

definition sized32 :: "bytes \<Rightarrow> bytes" where
  "sized32 s = be_bytes 4 (of_nat (length s) :: u32) @ s"

lemma of_nat_word_eq_less:
  assumes "m < 2 ^ LENGTH('a::len)" "n < 2 ^ LENGTH('a)"
  shows "(of_nat m :: 'a word) = of_nat n \<longleftrightarrow> m = n"
proof
  assume "(of_nat m :: 'a word) = of_nat n"
  then have "unat (of_nat m :: 'a word) = unat (of_nat n :: 'a word)" by simp
  with assms show "m = n" by (simp add: unat_of_nat take_bit_nat_eq_self)
qed simp

interpretation sized16: prefix_free sized16 "\<lambda>s. length s < 2 ^ 16"
proof
  fix x y r s :: bytes
  assume l: "length x < 2 ^ 16" "length y < 2 ^ 16" and eq: "sized16 x @ r = sized16 y @ s"
  from eq have "be_bytes 2 (of_nat (length x) :: u16) @ (x @ r) =
                be_bytes 2 (of_nat (length y) :: u16) @ (y @ s)"
    by (simp add: sized16_def)
  then have "(of_nat (length x) :: u16) = of_nat (length y)" and xy: "x @ r = y @ s"
    by (simp_all only: be16.append_eq_iff) 
  with l have "length x = length y" by (simp add: of_nat_word_eq_less)
  with xy show "x = y \<and> r = s" by simp
qed

interpretation sized32: prefix_free sized32 "\<lambda>s. length s < 2 ^ 32"
proof
  fix x y r s :: bytes
  assume l: "length x < 2 ^ 32" "length y < 2 ^ 32" and eq: "sized32 x @ r = sized32 y @ s"
  from eq have "be_bytes 4 (of_nat (length x) :: u32) @ (x @ r) =
                be_bytes 4 (of_nat (length y) :: u32) @ (y @ s)"
    by (simp add: sized32_def)
  then have "(of_nat (length x) :: u32) = of_nat (length y)" and xy: "x @ r = y @ s"
    by (simp_all only: be32.append_eq_iff)
  with l have "length x = length y" by (simp add: of_nat_word_eq_less)
  with xy show "x = y \<and> r = s" by simp
qed

section \<open>Buffers\<close>

text \<open>
  \<open>fill buf out\<close> is the buffer after a callee wrote \<open>out\<close> at its front;
  \<open>resize n xs\<close> is \<^verbatim>\<open>std::vector::resize\<close>.
\<close>

definition fill :: "bytes \<Rightarrow> bytes \<Rightarrow> bytes" where
  "fill buf out = take (length buf) out @ drop (length out) buf"

definition resize :: "nat \<Rightarrow> bytes \<Rightarrow> bytes" where
  "resize n xs = take n xs @ replicate (n - length xs) 0"

lemma length_fill [simp, length_simps]: "length (fill buf out) = length buf"
  by (simp add: fill_def)

lemma fill_exact [simp]: "length out = length buf \<Longrightarrow> fill buf out = out"
  by (simp add: fill_def)

lemma length_resize [simp, length_simps]: "length (resize n xs) = n"
  by (simp add: resize_def)

lemma resize_exact [simp]: "length xs = n \<Longrightarrow> resize n xs = xs"
  by (simp add: resize_def)

section \<open>Result sums\<close>

definition is_ok :: "'e + 'a \<Rightarrow> bool" where
  "is_ok r = (case r of Inl _ \<Rightarrow> False | Inr _ \<Rightarrow> True)"

lemma is_ok_simps [simp]: "is_ok (Inr v)" "\<not> is_ok (Inl e)"
  by (simp_all add: is_ok_def)

lemma is_okE [elim]:
  assumes "is_ok r"
  obtains v where "r = Inr v"
  using assms by (cases r) auto

lemma if_Inl_eq_Inr [guard_simps]: "(if P then Inl e else x) = Inr v \<longleftrightarrow> \<not> P \<and> x = Inr v"
  by simp

lemma case_option_Inl_eq_Inr [guard_simps]:
  "(case x of None \<Rightarrow> Inl e | Some y \<Rightarrow> f y) = Inr v \<longleftrightarrow> (\<exists>y. x = Some y \<and> f y = Inr v)"
  by (cases x) simp_all

lemma case_sum_Inl_eq_Inr [guard_simps]:
  "(case x of Inl e \<Rightarrow> Inl (g e) | Inr y \<Rightarrow> f y) = Inr v \<longleftrightarrow> (\<exists>y. x = Inr y \<and> f y = Inr v)"
  by (cases x) simp_all

end
