(* ===== verification/Frame.thy ===== *)
theory Frame
  imports Prelude
begin

text \<open>
  The frame layer, \<^verbatim>\<open>src/src/ya_license_protocol/src/frame.cpp\<close>: a 20-byte header (magic,
  version, flags, sequence number, payload size, all big-endian) in front of a payload.
\<close>

section \<open>Data\<close>

definition kFrameHeaderSize :: nat where "kFrameHeaderSize = 20"
definition kFrameVersion :: u16 where "kFrameVersion = 1"
definition kEncryptedFlag :: u16 where "kEncryptedFlag = 1"
definition kDefaultMaxPayloadSize :: u32 where "kDefaultMaxPayloadSize = 1024 * 1024"

record FrameHeader =
  fh_version :: u16
  fh_flags :: u16
  fh_sequence :: u64
  fh_payload_size :: u32

datatype FrameError =
    FrameError_None
  | FrameError_InsufficientData
  | FrameError_InvalidMagic
  | FrameError_UnsupportedVersion
  | FrameError_UnknownFlags
  | FrameError_EmptyPayload
  | FrameError_PayloadTooLarge
  | FrameError_LengthMismatch

type_synonym FrameDecodeResult = "FrameError + FrameHeader \<times> bytes"

section \<open>Operations\<close>

definition kMagic :: bytes where
  "kMagic = octets ''YAL1''"

text \<open>The bytes a \<^verbatim>\<open>write\<close> routine stores into the span it is given.\<close>

definition writeU16 :: "u16 \<Rightarrow> bytes" where
  "writeU16 value = [ucast (drop_bit 8 value), ucast value]"

definition writeU32 :: "u32 \<Rightarrow> bytes" where
  "writeU32 value = map (\<lambda>i. ucast (drop_bit (24 - 8 * i) value)) [0..<4]"

definition writeU64 :: "u64 \<Rightarrow> bytes" where
  "writeU64 value = map (\<lambda>i. ucast (drop_bit (56 - 8 * i) value)) [0..<8]"

definition readU16 :: "bytes \<Rightarrow> u16" where
  "readU16 bs = push_bit 8 (ucast (bs ! 0)) OR ucast (bs ! 1)"

definition readU32 :: "bytes \<Rightarrow> u32" where
  "readU32 bs = foldl (\<lambda>value byte. push_bit 8 value OR ucast byte) 0 (take 4 bs)"

definition readU64 :: "bytes \<Rightarrow> u64" where
  "readU64 bs = foldl (\<lambda>value byte. push_bit 8 value OR ucast byte) 0 (take 8 bs)"

definition encodeHeader :: "FrameHeader \<Rightarrow> bytes" where
  "encodeHeader header =
     kMagic @ writeU16 (fh_version header) @ writeU16 (fh_flags header)
       @ writeU64 (fh_sequence header) @ writeU32 (fh_payload_size header)"

definition subspan :: "nat \<Rightarrow> nat \<Rightarrow> bytes \<Rightarrow> bytes" where
  "subspan offset count bs = take count (drop offset bs)"

definition decodeHeader :: "bytes \<Rightarrow> u32 \<Rightarrow> FrameDecodeResult" where
  "decodeHeader bs max_payload_size =
     (if length bs < kFrameHeaderSize then Inl FrameError_InsufficientData
      else if kMagic \<noteq> take 4 bs then Inl FrameError_InvalidMagic
      else let header = \<lparr>fh_version = readU16 (subspan 4 2 bs),
                         fh_flags = readU16 (subspan 6 2 bs),
                         fh_sequence = readU64 (subspan 8 8 bs),
                         fh_payload_size = readU32 (subspan 16 4 bs)\<rparr>
           in if fh_version header \<noteq> kFrameVersion then Inl FrameError_UnsupportedVersion
              else if fh_flags header AND NOT kEncryptedFlag \<noteq> 0 then Inl FrameError_UnknownFlags
              else if fh_payload_size header = 0 then Inl FrameError_EmptyPayload
              else if fh_payload_size header > max_payload_size then Inl FrameError_PayloadTooLarge
              else Inr (header, []))"

definition decodeFrame :: "bytes \<Rightarrow> u32 \<Rightarrow> FrameDecodeResult" where
  "decodeFrame bs max_payload_size =
     (case decodeHeader bs max_payload_size of
        Inl e \<Rightarrow> Inl e
      | Inr (header, payload) \<Rightarrow>
          if length bs \<noteq> kFrameHeaderSize + unat (fh_payload_size header)
          then Inl FrameError_LengthMismatch
          else Inr (header, drop kFrameHeaderSize bs))"

section \<open>The byte routines are the big-endian codec\<close>

lemma writeU16_be: "writeU16 v = be_bytes 2 v"
  by (simp add: writeU16_def be_bytes_def upt_conv_Cons numeral_2_eq_2)

lemma writeU32_be: "writeU32 v = be_bytes 4 v"
  by (simp add: writeU32_def be_bytes_def upt_conv_Cons eval_nat_numeral)

lemma writeU64_be: "writeU64 v = be_bytes 8 v"
  by (simp add: writeU64_def be_bytes_def upt_conv_Cons eval_nat_numeral)

lemma readU16_be: "length bs = 2 \<Longrightarrow> readU16 bs = be_value bs"
  by (auto simp: readU16_def be_value_def length_Suc_conv numeral_2_eq_2)

lemma readU32_be: "length bs = 4 \<Longrightarrow> readU32 bs = be_value bs"
  by (simp add: readU32_def be_value_def)

lemma readU64_be: "length bs = 8 \<Longrightarrow> readU64 bs = be_value bs"
  by (simp add: readU64_def be_value_def)

lemmas write_be = writeU16_be writeU32_be writeU64_be
lemmas read_be = readU16_be readU32_be readU64_be

lemma length_kMagic [simp, length_simps]: "length kMagic = 4"
  by (simp add: kMagic_def)

lemma length_encodeHeader [simp, length_simps]: "length (encodeHeader h) = kFrameHeaderSize"
  by (simp add: encodeHeader_def write_be kFrameHeaderSize_def)

lemma length_subspan [simp]: "length (subspan off c bs) = min c (length bs - off)"
  by (simp add: subspan_def min_def)

section \<open>Header fields of a byte string\<close>

text \<open>The fields of a buffer, read at their fixed offsets.\<close>

definition header_at :: "bytes \<Rightarrow> FrameHeader" where
  "header_at bs = \<lparr>fh_version = readU16 (subspan 4 2 bs), fh_flags = readU16 (subspan 6 2 bs),
                   fh_sequence = readU64 (subspan 8 8 bs), fh_payload_size = readU32 (subspan 16 4 bs)\<rparr>"

definition header_ok :: "FrameHeader \<Rightarrow> u32 \<Rightarrow> bool" where
  "header_ok h maxsz \<longleftrightarrow> fh_version h = kFrameVersion \<and> fh_flags h AND NOT kEncryptedFlag = 0
     \<and> 0 < fh_payload_size h \<and> fh_payload_size h \<le> maxsz"

lemma decodeHeader_Inr_iff:
  "decodeHeader bs m = Inr (h, p) \<longleftrightarrow>
     20 \<le> length bs \<and> take 4 bs = kMagic \<and> h = header_at bs \<and> header_ok h m \<and> p = []"
  by (auto simp: decodeHeader_def header_at_def header_ok_def kFrameHeaderSize_def Let_def
      word_neq_0_conv not_less)

lemma header_at_encode: "header_at (encodeHeader h @ rest) = h"
proof -
  have s: "subspan 4 2 (encodeHeader h @ rest) = be_bytes 2 (fh_version h)"
    "subspan 6 2 (encodeHeader h @ rest) = be_bytes 2 (fh_flags h)"
    "subspan 8 8 (encodeHeader h @ rest) = be_bytes 8 (fh_sequence h)"
    "subspan 16 4 (encodeHeader h @ rest) = be_bytes 4 (fh_payload_size h)"
    by (simp_all add: subspan_def encodeHeader_def write_be)
  show ?thesis
    by (simp add: header_at_def s read_be be_value_bytes)
qed

interpretation frame_header: fixed_codec encodeHeader header_at "\<lambda>_. True" kFrameHeaderSize
  using header_at_encode [where rest = "[]"] by unfold_locales simp_all

lemma subspan_glue: "subspan off a bs @ subspan (off + a) b bs = subspan off (a + b) bs"
  by (simp add: subspan_def take_add add.commute)

lemma encode_header_at:
  assumes "20 \<le> length bs" and "take 4 bs = kMagic"
  shows "encodeHeader (header_at bs) = take 20 bs"
proof -
  have w: "be_bytes 2 (be_value (subspan 4 2 bs) :: u16) = subspan 4 2 bs"
    "be_bytes 2 (be_value (subspan 6 2 bs) :: u16) = subspan 6 2 bs"
    "be_bytes 8 (be_value (subspan 8 8 bs) :: u64) = subspan 8 8 bs"
    "be_bytes 4 (be_value (subspan 16 4 bs) :: u32) = subspan 16 4 bs"
    using assms(1) be_bytes_value [of "subspan 4 2 bs", where 'a = 16]
      be_bytes_value [of "subspan 6 2 bs", where 'a = 16]
      be_bytes_value [of "subspan 8 8 bs", where 'a = 64]
      be_bytes_value [of "subspan 16 4 bs", where 'a = 32] by simp_all
  have "encodeHeader (header_at bs) =
          take 4 bs @ subspan 4 2 bs @ subspan 6 2 bs @ subspan 8 8 bs @ subspan 16 4 bs"
    using assms by (simp add: encodeHeader_def header_at_def write_be read_be w)
  also have "\<dots> = subspan 0 4 bs @ subspan 4 16 bs"
    by (simp add: subspan_glue [of 4 2 bs 2, simplified, symmetric]
        subspan_glue [of 4 4 bs 8, simplified, symmetric]
        subspan_glue [of 4 12 bs 4, simplified, symmetric]) (simp add: subspan_def)
  also have "\<dots> = take 20 bs"
    using subspan_glue [of 0 4 bs 16] by (simp add: subspan_def)
  finally show ?thesis .
qed

lemma decodeFrame_iff:
  "decodeFrame bs m = Inr (h, p) \<longleftrightarrow>
     bs = encodeHeader h @ p \<and> header_ok h m \<and> length p = unat (fh_payload_size h)"
  (is "?L \<longleftrightarrow> ?R")
proof
  assume ?L
  then have d: "decodeHeader bs m = Inr (h, [])" and
    len: "length bs = 20 + unat (fh_payload_size h)" and p: "p = drop 20 bs"
    by (auto simp: decodeFrame_def kFrameHeaderSize_def decodeHeader_Inr_iff
        split: sum.splits if_splits)
  from d have "encodeHeader h = take 20 bs" and "header_ok h m"
    by (auto simp: decodeHeader_Inr_iff intro: encode_header_at)
  with len p show ?R by simp
next
  assume R: ?R
  then have "take 4 bs = kMagic" by (simp add: encodeHeader_def)
  with R have "decodeHeader bs m = Inr (h, [])"
    by (simp add: decodeHeader_Inr_iff header_at_encode kFrameHeaderSize_def)
  with R show ?L by (simp add: decodeFrame_def)
qed

section \<open>Properties\<close>

text \<open>
  C27.  A frame is accepted exactly when it is the encoding of its header followed by a payload
  of the announced size, with the supported version, no unknown flag and a payload size between
  one and the limit; the decoder then returns that header and that payload.
\<close>

theorem decodeFrame_exact:
  "decodeFrame bs m = Inr (h, p) \<longleftrightarrow>
     bs = encodeHeader h @ p \<and> header_ok h m \<and> length p = unat (fh_payload_size h)"
  by (rule decodeFrame_iff)

text \<open>
  The errors of the frame decoder come in a fixed order: short input, wrong magic, wrong
  version, unknown flags, empty payload, payload over the limit, and only then a length that does
  not match; an input that fails none of these tests is accepted.
\<close>

lemma decodeFrame_cases:
  "decodeFrame bs m =
     (if length bs < 20 then Inl FrameError_InsufficientData
      else if take 4 bs \<noteq> kMagic then Inl FrameError_InvalidMagic
      else if fh_version (header_at bs) \<noteq> 1 then Inl FrameError_UnsupportedVersion
      else if fh_flags (header_at bs) \<notin> {0, 1} then Inl FrameError_UnknownFlags
      else if fh_payload_size (header_at bs) = 0 then Inl FrameError_EmptyPayload
      else if fh_payload_size (header_at bs) > m then Inl FrameError_PayloadTooLarge
      else if length bs \<noteq> 20 + unat (fh_payload_size (header_at bs)) then Inl FrameError_LengthMismatch
      else Inr (header_at bs, drop 20 bs))"
proof -
  have fl: "f AND NOT kEncryptedFlag \<noteq> 0 \<longleftrightarrow> f \<notin> {0, 1}" for f :: u16
  proof -
    have "f AND NOT 1 = 0 \<longleftrightarrow> f = 0 \<or> f = 1"
    proof
      assume z: "f AND NOT 1 = 0"
      have "f = (f AND NOT 1) OR (f AND 1)"
        by (rule bit_word_eqI) (auto simp: bit_simps)
      also have "\<dots> = f AND 1" using z by simp
      also have "\<dots> = of_bool (odd f)" by (simp add: and_one_eq mod2_eq_if)
      finally show "f = 0 \<or> f = 1" by (cases "odd f") (metis of_bool_eq)+
    qed auto
    then show ?thesis by (simp add: kEncryptedFlag_def)
  qed
  show ?thesis
    by (simp add: decodeFrame_def decodeHeader_def fl kFrameHeaderSize_def kFrameVersion_def
        header_at_def Let_def del: insert_iff singleton_iff)
qed

end
