(* ===== verification/Crypto.thy ===== *)
theory Crypto
  imports Prelude "HOL-Library.Monad_Syntax"
begin

text \<open>
  The cryptographic layer, \<^verbatim>\<open>src/src/ya_license_crypto/src/crypto.cpp\<close>: thin wrappers that
  size-check their inputs, drive a sequence of OpenSSL calls and map every failure to a
  \<^verbatim>\<open>CryptoError\<close>.  OpenSSL itself is not part of the repository; it is the record \<open>openssl\<close>,
  a parameter of every definition.  A field is one library call: it returns \<open>None\<close> where the
  library reports failure and otherwise the new handle or the bytes it wrote.  Handles are
  values of an arbitrary type \<open>'h\<close>.  Calls that draw entropy also take and return the state
  \<open>'w\<close> of the outside world; all other calls are functions of their arguments.
\<close>

section \<open>Constants, results and key material\<close>

definition kKeySize :: nat where "kKeySize = 32"
definition kNonceSize :: nat where "kNonceSize = 12"
definition kTagSize :: nat where "kTagSize = 16"
definition kSignatureSize :: nat where "kSignatureSize = 64"
definition kSha256Size :: nat where "kSha256Size = 32"

lemmas crypto_sizes = kKeySize_def kNonceSize_def kTagSize_def kSignatureSize_def kSha256Size_def

datatype CryptoError =
    CryptoError_None
  | CryptoError_InvalidInput
  | CryptoError_RandomFailed
  | CryptoError_KeyGenerationFailed
  | CryptoError_DerivationFailed
  | CryptoError_SignatureFailed
  | CryptoError_InvalidSignature
  | CryptoError_EncryptionFailed
  | CryptoError_AuthenticationFailed

type_synonym 'a CryptoResult = "CryptoError + 'a"

record KeyPair =
  private_key :: bytes
  public_key :: bytes

section \<open>The OpenSSL calls\<close>

record ('h, 'w) openssl =
  EVP_PKEY_CTX_new_id :: "nat \<Rightarrow> 'h option"
  EVP_PKEY_keygen_init :: "'h \<Rightarrow> 'h option"
  EVP_PKEY_keygen :: "'h \<Rightarrow> 'w \<Rightarrow> 'h option \<times> 'w"
  EVP_PKEY_get_raw_private_key :: "'h \<Rightarrow> nat \<Rightarrow> bytes option"
  EVP_PKEY_get_raw_public_key :: "'h \<Rightarrow> nat \<Rightarrow> bytes option"
  EVP_PKEY_new_raw_private_key :: "nat \<Rightarrow> bytes \<Rightarrow> 'h option"
  EVP_PKEY_new_raw_public_key :: "nat \<Rightarrow> bytes \<Rightarrow> 'h option"
  RAND_priv_bytes :: "nat \<Rightarrow> 'w \<Rightarrow> bytes option \<times> 'w"
  EVP_MD_CTX_new :: "'h option"
  EVP_DigestInit_sha256 :: "'h \<Rightarrow> 'h option"
  EVP_DigestUpdate :: "'h \<Rightarrow> bytes \<Rightarrow> 'h option"
  EVP_DigestFinal_ex :: "'h \<Rightarrow> bytes option"
  EVP_DigestSignInit :: "'h \<Rightarrow> 'h \<Rightarrow> 'h option"
  EVP_DigestSign :: "'h \<Rightarrow> nat \<Rightarrow> bytes \<Rightarrow> bytes option"
  EVP_DigestVerifyInit :: "'h \<Rightarrow> 'h \<Rightarrow> 'h option"
  EVP_DigestVerify :: "'h \<Rightarrow> bytes \<Rightarrow> bytes \<Rightarrow> int"
  EVP_PKEY_CTX_new :: "'h \<Rightarrow> 'h option"
  EVP_PKEY_derive_init :: "'h \<Rightarrow> 'h option"
  EVP_PKEY_derive_set_peer :: "'h \<Rightarrow> 'h \<Rightarrow> 'h option"
  EVP_PKEY_derive :: "'h \<Rightarrow> nat \<Rightarrow> bytes option"
  EVP_KDF_fetch :: "string \<Rightarrow> 'h option"
  EVP_KDF_CTX_new :: "'h \<Rightarrow> 'h option"
  EVP_KDF_derive :: "'h \<Rightarrow> nat \<Rightarrow> (string \<times> bytes) list \<Rightarrow> bytes option"
  EVP_CIPHER_CTX_new :: "'h option"
  EVP_EncryptInit_ex2 :: "'h \<Rightarrow> bytes \<Rightarrow> bytes \<Rightarrow> 'h option"
  EVP_EncryptUpdate_aad :: "'h \<Rightarrow> bytes \<Rightarrow> 'h option"
  EVP_EncryptUpdate :: "'h \<Rightarrow> bytes \<Rightarrow> ('h \<times> bytes) option"
  EVP_EncryptFinal_ex :: "'h \<Rightarrow> ('h \<times> bytes) option"
  EVP_CTRL_AEAD_GET_TAG :: "'h \<Rightarrow> nat \<Rightarrow> bytes option"
  EVP_DecryptInit_ex2 :: "'h \<Rightarrow> bytes \<Rightarrow> bytes \<Rightarrow> 'h option"
  EVP_DecryptUpdate_aad :: "'h \<Rightarrow> bytes \<Rightarrow> 'h option"
  EVP_DecryptUpdate :: "'h \<Rightarrow> bytes \<Rightarrow> ('h \<times> bytes) option"
  EVP_CTRL_AEAD_SET_TAG :: "'h \<Rightarrow> bytes \<Rightarrow> 'h option"
  EVP_DecryptFinal_ex :: "'h \<Rightarrow> bytes option"

text \<open>Algorithm identifiers, as \<^verbatim>\<open>openssl/obj_mac.h\<close> numbers them.\<close>

abbreviation EVP_PKEY_X25519 :: nat where "EVP_PKEY_X25519 \<equiv> 1034"
abbreviation EVP_PKEY_ED25519 :: nat where "EVP_PKEY_ED25519 \<equiv> 1087"

section \<open>Helpers\<close>

definition INT_MAX :: nat where "INT_MAX = 2147483647"

definition validSize :: "nat \<Rightarrow> bool" where
  "validSize n \<longleftrightarrow> n \<le> INT_MAX"

definition generateKeyPair ::
  "('h, 'w) openssl \<Rightarrow> nat \<Rightarrow> 'w \<Rightarrow> KeyPair CryptoResult \<times> 'w" where
  "generateKeyPair ossl type w =
     (case Option.bind (EVP_PKEY_CTX_new_id ossl type) (EVP_PKEY_keygen_init ossl) of
        None \<Rightarrow> (Inl CryptoError_KeyGenerationFailed, w)
      | Some context \<Rightarrow>
          (case EVP_PKEY_keygen ossl context w of
             (None, w') \<Rightarrow> (Inl CryptoError_KeyGenerationFailed, w')
           | (Some key, w') \<Rightarrow>
               (case (EVP_PKEY_get_raw_private_key ossl key kKeySize,
                      EVP_PKEY_get_raw_public_key ossl key kKeySize) of
                  (Some private, Some public) \<Rightarrow>
                    if length private \<noteq> kKeySize \<or> length public \<noteq> kKeySize
                    then (Inl CryptoError_KeyGenerationFailed, w')
                    else (Inr \<lparr>private_key = private, public_key = public\<rparr>, w')
                | _ \<Rightarrow> (Inl CryptoError_KeyGenerationFailed, w'))))"

definition rawPrivateKey :: "('h, 'w) openssl \<Rightarrow> nat \<Rightarrow> bytes \<Rightarrow> 'h option" where
  "rawPrivateKey ossl type key = EVP_PKEY_new_raw_private_key ossl type key"

definition rawPublicKey :: "('h, 'w) openssl \<Rightarrow> nat \<Rightarrow> bytes \<Rightarrow> 'h option" where
  "rawPublicKey ossl type key = EVP_PKEY_new_raw_public_key ossl type key"

section \<open>Randomness, erasure, hashing\<close>

text \<open>\<open>output\<close> is the caller's buffer; the result is its new contents.\<close>

definition randomBytes ::
  "('h, 'w) openssl \<Rightarrow> bytes \<Rightarrow> 'w \<Rightarrow> bytes CryptoResult \<times> 'w" where
  "randomBytes ossl output w =
     (if output = [] \<or> \<not> validSize (length output) then (Inl CryptoError_InvalidInput, w)
      else case RAND_priv_bytes ossl (length output) w of
             (Some bs, w') \<Rightarrow> (Inr (fill output bs), w')
           | (None, w') \<Rightarrow> (Inl CryptoError_RandomFailed, w'))"

text \<open>\<^verbatim>\<open>OPENSSL_cleanse\<close> overwrites the span with zero bytes.\<close>

definition cleanse :: "bytes \<Rightarrow> bytes" where
  "cleanse bs = (if bs = [] then bs else replicate (length bs) 0)"

definition sha256 :: "('h, 'w) openssl \<Rightarrow> bytes \<Rightarrow> bytes CryptoResult" where
  "sha256 ossl input =
     (case (do {
        context \<leftarrow> EVP_MD_CTX_new ossl;
        context \<leftarrow> EVP_DigestInit_sha256 ossl context;
        context \<leftarrow> EVP_DigestUpdate ossl context input;
        EVP_DigestFinal_ex ossl context
      }) of
        Some digest \<Rightarrow> if length digest \<noteq> kSha256Size then Inl CryptoError_DerivationFailed
                       else Inr digest
      | None \<Rightarrow> Inl CryptoError_DerivationFailed)"

section \<open>Signatures\<close>

definition generateEd25519KeyPair ::
  "('h, 'w) openssl \<Rightarrow> 'w \<Rightarrow> KeyPair CryptoResult \<times> 'w" where
  "generateEd25519KeyPair ossl = generateKeyPair ossl EVP_PKEY_ED25519"

definition signEd25519 ::
  "('h, 'w) openssl \<Rightarrow> bytes \<Rightarrow> bytes \<Rightarrow> bytes CryptoResult" where
  "signEd25519 ossl private message =
     (case (do {
        key \<leftarrow> rawPrivateKey ossl EVP_PKEY_ED25519 private;
        context \<leftarrow> EVP_MD_CTX_new ossl;
        context \<leftarrow> EVP_DigestSignInit ossl context key;
        EVP_DigestSign ossl context kSignatureSize message
      }) of
        Some signature \<Rightarrow> if length signature \<noteq> kSignatureSize then Inl CryptoError_SignatureFailed
                          else Inr signature
      | None \<Rightarrow> Inl CryptoError_SignatureFailed)"

definition verifyEd25519 ::
  "('h, 'w) openssl \<Rightarrow> bytes \<Rightarrow> bytes \<Rightarrow> bytes \<Rightarrow> CryptoError" where
  "verifyEd25519 ossl public message signature =
     (case (do {
        key \<leftarrow> rawPublicKey ossl EVP_PKEY_ED25519 public;
        context \<leftarrow> EVP_MD_CTX_new ossl;
        EVP_DigestVerifyInit ossl context key
      }) of
        None \<Rightarrow> CryptoError_SignatureFailed
      | Some context \<Rightarrow>
          if EVP_DigestVerify ossl context signature message = 1
          then CryptoError_None else CryptoError_InvalidSignature)"

section \<open>Key agreement and derivation\<close>

definition generateX25519KeyPair ::
  "('h, 'w) openssl \<Rightarrow> 'w \<Rightarrow> KeyPair CryptoResult \<times> 'w" where
  "generateX25519KeyPair ossl = generateKeyPair ossl EVP_PKEY_X25519"

definition deriveX25519 ::
  "('h, 'w) openssl \<Rightarrow> bytes \<Rightarrow> bytes \<Rightarrow> bytes CryptoResult" where
  "deriveX25519 ossl private peer_public_key =
     (case (rawPrivateKey ossl EVP_PKEY_X25519 private,
            rawPublicKey ossl EVP_PKEY_X25519 peer_public_key) of
        (Some private_value, Some public_value) \<Rightarrow>
          (case (do {
             context \<leftarrow> EVP_PKEY_CTX_new ossl private_value;
             context \<leftarrow> EVP_PKEY_derive_init ossl context;
             context \<leftarrow> EVP_PKEY_derive_set_peer ossl context public_value;
             EVP_PKEY_derive ossl context kKeySize
           }) of
             Some shared_secret \<Rightarrow>
               if length shared_secret \<noteq> kKeySize then Inl CryptoError_DerivationFailed
               else Inr shared_secret
           | None \<Rightarrow> Inl CryptoError_DerivationFailed)
      | _ \<Rightarrow> Inl CryptoError_InvalidInput)"

definition hkdfSha256 ::
  "('h, 'w) openssl \<Rightarrow> bytes \<Rightarrow> bytes \<Rightarrow> bytes \<Rightarrow> nat \<Rightarrow> bytes CryptoResult" where
  "hkdfSha256 ossl key salt info output_size =
     (if key = [] \<or> output_size = 0 then Inl CryptoError_InvalidInput
      else case Option.bind (EVP_KDF_fetch ossl ''HKDF'') (EVP_KDF_CTX_new ossl) of
             None \<Rightarrow> Inl CryptoError_DerivationFailed
           | Some context \<Rightarrow>
               (case EVP_KDF_derive ossl context output_size
                       [(''digest'', octets ''SHA256''), (''key'', key), (''salt'', salt), (''info'', info)] of
                  None \<Rightarrow> Inl CryptoError_DerivationFailed
                | Some out \<Rightarrow> Inr (fill (replicate output_size 0) out)))"

section \<open>Authenticated encryption\<close>

text \<open>
  The OpenSSL call sequences of the two AEAD wrappers, in the order of the sources: the
  additional data is passed only when it is not empty.
\<close>

definition encryptSteps ::
  "('h, 'w) openssl \<Rightarrow> bytes \<Rightarrow> bytes \<Rightarrow> bytes \<Rightarrow> bytes \<Rightarrow> (bytes \<times> bytes \<times> bytes) option" where
  "encryptSteps ossl key nonce plaintext aad = do {
     context \<leftarrow> EVP_CIPHER_CTX_new ossl;
     context \<leftarrow> EVP_EncryptInit_ex2 ossl context key nonce;
     context \<leftarrow> (if aad = [] then Some context else EVP_EncryptUpdate_aad ossl context aad);
     (context, out1) \<leftarrow> EVP_EncryptUpdate ossl context plaintext;
     (context, out2) \<leftarrow> EVP_EncryptFinal_ex ossl context;
     tag \<leftarrow> EVP_CTRL_AEAD_GET_TAG ossl context kTagSize;
     Some (out1, out2, tag)
   }"

definition decryptSteps ::
  "('h, 'w) openssl \<Rightarrow> bytes \<Rightarrow> bytes \<Rightarrow> bytes \<Rightarrow> bytes \<Rightarrow> bytes \<Rightarrow> (bytes \<times> bytes) option" where
  "decryptSteps ossl key nonce ciphertext tag aad = do {
     context \<leftarrow> EVP_CIPHER_CTX_new ossl;
     context \<leftarrow> EVP_DecryptInit_ex2 ossl context key nonce;
     context \<leftarrow> (if aad = [] then Some context else EVP_DecryptUpdate_aad ossl context aad);
     (context, out1) \<leftarrow> EVP_DecryptUpdate ossl context ciphertext;
     context \<leftarrow> EVP_CTRL_AEAD_SET_TAG ossl context tag;
     out2 \<leftarrow> EVP_DecryptFinal_ex ossl context;
     Some (out1, out2)
   }"

definition sealChaCha20Poly1305 ::
  "('h, 'w) openssl \<Rightarrow> bytes \<Rightarrow> bytes \<Rightarrow> bytes \<Rightarrow> bytes \<Rightarrow> bytes CryptoResult" where
  "sealChaCha20Poly1305 ossl key nonce plaintext aad =
     (if \<not> validSize (length plaintext) \<or> \<not> validSize (length aad)
      then Inl CryptoError_InvalidInput
      else case encryptSteps ossl key nonce plaintext aad of
             None \<Rightarrow> Inl CryptoError_EncryptionFailed
           | Some (out1, out2, tag) \<Rightarrow>
               Inr (resize (length out1 + length out2 + kTagSize) (out1 @ out2 @ tag)))"

definition openChaCha20Poly1305 ::
  "('h, 'w) openssl \<Rightarrow> bytes \<Rightarrow> bytes \<Rightarrow> bytes \<Rightarrow> bytes \<Rightarrow> bytes CryptoResult" where
  "openChaCha20Poly1305 ossl key nonce ciphertext_and_tag aad =
     (if length ciphertext_and_tag < kTagSize
         \<or> \<not> validSize (length ciphertext_and_tag - kTagSize) \<or> \<not> validSize (length aad)
      then Inl CryptoError_InvalidInput
      else let n = length ciphertext_and_tag - kTagSize;
               ciphertext = take n ciphertext_and_tag;
               tag = drop n ciphertext_and_tag
           in case decryptSteps ossl key nonce ciphertext tag aad of
                None \<Rightarrow> Inl CryptoError_AuthenticationFailed
              | Some (out1, out2) \<Rightarrow> Inr (out1 @ out2))"

section \<open>What OpenSSL documents\<close>

text \<open>
  ChaCha20-Poly1305 is a stream cipher with a 16-byte tag: encryption writes as many bytes as it
  reads, and decryption with the same key, nonce and additional data and with the tag that
  encryption produced succeeds and gives the plaintext back.
\<close>

definition aead_correct :: "('h, 'w) openssl \<Rightarrow> bool" where
  "aead_correct ossl \<longleftrightarrow>
     (\<forall>key nonce p aad out1 out2 tag.
        encryptSteps ossl key nonce p aad = Some (out1, out2, tag) \<longrightarrow>
          length (out1 @ out2) = length p \<and> length tag = kTagSize \<and>
          (\<exists>d1 d2. decryptSteps ossl key nonce (out1 @ out2) tag aad = Some (d1, d2) \<and> d1 @ d2 = p))"

text \<open>A signature made with the private half of an Ed25519 pair verifies under the public half.\<close>

definition ed25519_pair :: "('h, 'w) openssl \<Rightarrow> bytes \<Rightarrow> bytes \<Rightarrow> bool" where
  "ed25519_pair ossl private public \<longleftrightarrow>
     (\<forall>m s. signEd25519 ossl private m = Inr s \<longrightarrow> verifyEd25519 ossl public m s = CryptoError_None)"

text \<open>X25519 key agreement is symmetric for generated pairs.\<close>

definition x25519_agrees :: "('h, 'w) openssl \<Rightarrow> KeyPair \<Rightarrow> KeyPair \<Rightarrow> bool" where
  "x25519_agrees ossl a b \<longleftrightarrow>
     deriveX25519 ossl (private_key a) (public_key b) = deriveX25519 ossl (private_key b) (public_key a)"

definition x25519_symmetric :: "('h, 'w) openssl \<Rightarrow> bool" where
  "x25519_symmetric ossl \<longleftrightarrow>
     (\<forall>u u' a v v' b. generateX25519KeyPair ossl u = (Inr a, u') \<longrightarrow>
        generateX25519KeyPair ossl v = (Inr b, v') \<longrightarrow> x25519_agrees ossl a b)"

section \<open>Sizes and erasure\<close>

lemma length_cleanse [simp, length_simps]: "length (cleanse bs) = length bs"
  by (simp add: cleanse_def)

lemma set_cleanse: "set (cleanse bs) \<subseteq> {0}"
  by (auto simp: cleanse_def)

lemma cleanse_idem [simp]: "cleanse (cleanse bs) = cleanse bs"
  by (simp add: cleanse_def)

lemma randomBytes_length: "randomBytes ossl buf w = (Inr bs, w') \<Longrightarrow> length bs = length buf"
  by (auto simp: randomBytes_def split: if_splits option.splits prod.splits)

lemma sha256_length: "sha256 ossl m = Inr d \<Longrightarrow> length d = kSha256Size"
  by (auto simp: sha256_def split: option.splits if_splits)

lemma signEd25519_length: "signEd25519 ossl k m = Inr s \<Longrightarrow> length s = kSignatureSize"
  by (auto simp: signEd25519_def split: option.splits if_splits)

lemma deriveX25519_length: "deriveX25519 ossl k p = Inr s \<Longrightarrow> length s = kKeySize"
  by (auto simp: deriveX25519_def split: option.splits if_splits)

lemma hkdfSha256_length: "hkdfSha256 ossl k s i n = Inr out \<Longrightarrow> length out = n"
  by (auto simp: hkdfSha256_def split: option.splits if_splits)

lemma generateKeyPair_length:
  "generateKeyPair ossl t w = (Inr kp, w') \<Longrightarrow>
     length (private_key kp) = kKeySize \<and> length (public_key kp) = kKeySize"
  by (auto simp: generateKeyPair_def split: option.splits prod.splits if_splits)

lemmas generateX25519KeyPair_length =
  generateKeyPair_length [of _ EVP_PKEY_X25519, folded generateX25519KeyPair_def]

section \<open>Sealing and opening\<close>

lemma seal_length:
  assumes "aead_correct ossl" and "sealChaCha20Poly1305 ossl k n p aad = Inr c"
  shows "length c = length p + kTagSize"
  using assms
  by (fastforce simp: sealChaCha20Poly1305_def aead_correct_def split: if_splits option.splits)

lemma open_seal:
  assumes aead: "aead_correct ossl" and sealed: "sealChaCha20Poly1305 ossl k n p aad = Inr c"
  shows "openChaCha20Poly1305 ossl k n c aad = Inr p"
proof -
  from sealed obtain out1 out2 tag where
    v: "validSize (length p)" "validSize (length aad)" and
    e: "encryptSteps ossl k n p aad = Some (out1, out2, tag)" and
    c: "c = resize (length out1 + length out2 + kTagSize) (out1 @ out2 @ tag)"
    by (auto simp: sealChaCha20Poly1305_def split: if_splits option.splits)
  from aead e obtain d1 d2 where
    l: "length (out1 @ out2) = length p" "length tag = kTagSize" and
    d: "decryptSteps ossl k n (out1 @ out2) tag aad = Some (d1, d2)" "d1 @ d2 = p"
    unfolding aead_correct_def by metis
  have c': "c = (out1 @ out2) @ tag" using c l by simp
  then show ?thesis
    using v l d unfolding openChaCha20Poly1305_def by (simp add: Let_def)
qed

text \<open>
  Opening what was sealed under the same key, nonce and additional data gives back the
  plaintext: the two wrappers agree on the tag's place, on the length limits and on when the
  additional data is passed to the cipher.
\<close>

lemma open_inverts_seal:
  assumes "aead_correct ossl" and "sealChaCha20Poly1305 ossl k n p aad = Inr c"
  shows "openChaCha20Poly1305 ossl k n c aad = Inr p"
  using assms by (rule open_seal)

end
