(* ===== verification/Transcript.thy ===== *)
theory Transcript
  imports Crypto
begin

text \<open>
  The handshake transcript and the key schedule,
  \<^verbatim>\<open>src/src/ya_license_crypto/src/handshake.cpp\<close>: the byte string both sides hash and the
  service signs, the four HKDF outputs of a session, and the nonce of a record.
\<close>

section \<open>Data\<close>

record HandshakeTranscript =
  ht_min_version :: u16
  ht_max_version :: u16
  ht_selected_version :: u16
  ht_client_nonce :: bytes
  ht_server_nonce :: bytes
  ht_client_public_key :: bytes
  ht_server_public_key :: bytes
  ht_service_key_id :: string

record DirectionalKey =
  dk_key :: bytes
  dk_nonce_salt :: bytes

record SessionKeys =
  client_to_service :: DirectionalKey
  service_to_client :: DirectionalKey

text \<open>The array fields of a transcript have the sizes their C++ types give them.\<close>

definition transcript_sized :: "HandshakeTranscript \<Rightarrow> bool" where
  "transcript_sized t \<longleftrightarrow>
     length (ht_client_nonce t) = 32 \<and> length (ht_server_nonce t) = 32 \<and>
     length (ht_client_public_key t) = 32 \<and> length (ht_server_public_key t) = 32"

section \<open>Encoding\<close>

definition kHandshakeDomain :: string where
  "kHandshakeDomain = ''YOAUTHORIZE-SERVICE-HANDSHAKE-V1''"

definition appendU16 :: "bytes \<Rightarrow> u16 \<Rightarrow> bytes" where
  "appendU16 output value = output @ [ucast (drop_bit 8 value), ucast value]"

definition appendBytes :: "bytes \<Rightarrow> bytes \<Rightarrow> bytes" where
  "appendBytes output bs = output @ bs"

definition appendSizedString :: "bytes \<Rightarrow> string \<Rightarrow> bytes" where
  "appendSizedString output value =
     appendU16 output (of_nat (length value)) @ octets value"

definition encodeTranscript :: "HandshakeTranscript \<Rightarrow> bytes CryptoResult" where
  "encodeTranscript t =
     (if ht_service_key_id t = [] \<or> length (ht_service_key_id t) > 65535
      then Inl CryptoError_InvalidInput
      else let output = octets kHandshakeDomain;
               output = appendU16 output (ht_min_version t);
               output = appendU16 output (ht_max_version t);
               output = appendU16 output (ht_selected_version t);
               output = appendBytes output (ht_client_nonce t);
               output = appendBytes output (ht_server_nonce t);
               output = appendBytes output (ht_client_public_key t);
               output = appendBytes output (ht_server_public_key t);
               output = appendSizedString output (ht_service_key_id t)
           in Inr output)"

definition hashTranscript :: "('h, 'w) openssl \<Rightarrow> HandshakeTranscript \<Rightarrow> bytes CryptoResult" where
  "hashTranscript ossl t =
     (case encodeTranscript t of Inl e \<Rightarrow> Inl e | Inr encoded \<Rightarrow> sha256 ossl encoded)"

section \<open>Key schedule\<close>

definition derive ::
  "('h, 'w) openssl \<Rightarrow> bytes \<Rightarrow> bytes \<Rightarrow> string \<Rightarrow> nat \<Rightarrow> bytes CryptoResult" where
  "derive ossl shared_secret transcript_hash label sz =
     hkdfSha256 ossl shared_secret transcript_hash (octets label) sz"

definition deriveSessionKeys ::
  "('h, 'w) openssl \<Rightarrow> bytes \<Rightarrow> bytes \<Rightarrow> SessionKeys CryptoResult" where
  "deriveSessionKeys ossl shared_secret transcript_hash =
     (case (derive ossl shared_secret transcript_hash ''YA-V1-C2S-KEY'' kKeySize,
            derive ossl shared_secret transcript_hash ''YA-V1-S2C-KEY'' kKeySize,
            derive ossl shared_secret transcript_hash ''YA-V1-C2S-NONCE'' 4,
            derive ossl shared_secret transcript_hash ''YA-V1-S2C-NONCE'' 4) of
        (Inr c2s_key, Inr s2c_key, Inr c2s_nonce, Inr s2c_nonce) \<Rightarrow>
          Inr \<lparr>client_to_service = \<lparr>dk_key = c2s_key, dk_nonce_salt = c2s_nonce\<rparr>,
               service_to_client = \<lparr>dk_key = s2c_key, dk_nonce_salt = s2c_nonce\<rparr>\<rparr>
      | _ \<Rightarrow> Inl CryptoError_DerivationFailed)"

definition makeRecordNonce :: "bytes \<Rightarrow> u64 \<Rightarrow> bytes" where
  "makeRecordNonce salt sequence =
     salt @ map (\<lambda>i. ucast (drop_bit (56 - 8 * i) sequence)) [0..<8]"

section \<open>The encoding as a concatenation of fields\<close>

lemma be_bytes_2: "be_bytes 2 v = [ucast (drop_bit 8 v), ucast v]"
  by (simp add: be_bytes_def upt_conv_Cons numeral_2_eq_2)

lemma appendU16_be: "appendU16 output v = output @ be_bytes 2 v"
  by (simp add: appendU16_def be_bytes_2)

lemma appendSizedString_sized16: "appendSizedString output s = output @ sized16 (octets s)"
  by (simp add: appendSizedString_def appendU16_be sized16_def)

lemma encodeTranscript_fields:
  assumes "encodeTranscript t = Inr e"
  shows "e = octets kHandshakeDomain @ be_bytes 2 (ht_min_version t) @ be_bytes 2 (ht_max_version t)
           @ be_bytes 2 (ht_selected_version t) @ ht_client_nonce t @ ht_server_nonce t
           @ ht_client_public_key t @ ht_server_public_key t
           @ sized16 (octets (ht_service_key_id t))"
    and "length (ht_service_key_id t) < 2 ^ 16"
  using assms
  by (auto simp: encodeTranscript_def Let_def appendU16_be appendBytes_def
      appendSizedString_sized16 split: if_splits)

lemma makeRecordNonce_be: "makeRecordNonce salt s = salt @ be_bytes 8 s"
  by (simp add: makeRecordNonce_def be_bytes_def upt_conv_Cons eval_nat_numeral)

lemma length_makeRecordNonce [simp, length_simps]:
  "length (makeRecordNonce salt s) = length salt + 8"
  by (simp add: makeRecordNonce_be)

lemma makeRecordNonce_inject [simp]:
  "makeRecordNonce salt s = makeRecordNonce salt s' \<longleftrightarrow> s = s'"
  by (simp add: makeRecordNonce_be)

section \<open>Properties\<close>

text \<open>
  C30.  The transcript encoding is unambiguous: two well-sized transcripts with the same
  encoding are equal.  A signature over an encoding therefore commits the service to the
  offered version range, the selected version, both nonces, both ephemeral keys and its key id.
\<close>

theorem encodeTranscript_unambiguous:
  assumes "transcript_sized t" "transcript_sized t'"
    and "encodeTranscript t = Inr e" "encodeTranscript t' = Inr e"
  shows "t = t'"
proof -
  note f = encodeTranscript_fields [OF assms(3)] and f' = encodeTranscript_fields [OF assms(4)]
  have l: "length (octets (ht_service_key_id t)) < 2 ^ 16"
    "length (octets (ht_service_key_id t')) < 2 ^ 16"
    using f(2) f'(2) by simp_all
  have "be_bytes 2 (ht_min_version t) @ be_bytes 2 (ht_max_version t)
          @ be_bytes 2 (ht_selected_version t) @ ht_client_nonce t @ ht_server_nonce t
          @ ht_client_public_key t @ ht_server_public_key t @ sized16 (octets (ht_service_key_id t))
        = be_bytes 2 (ht_min_version t') @ be_bytes 2 (ht_max_version t')
          @ be_bytes 2 (ht_selected_version t') @ ht_client_nonce t' @ ht_server_nonce t'
          @ ht_client_public_key t' @ ht_server_public_key t' @ sized16 (octets (ht_service_key_id t'))"
    using f(1) f'(1) by simp
  then have "ht_min_version t = ht_min_version t'" "ht_max_version t = ht_max_version t'"
    "ht_selected_version t = ht_selected_version t'"
    "ht_client_nonce t = ht_client_nonce t'" "ht_server_nonce t = ht_server_nonce t'"
    "ht_client_public_key t = ht_client_public_key t'" "ht_server_public_key t = ht_server_public_key t'"
    "sized16 (octets (ht_service_key_id t)) = sized16 (octets (ht_service_key_id t'))"
    using assms(1,2) by (simp_all add: transcript_sized_def)
  moreover from this(8) l have "ht_service_key_id t = ht_service_key_id t'"
    using sized16.inject by fastforce
  ultimately show ?thesis by (cases t; cases t') simp
qed

lemma hashTranscript_length: "hashTranscript ossl t = Inr h \<Longrightarrow> length h = kSha256Size"
  by (auto simp: hashTranscript_def dest: sha256_length split: sum.splits)

lemma deriveSessionKeys_sizes:
  assumes "deriveSessionKeys ossl s h = Inr k"
  shows "length (dk_key (client_to_service k)) = kKeySize"
    and "length (dk_key (service_to_client k)) = kKeySize"
    and "length (dk_nonce_salt (client_to_service k)) = 4"
    and "length (dk_nonce_salt (service_to_client k)) = 4"
  using assms
  by (auto simp: deriveSessionKeys_def derive_def dest: hkdfSha256_length split: sum.splits)

end
