(* ===== verification/RecordLayer.thy ===== *)
theory RecordLayer
  imports Frame Transcript
begin

text \<open>
  The encrypted record layer, \<^verbatim>\<open>src/src/ya_license_protocol/src/record.cpp\<close>: a writer and a
  reader, each with a directional key and the sequence number of its next record.  A record is a
  frame whose header is the additional data of the encryption and whose sequence number is part
  of the nonce.
\<close>

section \<open>An ordered channel\<close>

text \<open>
  The contract the handshake, the service connection and the client rely on: as long as the two
  ends are in step, opening what was sealed returns the plaintext and leaves them in step.
\<close>

fun seal_all :: "('p \<Rightarrow> 's \<Rightarrow> ('e + 'f) \<times> 's) \<Rightarrow> 'p list \<Rightarrow> 's \<Rightarrow> ('e + 'f list) \<times> 's" where
  "seal_all f [] s = (Inr [], s)"
| "seal_all f (p # ps) s =
     (case f p s of
        (Inl e, s') \<Rightarrow> (Inl e, s')
      | (Inr x, s') \<Rightarrow> (case seal_all f ps s' of
                        (Inl e, s'') \<Rightarrow> (Inl e, s'')
                      | (Inr xs, s'') \<Rightarrow> (Inr (x # xs), s'')))"

locale ordered_channel =
  fixes seal :: "'p \<Rightarrow> 's \<Rightarrow> ('e + 'f) \<times> 's"
    and unseal :: "'f \<Rightarrow> 'r \<Rightarrow> ('e + 'p) \<times> 'r"
    and insync :: "'s \<Rightarrow> 'r \<Rightarrow> bool"
  assumes delivery: "insync s r \<Longrightarrow> seal p s = (Inr f, s') \<Longrightarrow>
      \<exists>r'. unseal f r = (Inr p, r') \<and> insync s' r'"
begin

text \<open>Whole conversations: every message arrives, unchanged and in order.\<close>

lemma delivery_all:
  "insync s r \<Longrightarrow> seal_all seal ps s = (Inr fs, s') \<Longrightarrow>
     \<exists>r'. seal_all unseal fs r = (Inr ps, r') \<and> insync s' r'"
proof (induction ps arbitrary: s r fs)
  case Nil
  then show ?case by auto
next
  case (Cons p ps)
  from Cons.prems(2) obtain f t gs where
    f: "seal p s = (Inr f, t)" and gs: "seal_all seal ps t = (Inr gs, s')" and fs: "fs = f # gs"
    by (auto split: prod.splits sum.splits)
  from delivery [OF Cons.prems(1) f] obtain q where
    q: "unseal f r = (Inr p, q)" and "insync t q" by blast
  from Cons.IH [OF this(2) gs] obtain r' where
    "seal_all unseal gs q = (Inr ps, r')" "insync s' r'" by blast
  with q fs show ?case by simp
qed

end

section \<open>Data\<close>

record RecordKey =
  rk_key :: bytes
  rk_nonce_salt :: bytes

datatype RecordError =
    RecordError_None
  | RecordError_InvalidFrame
  | RecordError_UnencryptedFrame
  | RecordError_InvalidSequence
  | RecordError_SequenceExhausted
  | RecordError_AuthenticationFailed

type_synonym RecordResult = "RecordError + bytes"

record RecordWriter =
  rw_key :: RecordKey
  rw_next_sequence :: u64

record RecordReader =
  rr_key :: RecordKey
  rr_next_sequence :: u64

definition u64_max :: u64 where "u64_max = -1"

section \<open>Operations\<close>

definition RecordWriter_new :: "RecordKey \<Rightarrow> RecordWriter" where
  "RecordWriter_new key = \<lparr>rw_key = key, rw_next_sequence = 1\<rparr>"

definition RecordWriter_destroy :: "RecordWriter \<Rightarrow> RecordWriter" where
  "RecordWriter_destroy w =
     w\<lparr>rw_key := \<lparr>rk_key = cleanse (rk_key (rw_key w)),
                   rk_nonce_salt = cleanse (rk_nonce_salt (rw_key w))\<rparr>\<rparr>"

definition RecordWriter_seal ::
  "('h, 'w) openssl \<Rightarrow> bytes \<Rightarrow> RecordWriter \<Rightarrow> RecordResult \<times> RecordWriter" where
  "RecordWriter_seal ossl plaintext w =
     (if rw_next_sequence w = u64_max then (Inl RecordError_SequenceExhausted, w)
      else if plaintext = [] \<or> length plaintext > unat kDefaultMaxPayloadSize - kTagSize
      then (Inl RecordError_InvalidFrame, w)
      else let header = \<lparr>fh_version = kFrameVersion, fh_flags = kEncryptedFlag,
                         fh_sequence = rw_next_sequence w,
                         fh_payload_size = of_nat (length plaintext + kTagSize)\<rparr>;
               encoded_header = encodeHeader header;
               nonce = makeRecordNonce (rk_nonce_salt (rw_key w)) (rw_next_sequence w)
           in case sealChaCha20Poly1305 ossl (rk_key (rw_key w)) nonce plaintext encoded_header of
                Inl _ \<Rightarrow> (Inl RecordError_AuthenticationFailed, w)
              | Inr encrypted \<Rightarrow>
                  (Inr (encoded_header @ encrypted), w\<lparr>rw_next_sequence := rw_next_sequence w + 1\<rparr>))"

definition RecordReader_new :: "RecordKey \<Rightarrow> RecordReader" where
  "RecordReader_new key = \<lparr>rr_key = key, rr_next_sequence = 1\<rparr>"

definition RecordReader_destroy :: "RecordReader \<Rightarrow> RecordReader" where
  "RecordReader_destroy r =
     r\<lparr>rr_key := \<lparr>rk_key = cleanse (rk_key (rr_key r)),
                   rk_nonce_salt = cleanse (rk_nonce_salt (rr_key r))\<rparr>\<rparr>"

definition RecordReader_open ::
  "('h, 'w) openssl \<Rightarrow> bytes \<Rightarrow> RecordReader \<Rightarrow> RecordResult \<times> RecordReader" where
  "RecordReader_open ossl frame r =
     (if rr_next_sequence r = u64_max then (Inl RecordError_SequenceExhausted, r)
      else case decodeFrame frame kDefaultMaxPayloadSize of
        Inl _ \<Rightarrow> (Inl RecordError_InvalidFrame, r)
      | Inr (header, payload) \<Rightarrow>
          if fh_flags header \<noteq> kEncryptedFlag then (Inl RecordError_UnencryptedFrame, r)
          else if fh_sequence header \<noteq> rr_next_sequence r then (Inl RecordError_InvalidSequence, r)
          else let nonce = makeRecordNonce (rk_nonce_salt (rr_key r)) (rr_next_sequence r)
               in case openChaCha20Poly1305 ossl (rk_key (rr_key r)) nonce payload
                         (take kFrameHeaderSize frame) of
                    Inl _ \<Rightarrow> (Inl RecordError_AuthenticationFailed, r)
                  | Inr plaintext \<Rightarrow>
                      (Inr plaintext, r\<lparr>rr_next_sequence := rr_next_sequence r + 1\<rparr>))"

section \<open>State changes\<close>

lemma unat_succ_not_max:
  assumes "s \<noteq> u64_max"
  shows "unat (s + 1) = Suc (unat s)"
proof -
  have "1 + s \<noteq> 0"
    using assms max_word_wrap [of s] by (auto simp: u64_max_def add.commute)
  then show ?thesis by (metis unatSuc add.commute)
qed

lemma seal_ok:
  assumes "RecordWriter_seal ossl p w = (Inr f, w')"
  shows "rw_next_sequence w \<noteq> u64_max" "w' = w\<lparr>rw_next_sequence := rw_next_sequence w + 1\<rparr>"
  using assms by (auto simp: RecordWriter_seal_def Let_def split: if_splits sum.splits)

lemma seal_error: "RecordWriter_seal ossl p w = (Inl e, w') \<Longrightarrow> w' = w"
  by (auto simp: RecordWriter_seal_def Let_def split: if_splits sum.splits)

lemma open_ok:
  assumes "RecordReader_open ossl f r = (Inr p, r')"
  shows "rr_next_sequence r \<noteq> u64_max" "r' = r\<lparr>rr_next_sequence := rr_next_sequence r + 1\<rparr>"
    "fh_sequence (header_at f) = rr_next_sequence r"
proof -
  show "rr_next_sequence r \<noteq> u64_max" "r' = r\<lparr>rr_next_sequence := rr_next_sequence r + 1\<rparr>"
    using assms by (auto simp: RecordReader_open_def Let_def split: if_splits sum.splits)
  from assms obtain h q where "decodeFrame f kDefaultMaxPayloadSize = Inr (h, q)"
    "fh_sequence h = rr_next_sequence r"
    by (auto simp: RecordReader_open_def Let_def split: if_splits sum.splits)
  then show "fh_sequence (header_at f) = rr_next_sequence r"
    by (auto simp: decodeFrame_iff header_at_encode)
qed

lemma open_error: "RecordReader_open ossl f r = (Inl e, r') \<Longrightarrow> r' = r"
  by (auto simp: RecordReader_open_def Let_def split: if_splits sum.splits)

section \<open>Writer and reader in step\<close>

text \<open>
  Two ends are in step when they hold the same directional key and expect the same sequence
  number, over an AEAD that behaves as documented.
\<close>

definition records_insync :: "('h, 'w) openssl \<Rightarrow> RecordWriter \<Rightarrow> RecordReader \<Rightarrow> bool" where
  "records_insync ossl w r \<longleftrightarrow>
     aead_correct ossl \<and> rw_key w = rr_key r \<and> rw_next_sequence w = rr_next_sequence r"

lemma records_insync_new: "aead_correct ossl \<Longrightarrow>
    records_insync ossl (RecordWriter_new k) (RecordReader_new k)"
  by (simp add: records_insync_def RecordWriter_new_def RecordReader_new_def)

lemma sealed_frame_decodes:
  assumes "0 < n" "n \<le> unat kDefaultMaxPayloadSize" "length c = n"
    and h: "h = \<lparr>fh_version = kFrameVersion, fh_flags = kEncryptedFlag, fh_sequence = s,
                fh_payload_size = of_nat n\<rparr>"
  shows "decodeFrame (encodeHeader h @ c) kDefaultMaxPayloadSize = Inr (h, c)"
proof -
  have m: "unat kDefaultMaxPayloadSize = 1048576" by (simp add: kDefaultMaxPayloadSize_def)
  have u: "unat (of_nat n :: u32) = n"
    using assms(2) m by (simp add: unat_of_nat take_bit_nat_eq_self)
  have "(of_nat n :: u32) \<noteq> 0" using u assms(1) by auto
  moreover have "(of_nat n :: u32) \<le> kDefaultMaxPayloadSize"
    using assms(2) u by (simp add: word_le_nat_alt)
  ultimately show ?thesis
    using u assms by (simp add: decodeFrame_iff header_ok_def word_neq_0_conv)
qed

lemma open_sealed:
  assumes sync: "records_insync ossl w r" and sealed: "RecordWriter_seal ossl p w = (Inr f, w')"
  shows "\<exists>r'. RecordReader_open ossl f r = (Inr p, r') \<and> records_insync ossl w' r'"
proof -
  let ?h = "\<lparr>fh_version = kFrameVersion, fh_flags = kEncryptedFlag,
             fh_sequence = rw_next_sequence w, fh_payload_size = of_nat (length p + kTagSize)\<rparr>"
  let ?n = "makeRecordNonce (rk_nonce_salt (rw_key w)) (rw_next_sequence w)"
  from sync have aead: "aead_correct ossl" and key: "rw_key w = rr_key r"
    and seq: "rw_next_sequence w = rr_next_sequence r"
    by (simp_all add: records_insync_def)
  from sealed obtain c where
    len: "p \<noteq> []" "length p \<le> unat kDefaultMaxPayloadSize - kTagSize" and
    c: "sealChaCha20Poly1305 ossl (rk_key (rw_key w)) ?n p (encodeHeader ?h) = Inr c" and
    f: "f = encodeHeader ?h @ c"
    by (auto simp: RecordWriter_seal_def Let_def split: if_splits sum.splits)
  note w' = seal_ok [OF sealed]
  have "length c = length p + kTagSize" using aead c by (rule seal_length)
  moreover have "length p + kTagSize \<le> unat kDefaultMaxPayloadSize"
    using len(2) by (simp add: kDefaultMaxPayloadSize_def kTagSize_def)
  ultimately have "decodeFrame f kDefaultMaxPayloadSize = Inr (?h, c)"
    unfolding f using len(1) by (intro sealed_frame_decodes) auto
  moreover have "openChaCha20Poly1305 ossl (rk_key (rw_key w)) ?n c (encodeHeader ?h) = Inr p"
    using aead c by (rule open_seal)
  moreover have "take kFrameHeaderSize f = encodeHeader ?h" by (simp add: f)
  ultimately have "RecordReader_open ossl f r =
      (Inr p, r\<lparr>rr_next_sequence := rr_next_sequence r + 1\<rparr>)"
    using key seq w'(1) by (simp add: RecordReader_open_def Let_def)
  then show ?thesis using sync w'(2) by (simp add: records_insync_def)
qed

interpretation records: ordered_channel "RecordWriter_seal ossl" "RecordReader_open ossl"
    "records_insync ossl" for ossl :: "('h, 'w) openssl"
  by unfold_locales (rule open_sealed)

section \<open>Runs of a writer and of a reader\<close>

text \<open>
  The plaintexts and frames of the records a writer released, over a sequence of \<open>seal\<close> calls that may
  fail at any point, and the nonce that the sequence number in the header of a frame stands for.
\<close>

fun released :: "('h, 'w) openssl \<Rightarrow> bytes list \<Rightarrow> RecordWriter \<Rightarrow> (bytes \<times> bytes) list" where
  "released ossl [] w = []"
| "released ossl (p # ps) w =
     (case RecordWriter_seal ossl p w of
        (Inr f, w') \<Rightarrow> (p, f) # released ossl ps w'
      | (Inl _, w') \<Rightarrow> released ossl ps w')"

definition frame_nonce :: "RecordKey \<Rightarrow> bytes \<Rightarrow> bytes" where
  "frame_nonce k f = makeRecordNonce (rk_nonce_salt k) (fh_sequence (header_at f))"

text \<open>The frames a reader accepted, over a sequence of frames from anyone.\<close>

fun accepted_frames :: "('h, 'w) openssl \<Rightarrow> bytes list \<Rightarrow> RecordReader \<Rightarrow> bytes list" where
  "accepted_frames ossl [] r = []"
| "accepted_frames ossl (f # fs) r =
     (case RecordReader_open ossl f r of
        (Inr _, r') \<Rightarrow> f # accepted_frames ossl fs r'
      | (Inl _, r') \<Rightarrow> accepted_frames ossl fs r')"

text \<open>A released frame is what the cipher made of the plaintext under the nonce that its header shows.\<close>

lemma seal_frame:
  assumes "RecordWriter_seal ossl p w = (Inr f, w')"
  shows "fh_sequence (header_at f) = rw_next_sequence w"
    "sealChaCha20Poly1305 ossl (rk_key (rw_key w)) (frame_nonce (rw_key w) f) p (take kFrameHeaderSize f)
       = Inr (drop kFrameHeaderSize f)"
proof -
  let ?h = "\<lparr>fh_version = kFrameVersion, fh_flags = kEncryptedFlag,
             fh_sequence = rw_next_sequence w, fh_payload_size = of_nat (length p + kTagSize)\<rparr>"
  from assms obtain c where
    c: "sealChaCha20Poly1305 ossl (rk_key (rw_key w)) (makeRecordNonce (rk_nonce_salt (rw_key w)) (rw_next_sequence w)) p
          (encodeHeader ?h) = Inr c" and f: "f = encodeHeader ?h @ c"
    by (auto simp: RecordWriter_seal_def Let_def split: if_splits sum.splits)
  then show "fh_sequence (header_at f) = rw_next_sequence w" by (simp add: header_at_encode)
  with c f show "sealChaCha20Poly1305 ossl (rk_key (rw_key w)) (frame_nonce (rw_key w) f) p (take kFrameHeaderSize f)
       = Inr (drop kFrameHeaderSize f)" by (simp add: frame_nonce_def)
qed

lemma released_props:
  shows "list_all (\<lambda>(p, f). sealChaCha20Poly1305 ossl (rk_key (rw_key w)) (frame_nonce (rw_key w) f) p
           (take kFrameHeaderSize f) = Inr (drop kFrameHeaderSize f)) (released ossl ps w) \<and>
         list_all (\<lambda>(p, f). unat (rw_next_sequence w) \<le> unat (fh_sequence (header_at f))) (released ossl ps w) \<and>
         distinct (map (frame_nonce (rw_key w) \<circ> snd) (released ossl ps w))"
proof (induction ps arbitrary: w)
  case (Cons p ps)
  show ?case
  proof (cases "RecordWriter_seal ossl p w")
    case (Pair res w')
    show ?thesis
    proof (cases res)
      case (Inl e)
      with Pair seal_error have "w' = w" by blast
      with Cons.IH [of w] Pair Inl show ?thesis by simp
    next
      case (Inr f)
      note ok = seal_ok [OF Pair [unfolded Inr]] and fr = seal_frame [OF Pair [unfolded Inr]]
      have k: "rw_key w' = rw_key w" "unat (rw_next_sequence w') = Suc (unat (rw_next_sequence w))"
        using ok unat_succ_not_max by simp_all
      have "frame_nonce (rw_key w) f \<notin> (frame_nonce (rw_key w) \<circ> snd) ` set (released ossl ps w')"
        using Cons.IH [of w'] k fr(1) by (fastforce simp: frame_nonce_def list_all_iff)
      with Cons.IH [of w'] k fr Pair Inr show ?thesis by (fastforce simp: list_all_iff)
    qed
  qed
qed simp

lemma accepted_frames_later:
  "f \<in> set (accepted_frames ossl fs r) \<Longrightarrow>
     unat (rr_next_sequence r) \<le> unat (fh_sequence (header_at f))"
proof (induction fs arbitrary: r)
  case Nil
  then show ?case by simp
next
  case (Cons g fs)
  show ?case
  proof (cases "RecordReader_open ossl g r")
    case (Pair res r')
    show ?thesis
    proof (cases res)
      case (Inl e)
      with Pair open_error have "r' = r" by blast
      with Cons Pair Inl show ?thesis by simp
    next
      case (Inr p)
      note ok = open_ok [OF Pair [unfolded Inr]]
      from Cons.prems Pair Inr consider "f = g" | "f \<in> set (accepted_frames ossl fs r')" by auto
      then show ?thesis
      proof cases
        case 2
        from Cons.IH [OF this] ok show ?thesis by (simp add: unat_succ_not_max)
      qed (simp add: ok)
    qed
  qed
qed

section \<open>Properties\<close>

text \<open>
  C13.  Everything sealed by a writer is delivered unchanged and in order to a reader created
  with the same directional key: if a sequence of plaintexts is sealed without error, opening the
  resulting frames in order succeeds and returns exactly these plaintexts.
\<close>

theorem record_channel_delivers:
  assumes "aead_correct ossl"
    and "seal_all (RecordWriter_seal ossl) ps (RecordWriter_new k) = (Inr fs, w')"
  shows "\<exists>r'. seal_all (RecordReader_open ossl) fs (RecordReader_new k) = (Inr ps, r')"
  using records.delivery_all [OF records_insync_new [OF assms(1)] assms(2)] by blast

text \<open>
  C14.  A writer never seals two records under one nonce: over any sequence of \<open>seal\<close> calls, however
  many fail, each frame it releases is its header followed by what the cipher made of the plaintext under the
  writer's key and the nonce of the sequence number in that header, and these nonces are pairwise different,
  because the 64-bit sequence number is exhausted before it can wrap around.
\<close>

theorem writer_nonces_distinct:
  "list_all (\<lambda>(p, f). sealChaCha20Poly1305 ossl (rk_key k) (frame_nonce k f) p (take kFrameHeaderSize f)
       = Inr (drop kFrameHeaderSize f)) (released ossl ps (RecordWriter_new k)) \<and>
   distinct (map (frame_nonce k \<circ> snd) (released ossl ps (RecordWriter_new k)))"
  using released_props [of ossl "RecordWriter_new k" ps] by (simp add: RecordWriter_new_def)

text \<open>
  C8.  No frame is accepted twice: whatever frames a reader is offered, in whatever order and
  however often, the ones it accepts are pairwise different.
\<close>

theorem reader_rejects_replays: "distinct (accepted_frames ossl fs (RecordReader_new k))"
proof -
  have "distinct (accepted_frames ossl fs r)" for r
  proof (induction fs arbitrary: r)
    case (Cons f fs)
    obtain res r' where o: "RecordReader_open ossl f r = (res, r')" by fastforce
    show ?case
    proof (cases res)
      case (Inr p)
      note ok = open_ok [OF o [unfolded Inr]]
      have "f \<notin> set (accepted_frames ossl fs r')"
      proof
        assume "f \<in> set (accepted_frames ossl fs r')"
        from accepted_frames_later [OF this] ok show False by (simp add: unat_succ_not_max)
      qed
      with Cons.IH o Inr show ?thesis by simp
    qed (use Cons.IH o in simp)
  qed simp
  then show ?thesis .
qed

text \<open>
  A rejected frame leaves the reader as it was, an accepted one carried exactly the
  expected sequence number and the encrypted flag and advances the reader by one: no input
  makes the reader skip a number.
\<close>

lemma reader_advances_by_one:
  assumes "RecordReader_open ossl f r = (res, r')"
  shows "case res of
           Inl e \<Rightarrow> r' = r
         | Inr p \<Rightarrow> fh_sequence (header_at f) = rr_next_sequence r \<and>
                    fh_flags (header_at f) = kEncryptedFlag \<and>
                    unat (rr_next_sequence r') = unat (rr_next_sequence r) + 1 \<and>
                    rr_key r' = rr_key r"
proof (cases res)
  case (Inl e)
  with assms open_error show ?thesis by fastforce
next
  case (Inr p)
  with assms have o: "RecordReader_open ossl f r = (Inr p, r')" by simp
  have "fh_flags (header_at f) = kEncryptedFlag"
    using o by (auto simp: RecordReader_open_def Let_def decodeFrame_iff header_at_encode
        split: if_splits sum.splits)
  with open_ok [OF o] Inr show ?thesis by (simp add: unat_succ_not_max)
qed

end
