(* ===== verification/Messages.thy ===== *)
theory Messages
  imports Crypto
begin

text \<open>
  The protocol messages, \<^verbatim>\<open>src/src/ya_license_protocol/src/envelope.cpp\<close> and
  \<^verbatim>\<open>messages.cpp\<close>.  Each encoder checks its fields and builds a FlatBuffers envelope; each
  decoder verifies the buffer, reads the envelope and checks every field again.

  FlatBuffers and the code it generates from \<^verbatim>\<open>src/schema/protocol.fbs\<close> are not part of the
  sources; they are the record \<open>flatbuffers\<close>, a parameter.  Reading a buffer gives the value of
  the schema's \<open>Envelope\<close> table; table and vector fields are optional in the schema, so every one
  of them may be absent (\<open>None\<close>, the null pointer of the accessor).  The decoders follow the
  pointer of the union value without testing it: that is undefined behaviour when it is null, and
  the model's decoders return \<open>None\<close> there.
\<close>

section \<open>The schema's tables\<close>

record ClientHelloTable =
  cht_min_protocol_version :: u16
  cht_max_protocol_version :: u16
  cht_client_nonce :: "bytes option"
  cht_ephemeral_public_key :: "bytes option"
  cht_sdk_version :: "string option"

record ServerHelloTable =
  sht_selected_protocol_version :: u16
  sht_server_nonce :: "bytes option"
  sht_ephemeral_public_key :: "bytes option"
  sht_service_key_id :: "string option"
  sht_signature :: "bytes option"

record ClientFinishedTable =
  cft_transcript_hash :: "bytes option"

record AuthorizeTable =
  azt_product_id :: "string option"
  azt_process_id :: u64
  azt_process_start_time :: u64

record AuthResultTable =
  art_error :: u16
  art_session_id :: "bytes option"
  art_features :: "string option list option"
  art_expire_time :: u64
  art_heartbeat_interval_ms :: u32
  art_heartbeat_timeout_ms :: u32

record HeartbeatTable =
  hbt_session_id :: "bytes option"

record HeartbeatAckTable =
  hat_state :: u8
  hat_features :: "string option list option"
  hat_expire_time :: u64

record ErrorTable =
  ert_code :: u16
  ert_message :: "string option"

text \<open>
  The union: its type tag, and the table it points to unless the pointer is null.  The members no
  decoder accepts are only their tag.
\<close>

datatype Message =
    is_Message_ClientHello: Message_ClientHello "ClientHelloTable option"
  | is_Message_ServerHello: Message_ServerHello "ServerHelloTable option"
  | is_Message_ClientFinished: Message_ClientFinished "ClientFinishedTable option"
  | is_Message_Authorize: Message_Authorize "AuthorizeTable option"
  | is_Message_AuthResult: Message_AuthResult "AuthResultTable option"
  | is_Message_Heartbeat: Message_Heartbeat "HeartbeatTable option"
  | is_Message_HeartbeatAck: Message_HeartbeatAck "HeartbeatAckTable option"
  | is_Message_CloseSession: Message_CloseSession "unit option"
  | is_Message_Error: Message_Error "ErrorTable option"
  | is_Message_Other: Message_Other u8

record Envelope =
  env_protocol_version :: u16
  env_request_id :: u64
  env_body :: Message

record flatbuffers =
  EnvelopeBufferHasIdentifier :: "bytes \<Rightarrow> bool"
  VerifyEnvelopeBuffer :: "u32 \<Rightarrow> u32 \<Rightarrow> bytes \<Rightarrow> bool"
  GetEnvelope :: "bytes \<Rightarrow> Envelope"
  FinishEnvelope :: "Envelope \<Rightarrow> bytes"

section \<open>The envelope check\<close>

datatype EnvelopeError =
    EnvelopeError_None
  | EnvelopeError_Empty
  | EnvelopeError_TooLarge
  | EnvelopeError_InvalidIdentifier
  | EnvelopeError_InvalidBuffer

definition kMaxEnvelopeSize :: nat where "kMaxEnvelopeSize = 1024 * 1024"

definition verifyEnvelope ::
  "flatbuffers \<Rightarrow> bytes \<Rightarrow> nat \<Rightarrow> u32 \<Rightarrow> u32 \<Rightarrow> EnvelopeError" where
  "verifyEnvelope fb bs max_size max_depth max_tables =
     (if bs = [] then EnvelopeError_Empty
      else if length bs > max_size then EnvelopeError_TooLarge
      else if length bs < 4 + 4 \<or> \<not> EnvelopeBufferHasIdentifier fb bs
      then EnvelopeError_InvalidIdentifier
      else if VerifyEnvelopeBuffer fb max_depth max_tables bs then EnvelopeError_None
      else EnvelopeError_InvalidBuffer)"

section \<open>Messages\<close>

datatype MessageError =
    MessageError_None
  | MessageError_InvalidEnvelope
  | MessageError_UnexpectedType
  | MessageError_InvalidField

type_synonym 'a MessageResult = "MessageError + 'a"

text \<open>Sizes of the limits, in bytes or elements.\<close>

definition kMaxSdkVersionSize :: nat where "kMaxSdkVersionSize = 64"
definition kMaxKeyIdSize :: nat where "kMaxKeyIdSize = 255"
definition kMaxProductIdSize :: nat where "kMaxProductIdSize = 255"
definition kMaxFeatureSize :: nat where "kMaxFeatureSize = 128"
definition kMaxFeatures :: nat where "kMaxFeatures = 256"
definition kMaxErrorMessageSize :: nat where "kMaxErrorMessageSize = 256"

record ClientHelloMessage =
  chm_request_id :: u64
  chm_min_version :: u16
  chm_max_version :: u16
  chm_nonce :: bytes
  chm_public_key :: bytes
  chm_sdk_version :: string

record ServerHelloMessage =
  shm_request_id :: u64
  shm_selected_version :: u16
  shm_nonce :: bytes
  shm_public_key :: bytes
  shm_service_key_id :: string
  shm_signature :: bytes

record ClientFinishedMessage =
  cfm_request_id :: u64
  cfm_protocol_version :: u16
  cfm_transcript_hash :: bytes

text \<open>
  \<^verbatim>\<open>enum class AuthorizationError : std::uint16_t\<close> and
  \<^verbatim>\<open>enum class AuthorizationState : std::uint8_t\<close>: a decoder casts any received integer to
  them, so the model keeps them as words and names the enumerators.
\<close>

type_synonym AuthorizationError = u16

abbreviation (input) AuthorizationError_None :: u16 where "AuthorizationError_None \<equiv> 0"
abbreviation (input) AuthorizationError_Expired :: u16 where "AuthorizationError_Expired \<equiv> 2005"
abbreviation (input) AuthorizationError_ProductMismatch :: u16 where
  "AuthorizationError_ProductMismatch \<equiv> 2007"
abbreviation (input) AuthorizationError_SessionLimitExceeded :: u16 where
  "AuthorizationError_SessionLimitExceeded \<equiv> 3003"

definition authorization_errors :: "u16 list" where
  "authorization_errors =
     [0, 1001, 1002, 1003, 2001, 2002, 2003, 2004, 2005, 2006, 2007, 2008,
      3001, 3002, 3003, 3004, 4001, 4002, 5001, 5002]"

type_synonym AuthorizationState = u8

abbreviation (input) AuthorizationState_Unknown :: u8 where "AuthorizationState_Unknown \<equiv> 0"
abbreviation (input) AuthorizationState_Valid :: u8 where "AuthorizationState_Valid \<equiv> 1"
abbreviation (input) AuthorizationState_Grace :: u8 where "AuthorizationState_Grace \<equiv> 2"
abbreviation (input) AuthorizationState_Expired :: u8 where "AuthorizationState_Expired \<equiv> 3"
abbreviation (input) AuthorizationState_Revoked :: u8 where "AuthorizationState_Revoked \<equiv> 4"

record AuthorizeMessage =
  azm_request_id :: u64
  azm_protocol_version :: u16
  azm_product_id :: string
  azm_process_id :: u64
  azm_process_start_time :: u64

record AuthResultMessage =
  arm_request_id :: u64
  arm_protocol_version :: u16
  arm_error :: AuthorizationError
  arm_session_id :: "bytes option"
  arm_features :: "string list"
  arm_expire_time :: u64
  arm_heartbeat_interval_ms :: u32
  arm_heartbeat_timeout_ms :: u32

record HeartbeatMessage =
  hbm_request_id :: u64
  hbm_protocol_version :: u16
  hbm_session_id :: bytes

record HeartbeatAckMessage =
  ham_request_id :: u64
  ham_protocol_version :: u16
  ham_state :: AuthorizationState
  ham_features :: "string list"
  ham_expire_time :: u64

record CloseSessionMessage =
  csm_request_id :: u64
  csm_protocol_version :: u16

record ErrorMessage =
  erm_request_id :: u64
  erm_protocol_version :: u16
  erm_code :: AuthorizationError
  erm_message :: string

section \<open>Helpers\<close>

text \<open>The array read from a vector field: \<open>None\<close> where the field is absent or has another size.\<close>

definition copyFixed :: "bytes option \<Rightarrow> nat \<Rightarrow> bytes option" where
  "copyFixed source n =
     (case source of None \<Rightarrow> None | Some v \<Rightarrow> if length v \<noteq> n then None else Some v)"

definition finish :: "flatbuffers \<Rightarrow> Message \<Rightarrow> u16 \<Rightarrow> u64 \<Rightarrow> bytes" where
  "finish fb body protocol_version request_id =
     FinishEnvelope fb \<lparr>env_protocol_version = protocol_version, env_request_id = request_id,
                        env_body = body\<rparr>"

definition checkedEnvelope :: "flatbuffers \<Rightarrow> bytes \<Rightarrow> Envelope option" where
  "checkedEnvelope fb bs =
     (if verifyEnvelope fb bs kMaxEnvelopeSize 16 256 = EnvelopeError_None
      then Some (GetEnvelope fb bs) else None)"

definition validApplicationEnvelope :: "Envelope \<Rightarrow> (Message \<Rightarrow> bool) \<Rightarrow> bool" where
  "validApplicationEnvelope envelope has_type \<longleftrightarrow>
     env_protocol_version envelope \<noteq> 0 \<and> env_request_id envelope \<noteq> 0 \<and> has_type (env_body envelope)"

text \<open>\<^verbatim>\<open>p ? p->str() : ""\<close>\<close>

definition str :: "string option \<Rightarrow> string" where
  "str s = (case s of None \<Rightarrow> [] | Some t \<Rightarrow> t)"

definition validFeature :: "string \<Rightarrow> bool" where
  "validFeature feature \<longleftrightarrow> feature \<noteq> [] \<and> length feature \<le> kMaxFeatureSize"

definition validFeatures :: "string list \<Rightarrow> bool" where
  "validFeatures features \<longleftrightarrow> length features \<le> kMaxFeatures \<and> list_all validFeature features"

definition validAuthorizationError :: "AuthorizationError \<Rightarrow> bool" where
  "validAuthorizationError error \<longleftrightarrow> error \<in> set authorization_errors"

definition validAuthorizationState :: "AuthorizationState \<Rightarrow> bool" where
  "validAuthorizationState state \<longleftrightarrow>
     state = AuthorizationState_Valid \<or> state = AuthorizationState_Grace \<or>
     state = AuthorizationState_Expired \<or> state = AuthorizationState_Revoked"

text \<open>The loop of \<^verbatim>\<open>copyFeatures\<close>: one bad element empties the result.\<close>

fun copyFeatures_loop :: "string option list \<Rightarrow> string list \<Rightarrow> string list" where
  "copyFeatures_loop [] features = features"
| "copyFeatures_loop (f # fs) features =
     (case f of
        None \<Rightarrow> []
      | Some feature \<Rightarrow>
          if feature = [] \<or> length feature > kMaxFeatureSize then []
          else copyFeatures_loop fs (features @ [feature]))"

definition copyFeatures :: "string option list option \<Rightarrow> string list" where
  "copyFeatures source =
     (case source of
        None \<Rightarrow> []
      | Some fs \<Rightarrow> if length fs > kMaxFeatures then [] else copyFeatures_loop fs [])"

definition createFeatures :: "string list \<Rightarrow> string option list" where
  "createFeatures features = map Some features"

section \<open>Handshake messages\<close>

definition encodeClientHello :: "flatbuffers \<Rightarrow> ClientHelloMessage \<Rightarrow> bytes MessageResult" where
  "encodeClientHello fb m =
     (if chm_request_id m = 0 \<or> chm_min_version m = 0 \<or> chm_min_version m > chm_max_version m
         \<or> chm_sdk_version m = [] \<or> length (chm_sdk_version m) > kMaxSdkVersionSize
      then Inl MessageError_InvalidField
      else Inr (finish fb
        (Message_ClientHello (Some \<lparr>cht_min_protocol_version = chm_min_version m,
           cht_max_protocol_version = chm_max_version m,
           cht_client_nonce = Some (chm_nonce m),
           cht_ephemeral_public_key = Some (chm_public_key m),
           cht_sdk_version = Some (chm_sdk_version m)\<rparr>)) 0 (chm_request_id m)))"

definition decodeClientHello :: "flatbuffers \<Rightarrow> bytes \<Rightarrow> ClientHelloMessage MessageResult option" where
  "decodeClientHello fb bs =
     (case checkedEnvelope fb bs of
        None \<Rightarrow> Some (Inl MessageError_InvalidEnvelope)
      | Some envelope \<Rightarrow>
          (case env_body envelope of
             Message_ClientHello pointer \<Rightarrow>
               if env_protocol_version envelope \<noteq> 0 \<or> env_request_id envelope = 0
               then Some (Inl MessageError_UnexpectedType)
               else (case pointer of
                 None \<Rightarrow> None
               | Some body \<Rightarrow>
                   let min_version = cht_min_protocol_version body;
                       max_version = cht_max_protocol_version body;
                       sdk_version = str (cht_sdk_version body)
                   in if min_version = 0 \<or> min_version > max_version
                         \<or> sdk_version = [] \<or> length sdk_version > kMaxSdkVersionSize
                      then Some (Inl MessageError_InvalidField)
                      else (case (copyFixed (cht_client_nonce body) kKeySize,
                                  copyFixed (cht_ephemeral_public_key body) kKeySize) of
                        (Some nonce, Some public) \<Rightarrow>
                          Some (Inr \<lparr>chm_request_id = env_request_id envelope,
                            chm_min_version = min_version, chm_max_version = max_version,
                            chm_nonce = nonce, chm_public_key = public,
                            chm_sdk_version = sdk_version\<rparr>)
                      | _ \<Rightarrow> Some (Inl MessageError_InvalidField)))
           | _ \<Rightarrow> Some (Inl MessageError_UnexpectedType)))"

definition encodeServerHello :: "flatbuffers \<Rightarrow> ServerHelloMessage \<Rightarrow> bytes MessageResult" where
  "encodeServerHello fb m =
     (if shm_request_id m = 0 \<or> shm_selected_version m = 0
         \<or> shm_service_key_id m = [] \<or> length (shm_service_key_id m) > kMaxKeyIdSize
      then Inl MessageError_InvalidField
      else Inr (finish fb
        (Message_ServerHello (Some \<lparr>sht_selected_protocol_version = shm_selected_version m,
           sht_server_nonce = Some (shm_nonce m),
           sht_ephemeral_public_key = Some (shm_public_key m),
           sht_service_key_id = Some (shm_service_key_id m),
           sht_signature = Some (shm_signature m)\<rparr>)) 0 (shm_request_id m)))"

definition decodeServerHello :: "flatbuffers \<Rightarrow> bytes \<Rightarrow> ServerHelloMessage MessageResult option" where
  "decodeServerHello fb bs =
     (case checkedEnvelope fb bs of
        None \<Rightarrow> Some (Inl MessageError_InvalidEnvelope)
      | Some envelope \<Rightarrow>
          (case env_body envelope of
             Message_ServerHello pointer \<Rightarrow>
               if env_protocol_version envelope \<noteq> 0 \<or> env_request_id envelope = 0
               then Some (Inl MessageError_UnexpectedType)
               else (case pointer of
                 None \<Rightarrow> None
               | Some body \<Rightarrow>
                   let selected_version = sht_selected_protocol_version body;
                       service_key_id = str (sht_service_key_id body)
                   in if selected_version = 0 \<or> service_key_id = []
                         \<or> length service_key_id > kMaxKeyIdSize
                      then Some (Inl MessageError_InvalidField)
                      else (case (copyFixed (sht_server_nonce body) kKeySize,
                                  copyFixed (sht_ephemeral_public_key body) kKeySize,
                                  copyFixed (sht_signature body) kSignatureSize) of
                        (Some nonce, Some public, Some signature) \<Rightarrow>
                          Some (Inr \<lparr>shm_request_id = env_request_id envelope,
                            shm_selected_version = selected_version,
                            shm_nonce = nonce, shm_public_key = public,
                            shm_service_key_id = service_key_id, shm_signature = signature\<rparr>)
                      | _ \<Rightarrow> Some (Inl MessageError_InvalidField)))
           | _ \<Rightarrow> Some (Inl MessageError_UnexpectedType)))"

definition encodeClientFinished :: "flatbuffers \<Rightarrow> ClientFinishedMessage \<Rightarrow> bytes MessageResult" where
  "encodeClientFinished fb m =
     (if cfm_request_id m = 0 \<or> cfm_protocol_version m = 0 then Inl MessageError_InvalidField
      else Inr (finish fb
        (Message_ClientFinished (Some \<lparr>cft_transcript_hash = Some (cfm_transcript_hash m)\<rparr>))
        (cfm_protocol_version m) (cfm_request_id m)))"

definition decodeClientFinished ::
  "flatbuffers \<Rightarrow> bytes \<Rightarrow> ClientFinishedMessage MessageResult option" where
  "decodeClientFinished fb bs =
     (case checkedEnvelope fb bs of
        None \<Rightarrow> Some (Inl MessageError_InvalidEnvelope)
      | Some envelope \<Rightarrow>
          (case env_body envelope of
             Message_ClientFinished pointer \<Rightarrow>
               if env_protocol_version envelope = 0 \<or> env_request_id envelope = 0
               then Some (Inl MessageError_UnexpectedType)
               else (case pointer of
                 None \<Rightarrow> None
               | Some body \<Rightarrow>
                   (case copyFixed (cft_transcript_hash body) kSha256Size of
                      Some hash \<Rightarrow>
                        Some (Inr \<lparr>cfm_request_id = env_request_id envelope,
                          cfm_protocol_version = env_protocol_version envelope,
                          cfm_transcript_hash = hash\<rparr>)
                    | None \<Rightarrow> Some (Inl MessageError_InvalidField)))
           | _ \<Rightarrow> Some (Inl MessageError_UnexpectedType)))"

section \<open>Application messages\<close>

definition encodeAuthorize :: "flatbuffers \<Rightarrow> AuthorizeMessage \<Rightarrow> bytes MessageResult" where
  "encodeAuthorize fb m =
     (if azm_request_id m = 0 \<or> azm_protocol_version m = 0 \<or> azm_product_id m = []
         \<or> length (azm_product_id m) > kMaxProductIdSize \<or> azm_process_id m = 0
      then Inl MessageError_InvalidField
      else Inr (finish fb
        (Message_Authorize (Some \<lparr>azt_product_id = Some (azm_product_id m),
           azt_process_id = azm_process_id m,
           azt_process_start_time = azm_process_start_time m\<rparr>))
        (azm_protocol_version m) (azm_request_id m)))"

definition decodeAuthorize :: "flatbuffers \<Rightarrow> bytes \<Rightarrow> AuthorizeMessage MessageResult option" where
  "decodeAuthorize fb bs =
     (case checkedEnvelope fb bs of
        None \<Rightarrow> Some (Inl MessageError_InvalidEnvelope)
      | Some envelope \<Rightarrow>
          if \<not> validApplicationEnvelope envelope is_Message_Authorize
          then Some (Inl MessageError_UnexpectedType)
          else (case env_body envelope of
             Message_Authorize (Some body) \<Rightarrow>
               let message = \<lparr>azm_request_id = env_request_id envelope,
                     azm_protocol_version = env_protocol_version envelope,
                     azm_product_id = str (azt_product_id body),
                     azm_process_id = azt_process_id body,
                     azm_process_start_time = azt_process_start_time body\<rparr>
               in if azm_product_id message = [] \<or> length (azm_product_id message) > kMaxProductIdSize
                     \<or> azm_process_id message = 0
                  then Some (Inl MessageError_InvalidField)
                  else Some (Inr message)
           | _ \<Rightarrow> None))"

definition encodeAuthResult :: "flatbuffers \<Rightarrow> AuthResultMessage \<Rightarrow> bytes MessageResult" where
  "encodeAuthResult fb m =
     (if arm_request_id m = 0 \<or> arm_protocol_version m = 0
         \<or> \<not> validAuthorizationError (arm_error m) \<or> \<not> validFeatures (arm_features m)
         \<or> (arm_error m = AuthorizationError_None \<and> arm_session_id m = None)
         \<or> (arm_error m \<noteq> AuthorizationError_None \<and> arm_session_id m \<noteq> None)
      then Inl MessageError_InvalidField
      else Inr (finish fb
        (Message_AuthResult (Some \<lparr>art_error = arm_error m, art_session_id = arm_session_id m,
           art_features = Some (createFeatures (arm_features m)),
           art_expire_time = arm_expire_time m,
           art_heartbeat_interval_ms = arm_heartbeat_interval_ms m,
           art_heartbeat_timeout_ms = arm_heartbeat_timeout_ms m\<rparr>))
        (arm_protocol_version m) (arm_request_id m)))"

text \<open>
  \<^verbatim>\<open>body->features() && body->features()->size() != message.features.size()\<close>: the copy dropped
  elements.
\<close>

definition features_lost :: "string option list option \<Rightarrow> string list \<Rightarrow> bool" where
  "features_lost source features \<longleftrightarrow>
     (case source of None \<Rightarrow> False | Some fs \<Rightarrow> length fs \<noteq> length features)"

definition decodeAuthResult :: "flatbuffers \<Rightarrow> bytes \<Rightarrow> AuthResultMessage MessageResult option" where
  "decodeAuthResult fb bs =
     (case checkedEnvelope fb bs of
        None \<Rightarrow> Some (Inl MessageError_InvalidEnvelope)
      | Some envelope \<Rightarrow>
          if \<not> validApplicationEnvelope envelope is_Message_AuthResult
          then Some (Inl MessageError_UnexpectedType)
          else (case env_body envelope of
             Message_AuthResult (Some body) \<Rightarrow>
               let message = \<lparr>arm_request_id = env_request_id envelope,
                     arm_protocol_version = env_protocol_version envelope,
                     arm_error = art_error body, arm_session_id = None,
                     arm_features = copyFeatures (art_features body),
                     arm_expire_time = art_expire_time body,
                     arm_heartbeat_interval_ms = art_heartbeat_interval_ms body,
                     arm_heartbeat_timeout_ms = art_heartbeat_timeout_ms body\<rparr>
               in if features_lost (art_features body) (arm_features message)
                  then Some (Inl MessageError_InvalidField)
                  else if art_session_id body \<noteq> None \<and> art_session_id body \<noteq> Some []
                          \<and> copyFixed (art_session_id body) 16 = None
                  then Some (Inl MessageError_InvalidField)
                  else let message = (if art_session_id body \<noteq> None \<and> art_session_id body \<noteq> Some []
                                      then message\<lparr>arm_session_id := copyFixed (art_session_id body) 16\<rparr>
                                      else message)
                       in if \<not> validAuthorizationError (arm_error message)
                             \<or> (arm_error message = AuthorizationError_None \<and> arm_session_id message = None)
                             \<or> (arm_error message \<noteq> AuthorizationError_None \<and> arm_session_id message \<noteq> None)
                          then Some (Inl MessageError_InvalidField)
                          else Some (Inr message)
           | _ \<Rightarrow> None))"

definition encodeHeartbeat :: "flatbuffers \<Rightarrow> HeartbeatMessage \<Rightarrow> bytes MessageResult" where
  "encodeHeartbeat fb m =
     (if hbm_request_id m = 0 \<or> hbm_protocol_version m = 0 then Inl MessageError_InvalidField
      else Inr (finish fb (Message_Heartbeat (Some \<lparr>hbt_session_id = Some (hbm_session_id m)\<rparr>))
        (hbm_protocol_version m) (hbm_request_id m)))"

definition decodeHeartbeat :: "flatbuffers \<Rightarrow> bytes \<Rightarrow> HeartbeatMessage MessageResult option" where
  "decodeHeartbeat fb bs =
     (case checkedEnvelope fb bs of
        None \<Rightarrow> Some (Inl MessageError_InvalidEnvelope)
      | Some envelope \<Rightarrow>
          if \<not> validApplicationEnvelope envelope is_Message_Heartbeat
          then Some (Inl MessageError_UnexpectedType)
          else (case env_body envelope of
             Message_Heartbeat (Some body) \<Rightarrow>
               (case copyFixed (hbt_session_id body) 16 of
                  None \<Rightarrow> Some (Inl MessageError_InvalidField)
                | Some session_id \<Rightarrow>
                    Some (Inr \<lparr>hbm_request_id = env_request_id envelope,
                      hbm_protocol_version = env_protocol_version envelope,
                      hbm_session_id = session_id\<rparr>))
           | _ \<Rightarrow> None))"

definition encodeHeartbeatAck :: "flatbuffers \<Rightarrow> HeartbeatAckMessage \<Rightarrow> bytes MessageResult" where
  "encodeHeartbeatAck fb m =
     (if ham_request_id m = 0 \<or> ham_protocol_version m = 0
         \<or> \<not> validAuthorizationState (ham_state m) \<or> \<not> validFeatures (ham_features m)
      then Inl MessageError_InvalidField
      else Inr (finish fb
        (Message_HeartbeatAck (Some \<lparr>hat_state = ham_state m,
           hat_features = Some (createFeatures (ham_features m)),
           hat_expire_time = ham_expire_time m\<rparr>))
        (ham_protocol_version m) (ham_request_id m)))"

definition decodeHeartbeatAck :: "flatbuffers \<Rightarrow> bytes \<Rightarrow> HeartbeatAckMessage MessageResult option" where
  "decodeHeartbeatAck fb bs =
     (case checkedEnvelope fb bs of
        None \<Rightarrow> Some (Inl MessageError_InvalidEnvelope)
      | Some envelope \<Rightarrow>
          if \<not> validApplicationEnvelope envelope is_Message_HeartbeatAck
          then Some (Inl MessageError_UnexpectedType)
          else (case env_body envelope of
             Message_HeartbeatAck (Some body) \<Rightarrow>
               let message = \<lparr>ham_request_id = env_request_id envelope,
                     ham_protocol_version = env_protocol_version envelope,
                     ham_state = hat_state body,
                     ham_features = copyFeatures (hat_features body),
                     ham_expire_time = hat_expire_time body\<rparr>
               in if \<not> validAuthorizationState (ham_state message)
                     \<or> features_lost (hat_features body) (ham_features message)
                  then Some (Inl MessageError_InvalidField)
                  else Some (Inr message)
           | _ \<Rightarrow> None))"

definition encodeCloseSession :: "flatbuffers \<Rightarrow> CloseSessionMessage \<Rightarrow> bytes MessageResult" where
  "encodeCloseSession fb m =
     (if csm_request_id m = 0 \<or> csm_protocol_version m = 0 then Inl MessageError_InvalidField
      else Inr (finish fb (Message_CloseSession (Some ())) (csm_protocol_version m) (csm_request_id m)))"

definition decodeCloseSession :: "flatbuffers \<Rightarrow> bytes \<Rightarrow> CloseSessionMessage MessageResult option" where
  "decodeCloseSession fb bs =
     (case checkedEnvelope fb bs of
        None \<Rightarrow> Some (Inl MessageError_InvalidEnvelope)
      | Some envelope \<Rightarrow>
          if \<not> validApplicationEnvelope envelope is_Message_CloseSession
          then Some (Inl MessageError_UnexpectedType)
          else Some (Inr \<lparr>csm_request_id = env_request_id envelope,
                 csm_protocol_version = env_protocol_version envelope\<rparr>))"

definition encodeError :: "flatbuffers \<Rightarrow> ErrorMessage \<Rightarrow> bytes MessageResult" where
  "encodeError fb m =
     (if erm_request_id m = 0 \<or> erm_protocol_version m = 0
         \<or> \<not> validAuthorizationError (erm_code m) \<or> erm_code m = AuthorizationError_None
         \<or> erm_message m = [] \<or> length (erm_message m) > kMaxErrorMessageSize
      then Inl MessageError_InvalidField
      else Inr (finish fb
        (Message_Error (Some \<lparr>ert_code = erm_code m, ert_message = Some (erm_message m)\<rparr>))
        (erm_protocol_version m) (erm_request_id m)))"

definition decodeError :: "flatbuffers \<Rightarrow> bytes \<Rightarrow> ErrorMessage MessageResult option" where
  "decodeError fb bs =
     (case checkedEnvelope fb bs of
        None \<Rightarrow> Some (Inl MessageError_InvalidEnvelope)
      | Some envelope \<Rightarrow>
          if \<not> validApplicationEnvelope envelope is_Message_Error
          then Some (Inl MessageError_UnexpectedType)
          else (case env_body envelope of
             Message_Error (Some body) \<Rightarrow>
               let message = \<lparr>erm_request_id = env_request_id envelope,
                     erm_protocol_version = env_protocol_version envelope,
                     erm_code = ert_code body, erm_message = str (ert_message body)\<rparr>
               in if \<not> validAuthorizationError (erm_code message)
                     \<or> erm_code message = AuthorizationError_None
                     \<or> erm_message message = [] \<or> length (erm_message message) > kMaxErrorMessageSize
                  then Some (Inl MessageError_InvalidField)
                  else Some (Inr message)
           | _ \<Rightarrow> None))"

section \<open>What FlatBuffers documents\<close>

text \<open>
  A buffer the builder finished, of at most the size of an envelope, carries the file identifier,
  passes the verifier within the limits the code gives it and reads back as the value it was built
  from.
\<close>

definition fb_codec :: "flatbuffers \<Rightarrow> bool" where
  "fb_codec fb \<longleftrightarrow>
     (\<forall>env. length (FinishEnvelope fb env) \<le> kMaxEnvelopeSize \<longrightarrow>
            8 \<le> length (FinishEnvelope fb env) \<and>
            EnvelopeBufferHasIdentifier fb (FinishEnvelope fb env) \<and>
            VerifyEnvelopeBuffer fb 16 256 (FinishEnvelope fb env) \<and>
            GetEnvelope fb (FinishEnvelope fb env) = env)"

section \<open>The contract of a message codec\<close>

text \<open>
  What the handshake, the connection and the client rely on: a message that was encoded decodes to
  itself, and a decoder only ever returns well-sized messages that the encoder accepts.
\<close>

locale message_codec =
  fixes encode :: "'m \<Rightarrow> 'e + bytes"
    and decode :: "bytes \<Rightarrow> ('e + 'm) option"
    and sized :: "'m \<Rightarrow> bool"
    and transmits :: "bytes \<Rightarrow> bool"
  assumes decode_encode: "sized m \<Longrightarrow> encode m = Inr b \<Longrightarrow> transmits b \<Longrightarrow> decode b = Some (Inr m)"
    and decode_sound: "decode b = Some (Inr m) \<Longrightarrow> sized m \<and> is_ok (encode m)"
begin

lemma encode_unique:
  "sized m \<Longrightarrow> sized m' \<Longrightarrow> encode m = Inr b \<Longrightarrow> encode m' = Inr b \<Longrightarrow> transmits b \<Longrightarrow> m = m'"
  using decode_encode [of m b] decode_encode [of m' b] by simp

lemma reencode:
  assumes "decode b = Some (Inr m)"
  obtains b' where "encode m = Inr b'" "transmits b' \<Longrightarrow> decode b' = Some (Inr m)"
proof -
  from decode_sound [OF assms] obtain b' where m: "sized m" "encode m = Inr b'"
    by (auto elim: is_okE)
  show thesis by (rule that [OF m(2)]) (rule decode_encode [OF m])
qed

end

text \<open>A buffer of the builder that fits the size limit of an envelope.\<close>

definition fits :: "flatbuffers \<Rightarrow> bytes \<Rightarrow> bool" where
  "fits fb b \<longleftrightarrow> fb_codec fb \<and> length b \<le> kMaxEnvelopeSize"

lemma checkedEnvelope_finish:
  assumes "fits fb (finish fb body pv rid)"
  shows "checkedEnvelope fb (finish fb body pv rid) =
     Some \<lparr>env_protocol_version = pv, env_request_id = rid, env_body = body\<rparr>"
proof -
  let ?e = "\<lparr>env_protocol_version = pv, env_request_id = rid, env_body = body\<rparr>"
  from assms have "8 \<le> length (FinishEnvelope fb ?e)" "length (FinishEnvelope fb ?e) \<le> kMaxEnvelopeSize"
    "EnvelopeBufferHasIdentifier fb (FinishEnvelope fb ?e)"
    "VerifyEnvelopeBuffer fb 16 256 (FinishEnvelope fb ?e)"
    "GetEnvelope fb (FinishEnvelope fb ?e) = ?e"
    by (simp_all add: fits_def fb_codec_def finish_def)
  then show ?thesis by (auto simp: checkedEnvelope_def verifyEnvelope_def finish_def)
qed

lemma copyFixed_Some_iff [simp]: "copyFixed v n = Some bs \<longleftrightarrow> v = Some bs \<and> length bs = n"
  by (auto simp: copyFixed_def split: option.splits)

lemma copyFixed_exact [simp]: "length bs = n \<Longrightarrow> copyFixed (Some bs) n = Some bs"
  by simp

lemma copyFixed_None_iff: "copyFixed v n = None \<longleftrightarrow> (\<forall>bs. v = Some bs \<longrightarrow> length bs \<noteq> n)"
  by (auto simp: copyFixed_def split: option.splits)

lemma str_simps [simp]: "str (Some s) = s" "str None = []"
  by (simp_all add: str_def)

lemma copyFeatures_loop_createFeatures:
  "list_all validFeature fs \<Longrightarrow> copyFeatures_loop (map Some fs) acc = acc @ fs"
  by (induction fs arbitrary: acc) (auto simp: validFeature_def)

lemma copyFeatures_createFeatures:
  "validFeatures fs \<Longrightarrow> copyFeatures (Some (createFeatures fs)) = fs"
  by (simp add: copyFeatures_def createFeatures_def validFeatures_def
      copyFeatures_loop_createFeatures)

lemma copyFeatures_loop_valid:
  "list_all validFeature acc \<Longrightarrow> list_all validFeature (copyFeatures_loop fs acc)"
  by (induction fs acc rule: copyFeatures_loop.induct)
     (auto simp: validFeature_def split: option.splits)

lemma copyFeatures_loop_length: "length (copyFeatures_loop fs acc) \<le> length fs + length acc"
  by (induction fs acc rule: copyFeatures_loop.induct) (fastforce split: option.splits)+

lemma copyFeatures_valid: "validFeatures (copyFeatures source)"
proof (cases source)
  case (Some fs)
  then show ?thesis
    using copyFeatures_loop_valid [of "[]" fs] copyFeatures_loop_length [of fs "[]"]
    by (simp add: copyFeatures_def validFeatures_def)
qed (simp add: copyFeatures_def validFeatures_def)

lemma features_lost_create [simp]: "\<not> features_lost (Some (createFeatures fs)) fs"
  by (simp add: features_lost_def createFeatures_def)

section \<open>The nine codecs\<close>

definition ch_sized :: "ClientHelloMessage \<Rightarrow> bool" where
  "ch_sized m \<longleftrightarrow> length (chm_nonce m) = kKeySize \<and> length (chm_public_key m) = kKeySize"

definition sh_sized :: "ServerHelloMessage \<Rightarrow> bool" where
  "sh_sized m \<longleftrightarrow> length (shm_nonce m) = kKeySize \<and> length (shm_public_key m) = kKeySize
     \<and> length (shm_signature m) = kSignatureSize"

definition cf_sized :: "ClientFinishedMessage \<Rightarrow> bool" where
  "cf_sized m \<longleftrightarrow> length (cfm_transcript_hash m) = kSha256Size"

definition ar_sized :: "AuthResultMessage \<Rightarrow> bool" where
  "ar_sized m \<longleftrightarrow> pred_option (\<lambda>id. length id = 16) (arm_session_id m)"

definition hb_sized :: "HeartbeatMessage \<Rightarrow> bool" where
  "hb_sized m \<longleftrightarrow> length (hbm_session_id m) = 16"

lemmas sized_defs = ch_sized_def sh_sized_def cf_sized_def ar_sized_def hb_sized_def

interpretation client_hello: message_codec "encodeClientHello fb" "decodeClientHello fb" ch_sized "fits fb"
  for fb
proof
  show "ch_sized m \<Longrightarrow> encodeClientHello fb m = Inr b \<Longrightarrow> fits fb b \<Longrightarrow>
          decodeClientHello fb b = Some (Inr m)" for m b
    by (auto simp: encodeClientHello_def decodeClientHello_def checkedEnvelope_finish ch_sized_def
        copyFixed_def Let_def split: if_splits)
  show "decodeClientHello fb b = Some (Inr m) \<Longrightarrow> ch_sized m \<and> is_ok (encodeClientHello fb m)" for m b
    by (auto simp: encodeClientHello_def decodeClientHello_def ch_sized_def Let_def
        split: option.splits Message.splits if_splits)
qed

interpretation server_hello: message_codec "encodeServerHello fb" "decodeServerHello fb" sh_sized "fits fb"
  for fb
proof
  show "sh_sized m \<Longrightarrow> encodeServerHello fb m = Inr b \<Longrightarrow> fits fb b \<Longrightarrow>
          decodeServerHello fb b = Some (Inr m)" for m b
    by (auto simp: encodeServerHello_def decodeServerHello_def checkedEnvelope_finish sh_sized_def
        copyFixed_def Let_def split: if_splits)
  show "decodeServerHello fb b = Some (Inr m) \<Longrightarrow> sh_sized m \<and> is_ok (encodeServerHello fb m)" for m b
    by (auto simp: encodeServerHello_def decodeServerHello_def sh_sized_def Let_def
        split: option.splits Message.splits if_splits)
qed

interpretation client_finished: message_codec "encodeClientFinished fb" "decodeClientFinished fb"
    cf_sized "fits fb"
  for fb
proof
  show "cf_sized m \<Longrightarrow> encodeClientFinished fb m = Inr b \<Longrightarrow> fits fb b \<Longrightarrow>
          decodeClientFinished fb b = Some (Inr m)" for m b
    by (auto simp: encodeClientFinished_def decodeClientFinished_def checkedEnvelope_finish
        cf_sized_def copyFixed_def split: if_splits)
  show "decodeClientFinished fb b = Some (Inr m) \<Longrightarrow> cf_sized m \<and> is_ok (encodeClientFinished fb m)" for m b
    by (auto simp: encodeClientFinished_def decodeClientFinished_def cf_sized_def
        split: option.splits Message.splits if_splits)
qed

interpretation authorize: message_codec "encodeAuthorize fb" "decodeAuthorize fb" "\<lambda>_. True" "fits fb"
  for fb
proof
  show "encodeAuthorize fb m = Inr b \<Longrightarrow> fits fb b \<Longrightarrow> decodeAuthorize fb b = Some (Inr m)" for m b
    by (auto simp: encodeAuthorize_def decodeAuthorize_def checkedEnvelope_finish
        validApplicationEnvelope_def Let_def split: if_splits)
  show "decodeAuthorize fb b = Some (Inr m) \<Longrightarrow> True \<and> is_ok (encodeAuthorize fb m)" for m b
    by (auto simp: encodeAuthorize_def decodeAuthorize_def validApplicationEnvelope_def Let_def
        split: option.splits Message.splits if_splits)
qed

interpretation auth_result: message_codec "encodeAuthResult fb" "decodeAuthResult fb" ar_sized "fits fb"
  for fb
proof
  show "ar_sized m \<Longrightarrow> encodeAuthResult fb m = Inr b \<Longrightarrow> fits fb b \<Longrightarrow>
          decodeAuthResult fb b = Some (Inr m)" for m b
    by (cases "arm_session_id m")
       (auto simp: encodeAuthResult_def decodeAuthResult_def checkedEnvelope_finish ar_sized_def
        validApplicationEnvelope_def Let_def copyFeatures_createFeatures copyFixed_def split: if_splits)
  show "decodeAuthResult fb b = Some (Inr m) \<Longrightarrow> ar_sized m \<and> is_ok (encodeAuthResult fb m)" for m b
    by (auto simp: encodeAuthResult_def decodeAuthResult_def ar_sized_def copyFeatures_valid
        validApplicationEnvelope_def Let_def copyFixed_None_iff
        split: option.splits Message.splits if_splits)
qed

interpretation heartbeat: message_codec "encodeHeartbeat fb" "decodeHeartbeat fb" hb_sized "fits fb"
  for fb
proof
  show "hb_sized m \<Longrightarrow> encodeHeartbeat fb m = Inr b \<Longrightarrow> fits fb b \<Longrightarrow>
          decodeHeartbeat fb b = Some (Inr m)" for m b
    by (auto simp: encodeHeartbeat_def decodeHeartbeat_def checkedEnvelope_finish hb_sized_def
        validApplicationEnvelope_def copyFixed_def split: if_splits)
  show "decodeHeartbeat fb b = Some (Inr m) \<Longrightarrow> hb_sized m \<and> is_ok (encodeHeartbeat fb m)" for m b
    by (auto simp: encodeHeartbeat_def decodeHeartbeat_def hb_sized_def validApplicationEnvelope_def
        split: option.splits Message.splits if_splits)
qed

interpretation heartbeat_ack: message_codec "encodeHeartbeatAck fb" "decodeHeartbeatAck fb"
    "\<lambda>_. True" "fits fb"
  for fb
proof
  show "encodeHeartbeatAck fb m = Inr b \<Longrightarrow> fits fb b \<Longrightarrow> decodeHeartbeatAck fb b = Some (Inr m)" for m b
    by (auto simp: encodeHeartbeatAck_def decodeHeartbeatAck_def checkedEnvelope_finish
        validApplicationEnvelope_def Let_def copyFeatures_createFeatures split: if_splits)
  show "decodeHeartbeatAck fb b = Some (Inr m) \<Longrightarrow> True \<and> is_ok (encodeHeartbeatAck fb m)" for m b
    by (auto simp: encodeHeartbeatAck_def decodeHeartbeatAck_def validApplicationEnvelope_def Let_def
        copyFeatures_valid split: option.splits Message.splits if_splits)
qed

interpretation close_session: message_codec "encodeCloseSession fb" "decodeCloseSession fb"
    "\<lambda>_. True" "fits fb"
  for fb
proof
  show "encodeCloseSession fb m = Inr b \<Longrightarrow> fits fb b \<Longrightarrow> decodeCloseSession fb b = Some (Inr m)" for m b
    by (auto simp: encodeCloseSession_def decodeCloseSession_def checkedEnvelope_finish
        validApplicationEnvelope_def split: if_splits)
  show "decodeCloseSession fb b = Some (Inr m) \<Longrightarrow> True \<and> is_ok (encodeCloseSession fb m)" for m b
    by (auto simp: encodeCloseSession_def decodeCloseSession_def validApplicationEnvelope_def
        split: option.splits if_splits)
qed

interpretation error_message: message_codec "encodeError fb" "decodeError fb" "\<lambda>_. True" "fits fb"
  for fb
proof
  show "encodeError fb m = Inr b \<Longrightarrow> fits fb b \<Longrightarrow> decodeError fb b = Some (Inr m)" for m b
    by (auto simp: encodeError_def decodeError_def checkedEnvelope_finish
        validApplicationEnvelope_def Let_def split: if_splits)
  show "decodeError fb b = Some (Inr m) \<Longrightarrow> True \<and> is_ok (encodeError fb m)" for m b
    by (auto simp: encodeError_def decodeError_def validApplicationEnvelope_def Let_def
        split: option.splits Message.splits if_splits)
qed

section \<open>Which decoders accept a buffer\<close>

definition decodes :: "('e + 'm) option \<Rightarrow> bool" where
  "decodes r \<longleftrightarrow> (case r of Some (Inr _) \<Rightarrow> True | _ \<Rightarrow> False)"

text \<open>The message types a buffer is accepted as.\<close>

definition accepted_types :: "flatbuffers \<Rightarrow> bytes \<Rightarrow> string list" where
  "accepted_types fb b = map fst (filter snd
     [(''ClientHello'', decodes (decodeClientHello fb b)),
      (''ServerHello'', decodes (decodeServerHello fb b)),
      (''ClientFinished'', decodes (decodeClientFinished fb b)),
      (''Authorize'', decodes (decodeAuthorize fb b)),
      (''AuthResult'', decodes (decodeAuthResult fb b)),
      (''Heartbeat'', decodes (decodeHeartbeat fb b)),
      (''HeartbeatAck'', decodes (decodeHeartbeatAck fb b)),
      (''CloseSession'', decodes (decodeCloseSession fb b)),
      (''Error'', decodes (decodeError fb b))])"

lemmas decode_defs =
  decodeClientHello_def decodeServerHello_def decodeClientFinished_def decodeAuthorize_def
  decodeAuthResult_def decodeHeartbeat_def decodeHeartbeatAck_def decodeCloseSession_def
  decodeError_def

lemma decodes_simps [simp]: "decodes (Some (Inr m))" "\<not> decodes (Some (Inl e))" "\<not> decodes None"
  by (simp_all add: decodes_def)

section \<open>Properties\<close>

text \<open>
  C25.  Round trips: every message an encoder accepts is decoded, from the buffer the encoder
  produced, to the very same message, for all nine message types.
\<close>

theorem messages_round_trip:
  assumes "fb_codec fb"
  shows "(\<forall>m b. ch_sized m \<longrightarrow> encodeClientHello fb m = Inr b \<longrightarrow> length b \<le> kMaxEnvelopeSize \<longrightarrow>
            decodeClientHello fb b = Some (Inr m)) \<and>
         (\<forall>m b. sh_sized m \<longrightarrow> encodeServerHello fb m = Inr b \<longrightarrow> length b \<le> kMaxEnvelopeSize \<longrightarrow>
            decodeServerHello fb b = Some (Inr m)) \<and>
         (\<forall>m b. cf_sized m \<longrightarrow> encodeClientFinished fb m = Inr b \<longrightarrow> length b \<le> kMaxEnvelopeSize \<longrightarrow>
            decodeClientFinished fb b = Some (Inr m)) \<and>
         (\<forall>m b. encodeAuthorize fb m = Inr b \<longrightarrow> length b \<le> kMaxEnvelopeSize \<longrightarrow>
            decodeAuthorize fb b = Some (Inr m)) \<and>
         (\<forall>m b. ar_sized m \<longrightarrow> encodeAuthResult fb m = Inr b \<longrightarrow> length b \<le> kMaxEnvelopeSize \<longrightarrow>
            decodeAuthResult fb b = Some (Inr m)) \<and>
         (\<forall>m b. hb_sized m \<longrightarrow> encodeHeartbeat fb m = Inr b \<longrightarrow> length b \<le> kMaxEnvelopeSize \<longrightarrow>
            decodeHeartbeat fb b = Some (Inr m)) \<and>
         (\<forall>m b. encodeHeartbeatAck fb m = Inr b \<longrightarrow> length b \<le> kMaxEnvelopeSize \<longrightarrow>
            decodeHeartbeatAck fb b = Some (Inr m)) \<and>
         (\<forall>m b. encodeCloseSession fb m = Inr b \<longrightarrow> length b \<le> kMaxEnvelopeSize \<longrightarrow>
            decodeCloseSession fb b = Some (Inr m)) \<and>
         (\<forall>m b. encodeError fb m = Inr b \<longrightarrow> length b \<le> kMaxEnvelopeSize \<longrightarrow>
            decodeError fb b = Some (Inr m))"
proof -
  have "fits fb b" if "length b \<le> kMaxEnvelopeSize" for b
    using assms that by (simp add: fits_def)
  then show ?thesis
    using client_hello.decode_encode server_hello.decode_encode client_finished.decode_encode
      authorize.decode_encode auth_result.decode_encode heartbeat.decode_encode
      heartbeat_ack.decode_encode close_session.decode_encode error_message.decode_encode
    by simp
qed

text \<open>
  C26.  Decoded messages are well typed: whatever buffer arrives, a message that a decoder returns has
  fixed-size fields of exactly their size and satisfies every check of the encoder of its type, so
  that it could have been sent.
\<close>

theorem decoded_messages_typed:
  "(\<forall>m. decodeClientHello fb b = Some (Inr m) \<longrightarrow> ch_sized m \<and> is_ok (encodeClientHello fb m)) \<and>
   (\<forall>m. decodeServerHello fb b = Some (Inr m) \<longrightarrow> sh_sized m \<and> is_ok (encodeServerHello fb m)) \<and>
   (\<forall>m. decodeClientFinished fb b = Some (Inr m) \<longrightarrow> cf_sized m \<and> is_ok (encodeClientFinished fb m)) \<and>
   (\<forall>m. decodeAuthorize fb b = Some (Inr m) \<longrightarrow> is_ok (encodeAuthorize fb m)) \<and>
   (\<forall>m. decodeAuthResult fb b = Some (Inr m) \<longrightarrow> ar_sized m \<and> is_ok (encodeAuthResult fb m)) \<and>
   (\<forall>m. decodeHeartbeat fb b = Some (Inr m) \<longrightarrow> hb_sized m \<and> is_ok (encodeHeartbeat fb m)) \<and>
   (\<forall>m. decodeHeartbeatAck fb b = Some (Inr m) \<longrightarrow> is_ok (encodeHeartbeatAck fb m)) \<and>
   (\<forall>m. decodeCloseSession fb b = Some (Inr m) \<longrightarrow> is_ok (encodeCloseSession fb m)) \<and>
   (\<forall>m. decodeError fb b = Some (Inr m) \<longrightarrow> is_ok (encodeError fb m))"
  using client_hello.decode_sound server_hello.decode_sound client_finished.decode_sound
    authorize.decode_sound auth_result.decode_sound heartbeat.decode_sound
    heartbeat_ack.decode_sound close_session.decode_sound error_message.decode_sound
  by simp

text \<open>
  No type confusion: a buffer is accepted by at most one of the nine decoders, whatever
  its contents.
\<close>

lemma at_most_one_type: "length (accepted_types fb b) \<le> 1"
proof (cases "checkedEnvelope fb b")
  case None
  then show ?thesis by (simp add: accepted_types_def decode_defs)
next
  case (Some env)
  then show ?thesis
    by (cases "env_body env")
       (simp_all add: accepted_types_def decode_defs validApplicationEnvelope_def)
qed

lemma envelope_eta:
  "env_protocol_version env = 0 \<Longrightarrow> env_body env = B \<Longrightarrow>
     env = \<lparr>env_protocol_version = 0, env_request_id = env_request_id env, env_body = B\<rparr>"
  by (cases env) simp

lemma decodeClientHello_None_iff:
  "decodeClientHello fb b = None \<longleftrightarrow>
     (\<exists>rid. rid \<noteq> 0 \<and> checkedEnvelope fb b =
        Some \<lparr>env_protocol_version = 0, env_request_id = rid, env_body = Message_ClientHello None\<rparr>)"
  by (auto simp: decodeClientHello_def Let_def intro: envelope_eta
      split: option.splits Message.splits if_splits)

lemma decodeServerHello_None_iff:
  "decodeServerHello fb b = None \<longleftrightarrow>
     (\<exists>rid. rid \<noteq> 0 \<and> checkedEnvelope fb b =
        Some \<lparr>env_protocol_version = 0, env_request_id = rid, env_body = Message_ServerHello None\<rparr>)"
  by (auto simp: decodeServerHello_def Let_def intro: envelope_eta
      split: option.splits Message.splits if_splits)

text \<open>
  A decoder follows a null pointer exactly when a verified envelope announces the decoder's
  message type, has an admissible version and request id, and carries no union value: for the
  client hello, the first message a service reads from an unauthenticated peer, and for the server
  hello, which the client reads before it has verified any signature.
\<close>

lemma hello_decoders_fault_iff:
  "(decodeClientHello fb b = None \<longleftrightarrow>
      (\<exists>rid. rid \<noteq> 0 \<and> checkedEnvelope fb b =
         Some \<lparr>env_protocol_version = 0, env_request_id = rid, env_body = Message_ClientHello None\<rparr>)) \<and>
   (decodeServerHello fb b = None \<longleftrightarrow>
      (\<exists>rid. rid \<noteq> 0 \<and> checkedEnvelope fb b =
         Some \<lparr>env_protocol_version = 0, env_request_id = rid, env_body = Message_ServerHello None\<rparr>))"
  by (intro conjI decodeClientHello_None_iff decodeServerHello_None_iff)

end
