(* ===== verification/Handshake.thy ===== *)
theory Handshake
  imports RecordLayer Messages
begin

text \<open>
  The two sides of the handshake, \<^verbatim>\<open>src/src/ya_license_protocol/src/handshake.cpp\<close>.  The
  objects' fields are records, each method a function from the object (and the state of the
  entropy source where it draws) to its result and the object afterwards.  A handler that decodes
  a message inherits the decoder's undefined behaviour: its result is \<open>None\<close> there.

  An \<^verbatim>\<open>unordered_map\<close> of trusted keys is an association list, read with \<open>map_of\<close>.
\<close>

section \<open>Data\<close>

datatype HandshakeError =
    HandshakeError_None
  | HandshakeError_InvalidState
  | HandshakeError_InvalidMessage
  | HandshakeError_UnsupportedVersion
  | HandshakeError_UnknownServiceKey
  | HandshakeError_InvalidServiceSignature
  | HandshakeError_KeyExchangeFailed
  | HandshakeError_InvalidFinished
  | HandshakeError_InternalError

type_synonym 'a HandshakeResult = "HandshakeError + 'a"

datatype HandshakeState =
    HandshakeState_Initial
  | HandshakeState_HelloSent
  | HandshakeState_AwaitingFinished
  | HandshakeState_Established
  | HandshakeState_Failed

record ClientHandshake =
  cl_trusted_keys :: "(string \<times> bytes) list"
  cl_sdk_version :: string
  cl_request_id :: u64
  cl_min_version :: u16
  cl_max_version :: u16
  cl_selected_version :: u16
  cl_nonce :: bytes
  cl_ephemeral :: KeyPair
  cl_writer :: "RecordWriter option"
  cl_reader :: "RecordReader option"
  cl_state :: HandshakeState

record ServerHandshake =
  sv_service_key_id :: string
  sv_identity_private_key :: bytes
  sv_min_version :: u16
  sv_max_version :: u16
  sv_selected_version :: u16
  sv_request_id :: u64
  sv_transcript_hash :: bytes
  sv_writer :: "RecordWriter option"
  sv_reader :: "RecordReader option"
  sv_state :: HandshakeState

section \<open>Helpers\<close>

definition recordKey :: "DirectionalKey \<Rightarrow> RecordKey" where
  "recordKey key = \<lparr>rk_key = dk_key key, rk_nonce_salt = dk_nonce_salt key\<rparr>"

definition transcriptFor :: "ClientHelloMessage \<Rightarrow> ServerHelloMessage \<Rightarrow> HandshakeTranscript" where
  "transcriptFor client server =
     \<lparr>ht_min_version = chm_min_version client, ht_max_version = chm_max_version client,
      ht_selected_version = shm_selected_version server,
      ht_client_nonce = chm_nonce client, ht_server_nonce = shm_nonce server,
      ht_client_public_key = chm_public_key client, ht_server_public_key = shm_public_key server,
      ht_service_key_id = shm_service_key_id server\<rparr>"

abbreviation zero_key :: bytes where "zero_key \<equiv> replicate 32 0"

text \<open>
  \<^verbatim>\<open>shared ? deriveSessionKeys(...) : DerivationFailed\<close>
\<close>

definition sessionKeysFrom ::
  "('h, 'w) openssl \<Rightarrow> bytes CryptoResult \<Rightarrow> bytes \<Rightarrow> SessionKeys CryptoResult" where
  "sessionKeysFrom ossl shared transcript_hash =
     (case shared of
        Inr s \<Rightarrow> deriveSessionKeys ossl s transcript_hash
      | Inl _ \<Rightarrow> Inl CryptoError_DerivationFailed)"

section \<open>The client side\<close>

definition ClientHandshake_new ::
  "(string \<times> bytes) list \<Rightarrow> string \<Rightarrow> u64 \<Rightarrow> u16 \<Rightarrow> u16 \<Rightarrow> ClientHandshake" where
  "ClientHandshake_new trusted_keys sdk_version request_id min_version max_version =
     \<lparr>cl_trusted_keys = trusted_keys, cl_sdk_version = sdk_version, cl_request_id = request_id,
      cl_min_version = min_version, cl_max_version = max_version, cl_selected_version = 0,
      cl_nonce = zero_key, cl_ephemeral = \<lparr>private_key = zero_key, public_key = zero_key\<rparr>,
      cl_writer = None, cl_reader = None, cl_state = HandshakeState_Initial\<rparr>"

definition cleanse_ephemeral :: "ClientHandshake \<Rightarrow> ClientHandshake" where
  "cleanse_ephemeral cl =
     cl\<lparr>cl_ephemeral := (cl_ephemeral cl)\<lparr>private_key := cleanse (private_key (cl_ephemeral cl))\<rparr>\<rparr>"

definition ClientHandshake_fail :: "ClientHandshake \<Rightarrow> ClientHandshake" where
  "ClientHandshake_fail cl =
     (cleanse_ephemeral cl)\<lparr>cl_writer := None, cl_reader := None, cl_state := HandshakeState_Failed\<rparr>"

definition clientHello :: "ClientHandshake \<Rightarrow> ClientHelloMessage" where
  "clientHello cl =
     \<lparr>chm_request_id = cl_request_id cl, chm_min_version = cl_min_version cl,
      chm_max_version = cl_max_version cl, chm_nonce = cl_nonce cl,
      chm_public_key = public_key (cl_ephemeral cl), chm_sdk_version = cl_sdk_version cl\<rparr>"

definition ClientHandshake_start ::
  "('h, 'w) openssl \<Rightarrow> flatbuffers \<Rightarrow> ClientHandshake \<Rightarrow> 'w \<Rightarrow>
     bytes HandshakeResult \<times> ClientHandshake \<times> 'w" where
  "ClientHandshake_start ossl fb cl w =
     (if cl_state cl \<noteq> HandshakeState_Initial \<or> cl_request_id cl = 0
         \<or> cl_min_version cl = 0 \<or> cl_min_version cl > cl_max_version cl
      then (Inl HandshakeError_InvalidState, ClientHandshake_fail cl, w)
      else case randomBytes ossl (cl_nonce cl) w of
        (Inl _, w) \<Rightarrow> (Inl HandshakeError_InternalError, ClientHandshake_fail cl, w)
      | (Inr nonce, w) \<Rightarrow>
          let cl = cl\<lparr>cl_nonce := nonce\<rparr>
          in case generateX25519KeyPair ossl w of
               (Inl _, w) \<Rightarrow> (Inl HandshakeError_KeyExchangeFailed, ClientHandshake_fail cl, w)
             | (Inr key_pair, w) \<Rightarrow>
                 let cl = cl\<lparr>cl_ephemeral := key_pair\<rparr>
                 in case encodeClientHello fb (clientHello cl) of
                      Inl _ \<Rightarrow> (Inl HandshakeError_InvalidMessage, ClientHandshake_fail cl, w)
                    | Inr encoded \<Rightarrow> (Inr encoded, cl\<lparr>cl_state := HandshakeState_HelloSent\<rparr>, w))"

text \<open>
  The second half of \<^verbatim>\<open>handleServerHello\<close>, once the service's signature is verified: derive the
  keys, erase the ephemeral key, seal the finished message.
\<close>

definition ClientHandshake_complete ::
  "('h, 'w) openssl \<Rightarrow> flatbuffers \<Rightarrow> ServerHelloMessage \<Rightarrow> bytes \<Rightarrow> ClientHandshake \<Rightarrow>
     bytes HandshakeResult \<times> ClientHandshake" where
  "ClientHandshake_complete ossl fb server transcript_hash cl =
     (case sessionKeysFrom ossl
             (deriveX25519 ossl (private_key (cl_ephemeral cl)) (shm_public_key server))
             transcript_hash of
        Inl _ \<Rightarrow> (Inl HandshakeError_KeyExchangeFailed, ClientHandshake_fail cl)
      | Inr keys \<Rightarrow>
          let writer = RecordWriter_new (recordKey (client_to_service keys));
              reader = RecordReader_new (recordKey (service_to_client keys));
              cl = (cleanse_ephemeral cl)\<lparr>cl_writer := Some writer, cl_reader := Some reader,
                     cl_selected_version := shm_selected_version server\<rparr>
          in case encodeClientFinished fb
                    \<lparr>cfm_request_id = cl_request_id cl,
                     cfm_protocol_version = cl_selected_version cl,
                     cfm_transcript_hash = transcript_hash\<rparr> of
               Inl _ \<Rightarrow> (Inl HandshakeError_InvalidMessage, ClientHandshake_fail cl)
             | Inr finished \<Rightarrow>
                 (case RecordWriter_seal ossl finished writer of
                    (Inl _, writer) \<Rightarrow> (Inl HandshakeError_InternalError, ClientHandshake_fail cl)
                  | (Inr encrypted, writer) \<Rightarrow>
                      (Inr encrypted, cl\<lparr>cl_writer := Some writer,
                                         cl_state := HandshakeState_Established\<rparr>)))"

definition ClientHandshake_handleServerHello ::
  "('h, 'w) openssl \<Rightarrow> flatbuffers \<Rightarrow> bytes \<Rightarrow> ClientHandshake \<Rightarrow>
     (bytes HandshakeResult \<times> ClientHandshake) option" where
  "ClientHandshake_handleServerHello ossl fb message cl =
     (if cl_state cl \<noteq> HandshakeState_HelloSent
      then Some (Inl HandshakeError_InvalidState, ClientHandshake_fail cl)
      else case decodeServerHello fb message of
        None \<Rightarrow> None
      | Some (Inl _) \<Rightarrow> Some (Inl HandshakeError_InvalidMessage, ClientHandshake_fail cl)
      | Some (Inr server) \<Rightarrow>
          if shm_request_id server \<noteq> cl_request_id cl
          then Some (Inl HandshakeError_InvalidMessage, ClientHandshake_fail cl)
          else if shm_selected_version server < cl_min_version cl
                  \<or> shm_selected_version server > cl_max_version cl
          then Some (Inl HandshakeError_UnsupportedVersion, ClientHandshake_fail cl)
          else case map_of (cl_trusted_keys cl) (shm_service_key_id server) of
            None \<Rightarrow> Some (Inl HandshakeError_UnknownServiceKey, ClientHandshake_fail cl)
          | Some trusted_key \<Rightarrow>
              let transcript = transcriptFor (clientHello cl) server
              in case (encodeTranscript transcript, hashTranscript ossl transcript) of
                (Inr encoded_transcript, Inr transcript_hash) \<Rightarrow>
                  if verifyEd25519 ossl trusted_key encoded_transcript (shm_signature server)
                       \<noteq> CryptoError_None
                  then Some (Inl HandshakeError_InvalidServiceSignature, ClientHandshake_fail cl)
                  else Some (ClientHandshake_complete ossl fb server transcript_hash cl)
              | _ \<Rightarrow> Some (Inl HandshakeError_InvalidServiceSignature, ClientHandshake_fail cl))"

definition ClientHandshake_seal ::
  "('h, 'w) openssl \<Rightarrow> bytes \<Rightarrow> ClientHandshake \<Rightarrow> RecordResult \<times> ClientHandshake" where
  "ClientHandshake_seal ossl plaintext cl =
     (case (cl_state cl, cl_writer cl) of
        (HandshakeState_Established, Some writer) \<Rightarrow>
          (case RecordWriter_seal ossl plaintext writer of
             (res, writer) \<Rightarrow> (res, cl\<lparr>cl_writer := Some writer\<rparr>))
      | _ \<Rightarrow> (Inl RecordError_InvalidFrame, cl))"

definition ClientHandshake_open ::
  "('h, 'w) openssl \<Rightarrow> bytes \<Rightarrow> ClientHandshake \<Rightarrow> RecordResult \<times> ClientHandshake" where
  "ClientHandshake_open ossl frame cl =
     (case (cl_state cl, cl_reader cl) of
        (HandshakeState_Established, Some reader) \<Rightarrow>
          (case RecordReader_open ossl frame reader of
             (res, reader) \<Rightarrow> (res, cl\<lparr>cl_reader := Some reader\<rparr>))
      | _ \<Rightarrow> (Inl RecordError_InvalidFrame, cl))"

section \<open>The service side\<close>

definition ServerHandshake_new :: "string \<Rightarrow> bytes \<Rightarrow> u16 \<Rightarrow> u16 \<Rightarrow> ServerHandshake" where
  "ServerHandshake_new service_key_id identity_private_key min_version max_version =
     \<lparr>sv_service_key_id = service_key_id, sv_identity_private_key = identity_private_key,
      sv_min_version = min_version, sv_max_version = max_version, sv_selected_version = 0,
      sv_request_id = 0, sv_transcript_hash = zero_key, sv_writer = None, sv_reader = None,
      sv_state = HandshakeState_Initial\<rparr>"

definition cleanse_identity :: "ServerHandshake \<Rightarrow> ServerHandshake" where
  "cleanse_identity sv = sv\<lparr>sv_identity_private_key := cleanse (sv_identity_private_key sv)\<rparr>"

definition ServerHandshake_fail :: "ServerHandshake \<Rightarrow> ServerHandshake" where
  "ServerHandshake_fail sv =
     (cleanse_identity sv)\<lparr>sv_writer := None, sv_reader := None, sv_state := HandshakeState_Failed\<rparr>"

text \<open>
  The second half of \<^verbatim>\<open>handleClientHello\<close>, once the version is chosen and the ephemeral key
  and the nonce are drawn: sign the transcript, derive the keys, build the answer.
\<close>

definition ServerHandshake_answer ::
  "('h, 'w) openssl \<Rightarrow> flatbuffers \<Rightarrow> ClientHelloMessage \<Rightarrow> u16 \<Rightarrow> KeyPair \<Rightarrow> bytes \<Rightarrow>
     ServerHandshake \<Rightarrow> bytes HandshakeResult \<times> ServerHandshake" where
  "ServerHandshake_answer ossl fb client highest ephemeral nonce sv =
     (let server = \<lparr>shm_request_id = chm_request_id client, shm_selected_version = highest,
            shm_nonce = nonce, shm_public_key = public_key ephemeral,
            shm_service_key_id = sv_service_key_id sv,
            shm_signature = replicate kSignatureSize 0\<rparr>;
          transcript = transcriptFor client server
      in case (encodeTranscript transcript, hashTranscript ossl transcript) of
        (Inr encoded_transcript, Inr transcript_hash) \<Rightarrow>
          (case signEd25519 ossl (sv_identity_private_key sv) encoded_transcript of
             Inl _ \<Rightarrow> (Inl HandshakeError_InternalError, ServerHandshake_fail sv)
           | Inr signature \<Rightarrow>
               let server = server\<lparr>shm_signature := signature\<rparr>;
                   sv = cleanse_identity sv
               in case (encodeServerHello fb server,
                        sessionKeysFrom ossl
                          (deriveX25519 ossl (private_key ephemeral) (chm_public_key client))
                          transcript_hash) of
                 (Inr encoded_server, Inr keys) \<Rightarrow>
                   (Inr encoded_server,
                    sv\<lparr>sv_request_id := chm_request_id client,
                       sv_selected_version := highest,
                       sv_transcript_hash := transcript_hash,
                       sv_reader := Some (RecordReader_new (recordKey (client_to_service keys))),
                       sv_writer := Some (RecordWriter_new (recordKey (service_to_client keys))),
                       sv_state := HandshakeState_AwaitingFinished\<rparr>)
               | _ \<Rightarrow> (Inl HandshakeError_KeyExchangeFailed, ServerHandshake_fail sv))
      | _ \<Rightarrow> (Inl HandshakeError_InvalidMessage, ServerHandshake_fail sv))"

definition ServerHandshake_handleClientHello ::
  "('h, 'w) openssl \<Rightarrow> flatbuffers \<Rightarrow> bytes \<Rightarrow> ServerHandshake \<Rightarrow> 'w \<Rightarrow>
     (bytes HandshakeResult \<times> ServerHandshake \<times> 'w) option" where
  "ServerHandshake_handleClientHello ossl fb message sv w =
     (if sv_state sv \<noteq> HandshakeState_Initial
      then Some (Inl HandshakeError_InvalidState, ServerHandshake_fail sv, w)
      else case decodeClientHello fb message of
        None \<Rightarrow> None
      | Some (Inl _) \<Rightarrow> Some (Inl HandshakeError_InvalidMessage, ServerHandshake_fail sv, w)
      | Some (Inr client) \<Rightarrow>
          let lowest = max (sv_min_version sv) (chm_min_version client);
              highest = min (sv_max_version sv) (chm_max_version client)
          in if lowest > highest
             then Some (Inl HandshakeError_UnsupportedVersion, ServerHandshake_fail sv, w)
             else case generateX25519KeyPair ossl w of
               (Inl _, w1) \<Rightarrow> Some (Inl HandshakeError_InternalError, ServerHandshake_fail sv, w1)
             | (Inr ephemeral, w1) \<Rightarrow>
                 (case randomBytes ossl zero_key w1 of
                    (Inl _, w2) \<Rightarrow> Some (Inl HandshakeError_InternalError, ServerHandshake_fail sv, w2)
                  | (Inr nonce, w2) \<Rightarrow>
                      (case ServerHandshake_answer ossl fb client highest ephemeral nonce sv of
                         (res, sv') \<Rightarrow> Some (res, sv', w2))))"

definition ServerHandshake_handleClientFinished ::
  "('h, 'w) openssl \<Rightarrow> flatbuffers \<Rightarrow> bytes \<Rightarrow> ServerHandshake \<Rightarrow>
     (HandshakeError \<times> ServerHandshake) option" where
  "ServerHandshake_handleClientFinished ossl fb encrypted_frame sv =
     (case (sv_state sv, sv_reader sv) of
        (HandshakeState_AwaitingFinished, Some reader) \<Rightarrow>
          (case RecordReader_open ossl encrypted_frame reader of
             (Inl _, reader) \<Rightarrow>
               Some (HandshakeError_InvalidFinished, ServerHandshake_fail (sv\<lparr>sv_reader := Some reader\<rparr>))
           | (Inr plaintext, reader) \<Rightarrow>
               let sv = sv\<lparr>sv_reader := Some reader\<rparr>
               in case decodeClientFinished fb plaintext of
                    None \<Rightarrow> None
                  | Some (Inl _) \<Rightarrow> Some (HandshakeError_InvalidFinished, ServerHandshake_fail sv)
                  | Some (Inr finished) \<Rightarrow>
                      if cfm_request_id finished \<noteq> sv_request_id sv
                         \<or> cfm_protocol_version finished \<noteq> sv_selected_version sv
                         \<or> cfm_transcript_hash finished \<noteq> sv_transcript_hash sv
                      then Some (HandshakeError_InvalidFinished, ServerHandshake_fail sv)
                      else Some (HandshakeError_None, sv\<lparr>sv_state := HandshakeState_Established\<rparr>))
      | _ \<Rightarrow> Some (HandshakeError_InvalidState, ServerHandshake_fail sv))"

definition ServerHandshake_seal ::
  "('h, 'w) openssl \<Rightarrow> bytes \<Rightarrow> ServerHandshake \<Rightarrow> RecordResult \<times> ServerHandshake" where
  "ServerHandshake_seal ossl plaintext sv =
     (case (sv_state sv, sv_writer sv) of
        (HandshakeState_Established, Some writer) \<Rightarrow>
          (case RecordWriter_seal ossl plaintext writer of
             (res, writer) \<Rightarrow> (res, sv\<lparr>sv_writer := Some writer\<rparr>))
      | _ \<Rightarrow> (Inl RecordError_InvalidFrame, sv))"

definition ServerHandshake_open ::
  "('h, 'w) openssl \<Rightarrow> bytes \<Rightarrow> ServerHandshake \<Rightarrow> RecordResult \<times> ServerHandshake" where
  "ServerHandshake_open ossl frame sv =
     (case (sv_state sv, sv_reader sv) of
        (HandshakeState_Established, Some reader) \<Rightarrow>
          (case RecordReader_open ossl frame reader of
             (res, reader) \<Rightarrow> (res, sv\<lparr>sv_reader := Some reader\<rparr>))
      | _ \<Rightarrow> (Inl RecordError_InvalidFrame, sv))"

section \<open>Inversion of the handlers\<close>

lemma transcriptFor_signature [simp]:
  "transcriptFor client (server\<lparr>shm_signature := s\<rparr>) = transcriptFor client server"
  by (simp add: transcriptFor_def)

lemma answer_ok:
  assumes "ServerHandshake_answer ossl fb client v ephemeral nonce sv = (Inr out, sv')"
  obtains encoded hash signature keys server where
    "server = \<lparr>shm_request_id = chm_request_id client, shm_selected_version = v, shm_nonce = nonce,
       shm_public_key = public_key ephemeral, shm_service_key_id = sv_service_key_id sv,
       shm_signature = signature\<rparr>"
    "encodeTranscript (transcriptFor client server) = Inr encoded"
    "hashTranscript ossl (transcriptFor client server) = Inr hash"
    "signEd25519 ossl (sv_identity_private_key sv) encoded = Inr signature"
    "encodeServerHello fb server = Inr out"
    "sessionKeysFrom ossl (deriveX25519 ossl (private_key ephemeral) (chm_public_key client)) hash = Inr keys"
    "sv' = (cleanse_identity sv)\<lparr>sv_request_id := chm_request_id client,
       sv_selected_version := v, sv_transcript_hash := hash,
       sv_reader := Some (RecordReader_new (recordKey (client_to_service keys))),
       sv_writer := Some (RecordWriter_new (recordKey (service_to_client keys))),
       sv_state := HandshakeState_AwaitingFinished\<rparr>"
proof -
  define s0 where "s0 = \<lparr>shm_request_id = chm_request_id client, shm_selected_version = v,
    shm_nonce = nonce, shm_public_key = public_key ephemeral,
    shm_service_key_id = sv_service_key_id sv, shm_signature = replicate kSignatureSize 0\<rparr>"
  obtain encoded hash signature keys where
    ok: "encodeTranscript (transcriptFor client s0) = Inr encoded"
    "hashTranscript ossl (transcriptFor client s0) = Inr hash"
    "signEd25519 ossl (sv_identity_private_key sv) encoded = Inr signature"
    "encodeServerHello fb (s0\<lparr>shm_signature := signature\<rparr>) = Inr out"
    "sessionKeysFrom ossl (deriveX25519 ossl (private_key ephemeral) (chm_public_key client)) hash = Inr keys"
    and sv': "sv' = (cleanse_identity sv)\<lparr>sv_request_id := chm_request_id client,
       sv_selected_version := v, sv_transcript_hash := hash,
       sv_reader := Some (RecordReader_new (recordKey (client_to_service keys))),
       sv_writer := Some (RecordWriter_new (recordKey (service_to_client keys))),
       sv_state := HandshakeState_AwaitingFinished\<rparr>"
    using assms unfolding ServerHandshake_answer_def Let_def s0_def [symmetric]
    by (auto split: sum.splits)
  have server: "s0\<lparr>shm_signature := signature\<rparr> = \<lparr>shm_request_id = chm_request_id client,
      shm_selected_version = v, shm_nonce = nonce, shm_public_key = public_key ephemeral,
      shm_service_key_id = sv_service_key_id sv, shm_signature = signature\<rparr>"
    by (simp add: s0_def)
  from ok(1,2) show thesis
    by (intro that [OF server _ _ ok(3-5) sv']) simp_all
qed

lemma answer_error:
  "ServerHandshake_answer ossl fb client v ephemeral nonce sv = (Inl e, sv') \<Longrightarrow>
     sv' = ServerHandshake_fail sv"
  by (auto simp: ServerHandshake_answer_def Let_def ServerHandshake_fail_def cleanse_identity_def
      split: sum.splits)

lemma handleClientHello_ok:
  assumes "ServerHandshake_handleClientHello ossl fb message sv w = Some (Inr out, sv', w')"
  obtains client ephemeral w1 nonce where
    "sv_state sv = HandshakeState_Initial"
    "decodeClientHello fb message = Some (Inr client)"
    "max (sv_min_version sv) (chm_min_version client) \<le> min (sv_max_version sv) (chm_max_version client)"
    "generateX25519KeyPair ossl w = (Inr ephemeral, w1)"
    "randomBytes ossl zero_key w1 = (Inr nonce, w')"
    "ServerHandshake_answer ossl fb client (min (sv_max_version sv) (chm_max_version client))
       ephemeral nonce sv = (Inr out, sv')"
proof -
  have st: "sv_state sv = HandshakeState_Initial"
    using assms by (auto simp: ServerHandshake_handleClientHello_def split: if_splits)
  then obtain client where d: "decodeClientHello fb message = Some (Inr client)"
    using assms unfolding ServerHandshake_handleClientHello_def
    by (auto split: option.splits sum.splits)
  let ?lo = "max (sv_min_version sv) (chm_min_version client)"
  let ?hi = "min (sv_max_version sv) (chm_max_version client)"
  have v: "\<not> ?lo > ?hi"
    using assms st d by (auto simp: ServerHandshake_handleClientHello_def Let_def)
  obtain r w1 where g: "generateX25519KeyPair ossl w = (r, w1)" by fastforce
  obtain q w2 where n: "randomBytes ossl zero_key w1 = (q, w2)" by fastforce
  from assms st d v g n show thesis
    unfolding ServerHandshake_handleClientHello_def Let_def
    by (auto simp: not_less split: sum.splits prod.splits intro: that)
qed

lemma handleClientHello_error:
  assumes "ServerHandshake_handleClientHello ossl fb message sv w = Some (Inl e, sv', w')"
  shows "sv' = ServerHandshake_fail sv"
  using assms unfolding ServerHandshake_handleClientHello_def Let_def
  by (auto split: if_splits option.splits sum.splits prod.splits dest: answer_error)

lemma complete_ok:
  assumes "ClientHandshake_complete ossl fb server hash cl = (Inr out, cl')"
  obtains keys finished writer where
    "sessionKeysFrom ossl (deriveX25519 ossl (private_key (cl_ephemeral cl)) (shm_public_key server)) hash
       = Inr keys"
    "encodeClientFinished fb \<lparr>cfm_request_id = cl_request_id cl,
       cfm_protocol_version = shm_selected_version server, cfm_transcript_hash = hash\<rparr> = Inr finished"
    "RecordWriter_seal ossl finished (RecordWriter_new (recordKey (client_to_service keys))) = (Inr out, writer)"
    "cl' = (cleanse_ephemeral cl)\<lparr>cl_writer := Some writer,
       cl_reader := Some (RecordReader_new (recordKey (service_to_client keys))),
       cl_selected_version := shm_selected_version server, cl_state := HandshakeState_Established\<rparr>"
  using assms unfolding ClientHandshake_complete_def Let_def cleanse_ephemeral_def
  by (auto split: sum.splits prod.splits intro: that)

lemma complete_error:
  assumes "ClientHandshake_complete ossl fb server hash cl = (Inl e, cl')"
  shows "\<exists>c. cl' = ClientHandshake_fail c"
  using assms unfolding ClientHandshake_complete_def Let_def
  by (auto split: sum.splits prod.splits)

lemma handleServerHello_ok:
  assumes "ClientHandshake_handleServerHello ossl fb message cl = Some (Inr out, cl')"
  obtains server trusted_key encoded hash where
    "cl_state cl = HandshakeState_HelloSent"
    "decodeServerHello fb message = Some (Inr server)"
    "shm_request_id server = cl_request_id cl"
    "cl_min_version cl \<le> shm_selected_version server" "shm_selected_version server \<le> cl_max_version cl"
    "map_of (cl_trusted_keys cl) (shm_service_key_id server) = Some trusted_key"
    "encodeTranscript (transcriptFor (clientHello cl) server) = Inr encoded"
    "hashTranscript ossl (transcriptFor (clientHello cl) server) = Inr hash"
    "verifyEd25519 ossl trusted_key encoded (shm_signature server) = CryptoError_None"
    "ClientHandshake_complete ossl fb server hash cl = (Inr out, cl')"
  using assms unfolding ClientHandshake_handleServerHello_def Let_def
  by (auto split: if_splits option.splits sum.splits simp: not_less intro: that)

lemma handleServerHello_error:
  assumes "ClientHandshake_handleServerHello ossl fb message cl = Some (Inl e, cl')"
  shows "\<exists>c. cl' = ClientHandshake_fail c"
  using assms unfolding ClientHandshake_handleServerHello_def Let_def
  by (auto split: if_splits option.splits sum.splits dest: complete_error)

text \<open>What a failed handshake leaves behind.\<close>

definition client_erased :: "ClientHandshake \<Rightarrow> bool" where
  "client_erased cl \<longleftrightarrow> cl_state cl = HandshakeState_Failed \<and> cl_writer cl = None \<and>
     cl_reader cl = None \<and> set (private_key (cl_ephemeral cl)) \<subseteq> {0}"

definition server_erased :: "ServerHandshake \<Rightarrow> bool" where
  "server_erased sv \<longleftrightarrow> sv_state sv = HandshakeState_Failed \<and> sv_writer sv = None \<and>
     sv_reader sv = None \<and> set (sv_identity_private_key sv) \<subseteq> {0}"

lemma client_fail_erased [simp]: "client_erased (ClientHandshake_fail cl)"
  using set_cleanse by (auto simp: client_erased_def ClientHandshake_fail_def cleanse_ephemeral_def)

lemma server_fail_erased [simp]: "server_erased (ServerHandshake_fail sv)"
  using set_cleanse by (auto simp: server_erased_def ServerHandshake_fail_def cleanse_identity_def)


section \<open>Agreement\<close>

text \<open>The two handshakes hold the two ends of both directions' channels.\<close>

definition channels_agree :: "('h, 'w) openssl \<Rightarrow> ClientHandshake \<Rightarrow> ServerHandshake \<Rightarrow> bool" where
  "channels_agree ossl cl sv \<longleftrightarrow>
     (\<exists>cw sr sw cr. cl_writer cl = Some cw \<and> sv_reader sv = Some sr \<and>
        sv_writer sv = Some sw \<and> cl_reader cl = Some cr \<and>
        records_insync ossl cw sr \<and> records_insync ossl sw cr)"

definition established_together ::
  "('h, 'w) openssl \<Rightarrow> ClientHandshake \<Rightarrow> ServerHandshake \<Rightarrow> bool" where
  "established_together ossl cl sv \<longleftrightarrow>
     cl_state cl = HandshakeState_Established \<and> sv_state sv = HandshakeState_Established \<and>
     cl_selected_version cl = sv_selected_version sv \<and> cl_request_id cl = sv_request_id sv \<and>
     channels_agree ossl cl sv"

lemma start_ok:
  assumes "ClientHandshake_start ossl fb cl w = (Inr hello, cl', w')"
  obtains nonce key_pair w1 where
    "cl_state cl = HandshakeState_Initial" "cl_request_id cl \<noteq> 0" "cl_min_version cl \<noteq> 0"
    "randomBytes ossl (cl_nonce cl) w = (Inr nonce, w1)"
    "generateX25519KeyPair ossl w1 = (Inr key_pair, w')"
    "cl' = cl\<lparr>cl_nonce := nonce, cl_ephemeral := key_pair, cl_state := HandshakeState_HelloSent\<rparr>"
    "encodeClientHello fb (clientHello cl') = Inr hello"
  using assms unfolding ClientHandshake_start_def Let_def clientHello_def
  by (auto split: if_splits sum.splits prod.splits intro: that)

lemma start_error: "ClientHandshake_start ossl fb cl w = (Inl e, cl', w') \<Longrightarrow>
    \<exists>c. cl' = ClientHandshake_fail c"
  unfolding ClientHandshake_start_def Let_def
  by (auto split: if_splits sum.splits prod.splits)

lemma encode_hello_decodes:
  assumes "fb_codec fb" "ch_sized m" "encodeClientHello fb m = Inr b" "decodeClientHello fb b = Some (Inr m')"
  shows "m' = m"
proof -
  from assms(4) have "verifyEnvelope fb b kMaxEnvelopeSize 16 256 = EnvelopeError_None"
    by (auto simp: decodeClientHello_def checkedEnvelope_def split: if_splits)
  then have "fits fb b"
    using assms(1) by (auto simp: verifyEnvelope_def fits_def split: if_splits)
  with client_hello.decode_encode [OF assms(2,3)] assms(4) show ?thesis by simp
qed

text \<open>The service accepts the finished message of a client whose keys and hash are its own.\<close>

lemma finished_accepted:
  assumes laws: "aead_correct ossl" "fb_codec fb"
    and enc: "encodeClientFinished fb m = Inr finished" "cf_sized m"
    and seal: "RecordWriter_seal ossl finished (RecordWriter_new k) = (Inr frame, w')"
    and sv: "sv_state sv = HandshakeState_AwaitingFinished" "sv_reader sv = Some (RecordReader_new k)"
      "cfm_request_id m = sv_request_id sv" "cfm_protocol_version m = sv_selected_version sv"
      "cfm_transcript_hash m = sv_transcript_hash sv"
  shows "\<exists>r. ServerHandshake_handleClientFinished ossl fb frame sv =
           Some (HandshakeError_None, sv\<lparr>sv_reader := Some r, sv_state := HandshakeState_Established\<rparr>)
         \<and> records_insync ossl w' r"
proof -
  from open_sealed [OF records_insync_new [OF laws(1)] seal] obtain r where
    r: "RecordReader_open ossl frame (RecordReader_new k) = (Inr finished, r)"
       "records_insync ossl w' r" by blast
  have "length finished \<le> kMaxEnvelopeSize"
    using seal by (auto simp: RecordWriter_seal_def Let_def kDefaultMaxPayloadSize_def
        kMaxEnvelopeSize_def split: if_splits)
  with laws(2) have "fits fb finished" by (simp add: fits_def)
  with client_finished.decode_encode [OF enc(2,1)]
  have "decodeClientFinished fb finished = Some (Inr m)" .
  with r sv show ?thesis by (auto simp: ServerHandshake_handleClientFinished_def)
qed

text \<open>
  A client that completes with the keys and the transcript hash of a waiting service establishes
  the session together with it, unless the cipher itself fails.
\<close>

lemma complete_agrees:
  assumes laws: "aead_correct ossl" "fb_codec fb"
    and keys: "sessionKeysFrom ossl (deriveX25519 ossl (private_key (cl_ephemeral cl))
                 (shm_public_key server)) hash = Inr keys"
    and fields: "cl_request_id cl \<noteq> 0" "shm_selected_version server \<noteq> 0" "length hash = kSha256Size"
    and sv: "sv_state sv = HandshakeState_AwaitingFinished"
      "sv_reader sv = Some (RecordReader_new (recordKey (client_to_service keys)))"
      "sv_writer sv = Some (RecordWriter_new (recordKey (service_to_client keys)))"
      "sv_request_id sv = cl_request_id cl" "sv_selected_version sv = shm_selected_version server"
      "sv_transcript_hash sv = hash"
  shows "\<exists>res cl'. ClientHandshake_complete ossl fb server hash cl = (res, cl') \<and>
    (case res of
       Inl e \<Rightarrow> e = HandshakeError_InternalError
     | Inr frame \<Rightarrow> \<exists>sv'. ServerHandshake_handleClientFinished ossl fb frame sv
                          = Some (HandshakeError_None, sv') \<and> established_together ossl cl' sv')"
proof -
  let ?m = "\<lparr>cfm_request_id = cl_request_id cl, cfm_protocol_version = shm_selected_version server,
             cfm_transcript_hash = hash\<rparr>"
  let ?k = "recordKey (client_to_service keys)"
  obtain finished where f: "encodeClientFinished fb ?m = Inr finished"
    using fields by (simp add: encodeClientFinished_def)
  obtain r w' where seal: "RecordWriter_seal ossl finished (RecordWriter_new ?k) = (r, w')"
    by fastforce
  show ?thesis
  proof (cases r)
    case (Inl e)
    then show ?thesis using keys f seal
      by (simp add: ClientHandshake_complete_def Let_def cleanse_ephemeral_def)
  next
    case (Inr frame)
    have "cf_sized ?m" using fields(3) by (simp add: cf_sized_def)
    then obtain rd where "ServerHandshake_handleClientFinished ossl fb frame sv =
        Some (HandshakeError_None, sv\<lparr>sv_reader := Some rd, sv_state := HandshakeState_Established\<rparr>)"
      "records_insync ossl w' rd"
      using finished_accepted [OF laws f _ seal [unfolded Inr], of sv] sv by auto
    then show ?thesis
      using keys f seal Inr sv laws(1)
      by (simp add: ClientHandshake_complete_def Let_def cleanse_ephemeral_def
          established_together_def channels_agree_def records_insync_new)
  qed
qed

lemma handleServerHello_accepts:
  assumes "cl_state cl = HandshakeState_HelloSent"
    "decodeServerHello fb message = Some (Inr server)"
    "shm_request_id server = cl_request_id cl"
    "cl_min_version cl \<le> shm_selected_version server" "shm_selected_version server \<le> cl_max_version cl"
    "map_of (cl_trusted_keys cl) (shm_service_key_id server) = Some trusted_key"
    "encodeTranscript (transcriptFor (clientHello cl) server) = Inr encoded"
    "hashTranscript ossl (transcriptFor (clientHello cl) server) = Inr hash"
    "verifyEd25519 ossl trusted_key encoded (shm_signature server) = CryptoError_None"
  shows "ClientHandshake_handleServerHello ossl fb message cl =
           Some (ClientHandshake_complete ossl fb server hash cl)"
  using assms by (auto simp: ClientHandshake_handleServerHello_def)

lemma handshake_agrees:
  assumes laws: "aead_correct ossl" "x25519_symmetric ossl" "fb_codec fb"
    and start: "ClientHandshake_start ossl fb cl u = (Inr hello, cl1, u1)" "length (cl_nonce cl) = 32"
    and answer: "ServerHandshake_handleClientHello ossl fb hello sv v = Some (Inr reply, sv1, v1)"
    and size: "length reply \<le> kMaxEnvelopeSize"
    and trust: "map_of (cl_trusted_keys cl) (sv_service_key_id sv) = Some public"
      "ed25519_pair ossl (sv_identity_private_key sv) public"
  shows "\<exists>res cl2. ClientHandshake_handleServerHello ossl fb reply cl1 = Some (res, cl2) \<and>
    (case res of
       Inl e \<Rightarrow> e = HandshakeError_InternalError
     | Inr frame \<Rightarrow> \<exists>sv2. ServerHandshake_handleClientFinished ossl fb frame sv1
                          = Some (HandshakeError_None, sv2) \<and> established_together ossl cl2 sv2)"
proof -
  from start_ok [OF start(1)] obtain nonce kp w1 where
    c0: "cl_state cl = HandshakeState_Initial" "cl_request_id cl \<noteq> 0" "cl_min_version cl \<noteq> 0" and
    c1: "randomBytes ossl (cl_nonce cl) u = (Inr nonce, w1)" "generateX25519KeyPair ossl w1 = (Inr kp, u1)" and
    cl1: "cl1 = cl\<lparr>cl_nonce := nonce, cl_ephemeral := kp, cl_state := HandshakeState_HelloSent\<rparr>" and
    hello: "encodeClientHello fb (clientHello cl1) = Inr hello" .
  have sized: "ch_sized (clientHello cl1)"
    using randomBytes_length [OF c1(1)] generateX25519KeyPair_length [OF c1(2)] start(2)
    by (simp add: ch_sized_def clientHello_def cl1 kKeySize_def)
  from handleClientHello_ok [OF answer] obtain client eph v' snonce where
    d: "decodeClientHello fb hello = Some (Inr client)" and
    v: "max (sv_min_version sv) (chm_min_version client) \<le> min (sv_max_version sv) (chm_max_version client)" and
    s1: "generateX25519KeyPair ossl v = (Inr eph, v')" "randomBytes ossl zero_key v' = (Inr snonce, v1)" and
    ans: "ServerHandshake_answer ossl fb client (min (sv_max_version sv) (chm_max_version client))
            eph snonce sv = (Inr reply, sv1)" .
  from encode_hello_decodes [OF laws(3) sized hello d] have client: "client = clientHello cl1" .
  let ?v = "min (sv_max_version sv) (chm_max_version client)"
  from answer_ok [OF ans] obtain encoded hash signature keys server where
    server: "server = \<lparr>shm_request_id = chm_request_id client, shm_selected_version = ?v,
       shm_nonce = snonce, shm_public_key = public_key eph,
       shm_service_key_id = sv_service_key_id sv, shm_signature = signature\<rparr>" and
    t: "encodeTranscript (transcriptFor client server) = Inr encoded"
       "hashTranscript ossl (transcriptFor client server) = Inr hash" and
    sig: "signEd25519 ossl (sv_identity_private_key sv) encoded = Inr signature" and
    enc: "encodeServerHello fb server = Inr reply" and
    keys: "sessionKeysFrom ossl (deriveX25519 ossl (private_key eph) (chm_public_key client)) hash = Inr keys" and
    sv1: "sv1 = (cleanse_identity sv)\<lparr>sv_request_id := chm_request_id client,
       sv_selected_version := ?v, sv_transcript_hash := hash,
       sv_reader := Some (RecordReader_new (recordKey (client_to_service keys))),
       sv_writer := Some (RecordWriter_new (recordKey (service_to_client keys))),
       sv_state := HandshakeState_AwaitingFinished\<rparr>" .
  have "sh_sized server"
    using randomBytes_length [OF s1(2)] generateX25519KeyPair_length [OF s1(1)] signEd25519_length [OF sig]
    by (simp add: sh_sized_def server kKeySize_def)
  from server_hello.decode_encode [OF this enc] size laws(3)
  have dec: "decodeServerHello fb reply = Some (Inr server)" by (simp add: fits_def)
  have verified: "verifyEd25519 ossl public encoded signature = CryptoError_None"
    using trust(2) sig by (simp add: ed25519_pair_def)
  have "x25519_agrees ossl kp eph" using laws(2) c1(2) s1(1) by (auto simp: x25519_symmetric_def)
  then have keys': "sessionKeysFrom ossl
      (deriveX25519 ossl (private_key (cl_ephemeral cl1)) (shm_public_key server)) hash = Inr keys"
    using keys by (simp add: x25519_agrees_def server client cl1 clientHello_def)
  have low: "cl_min_version cl \<le> ?v" and high: "?v \<le> cl_max_version cl"
    using v by (simp_all add: client clientHello_def cl1)
  have step: "ClientHandshake_handleServerHello ossl fb reply cl1 =
      Some (ClientHandshake_complete ossl fb server hash cl1)"
    by (rule handleServerHello_accepts [OF _ dec _ _ _ _ t [unfolded client]])
       (use verified trust(1) low high in \<open>simp_all add: server client clientHello_def cl1\<close>)
  have "?v \<noteq> 0" using low c0(3) by (metis word_le_0_iff)
  with complete_agrees [OF laws(1,3) keys', of sv1] show ?thesis
    using c0 hashTranscript_length [OF t(2)] unfolding step
    by (simp add: sv1 server cl1 client clientHello_def)
qed


section \<open>Reachable states\<close>

text \<open>
  A client object after any sequence of calls, with any messages from outside and any entropy; and
  a service object likewise.
\<close>

inductive client_reachable :: "('h, 'w) openssl \<Rightarrow> flatbuffers \<Rightarrow> ClientHandshake \<Rightarrow> bool"
  for ossl :: "('h, 'w) openssl" and fb :: flatbuffers where
  client_new: "client_reachable ossl fb (ClientHandshake_new ks sdk rid mn mx)"
| client_start: "client_reachable ossl fb cl \<Longrightarrow> ClientHandshake_start ossl fb cl w = (res, cl', w') \<Longrightarrow>
    client_reachable ossl fb cl'"
| client_hello_answer: "client_reachable ossl fb cl \<Longrightarrow>
    ClientHandshake_handleServerHello ossl fb message cl = Some (res, cl') \<Longrightarrow> client_reachable ossl fb cl'"
| client_seal: "client_reachable ossl fb cl \<Longrightarrow> ClientHandshake_seal ossl p cl = (out, cl') \<Longrightarrow>
    client_reachable ossl fb cl'"
| client_open: "client_reachable ossl fb cl \<Longrightarrow> ClientHandshake_open ossl f cl = (out, cl') \<Longrightarrow>
    client_reachable ossl fb cl'"

inductive server_reachable :: "('h, 'w) openssl \<Rightarrow> flatbuffers \<Rightarrow> ServerHandshake \<Rightarrow> bool"
  for ossl :: "('h, 'w) openssl" and fb :: flatbuffers where
  server_new: "server_reachable ossl fb (ServerHandshake_new kid key mn mx)"
| server_hello_step: "server_reachable ossl fb sv \<Longrightarrow>
    ServerHandshake_handleClientHello ossl fb message sv w = Some (res, sv', w') \<Longrightarrow>
    server_reachable ossl fb sv'"
| server_finished: "server_reachable ossl fb sv \<Longrightarrow>
    ServerHandshake_handleClientFinished ossl fb frame sv = Some (e, sv') \<Longrightarrow> server_reachable ossl fb sv'"
| server_seal: "server_reachable ossl fb sv \<Longrightarrow> ServerHandshake_seal ossl p sv = (out, sv') \<Longrightarrow>
    server_reachable ossl fb sv'"
| server_open: "server_reachable ossl fb sv \<Longrightarrow> ServerHandshake_open ossl f sv = (out, sv') \<Longrightarrow>
    server_reachable ossl fb sv'"

text \<open>
  A trusted key has signed the transcript of this very client: its own hello, and the answer whose
  version it selected.
\<close>

definition client_authentic :: "('h, 'w) openssl \<Rightarrow> ClientHandshake \<Rightarrow> bool" where
  "client_authentic ossl cl \<longleftrightarrow>
     (\<exists>server trusted_key encoded.
        map_of (cl_trusted_keys cl) (shm_service_key_id server) = Some trusted_key \<and>
        encodeTranscript (transcriptFor (clientHello cl) server) = Inr encoded \<and>
        verifyEd25519 ossl trusted_key encoded (shm_signature server) = CryptoError_None \<and>
        cl_selected_version cl = shm_selected_version server \<and>
        cl_min_version cl \<le> cl_selected_version cl \<and> cl_selected_version cl \<le> cl_max_version cl)"

definition client_inv :: "('h, 'w) openssl \<Rightarrow> ClientHandshake \<Rightarrow> bool" where
  "client_inv ossl cl \<longleftrightarrow>
     (case cl_state cl of
        HandshakeState_Initial \<Rightarrow> cl_writer cl = None \<and> cl_reader cl = None \<and>
                                  set (private_key (cl_ephemeral cl)) \<subseteq> {0}
      | HandshakeState_HelloSent \<Rightarrow> cl_writer cl = None \<and> cl_reader cl = None
      | HandshakeState_AwaitingFinished \<Rightarrow> False
      | HandshakeState_Established \<Rightarrow> cl_writer cl \<noteq> None \<and> cl_reader cl \<noteq> None \<and>
                                      set (private_key (cl_ephemeral cl)) \<subseteq> {0} \<and>
                                      client_authentic ossl cl
      | HandshakeState_Failed \<Rightarrow> client_erased cl)"

definition server_inv :: "ServerHandshake \<Rightarrow> bool" where
  "server_inv sv \<longleftrightarrow>
     (case sv_state sv of
        HandshakeState_Initial \<Rightarrow> sv_writer sv = None \<and> sv_reader sv = None
      | HandshakeState_HelloSent \<Rightarrow> False
      | HandshakeState_Failed \<Rightarrow> server_erased sv
      | _ \<Rightarrow> sv_writer sv \<noteq> None \<and> sv_reader sv \<noteq> None \<and>
             set (sv_identity_private_key sv) \<subseteq> {0} \<and>
             sv_min_version sv \<le> sv_selected_version sv \<and> sv_selected_version sv \<le> sv_max_version sv)"

lemma client_inv_erased: "client_erased cl \<Longrightarrow> client_inv ossl cl"
  by (simp add: client_inv_def client_erased_def)

lemma server_inv_erased: "server_erased sv \<Longrightarrow> server_inv sv"
  by (simp add: server_inv_def server_erased_def)

lemma client_inv_fail [simp]: "client_inv ossl (ClientHandshake_fail cl)"
  by (simp add: client_inv_erased)

lemma server_inv_fail [simp]: "server_inv (ServerHandshake_fail sv)"
  by (simp add: server_inv_erased)

lemma start_inv:
  assumes inv: "client_inv ossl cl" and start: "ClientHandshake_start ossl fb cl w = (res, cl', w')"
  shows "client_inv ossl cl'"
proof (cases res)
  case (Inl e)
  with start start_error show ?thesis by fastforce
next
  case (Inr hello)
  obtain nonce key_pair where "cl_state cl = HandshakeState_Initial"
    "cl' = cl\<lparr>cl_nonce := nonce, cl_ephemeral := key_pair, cl_state := HandshakeState_HelloSent\<rparr>"
    by (rule start_ok [OF start [unfolded Inr]]) (rule that)
  with inv show ?thesis by (simp add: client_inv_def)
qed

lemma hello_answer_inv:
  assumes "ClientHandshake_handleServerHello ossl fb message cl = Some (res, cl')"
  shows "client_inv ossl cl'"
proof (cases res)
  case (Inl e)
  with assms handleServerHello_error show ?thesis by fastforce
next
  case (Inr out)
  obtain server key encoded hash where
    h: "map_of (cl_trusted_keys cl) (shm_service_key_id server) = Some key"
    "encodeTranscript (transcriptFor (clientHello cl) server) = Inr encoded"
    "verifyEd25519 ossl key encoded (shm_signature server) = CryptoError_None"
    "cl_min_version cl \<le> shm_selected_version server" "shm_selected_version server \<le> cl_max_version cl"
    and c: "ClientHandshake_complete ossl fb server hash cl = (Inr out, cl')"
    by (rule handleServerHello_ok [OF assms [unfolded Inr]]) (rule that)
  obtain keys :: SessionKeys and writer where
    cl': "cl' = (cleanse_ephemeral cl)\<lparr>cl_writer := Some writer,
       cl_reader := Some (RecordReader_new (recordKey (service_to_client keys))),
       cl_selected_version := shm_selected_version server, cl_state := HandshakeState_Established\<rparr>"
    by (rule complete_ok [OF c]) (rule that)
  have "clientHello cl' = clientHello cl" by (simp add: clientHello_def cl' cleanse_ephemeral_def)
  with h have "client_authentic ossl cl'"
    unfolding client_authentic_def
    by (intro exI [of _ server] exI [of _ key] exI [of _ encoded]) (simp add: cl' cleanse_ephemeral_def)
  then show ?thesis
    using set_cleanse by (simp add: client_inv_def cl' cleanse_ephemeral_def)
qed

lemma client_authentic_channels [simp]:
  "client_authentic ossl (cl\<lparr>cl_writer := w\<rparr>) = client_authentic ossl cl"
  "client_authentic ossl (cl\<lparr>cl_reader := r\<rparr>) = client_authentic ossl cl"
  by (simp_all add: client_authentic_def clientHello_def)

lemma client_records_inv:
  assumes "client_inv ossl cl"
  shows "ClientHandshake_seal ossl p cl = (out, cl') \<Longrightarrow> client_inv ossl cl'"
    and "ClientHandshake_open ossl p cl = (out, cl') \<Longrightarrow> client_inv ossl cl'"
  using assms
  by (auto simp: ClientHandshake_seal_def ClientHandshake_open_def client_inv_def
      split: HandshakeState.splits option.splits prod.splits)

lemma server_records_inv:
  assumes "server_inv sv"
  shows "ServerHandshake_seal ossl p sv = (out, sv') \<Longrightarrow> server_inv sv'"
    and "ServerHandshake_open ossl p sv = (out, sv') \<Longrightarrow> server_inv sv'"
  using assms
  by (auto simp: ServerHandshake_seal_def ServerHandshake_open_def server_inv_def
      split: HandshakeState.splits option.splits prod.splits)

lemma server_hello_inv:
  assumes "ServerHandshake_handleClientHello ossl fb message sv w = Some (res, sv', w')"
  shows "server_inv sv'"
proof (cases res)
  case (Inl e)
  with assms handleClientHello_error show ?thesis by fastforce
next
  case (Inr out)
  obtain client eph nonce where
    v: "max (sv_min_version sv) (chm_min_version client) \<le> min (sv_max_version sv) (chm_max_version client)"
    and a: "ServerHandshake_answer ossl fb client (min (sv_max_version sv) (chm_max_version client))
       eph nonce sv = (Inr out, sv')"
    by (rule handleClientHello_ok [OF assms [unfolded Inr]]) (rule that)
  from v have "sv_min_version sv \<le> min (sv_max_version sv) (chm_max_version client)"
    "min (sv_max_version sv) (chm_max_version client) \<le> sv_max_version sv" by simp_all
  moreover obtain keys :: SessionKeys and hash where
    "sv' = (cleanse_identity sv)\<lparr>sv_request_id := chm_request_id client,
       sv_selected_version := min (sv_max_version sv) (chm_max_version client),
       sv_transcript_hash := hash,
       sv_reader := Some (RecordReader_new (recordKey (client_to_service keys))),
       sv_writer := Some (RecordWriter_new (recordKey (service_to_client keys))),
       sv_state := HandshakeState_AwaitingFinished\<rparr>"
    by (rule answer_ok [OF a]) (rule that)
  ultimately show ?thesis
    using set_cleanse by (simp add: server_inv_def cleanse_identity_def)
qed

lemma handleClientFinished_cases:
  assumes "ServerHandshake_handleClientFinished ossl fb frame sv = Some (e, sv')"
  obtains (failed) c where "e \<noteq> HandshakeError_None" "sv' = ServerHandshake_fail c"
  | (accepted) reader reader' plaintext finished where
      "e = HandshakeError_None"
      "sv_state sv = HandshakeState_AwaitingFinished" "sv_reader sv = Some reader"
      "RecordReader_open ossl frame reader = (Inr plaintext, reader')"
      "decodeClientFinished fb plaintext = Some (Inr finished)"
      "cfm_request_id finished = sv_request_id sv"
      "cfm_protocol_version finished = sv_selected_version sv"
      "cfm_transcript_hash finished = sv_transcript_hash sv"
      "sv' = sv\<lparr>sv_reader := Some reader', sv_state := HandshakeState_Established\<rparr>"
proof (cases "sv_state sv = HandshakeState_AwaitingFinished \<and> sv_reader sv \<noteq> None")
  case False
  then have "ServerHandshake_handleClientFinished ossl fb frame sv
      = Some (HandshakeError_InvalidState, ServerHandshake_fail sv)"
    by (auto simp: ServerHandshake_handleClientFinished_def split: HandshakeState.splits option.splits)
  with assms show thesis by (intro failed) auto
next
  case True
  then obtain reader where st: "sv_state sv = HandshakeState_AwaitingFinished" "sv_reader sv = Some reader"
    by blast
  obtain res reader' where r: "RecordReader_open ossl frame reader = (res, reader')" by fastforce
  show thesis
  proof (cases res)
    case (Inl x)
    with assms st r show thesis
      by (intro failed) (auto simp: ServerHandshake_handleClientFinished_def)
  next
    case (Inr plaintext)
    with assms st r obtain d where d: "decodeClientFinished fb plaintext = Some d"
      by (auto simp: ServerHandshake_handleClientFinished_def Let_def split: option.splits)
    show thesis
    proof (cases d)
      case (Inl x)
      with assms st r Inr d show thesis
        by (intro failed) (auto simp: ServerHandshake_handleClientFinished_def)
    next
      case (Inr finished)
      with assms st r \<open>res = Inr plaintext\<close> d show thesis
        by (auto simp: ServerHandshake_handleClientFinished_def Let_def split: if_splits
            intro: failed accepted)
    qed
  qed
qed

lemma finished_inv:
  assumes inv: "server_inv sv"
    and step: "ServerHandshake_handleClientFinished ossl fb frame sv = Some (e, sv')"
  shows "server_inv sv'"
  using step
proof (cases rule: handleClientFinished_cases)
  case (accepted reader reader' plaintext finished)
  with inv show ?thesis by (simp add: server_inv_def)
qed simp

lemma client_reachable_inv: "client_reachable ossl fb cl \<Longrightarrow> client_inv ossl cl"
proof (induction rule: client_reachable.induct)
  case client_new
  then show ?case by (simp add: client_inv_def ClientHandshake_new_def)
qed (auto intro: start_inv hello_answer_inv client_records_inv)

lemma server_reachable_inv: "server_reachable ossl fb sv \<Longrightarrow> server_inv sv"
proof (induction rule: server_reachable.induct)
  case server_new
  then show ?case by (simp add: server_inv_def ServerHandshake_new_def)
qed (auto intro: server_hello_inv finished_inv server_records_inv)


section \<open>Version negotiation\<close>

definition common_versions :: "ServerHandshake \<Rightarrow> ClientHelloMessage \<Rightarrow> u16 set" where
  "common_versions sv client = {v. sv_min_version sv \<le> v \<and> v \<le> sv_max_version sv \<and>
     chm_min_version client \<le> v \<and> v \<le> chm_max_version client}"

lemma common_versions_empty_iff:
  "common_versions sv client = {} \<longleftrightarrow>
     min (sv_max_version sv) (chm_max_version client) < max (sv_min_version sv) (chm_min_version client)"
  (is "_ \<longleftrightarrow> ?hi < ?lo")
proof
  assume "common_versions sv client = {}"
  then have "?lo \<notin> common_versions sv client" by simp
  then show "?hi < ?lo" by (auto simp: common_versions_def not_le min_less_iff_disj less_max_iff_disj)
next
  assume "?hi < ?lo"
  then have "v \<notin> common_versions sv client" for v
    by (fastforce simp: common_versions_def min_less_iff_disj less_max_iff_disj)
  then show "common_versions sv client = {}" by blast
qed

lemma answer_selects:
  assumes "ServerHandshake_answer ossl fb client v ephemeral nonce sv = (res, sv')"
  shows "res \<noteq> Inl HandshakeError_UnsupportedVersion"
    and "res = Inr reply \<Longrightarrow> sv_selected_version sv' = v"
  using assms by (auto simp: ServerHandshake_answer_def Let_def split: sum.splits)

lemma negotiated:
  assumes "sv_state sv = HandshakeState_Initial" "decodeClientHello fb message = Some (Inr client)"
    "\<not> min (sv_max_version sv) (chm_max_version client) < max (sv_min_version sv) (chm_min_version client)"
  obtains res sv' w' where
    "ServerHandshake_handleClientHello ossl fb message sv w = Some (res, sv', w')"
    "res \<noteq> Inl HandshakeError_UnsupportedVersion"
    "\<And>reply. res = Inr reply \<Longrightarrow>
       sv_selected_version sv' = min (sv_max_version sv) (chm_max_version client)"
proof -
  let ?v = "min (sv_max_version sv) (chm_max_version client)"
  obtain r w1 where g: "generateX25519KeyPair ossl w = (r, w1)" by fastforce
  obtain q w2 where n: "randomBytes ossl zero_key w1 = (q, w2)" by fastforce
  have unfold: "ServerHandshake_handleClientHello ossl fb message sv w =
     (case r of Inl _ \<Rightarrow> Some (Inl HandshakeError_InternalError, ServerHandshake_fail sv, w1)
      | Inr ephemeral \<Rightarrow> (case q of
          Inl _ \<Rightarrow> Some (Inl HandshakeError_InternalError, ServerHandshake_fail sv, w2)
        | Inr nonce \<Rightarrow> (case ServerHandshake_answer ossl fb client ?v ephemeral nonce sv of
                          (res, sv') \<Rightarrow> Some (res, sv', w2))))"
    using assms g n by (simp add: ServerHandshake_handleClientHello_def Let_def split: sum.split)
  show thesis
  proof (cases r; cases q)
    fix ephemeral nonce assume "r = Inr ephemeral" "q = Inr nonce"
    moreover obtain res sv' where a: "ServerHandshake_answer ossl fb client ?v ephemeral nonce sv = (res, sv')"
      by fastforce
    ultimately show thesis using unfold answer_selects [OF a] by (intro that) auto
  qed (use unfold in \<open>auto intro: that\<close>)
qed

section \<open>The established channel\<close>

lemma client_to_server:
  assumes sync: "established_together ossl cl sv" and sealed: "ClientHandshake_seal ossl p cl = (Inr f, cl')"
  shows "\<exists>sv'. ServerHandshake_open ossl f sv = (Inr p, sv') \<and> established_together ossl cl' sv'"
proof -
  from sync obtain cw sr sw cr where
    c: "cl_writer cl = Some cw" "sv_reader sv = Some sr" "sv_writer sv = Some sw"
       "cl_reader cl = Some cr" "records_insync ossl cw sr" "records_insync ossl sw cr"
    and st: "cl_state cl = HandshakeState_Established" "sv_state sv = HandshakeState_Established"
    by (auto simp: established_together_def channels_agree_def)
  from sealed c st obtain cw' where
    s: "RecordWriter_seal ossl p cw = (Inr f, cw')" and cl': "cl' = cl\<lparr>cl_writer := Some cw'\<rparr>"
    by (auto simp: ClientHandshake_seal_def split: prod.splits)
  from records.delivery [OF c(5) s] obtain sr' where
    "RecordReader_open ossl f sr = (Inr p, sr')" "records_insync ossl cw' sr'" by blast
  then show ?thesis using c st sync
    by (simp add: ServerHandshake_open_def cl' established_together_def channels_agree_def)
qed

lemma server_to_client:
  assumes sync: "established_together ossl cl sv" and sealed: "ServerHandshake_seal ossl p sv = (Inr f, sv')"
  shows "\<exists>cl'. ClientHandshake_open ossl f cl = (Inr p, cl') \<and> established_together ossl cl' sv'"
proof -
  from sync obtain cw sr sw cr where
    c: "cl_writer cl = Some cw" "sv_reader sv = Some sr" "sv_writer sv = Some sw"
       "cl_reader cl = Some cr" "records_insync ossl cw sr" "records_insync ossl sw cr"
    and st: "cl_state cl = HandshakeState_Established" "sv_state sv = HandshakeState_Established"
    by (auto simp: established_together_def channels_agree_def)
  from sealed c st obtain sw' where
    s: "RecordWriter_seal ossl p sw = (Inr f, sw')" and sv': "sv' = sv\<lparr>sv_writer := Some sw'\<rparr>"
    by (auto simp: ServerHandshake_seal_def split: prod.splits)
  from records.delivery [OF c(6) s] obtain cr' where
    "RecordReader_open ossl f cr = (Inr p, cr')" "records_insync ossl sw' cr'" by blast
  then show ?thesis using c st sync
    by (simp add: ClientHandshake_open_def sv' established_together_def channels_agree_def)
qed

interpretation upstream: ordered_channel "ClientHandshake_seal ossl" "ServerHandshake_open ossl"
    "established_together ossl" for ossl :: "('h, 'w) openssl"
  by unfold_locales (rule client_to_server)

interpretation downstream: ordered_channel "ServerHandshake_seal ossl" "ClientHandshake_open ossl"
    "\<lambda>sv cl. established_together ossl cl sv" for ossl :: "('h, 'w) openssl"
  by unfold_locales (rule server_to_client)

section \<open>Properties\<close>

text \<open>
  C1.  Agreement.  When a client starts a handshake, a service answers its hello and the answer
  reaches the client, and the client trusts the public half of the service's identity key under
  the service's key id, then the client accepts the answer (or reports an internal error because
  the cipher itself failed), the service accepts the client's finished message, and both end
  established, with the same version and request id and with both directions of the encrypted
  channel in step.
\<close>

theorem handshake_establishes_both:
  assumes "aead_correct ossl" "x25519_symmetric ossl" "fb_codec fb"
    and "ClientHandshake_start ossl fb cl u = (Inr hello, cl1, u1)" "length (cl_nonce cl) = 32"
    and "ServerHandshake_handleClientHello ossl fb hello sv v = Some (Inr reply, sv1, v1)"
    and "length reply \<le> kMaxEnvelopeSize"
    and "map_of (cl_trusted_keys cl) (sv_service_key_id sv) = Some public"
      "ed25519_pair ossl (sv_identity_private_key sv) public"
  shows "\<exists>res cl2. ClientHandshake_handleServerHello ossl fb reply cl1 = Some (res, cl2) \<and>
    (case res of
       Inl e \<Rightarrow> e = HandshakeError_InternalError
     | Inr frame \<Rightarrow> \<exists>sv2. ServerHandshake_handleClientFinished ossl fb frame sv1
                          = Some (HandshakeError_None, sv2) \<and> established_together ossl cl2 sv2)"
  using assms by (rule handshake_agrees)

text \<open>
  Once both sides are established together, every sequence of messages the client seals is
  opened by the service unchanged and in order, and every sequence the service seals is opened by
  the client unchanged and in order.
\<close>

lemma established_channel_delivers:
  assumes "established_together ossl cl sv"
  shows "(\<forall>ps fs cl'. seal_all (ClientHandshake_seal ossl) ps cl = (Inr fs, cl') \<longrightarrow>
            (\<exists>sv'. seal_all (ServerHandshake_open ossl) fs sv = (Inr ps, sv') \<and>
                   established_together ossl cl' sv')) \<and>
         (\<forall>ps fs sv'. seal_all (ServerHandshake_seal ossl) ps sv = (Inr fs, sv') \<longrightarrow>
            (\<exists>cl'. seal_all (ClientHandshake_open ossl) fs cl = (Inr ps, cl') \<and>
                   established_together ossl cl' sv'))"
  using upstream.delivery_all [OF assms] downstream.delivery_all [OF assms] by blast

text \<open>
  C2.  Whatever calls are made and whatever messages arrive, a client that is established has seen
  a signature of one of its trusted keys over the transcript of its own hello and of an answer
  whose version is in the offered range, holds both directional keys and has erased its ephemeral
  key; before that it holds no record keys, and after a failure it holds neither record keys nor
  its ephemeral key.
\<close>

theorem client_states_safe:
  assumes "client_reachable ossl fb cl"
  shows "client_inv ossl cl"
  using assms by (rule client_reachable_inv)

text \<open>
  C15.  Whatever calls are made and whatever messages arrive, a service handshake holds record keys
  exactly while it waits for the finished message or is established, has then selected a version
  of its own range, and has erased its copy of the identity key in every state after the first.
\<close>

theorem server_states_safe:
  assumes "server_reachable ossl fb sv"
  shows "server_inv sv"
  using assms by (rule server_reachable_inv)

text \<open>
  C9.  The service becomes established exactly when it was waiting and received a frame that
  opens under the client's directional key to a finished message carrying its own request id,
  selected version and transcript hash; any other frame ends the handshake.
\<close>

theorem finished_message_required:
  assumes "ServerHandshake_handleClientFinished ossl fb frame sv = Some (e, sv')"
  shows "if e = HandshakeError_None
         then sv_state sv = HandshakeState_AwaitingFinished \<and>
              sv_state sv' = HandshakeState_Established \<and>
              (\<exists>reader reader' plaintext finished.
                 sv_reader sv = Some reader \<and>
                 RecordReader_open ossl frame reader = (Inr plaintext, reader') \<and>
                 sv_reader sv' = Some reader' \<and>
                 decodeClientFinished fb plaintext = Some (Inr finished) \<and>
                 cfm_request_id finished = sv_request_id sv \<and>
                 cfm_protocol_version finished = sv_selected_version sv \<and>
                 cfm_transcript_hash finished = sv_transcript_hash sv)
         else server_erased sv'"
  using assms
proof (cases rule: handleClientFinished_cases)
  case (accepted reader reader' plaintext finished)
  then show ?thesis by auto
qed simp

text \<open>
  C24.  Version negotiation: a service that answers a hello selects the greatest version that lies
  both in the client's range and in its own; when the ranges do not meet it fails with
  \<open>UnsupportedVersion\<close> and no other answer is possible.
\<close>

theorem negotiates_greatest_common_version:
  assumes "sv_state sv = HandshakeState_Initial" "decodeClientHello fb message = Some (Inr client)"
  shows "\<exists>res sv' w'. ServerHandshake_handleClientHello ossl fb message sv w = Some (res, sv', w') \<and>
    (case res of
       Inr reply \<Rightarrow> sv_selected_version sv' \<in> common_versions sv client \<and>
                    (\<forall>v. v \<in> common_versions sv client \<longrightarrow> v \<le> sv_selected_version sv')
     | Inl e \<Rightarrow> e = HandshakeError_UnsupportedVersion \<longleftrightarrow> common_versions sv client = {})"
proof (cases "common_versions sv client = {}")
  case True
  with assms show ?thesis
    by (simp add: ServerHandshake_handleClientHello_def common_versions_empty_iff)
next
  case False
  let ?v = "min (sv_max_version sv) (chm_max_version client)"
  from False have v: "\<not> ?v < max (sv_min_version sv) (chm_min_version client)"
    by (simp add: common_versions_empty_iff)
  obtain res sv' w' where h: "ServerHandshake_handleClientHello ossl fb message sv w = Some (res, sv', w')"
    and e: "res \<noteq> Inl HandshakeError_UnsupportedVersion"
    and a: "\<And>reply. res = Inr reply \<Longrightarrow> sv_selected_version sv' = ?v"
    by (rule negotiated [OF assms v]) (rule that)
  show ?thesis
  proof (cases res)
    case (Inl x)
    with False h e show ?thesis by simp
  next
    case (Inr reply)
    with h a v show ?thesis by (auto simp: common_versions_def not_less)
  qed
qed

text \<open>
  A failed handshake is final: on either side every further call reports an error and leaves
  it failed with nothing but erased keys.
\<close>

lemma failed_handshake_final:
  "(client_erased cl \<longrightarrow>
      (\<exists>c. ClientHandshake_start ossl fb cl w = (Inl HandshakeError_InvalidState, c, w) \<and> client_erased c) \<and>
      (\<exists>c. ClientHandshake_handleServerHello ossl fb message cl = Some (Inl HandshakeError_InvalidState, c)
           \<and> client_erased c) \<and>
      ClientHandshake_seal ossl p cl = (Inl RecordError_InvalidFrame, cl) \<and>
      ClientHandshake_open ossl p cl = (Inl RecordError_InvalidFrame, cl)) \<and>
   (server_erased sv \<longrightarrow>
      (\<exists>s. ServerHandshake_handleClientHello ossl fb message sv w
             = Some (Inl HandshakeError_InvalidState, s, w) \<and> server_erased s) \<and>
      (\<exists>s. ServerHandshake_handleClientFinished ossl fb message sv = Some (HandshakeError_InvalidState, s)
           \<and> server_erased s) \<and>
      ServerHandshake_seal ossl p sv = (Inl RecordError_InvalidFrame, sv) \<and>
      ServerHandshake_open ossl p sv = (Inl RecordError_InvalidFrame, sv))"
  unfolding client_erased_def [of cl] server_erased_def [of sv]
  by (simp add: ClientHandshake_start_def ClientHandshake_handleServerHello_def
      ClientHandshake_seal_def ClientHandshake_open_def ServerHandshake_handleClientHello_def
      ServerHandshake_handleClientFinished_def ServerHandshake_seal_def ServerHandshake_open_def)

end
