(* ===== verification/Sample_Providers.thy ===== *)
theory Sample_Providers
  imports Handshake
begin

text \<open>
  Concrete instances of the two libraries the model takes as parameters.  They satisfy the laws
  that the properties assume of OpenSSL and of FlatBuffers and they compute, so that every property
  about the protocol can be applied to a run.  They are not secure and not meant to be: the sample
  cipher copies its input and appends the number of bytes it was given as a tag.

  A handle of the sample library is the list of the byte strings it was given, the state of its
  entropy source a counter.
\<close>

section \<open>A sample of OpenSSL\<close>

type_synonym handle = "bytes list"

definition checksum :: "bytes list \<Rightarrow> u8" where
  "checksum xs = of_nat (length (concat xs))"

definition sample_sign :: "bytes \<Rightarrow> bytes \<Rightarrow> bytes" where
  "sample_sign key m = take 32 (key @ replicate 32 0) @ replicate 32 (checksum [m])"

text \<open>The world may hold more than the counter: \<open>counter\<close> reads it and \<open>tick\<close> advances it.\<close>

definition sample_openssl_on :: "('w \<Rightarrow> nat) \<Rightarrow> ('w \<Rightarrow> 'w) \<Rightarrow> (handle, 'w) openssl" where
  "sample_openssl_on counter tick = \<lparr>
     EVP_PKEY_CTX_new_id = (\<lambda>_. Some []),
     EVP_PKEY_keygen_init = Some,
     EVP_PKEY_keygen = (\<lambda>_ w. (Some [replicate 32 (of_nat (counter w))], tick w)),
     EVP_PKEY_get_raw_private_key = (\<lambda>h _. Some (concat h)),
     EVP_PKEY_get_raw_public_key = (\<lambda>h _. Some (concat h)),
     EVP_PKEY_new_raw_private_key = (\<lambda>_ k. Some [k]),
     EVP_PKEY_new_raw_public_key = (\<lambda>_ k. Some [k]),
     RAND_priv_bytes = (\<lambda>n w. (Some (replicate n (of_nat (counter w))), tick w)),
     EVP_MD_CTX_new = Some [],
     EVP_DigestInit_sha256 = Some,
     EVP_DigestUpdate = (\<lambda>h m. Some (h @ [m])),
     EVP_DigestFinal_ex = (\<lambda>h. Some (replicate 32 (checksum h))),
     EVP_DigestSignInit = (\<lambda>_ k. Some k),
     EVP_DigestSign = (\<lambda>h _ m. Some (sample_sign (concat h) m)),
     EVP_DigestVerifyInit = (\<lambda>_ k. Some k),
     EVP_DigestVerify = (\<lambda>h s m. if s = sample_sign (concat h) m then 1 else 0),
     EVP_PKEY_CTX_new = Some,
     EVP_PKEY_derive_init = Some,
     EVP_PKEY_derive_set_peer = (\<lambda>h p. Some (h @ p)),
     EVP_PKEY_derive = (\<lambda>h n. Some (replicate n (checksum h))),
     EVP_KDF_fetch = (\<lambda>_. Some []),
     EVP_KDF_CTX_new = Some,
     EVP_KDF_derive = (\<lambda>_ n ps. Some (replicate n (checksum [snd (ps ! 1)]))),
     EVP_CIPHER_CTX_new = Some [],
     EVP_EncryptInit_ex2 = (\<lambda>h k n. Some [k, n]),
     EVP_EncryptUpdate_aad = (\<lambda>h a. Some (h @ [a])),
     EVP_EncryptUpdate = (\<lambda>h p. Some (h @ [p], p)),
     EVP_EncryptFinal_ex = (\<lambda>h. Some (h, [])),
     EVP_CTRL_AEAD_GET_TAG = (\<lambda>h n. Some (replicate n (checksum h))),
     EVP_DecryptInit_ex2 = (\<lambda>h k n. Some [k, n]),
     EVP_DecryptUpdate_aad = (\<lambda>h a. Some (h @ [a])),
     EVP_DecryptUpdate = (\<lambda>h c. Some (h @ [c], c)),
     EVP_CTRL_AEAD_SET_TAG = (\<lambda>h t. if t = replicate 16 (checksum h) then Some h else None),
     EVP_DecryptFinal_ex = (\<lambda>h. Some [])\<rparr>"

definition sample_openssl :: "(handle, nat) openssl" where
  "sample_openssl = sample_openssl_on (\<lambda>w. w) Suc"

lemma sample_aead_correct [simp]: "aead_correct sample_openssl"
  unfolding aead_correct_def encryptSteps_def decryptSteps_def
  by (simp add: sample_openssl_def sample_openssl_on_def kTagSize_def)

lemma sample_ed25519_pair [simp]: "ed25519_pair sample_openssl k k"
  by (simp add: ed25519_pair_def signEd25519_def verifyEd25519_def rawPrivateKey_def
      rawPublicKey_def sample_openssl_def sample_openssl_on_def split: if_splits)

lemma sample_x25519_symmetric [simp]: "x25519_symmetric sample_openssl"
  by (auto simp: x25519_symmetric_def generateX25519KeyPair_def generateKeyPair_def
      x25519_agrees_def deriveX25519_def rawPrivateKey_def rawPublicKey_def checksum_def
      sample_openssl_def sample_openssl_on_def add.commute)

section \<open>A sample of FlatBuffers\<close>

text \<open>
  A codec for the envelopes of a given table: an envelope is the number of its first place in the
  table behind eight bytes of header, and anything else is encoded longer than an envelope may be.
\<close>

fun position :: "'a \<Rightarrow> 'a list \<Rightarrow> nat option" where
  "position x [] = None"
| "position x (y # ys) = (if x = y then Some 0 else map_option Suc (position x ys))"

lemma position_Some: "position x xs = Some i \<Longrightarrow> i < length xs \<and> xs ! i = x"
  by (induction xs arbitrary: i) (auto split: if_splits)

definition sample_fb :: "Envelope list \<Rightarrow> flatbuffers" where
  "sample_fb table = \<lparr>
     EnvelopeBufferHasIdentifier = (\<lambda>b. take 8 b = octets ''....YAP1''),
     VerifyEnvelopeBuffer = (\<lambda>_ _ b. length b = 9 \<and> unat (b ! 8) < length table),
     GetEnvelope = (\<lambda>b. table ! unat (b ! 8)),
     FinishEnvelope = (\<lambda>env. case position env table of
        Some i \<Rightarrow> octets ''....YAP1'' @ [of_nat i]
      | None \<Rightarrow> replicate (Suc kMaxEnvelopeSize) 0)\<rparr>"

lemma sample_fb_codec [simp]:
  assumes "length table \<le> 256"
  shows "fb_codec (sample_fb table)"
  unfolding fb_codec_def
proof (intro allI impI)
  fix env
  assume size: "length (FinishEnvelope (sample_fb table) env) \<le> kMaxEnvelopeSize"
  then obtain i where i: "position env table = Some i"
    by (auto simp: sample_fb_def split: option.splits)
  with position_Some [OF i] assms have "unat (of_nat i :: u8) = i" "i < length table" "table ! i = env"
    by (simp_all add: unat_of_nat take_bit_nat_eq_self)
  then show "8 \<le> length (FinishEnvelope (sample_fb table) env) \<and>
      EnvelopeBufferHasIdentifier (sample_fb table) (FinishEnvelope (sample_fb table) env) \<and>
      VerifyEnvelopeBuffer (sample_fb table) 16 256 (FinishEnvelope (sample_fb table) env) \<and>
      GetEnvelope (sample_fb table) (FinishEnvelope (sample_fb table) env) = env"
    using i by (simp add: sample_fb_def nth_append)
qed

end
