(* ===== verification/Protocol_Witnesses.thy ===== *)
theory Protocol_Witnesses
  imports Sample_Providers "HOL-Library.Code_Target_Nat"
begin

text \<open>
  Runs of the protocol on the sample providers: concrete inputs at which the hypotheses of the
  protocol's properties hold, evaluated in the logic.
\<close>

section \<open>Records\<close>

definition sample_record_key :: RecordKey where
  "sample_record_key = \<lparr>rk_key = replicate 32 7, rk_nonce_salt = [1, 2, 3, 4]\<rparr>"

definition sample_run :: "(RecordError + bytes list) \<times> RecordWriter" where
  "sample_run = seal_all (RecordWriter_seal sample_openssl) [[5, 6], [9]]
     (RecordWriter_new sample_record_key)"

definition sample_frames :: "bytes list" where
  "sample_frames = (case fst sample_run of Inr fs \<Rightarrow> fs | Inl _ \<Rightarrow> [])"

lemma sample_run_ok:
  "seal_all (RecordWriter_seal sample_openssl) [[5, 6], [9]] (RecordWriter_new sample_record_key)
     = (Inr sample_frames, snd sample_run)"
  by code_simp

theorem record_channel_delivers_witness:
  "\<exists>r'. seal_all (RecordReader_open sample_openssl) sample_frames
          (RecordReader_new sample_record_key) = (Inr [[5, 6], [9]], r')"
  using record_channel_delivers [OF sample_aead_correct sample_run_ok] .

section \<open>A handshake\<close>

definition sample_transcript :: HandshakeTranscript where
  "sample_transcript = \<lparr>ht_min_version = 1, ht_max_version = 1, ht_selected_version = 1,
     ht_client_nonce = replicate 32 0, ht_server_nonce = replicate 32 3,
     ht_client_public_key = replicate 32 1, ht_server_public_key = replicate 32 2,
     ht_service_key_id = ''svc''\<rparr>"

definition sample_encoded :: bytes where
  "sample_encoded = (case encodeTranscript sample_transcript of Inr e \<Rightarrow> e | Inl _ \<Rightarrow> [])"

theorem encodeTranscript_unambiguous_witness:
  "encodeTranscript sample_transcript = Inr sample_encoded \<and>
   (\<forall>t. transcript_sized t \<and> encodeTranscript t = Inr sample_encoded \<longleftrightarrow> t = sample_transcript)"
proof -
  have s: "transcript_sized sample_transcript" by (simp add: transcript_sized_def sample_transcript_def)
  have e: "encodeTranscript sample_transcript = Inr sample_encoded" by code_simp
  show ?thesis
    using encodeTranscript_unambiguous [OF _ s _ e] s e by blast
qed

definition sample_client_hello :: ClientHelloMessage where
  "sample_client_hello = \<lparr>chm_request_id = 7, chm_min_version = 1, chm_max_version = 1,
     chm_nonce = replicate 32 0, chm_public_key = replicate 32 1, chm_sdk_version = ''1.0''\<rparr>"

definition sample_server_hello :: ServerHelloMessage where
  "sample_server_hello = \<lparr>shm_request_id = 7, shm_selected_version = 1, shm_nonce = replicate 32 3,
     shm_public_key = replicate 32 2, shm_service_key_id = ''svc'',
     shm_signature = replicate 32 9 @ replicate 32 171\<rparr>"

definition sample_finished :: ClientFinishedMessage where
  "sample_finished = \<lparr>cfm_request_id = 7, cfm_protocol_version = 1,
     cfm_transcript_hash = replicate 32 (171)\<rparr>"

definition sample_table :: "Envelope list" where
  "sample_table =
     [\<lparr>env_protocol_version = 0, env_request_id = 7, env_body = Message_ClientHello (Some
        \<lparr>cht_min_protocol_version = 1, cht_max_protocol_version = 1,
         cht_client_nonce = Some (replicate 32 0), cht_ephemeral_public_key = Some (replicate 32 1),
         cht_sdk_version = Some ''1.0''\<rparr>)\<rparr>,
      \<lparr>env_protocol_version = 0, env_request_id = 7, env_body = Message_ServerHello (Some
        \<lparr>sht_selected_protocol_version = 1, sht_server_nonce = Some (replicate 32 3),
         sht_ephemeral_public_key = Some (replicate 32 2), sht_service_key_id = Some ''svc'',
         sht_signature = Some (replicate 32 9 @ replicate 32 171)\<rparr>)\<rparr>,
      \<lparr>env_protocol_version = 1, env_request_id = 7, env_body = Message_ClientFinished (Some
        \<lparr>cft_transcript_hash = Some (replicate 32 (171))\<rparr>)\<rparr>]"

definition sample_codec :: flatbuffers where
  "sample_codec = sample_fb sample_table"

lemma sample_codec_ok [simp]: "fb_codec sample_codec"
  unfolding sample_codec_def by (rule sample_fb_codec) (simp add: sample_table_def)

definition sample_buffer :: "nat \<Rightarrow> bytes" where
  "sample_buffer i = octets ''....YAP1'' @ [of_nat i]"

theorem messages_round_trip_witness:
  "encodeClientHello sample_codec sample_client_hello = Inr (sample_buffer 0) \<and>
   decodeClientHello sample_codec (sample_buffer 0) = Some (Inr sample_client_hello) \<and>
   encodeServerHello sample_codec sample_server_hello = Inr (sample_buffer 1) \<and>
   decodeServerHello sample_codec (sample_buffer 1) = Some (Inr sample_server_hello)"
proof -
  have "encodeClientHello sample_codec sample_client_hello = Inr (sample_buffer 0)"
    "encodeServerHello sample_codec sample_server_hello = Inr (sample_buffer 1)"
    by code_simp+
  moreover have "ch_sized sample_client_hello" "sh_sized sample_server_hello" by code_simp+
  moreover have "length (sample_buffer i) \<le> kMaxEnvelopeSize" for i
    by (simp add: sample_buffer_def kMaxEnvelopeSize_def)
  ultimately show ?thesis using messages_round_trip [OF sample_codec_ok] by blast
qed

theorem decoded_messages_typed_witness:
  "ch_sized sample_client_hello \<and> is_ok (encodeClientHello sample_codec sample_client_hello)"
proof -
  have "decodeClientHello sample_codec (sample_buffer 0) = Some (Inr sample_client_hello)" by code_simp
  with decoded_messages_typed [of sample_codec "sample_buffer 0"] show ?thesis by blast
qed

definition sample_client :: ClientHandshake where
  "sample_client = ClientHandshake_new [(''svc'', replicate 32 9)] ''1.0'' 7 1 1"

definition sample_server :: ServerHandshake where
  "sample_server = ServerHandshake_new ''svc'' (replicate 32 9) 1 2"

definition sample_client1 :: ClientHandshake where
  "sample_client1 = sample_client\<lparr>cl_nonce := replicate 32 0,
     cl_ephemeral := \<lparr>private_key = replicate 32 1, public_key = replicate 32 1\<rparr>,
     cl_state := HandshakeState_HelloSent\<rparr>"

lemma sample_start: "ClientHandshake_start sample_openssl sample_codec sample_client 0
    = (Inr (sample_buffer 0), sample_client1, 2)"
  by code_simp

lemma sample_answer: "\<exists>sv. ServerHandshake_handleClientHello sample_openssl sample_codec
    (sample_buffer 0) sample_server 2 = Some (Inr (sample_buffer 1), sv, 4)"
proof -
  have "map_option (\<lambda>(r, _, w). (r, w)) (ServerHandshake_handleClientHello sample_openssl
     sample_codec (sample_buffer 0) sample_server 2) = Some (Inr (sample_buffer 1), 4)"
    by code_simp
  then show ?thesis by auto
qed


lemma sample_accepts: "is_ok (fst (the (ClientHandshake_handleServerHello sample_openssl sample_codec
    (sample_buffer 1) sample_client1)))"
  by code_simp

lemma sample_trust:
  "length (cl_nonce sample_client) = 32"
  "length (sample_buffer 1) \<le> kMaxEnvelopeSize"
  "map_of (cl_trusted_keys sample_client) (sv_service_key_id sample_server) = Some (replicate 32 9)"
  "ed25519_pair sample_openssl (sv_identity_private_key sample_server) (replicate 32 9)"
  by (simp_all add: sample_client_def sample_server_def ClientHandshake_new_def
      ServerHandshake_new_def sample_buffer_def kMaxEnvelopeSize_def)

lemmas sample_laws = sample_aead_correct sample_x25519_symmetric sample_codec_ok

theorem handshake_establishes_both_witness:
  "\<exists>hello cl1 u1 reply sv1 v1 frame cl2 sv2.
     ClientHandshake_start sample_openssl sample_codec sample_client 0 = (Inr hello, cl1, u1) \<and>
     ServerHandshake_handleClientHello sample_openssl sample_codec hello sample_server u1
       = Some (Inr reply, sv1, v1) \<and>
     ClientHandshake_handleServerHello sample_openssl sample_codec reply cl1 = Some (Inr frame, cl2) \<and>
     ServerHandshake_handleClientFinished sample_openssl sample_codec frame sv1
       = Some (HandshakeError_None, sv2) \<and>
     established_together sample_openssl cl2 sv2"
proof -
  obtain sv1 where a: "ServerHandshake_handleClientHello sample_openssl sample_codec
    (sample_buffer 0) sample_server 2 = Some (Inr (sample_buffer 1), sv1, 4)"
    using sample_answer by blast
  from handshake_establishes_both [OF sample_laws sample_start sample_trust(1) a sample_trust(2-4)]
    sample_accepts sample_start a
  show ?thesis by (fastforce split: sum.splits)
qed

lemma sample_established:
  obtains sv1 frame cl2 sv2 where
    "server_reachable sample_openssl sample_codec sv1"
    "ServerHandshake_handleClientFinished sample_openssl sample_codec frame sv1 = Some (HandshakeError_None, sv2)"
    "established_together sample_openssl cl2 sv2"
    "client_reachable sample_openssl sample_codec cl2" "server_reachable sample_openssl sample_codec sv2"
proof -
  obtain sv1 where a: "ServerHandshake_handleClientHello sample_openssl sample_codec
    (sample_buffer 0) sample_server 2 = Some (Inr (sample_buffer 1), sv1, 4)"
    using sample_answer by blast
  from handshake_agrees [OF sample_laws sample_start sample_trust(1) a sample_trust(2-4)]
    sample_accepts obtain frame cl2 sv2 where
    c: "ClientHandshake_handleServerHello sample_openssl sample_codec (sample_buffer 1) sample_client1
         = Some (Inr frame, cl2)" and
    f: "ServerHandshake_handleClientFinished sample_openssl sample_codec frame sv1
         = Some (HandshakeError_None, sv2)" and
    e: "established_together sample_openssl cl2 sv2" by (fastforce split: sum.splits)
  have s: "server_reachable sample_openssl sample_codec sv1"
    using server_hello_step [OF server_new a [unfolded sample_server_def]] .
  have "client_reachable sample_openssl sample_codec cl2"
    using client_hello_answer [OF client_start [OF client_new sample_start [unfolded sample_client_def]] c] .
  from that [OF s f e this server_finished [OF s f]] show thesis .
qed

lemma established_channel_delivers_instance:
  "\<exists>cl sv. cl_state cl = HandshakeState_Established \<and>
     (\<forall>ps fs cl'. seal_all (ClientHandshake_seal sample_openssl) ps cl = (Inr fs, cl') \<longrightarrow>
            (\<exists>sv'. seal_all (ServerHandshake_open sample_openssl) fs sv = (Inr ps, sv')))"
proof -
  obtain cl sv where "established_together sample_openssl cl sv" by (rule sample_established)
  from this established_channel_delivers [OF this] show ?thesis
    by (auto simp: established_together_def) blast
qed

theorem client_states_safe_witness:
  "\<exists>cl. cl_state cl = HandshakeState_Established \<and> client_inv sample_openssl cl \<and>
        client_authentic sample_openssl cl"
proof -
  obtain cl sv where "established_together sample_openssl cl sv"
    "client_reachable sample_openssl sample_codec cl" by (rule sample_established)
  then show ?thesis using client_states_safe [of sample_openssl sample_codec cl]
    by (auto simp: established_together_def client_inv_def)
qed

theorem server_states_safe_witness:
  "\<exists>sv. sv_state sv = HandshakeState_Established \<and> server_inv sv"
proof -
  obtain cl sv where "established_together sample_openssl cl sv"
    "server_reachable sample_openssl sample_codec sv" by (rule sample_established)
  then show ?thesis using server_states_safe [of sample_openssl sample_codec sv]
    by (auto simp: established_together_def)
qed

theorem finished_message_required_witness:
  "\<exists>sv frame sv'. ServerHandshake_handleClientFinished sample_openssl sample_codec frame sv
       = Some (HandshakeError_None, sv') \<and> sv_state sv = HandshakeState_AwaitingFinished"
proof -
  obtain sv1 frame sv2 where f: "ServerHandshake_handleClientFinished sample_openssl sample_codec frame sv1
      = Some (HandshakeError_None, sv2)" by (rule sample_established)
  from f finished_message_required [OF f] show ?thesis by auto
qed

theorem negotiates_greatest_common_version_witness:
  "\<exists>res sv' w'. ServerHandshake_handleClientHello sample_openssl sample_codec (sample_buffer 0)
       sample_server 2 = Some (res, sv', w') \<and> res = Inr (sample_buffer 1) \<and>
     1 \<le> sv_selected_version sv' \<and> sv_selected_version sv' \<le> 1"
proof -
  have "sv_state sample_server = HandshakeState_Initial"
    by (simp add: sample_server_def ServerHandshake_new_def)
  moreover have "decodeClientHello sample_codec (sample_buffer 0) = Some (Inr sample_client_hello)"
    by code_simp
  ultimately show ?thesis
    using negotiates_greatest_common_version [of sample_server sample_codec "sample_buffer 0"
        sample_client_hello sample_openssl 2] sample_answer
    by (auto simp: common_versions_def sample_client_hello_def sample_server_def ServerHandshake_new_def)
qed

lemma failed_handshake_final_instance:
  "ClientHandshake_seal sample_openssl [1] (ClientHandshake_fail sample_client)
     = (Inl RecordError_InvalidFrame, ClientHandshake_fail sample_client) \<and>
   ServerHandshake_seal sample_openssl [1] (ServerHandshake_fail sample_server)
     = (Inl RecordError_InvalidFrame, ServerHandshake_fail sample_server)"
  using failed_handshake_final [of "ClientHandshake_fail sample_client" sample_openssl sample_codec 0
      "[]" "[1]" "ServerHandshake_fail sample_server"] by simp

end
