(* ===== verification/License.thy ===== *)
theory License
  imports Transcript
begin

text \<open>
  License validation, \<^verbatim>\<open>src/src/ya_license_core/src/license.cpp\<close>, with the error codes of
  \<^verbatim>\<open>status.h\<close> that the whole core library shares.

  FlatBuffers and the code \<^verbatim>\<open>flatc\<close> generates from \<^verbatim>\<open>license.fbs\<close> are the parameter \<open>lf\<close>:
  the checks and accessors of a buffer and, for the license generator, the builders.  A table is a
  record; a field of reference type is an option, \<open>None\<close> where the accessor returns null.
\<close>

section \<open>Data\<close>

datatype ErrorCode =
    ErrorCode_None
  | ErrorCode_InvalidFormat
  | ErrorCode_UnsupportedVersion
  | ErrorCode_UnknownKey
  | ErrorCode_InvalidSignature
  | ErrorCode_InvalidLicense
  | ErrorCode_NotYetValid
  | ErrorCode_Expired
  | ErrorCode_ProductMismatch
  | ErrorCode_MachineMismatch
  | ErrorCode_MachineIdentityUnavailable
  | ErrorCode_SessionLimitExceeded
  | ErrorCode_InvalidSession
  | ErrorCode_InternalError

type_synonym 'a CoreResult = "ErrorCode + 'a"

datatype LicenseType = LicenseType_Trial | LicenseType_Subscription | LicenseType_Permanent

datatype MachineMode = MachineMode_Unbound | MachineMode_Exact

record LicenseSnapshot =
  ls_license_id :: string
  ls_product_id :: string
  ls_customer_id :: string
  ls_issue_time :: u64
  ls_not_before :: u64
  ls_expire_time :: u64
  ls_type :: LicenseType
  ls_features :: "string list"
  ls_max_sessions :: u32
  ls_machine_mode :: MachineMode
  ls_machine_id :: string

section \<open>The generated tables\<close>

text \<open>The enumerations of the schema are bytes on the wire; any byte can arrive.\<close>

abbreviation (input) wire_Trial :: u8 where "wire_Trial \<equiv> 0"
abbreviation (input) wire_Subscription :: u8 where "wire_Subscription \<equiv> 1"
abbreviation (input) wire_Permanent :: u8 where "wire_Permanent \<equiv> 2"
abbreviation (input) wire_Unbound :: u8 where "wire_Unbound \<equiv> 0"
abbreviation (input) wire_Exact :: u8 where "wire_Exact \<equiv> 1"

record MachinePolicyTable =
  mpt_mode :: u8
  mpt_machine_id :: "string option"

record LicensePayloadTable =
  lpt_license_id :: "string option"
  lpt_product_id :: "string option"
  lpt_customer_id :: "string option"
  lpt_issue_time :: u64
  lpt_not_before :: u64
  lpt_expire_time :: u64
  lpt_license_type :: u8
  lpt_features :: "string option list option"
  lpt_max_sessions :: u32
  lpt_machine_policy :: "MachinePolicyTable option"

record LicensePackageTable =
  lkt_format_version :: u16
  lkt_key_id :: "string option"
  lkt_payload :: "bytes option"
  lkt_signature :: "bytes option"

record license_fb =
  LicensePackageBufferHasIdentifier :: "bytes \<Rightarrow> bool"
  VerifyLicensePackageBuffer :: "bytes \<Rightarrow> bool"
  GetLicensePackage :: "bytes \<Rightarrow> LicensePackageTable"
  VerifyLicensePayload :: "bytes \<Rightarrow> bool"
  GetLicensePayload :: "bytes \<Rightarrow> LicensePayloadTable"
  FinishLicensePayload :: "LicensePayloadTable \<Rightarrow> bytes"
  FinishLicensePackageBuffer :: "LicensePackageTable \<Rightarrow> bytes"

section \<open>The signed bytes\<close>

definition kMaxLicenseSize :: nat where "kMaxLicenseSize = 1024 * 1024"

definition kSignatureDomain :: string where "kSignatureDomain = ''YOAUTHORIZE-LICENSE-V1''"

definition License_appendU16 :: "bytes \<Rightarrow> u16 \<Rightarrow> bytes" where
  "License_appendU16 output value = output @ [ucast (drop_bit 8 value), ucast value]"

definition License_appendU32 :: "bytes \<Rightarrow> u32 \<Rightarrow> bytes" where
  "License_appendU32 output value =
     output @ map (\<lambda>i. ucast (drop_bit (24 - 8 * i) value)) [0..<4]"

definition signatureInput :: "u16 \<Rightarrow> string \<Rightarrow> bytes \<Rightarrow> bytes" where
  "signatureInput version key_id payload =
     (let input = octets kSignatureDomain;
          input = License_appendU16 input version;
          input = License_appendU16 input (of_nat (length key_id));
          input = input @ octets key_id;
          input = License_appendU32 input (of_nat (length payload));
          input = input @ payload
      in input)"

definition convertType :: "u8 \<Rightarrow> LicenseType" where
  "convertType type =
     (if type = wire_Subscription then LicenseType_Subscription
      else if type = wire_Permanent then LicenseType_Permanent
      else LicenseType_Trial)"

section \<open>Validation\<close>

record LicenseValidator =
  lv_trusted_keys :: "(string \<times> bytes) list"

text \<open>The loop over the features: a null or empty one makes the license invalid.\<close>

fun collectFeatures :: "string option list \<Rightarrow> string list \<Rightarrow> string list CoreResult" where
  "collectFeatures [] features = Inr features"
| "collectFeatures (feature # rest) features =
     (case feature of
        None \<Rightarrow> Inl ErrorCode_InvalidLicense
      | Some f \<Rightarrow> if f = [] then Inl ErrorCode_InvalidLicense
                  else collectFeatures rest (features @ [f]))"

text \<open>
  \<^verbatim>\<open>!x || x->empty()\<close> for a string or a vector.
\<close>

definition absent :: "'a list option \<Rightarrow> bool" where
  "absent x \<longleftrightarrow> x = None \<or> x = Some []"

definition value_or_empty :: "string option \<Rightarrow> string" where
  "value_or_empty x = (case x of Some s \<Rightarrow> s | None \<Rightarrow> [])"

text \<open>The second half of \<^verbatim>\<open>validate\<close>, on the verified payload.\<close>

definition validatePayload ::
  "LicensePayloadTable \<Rightarrow> string \<Rightarrow> string \<Rightarrow> u64 \<Rightarrow> LicenseSnapshot CoreResult" where
  "validatePayload data expected_product machine_id now =
     (case (lpt_license_id data, lpt_product_id data, lpt_machine_policy data) of
        (Some license_id, Some product_id, Some policy) \<Rightarrow>
          if license_id = [] \<or> product_id = [] \<or> lpt_max_sessions data = 0
          then Inl ErrorCode_InvalidLicense
          else if lpt_license_type data \<noteq> wire_Trial \<and> lpt_license_type data \<noteq> wire_Subscription
                  \<and> lpt_license_type data \<noteq> wire_Permanent
          then Inl ErrorCode_InvalidLicense
          else if product_id \<noteq> expected_product then Inl ErrorCode_ProductMismatch
          else if now < lpt_not_before data then Inl ErrorCode_NotYetValid
          else if lpt_license_type data = wire_Permanent \<and> lpt_expire_time data \<noteq> 0
          then Inl ErrorCode_InvalidLicense
          else if lpt_license_type data \<noteq> wire_Permanent
                  \<and> (lpt_expire_time data \<le> lpt_not_before data \<or> now \<ge> lpt_expire_time data)
          then Inl ErrorCode_Expired
          else if mpt_mode policy \<noteq> wire_Unbound \<and> mpt_mode policy \<noteq> wire_Exact
          then Inl ErrorCode_InvalidLicense
          else if mpt_mode policy = wire_Exact
                  \<and> (absent (mpt_machine_id policy) \<or> value_or_empty (mpt_machine_id policy) \<noteq> machine_id)
          then Inl ErrorCode_MachineMismatch
          else let snapshot = \<lparr>ls_license_id = license_id, ls_product_id = product_id,
                      ls_customer_id = value_or_empty (lpt_customer_id data),
                      ls_issue_time = lpt_issue_time data, ls_not_before = lpt_not_before data,
                      ls_expire_time = lpt_expire_time data,
                      ls_type = convertType (lpt_license_type data), ls_features = [],
                      ls_max_sessions = lpt_max_sessions data,
                      ls_machine_mode = (if mpt_mode policy = wire_Exact then MachineMode_Exact
                                         else MachineMode_Unbound),
                      ls_machine_id = value_or_empty (mpt_machine_id policy)\<rparr>
               in (case lpt_features data of
                     None \<Rightarrow> Inr snapshot
                   | Some features \<Rightarrow>
                       (case collectFeatures features [] of
                          Inl e \<Rightarrow> Inl e
                        | Inr fs \<Rightarrow> Inr (snapshot\<lparr>ls_features := fs\<rparr>)))
      | _ \<Rightarrow> Inl ErrorCode_InvalidLicense)"

definition LicenseValidator_validate ::
  "('h, 'w) openssl \<Rightarrow> license_fb \<Rightarrow> LicenseValidator \<Rightarrow> bytes \<Rightarrow> string \<Rightarrow> string \<Rightarrow> u64 \<Rightarrow>
     LicenseSnapshot CoreResult" where
  "LicenseValidator_validate ossl lf validator package expected_product machine_id now =
     (if package = [] \<or> length package > kMaxLicenseSize \<or> length package < 8
         \<or> \<not> LicensePackageBufferHasIdentifier lf package
      then Inl ErrorCode_InvalidFormat
      else if \<not> VerifyLicensePackageBuffer lf package then Inl ErrorCode_InvalidFormat
      else let outer = GetLicensePackage lf package
           in if lkt_format_version outer \<noteq> 1 then Inl ErrorCode_UnsupportedVersion
              else case (lkt_key_id outer, lkt_payload outer, lkt_signature outer) of
                (Some key_id, Some payload, Some signature) \<Rightarrow>
                  if key_id = [] \<or> length key_id > 65535 \<or> payload = []
                     \<or> length signature \<noteq> kSignatureSize
                  then Inl ErrorCode_InvalidLicense
                  else (case map_of (lv_trusted_keys validator) key_id of
                    None \<Rightarrow> Inl ErrorCode_UnknownKey
                  | Some key \<Rightarrow>
                      if verifyEd25519 ossl key
                           (signatureInput (lkt_format_version outer) key_id payload) signature
                         \<noteq> CryptoError_None
                      then Inl ErrorCode_InvalidSignature
                      else if \<not> VerifyLicensePayload lf payload then Inl ErrorCode_InvalidLicense
                      else validatePayload (GetLicensePayload lf payload)
                             expected_product machine_id now)
              | _ \<Rightarrow> Inl ErrorCode_InvalidLicense)"

section \<open>The signed bytes determine what is signed\<close>

lemma License_append_be:
  "License_appendU16 output v = output @ be_bytes 2 v"
  "License_appendU32 output w = output @ be_bytes 4 w"
  by (simp_all add: License_appendU16_def License_appendU32_def be_bytes_2)
     (simp add: be_bytes_def upt_conv_Cons eval_nat_numeral)

lemma signatureInput_fields:
  "signatureInput v key_id payload =
     octets kSignatureDomain @ be_bytes 2 v @ sized16 (octets key_id) @ sized32 payload"
  by (simp add: signatureInput_def Let_def License_append_be sized16_def sized32_def)

lemma signatureInput_inject:
  assumes "length k < 2 ^ 16" "length k' < 2 ^ 16" "length p < 2 ^ 32" "length p' < 2 ^ 32"
    and "signatureInput v k p = signatureInput v' k' p'"
  shows "v = v' \<and> k = k' \<and> p = p'"
proof -
  from assms(5) have "be_bytes 2 v @ sized16 (octets k) @ sized32 p
      = be_bytes 2 v' @ sized16 (octets k') @ sized32 p'"
    by (simp add: signatureInput_fields)
  then have v: "v = v'" and r: "sized16 (octets k) @ sized32 p = sized16 (octets k') @ sized32 p'"
    by (simp_all add: be16.append_eq_iff)
  from r assms(1,2) have "octets k = octets k'" "sized32 p = sized32 p'"
    by (simp_all add: sized16.append_eq_iff)
  with assms(3,4) v show ?thesis by (simp add: sized32.inject)
qed

section \<open>What an accepted license guarantees\<close>

lemma collectFeatures_eq:
  "collectFeatures xs acc =
     (if None \<notin> set xs \<and> Some [] \<notin> set xs then Inr (acc @ map the xs) else Inl ErrorCode_InvalidLicense)"
  by (induction xs arbitrary: acc) (auto split: option.splits)

text \<open>
  A payload grants a product to a machine at a time: the contract of the validator, stated over the
  payload's fields.
\<close>

definition in_force :: "LicensePayloadTable \<Rightarrow> u64 \<Rightarrow> bool" where
  "in_force data now \<longleftrightarrow> lpt_not_before data \<le> now \<and>
     (if lpt_license_type data = wire_Permanent then lpt_expire_time data = 0
      else lpt_license_type data \<in> {wire_Trial, wire_Subscription} \<and> now < lpt_expire_time data)"

definition bound_to :: "MachinePolicyTable \<Rightarrow> string \<Rightarrow> bool" where
  "bound_to policy machine \<longleftrightarrow>
     mpt_mode policy = wire_Unbound \<or>
     mpt_mode policy = wire_Exact \<and> machine \<noteq> [] \<and> mpt_machine_id policy = Some machine"

definition grants :: "LicensePayloadTable \<Rightarrow> string \<Rightarrow> string \<Rightarrow> u64 \<Rightarrow> LicenseSnapshot \<Rightarrow> bool" where
  "grants data product machine now s \<longleftrightarrow>
     (\<exists>license_id policy.
        lpt_license_id data = Some license_id \<and> license_id \<noteq> [] \<and>
        lpt_product_id data = Some product \<and> product \<noteq> [] \<and>
        lpt_machine_policy data = Some policy \<and> bound_to policy machine \<and>
        lpt_max_sessions data \<noteq> 0 \<and> in_force data now \<and>
        (\<forall>fs. lpt_features data = Some fs \<longrightarrow> None \<notin> set fs \<and> Some [] \<notin> set fs) \<and>
        s = \<lparr>ls_license_id = license_id, ls_product_id = product,
             ls_customer_id = value_or_empty (lpt_customer_id data),
             ls_issue_time = lpt_issue_time data, ls_not_before = lpt_not_before data,
             ls_expire_time = lpt_expire_time data, ls_type = convertType (lpt_license_type data),
             ls_features = (case lpt_features data of None \<Rightarrow> [] | Some fs \<Rightarrow> map the fs),
             ls_max_sessions = lpt_max_sessions data,
             ls_machine_mode = (if mpt_mode policy = wire_Exact then MachineMode_Exact
                                else MachineMode_Unbound),
             ls_machine_id = value_or_empty (mpt_machine_id policy)\<rparr>)"

lemma bound_to_iff:
  "bound_to policy machine \<longleftrightarrow>
     \<not> (mpt_mode policy \<noteq> wire_Unbound \<and> mpt_mode policy \<noteq> wire_Exact) \<and>
     \<not> (mpt_mode policy = wire_Exact \<and>
        (absent (mpt_machine_id policy) \<or> value_or_empty (mpt_machine_id policy) \<noteq> machine))"
  by (auto simp: bound_to_def absent_def value_or_empty_def split: option.splits)

lemma in_force_iff:
  "in_force data now \<longleftrightarrow>
     \<not> (lpt_license_type data \<noteq> wire_Trial \<and> lpt_license_type data \<noteq> wire_Subscription
        \<and> lpt_license_type data \<noteq> wire_Permanent) \<and>
     \<not> now < lpt_not_before data \<and>
     \<not> (lpt_license_type data = wire_Permanent \<and> lpt_expire_time data \<noteq> 0) \<and>
     \<not> (lpt_license_type data \<noteq> wire_Permanent \<and>
        (lpt_expire_time data \<le> lpt_not_before data \<or> now \<ge> lpt_expire_time data))"
  by (auto simp: in_force_def not_le not_less)


lemma validatePayload_iff:
  "validatePayload data product machine now = Inr s \<longleftrightarrow> grants data product machine now s"
proof (cases "lpt_license_id data = None \<or> lpt_product_id data = None \<or> lpt_machine_policy data = None")
  case True
  then show ?thesis
    by (cases "lpt_license_id data"; cases "lpt_product_id data"; cases "lpt_machine_policy data")
       (simp_all add: validatePayload_def grants_def)
next
  case False
  then obtain license_id product_id policy where
    f: "lpt_license_id data = Some license_id" "lpt_product_id data = Some product_id"
      "lpt_machine_policy data = Some policy" by auto
  let ?s = "\<lambda>fs. \<lparr>ls_license_id = license_id, ls_product_id = product_id,
     ls_customer_id = value_or_empty (lpt_customer_id data),
     ls_issue_time = lpt_issue_time data, ls_not_before = lpt_not_before data,
     ls_expire_time = lpt_expire_time data, ls_type = convertType (lpt_license_type data),
     ls_features = fs, ls_max_sessions = lpt_max_sessions data,
     ls_machine_mode = (if mpt_mode policy = wire_Exact then MachineMode_Exact else MachineMode_Unbound),
     ls_machine_id = value_or_empty (mpt_machine_id policy)\<rparr>"
  have r: "(case lpt_features data of
             None \<Rightarrow> Inr (?s [])
           | Some features \<Rightarrow> (case collectFeatures features [] of
               Inl e \<Rightarrow> Inl e | Inr fs \<Rightarrow> Inr ((?s [])\<lparr>ls_features := fs\<rparr>))) = Inr s \<longleftrightarrow>
          (\<forall>fs. lpt_features data = Some fs \<longrightarrow> None \<notin> set fs \<and> Some [] \<notin> set fs) \<and>
          s = ?s (case lpt_features data of None \<Rightarrow> [] | Some fs \<Rightarrow> map the fs)"
    by (cases "lpt_features data") (auto simp: collectFeatures_eq)
  have "validatePayload data product machine now = Inr s \<longleftrightarrow>
     license_id \<noteq> [] \<and> product_id \<noteq> [] \<and> lpt_max_sessions data \<noteq> 0 \<and> product_id = product \<and>
     in_force data now \<and> bound_to policy machine \<and>
     (\<forall>fs. lpt_features data = Some fs \<longrightarrow> None \<notin> set fs \<and> Some [] \<notin> set fs) \<and>
     s = ?s (case lpt_features data of None \<Rightarrow> [] | Some fs \<Rightarrow> map the fs)"
    unfolding validatePayload_def in_force_iff bound_to_iff Let_def f prod.case option.case
      if_Inl_eq_Inr r
    by (simp only: de_Morgan_disj de_Morgan_conj not_not conj_ac)
  also have "\<dots> \<longleftrightarrow> grants data product machine now s"
    using f by (auto simp: grants_def)
  finally show ?thesis .
qed


definition well_formed_package :: "license_fb \<Rightarrow> bytes \<Rightarrow> bool" where
  "well_formed_package lf package \<longleftrightarrow>
     8 \<le> length package \<and> length package \<le> kMaxLicenseSize \<and>
     LicensePackageBufferHasIdentifier lf package \<and> VerifyLicensePackageBuffer lf package"

text \<open>
  The package carries a payload signed, under the license domain and its own key id, by a trusted
  key.
\<close>

definition signed_payload ::
  "('h, 'w) openssl \<Rightarrow> license_fb \<Rightarrow> LicenseValidator \<Rightarrow> bytes \<Rightarrow> bytes \<Rightarrow> bool" where
  "signed_payload ossl lf validator package payload \<longleftrightarrow>
     (\<exists>key_id signature key.
        lkt_format_version (GetLicensePackage lf package) = 1 \<and>
        lkt_key_id (GetLicensePackage lf package) = Some key_id \<and> key_id \<noteq> [] \<and> length key_id \<le> 65535 \<and>
        lkt_payload (GetLicensePackage lf package) = Some payload \<and> payload \<noteq> [] \<and>
        lkt_signature (GetLicensePackage lf package) = Some signature \<and>
        length signature = kSignatureSize \<and>
        map_of (lv_trusted_keys validator) key_id = Some key \<and>
        verifyEd25519 ossl key (signatureInput 1 key_id payload) signature = CryptoError_None)"

lemma validate_iff:
  "LicenseValidator_validate ossl lf validator package product machine now = Inr s \<longleftrightarrow>
     well_formed_package lf package \<and>
     (\<exists>payload. signed_payload ossl lf validator package payload \<and> VerifyLicensePayload lf payload \<and>
                grants (GetLicensePayload lf payload) product machine now s)"
proof -
  let ?o = "GetLicensePackage lf package"
  show ?thesis
  proof (cases "lkt_key_id ?o = None \<or> lkt_payload ?o = None \<or> lkt_signature ?o = None")
    case True
    then show ?thesis
      by (cases "lkt_key_id ?o"; cases "lkt_payload ?o"; cases "lkt_signature ?o")
         (simp_all add: LicenseValidator_validate_def Let_def signed_payload_def)
  next
    case False
    then obtain k p g where
      f: "lkt_key_id ?o = Some k" "lkt_payload ?o = Some p" "lkt_signature ?o = Some g" by auto
    have wf: "well_formed_package lf package \<longleftrightarrow>
       \<not> (package = [] \<or> length package > kMaxLicenseSize \<or> length package < 8
          \<or> \<not> LicensePackageBufferHasIdentifier lf package) \<and> \<not> \<not> VerifyLicensePackageBuffer lf package"
      by (auto simp: well_formed_package_def)
    show ?thesis
      unfolding LicenseValidator_validate_def Let_def f prod.case option.case
        if_Inl_eq_Inr case_option_Inl_eq_Inr validatePayload_iff wf signed_payload_def
      by (auto simp: not_less)
  qed
qed

lemma in_force_convex:
  "in_force data t1 \<Longrightarrow> in_force data t3 \<Longrightarrow> t1 \<le> t2 \<Longrightarrow> t2 \<le> t3 \<Longrightarrow> in_force data t2"
  by (auto simp: in_force_def split: if_splits)

section \<open>Properties\<close>

text \<open>
  C4.  A license package is accepted, with a given snapshot, exactly when it is a well-formed
  package of admissible size whose payload is signed by a trusted key under the license domain and
  the package's own key id, and the payload grants the expected product to this machine at this
  time with a positive session limit and no empty feature; the snapshot then holds the payload's
  fields.
\<close>

theorem license_accepted_iff:
  "LicenseValidator_validate ossl lf validator package product machine now = Inr s \<longleftrightarrow>
     well_formed_package lf package \<and>
     (\<exists>payload. signed_payload ossl lf validator package payload \<and> VerifyLicensePayload lf payload \<and>
                grants (GetLicensePayload lf payload) product machine now s)"
  by (rule validate_iff)

text \<open>
  The bytes a license signature covers determine the format version, the key id and the
  payload: no other version, key id or payload of admissible size has the same signed bytes.
\<close>

lemma signatureInput_unambiguous:
  assumes "length k < 2 ^ 16" "length k' < 2 ^ 16" "length p < 2 ^ 32" "length p' < 2 ^ 32"
    and "signatureInput v k p = signatureInput v' k' p'"
  shows "v = v' \<and> k = k' \<and> p = p'"
  using assms by (rule signatureInput_inject)

text \<open>
  The times at which a license is accepted form an interval: a license accepted now and
  accepted later is accepted, with the same snapshot, at every time in between.
\<close>

lemma license_validity_interval:
  assumes "LicenseValidator_validate ossl lf validator package product machine t1 = Inr s"
    and "is_ok (LicenseValidator_validate ossl lf validator package product machine t3)"
    and "t1 \<le> t2" "t2 \<le> t3"
  shows "LicenseValidator_validate ossl lf validator package product machine t2 = Inr s"
proof -
  from assms(1) obtain payload where
    wf: "well_formed_package lf package" and
    sp: "signed_payload ossl lf validator package payload" "VerifyLicensePayload lf payload" and
    g1: "grants (GetLicensePayload lf payload) product machine t1 s"
    by (auto simp: validate_iff)
  from assms(2) obtain s3 where
    "LicenseValidator_validate ossl lf validator package product machine t3 = Inr s3"
    by (auto elim: is_okE)
  then obtain payload' where
    sp': "signed_payload ossl lf validator package payload'" and
    g3: "grants (GetLicensePayload lf payload') product machine t3 s3"
    by (auto simp: validate_iff)
  have "payload' = payload" using sp(1) sp' by (auto simp: signed_payload_def)
  with g1 g3 have "in_force (GetLicensePayload lf payload) t1" "in_force (GetLicensePayload lf payload) t3"
    by (auto simp: grants_def)
  with in_force_convex assms(3,4) have "in_force (GetLicensePayload lf payload) t2" by blast
  with g1 have "grants (GetLicensePayload lf payload) product machine t2 s"
    by (auto simp: grants_def)
  with wf sp show ?thesis by (auto simp: validate_iff)
qed

end
