(* ===== verification/MachineIdentity.thy ===== *)
theory MachineIdentity
  imports License "HOL-Library.List_Lexorder" "HOL-Library.Char_ord"
begin

text \<open>
  The identity of a machine, \<^verbatim>\<open>src/src/ya_license_core/src/machine_identity.cpp\<close>: two
  files are read, normalised and hashed.

  The reader is the parameter the code has: a function from a path to a result, \<open>None\<close> where it
  throws.  \<^verbatim>\<open>Result<MachineIdentity>\<close> carries the identity next to the error, so that the result
  here is a pair.
\<close>

section \<open>Data\<close>

datatype MachineIdentityComponentType = ComponentType_MachineId | ComponentType_ProductUuid

datatype MachineIdentityComponentStatus =
    ComponentStatus_Available
  | ComponentStatus_Missing
  | ComponentStatus_Unreadable
  | ComponentStatus_Invalid

datatype MachineIdentityReadStatus = ReadStatus_Success | ReadStatus_Missing | ReadStatus_Failure

record MachineIdentityReadResult =
  rd_status :: MachineIdentityReadStatus
  rd_contents :: string

type_synonym MachineIdentityReadFunction = "string \<Rightarrow> MachineIdentityReadResult option"

record LinuxMachineIdentityConfig =
  mic_machine_id_path :: string
  mic_product_uuid_path :: string
  mic_require_machine_id :: bool
  mic_require_product_uuid :: bool

definition default_machine_identity_config :: LinuxMachineIdentityConfig where
  "default_machine_identity_config =
     \<lparr>mic_machine_id_path = ''/etc/machine-id'',
      mic_product_uuid_path = ''/sys/class/dmi/id/product_uuid'',
      mic_require_machine_id = True, mic_require_product_uuid = False\<rparr>"

record MachineIdentityComponent =
  mc_type :: MachineIdentityComponentType
  mc_status :: MachineIdentityComponentStatus

record MachineIdentity =
  mi_exact_id :: string
  mi_components :: "MachineIdentityComponent list"

record NormalizedComponent =
  nc_type :: string
  nc_value :: string

section \<open>Characters\<close>

definition kHashDomain :: string where "kHashDomain = ''YOAUTHORIZE-MACHINE-ID-V1''"
definition kComponentHashDomain :: string where
  "kComponentHashDomain = ''YOAUTHORIZE-MACHINE-COMPONENT-V1''"
definition kMaxComponentSize :: nat where "kMaxComponentSize = 4096"

definition isAsciiSpace :: "char \<Rightarrow> bool" where
  "isAsciiSpace c \<longleftrightarrow> c \<in> {CHR '' '', CHR 0x09, CHR 0x0A, CHR 0x0D, CHR 0x0C, CHR 0x0B}"

definition isAsciiHex :: "char \<Rightarrow> bool" where
  "isAsciiHex c \<longleftrightarrow> (CHR ''0'' \<le> c \<and> c \<le> CHR ''9'') \<or> (CHR ''a'' \<le> c \<and> c \<le> CHR ''f'')
     \<or> (CHR ''A'' \<le> c \<and> c \<le> CHR ''F'')"

definition asciiLower :: "char \<Rightarrow> char" where
  "asciiLower c = (if CHR ''A'' \<le> c \<and> c \<le> CHR ''F'' then char_of (of_char c + 32 :: nat) else c)"

definition trimAscii :: "string \<Rightarrow> string" where
  "trimAscii s = rev (dropWhile isAsciiSpace (rev (dropWhile isAsciiSpace s)))"

section \<open>Normalisation\<close>

definition normalizeMachineId :: "string \<Rightarrow> string option" where
  "normalizeMachineId input =
     (let input = trimAscii input
      in if length input \<noteq> 32 \<or> \<not> list_all isAsciiHex input then None
         else Some (map asciiLower input))"

fun uuid_loop :: "nat \<Rightarrow> string \<Rightarrow> string \<Rightarrow> string option" where
  "uuid_loop index [] output = Some output"
| "uuid_loop index (c # cs) output =
     (if index \<in> {8, 13, 18, 23}
      then if c \<noteq> CHR ''-'' then None else uuid_loop (index + 1) cs output
      else if \<not> isAsciiHex c then None
           else uuid_loop (index + 1) cs (output @ [asciiLower c]))"

definition normalizeProductUuid :: "string \<Rightarrow> string option" where
  "normalizeProductUuid input =
     (let input = trimAscii input
      in if length input \<noteq> 36 then None else uuid_loop 0 input [])"

section \<open>Reading\<close>

text \<open>
  The default reader.  A file is what an \<^verbatim>\<open>ifstream\<close> sees of it: the error of opening it, or its
  characters and whether the stream is bad when they run out.
\<close>

datatype file_view = Cannot_open nat | Readable string bool

abbreviation (input) ENOENT :: nat where "ENOENT \<equiv> 2"

fun read_loop :: "string \<Rightarrow> string \<Rightarrow> bool \<Rightarrow> string \<times> bool" where
  "read_loop contents rest bad_at_end =
     (if length contents \<le> kMaxComponentSize
      then (case rest of
              [] \<Rightarrow> (contents, bad_at_end)
            | value # rest' \<Rightarrow> read_loop (contents @ [value]) rest' bad_at_end)
      else (contents, False))"

definition readFile :: "(string \<Rightarrow> file_view) \<Rightarrow> string \<Rightarrow> MachineIdentityReadResult" where
  "readFile files path =
     (case files path of
        Cannot_open errno \<Rightarrow>
          \<lparr>rd_status = (if errno = ENOENT then ReadStatus_Missing else ReadStatus_Failure),
           rd_contents = []\<rparr>
      | Readable text bad \<Rightarrow>
          (let (contents, bad) = read_loop [] text bad
           in if bad \<or> length contents > kMaxComponentSize
              then \<lparr>rd_status = ReadStatus_Failure, rd_contents = []\<rparr>
              else \<lparr>rd_status = ReadStatus_Success, rd_contents = contents\<rparr>))"

definition readComponent ::
  "MachineIdentityReadFunction \<Rightarrow> string \<Rightarrow> MachineIdentityComponentType \<Rightarrow> NormalizedComponent list \<Rightarrow>
     MachineIdentityComponentStatus \<times> NormalizedComponent list" where
  "readComponent reader path type out =
     (case reader path of
        None \<Rightarrow> (ComponentStatus_Unreadable, out)
      | Some read \<Rightarrow>
          if rd_status read = ReadStatus_Missing then (ComponentStatus_Missing, out)
          else if rd_status read \<noteq> ReadStatus_Success then (ComponentStatus_Unreadable, out)
          else (case (if type = ComponentType_MachineId then normalizeMachineId (rd_contents read)
                      else normalizeProductUuid (rd_contents read)) of
                  None \<Rightarrow> (ComponentStatus_Invalid, out)
                | Some normalized \<Rightarrow>
                    (ComponentStatus_Available,
                     out @ [\<lparr>nc_type = (if type = ComponentType_MachineId then ''machine-id''
                                         else ''product-uuid''),
                             nc_value = normalized\<rparr>])))"

section \<open>The identity\<close>

definition Machine_appendU32 :: "bytes \<Rightarrow> nat \<Rightarrow> bytes" where
  "Machine_appendU32 output value =
     (let narrowed = of_nat value :: u32
      in output @ map (\<lambda>index. ucast (drop_bit (24 - index * 8) narrowed)) [0..<4])"

definition appendField :: "bytes \<Rightarrow> string \<Rightarrow> bytes" where
  "appendField output value = Machine_appendU32 output (length value) @ octets value"

definition hexDigest :: "bytes \<Rightarrow> string" where
  "hexDigest digest =
     concat (map (\<lambda>byte. [''0123456789abcdef'' ! unat (drop_bit 4 byte),
                          ''0123456789abcdef'' ! unat (byte AND 15)]) digest)"

definition component_input :: "NormalizedComponent \<Rightarrow> bytes" where
  "component_input component =
     appendField (appendField (appendField [] kComponentHashDomain) (nc_type component))
       (nc_value component)"

text \<open>The loop that appends the components to the transcript; \<open>None\<close> when a hash fails.\<close>

fun append_components :: "('h, 'w) openssl \<Rightarrow> bytes \<Rightarrow> NormalizedComponent list \<Rightarrow> bytes option" where
  "append_components ossl transcript [] = Some transcript"
| "append_components ossl transcript (component # rest) =
     (case sha256 ossl (component_input component) of
        Inl _ \<Rightarrow> None
      | Inr component_digest \<Rightarrow>
          append_components ossl
            (Machine_appendU32 (appendField transcript (nc_type component)) (length component_digest)
               @ component_digest) rest)"

definition collectLinuxMachineIdentity ::
  "('h, 'w) openssl \<Rightarrow> LinuxMachineIdentityConfig \<Rightarrow> MachineIdentityReadFunction \<Rightarrow>
     ErrorCode \<times> MachineIdentity" where
  "collectLinuxMachineIdentity ossl config read_file =
     (let (status1, normalized1) =
            readComponent read_file (mic_machine_id_path config) ComponentType_MachineId [];
          (status2, normalized) =
            readComponent read_file (mic_product_uuid_path config) ComponentType_ProductUuid normalized1;
          identity = \<lparr>mi_exact_id = [],
            mi_components = [\<lparr>mc_type = ComponentType_MachineId, mc_status = status1\<rparr>,
                             \<lparr>mc_type = ComponentType_ProductUuid, mc_status = status2\<rparr>]\<rparr>
      in if (mic_require_machine_id config \<and> status1 \<noteq> ComponentStatus_Available)
            \<or> (mic_require_product_uuid config \<and> status2 \<noteq> ComponentStatus_Available)
         then (ErrorCode_MachineIdentityUnavailable, identity)
         else if normalized = [] then (ErrorCode_MachineIdentityUnavailable, identity)
         else let normalized = sort_key nc_type normalized;
                  transcript = Machine_appendU32 (appendField [] kHashDomain) (length normalized)
              in case append_components ossl transcript normalized of
                   None \<Rightarrow> (ErrorCode_InternalError, identity)
                 | Some transcript \<Rightarrow>
                     (case sha256 ossl transcript of
                        Inl _ \<Rightarrow> (ErrorCode_InternalError, identity)
                      | Inr digest \<Rightarrow>
                          (ErrorCode_None, identity\<lparr>mi_exact_id := hexDigest digest\<rparr>)))"

section \<open>Characters of a normal form\<close>

definition lower_hex :: string where "lower_hex = ''0123456789abcdef''"

lemma char_set_iff: "c \<in> S \<longleftrightarrow> (of_char c :: nat) \<in> of_char ` S"
  by (auto simp: image_iff)

lemma isAsciiHex_iff: "isAsciiHex c \<longleftrightarrow> c \<in> set ''0123456789abcdefABCDEF''"
proof -
  have "isAsciiHex c \<longleftrightarrow> (of_char c :: nat) \<in> {48..57} \<union> {97..102} \<union> {65..70}"
    by (auto simp: isAsciiHex_def less_eq_char_def)
  also have "\<dots> \<longleftrightarrow> (of_char c :: nat) \<in> of_char ` set ''0123456789abcdefABCDEF''"
    by (simp add: Bex_def) presburger
  finally show ?thesis by (simp only: char_set_iff [symmetric])
qed

lemma asciiLower_hex:
  assumes "isAsciiHex c"
  shows "asciiLower c \<in> set lower_hex" "isAsciiHex (asciiLower c)" "asciiLower (asciiLower c) = asciiLower c"
    "\<not> isAsciiSpace c"
proof -
  have c: "c \<in> set ''0123456789abcdefABCDEF''" using assms by (simp add: isAsciiHex_iff)
  have "\<forall>c \<in> set ''0123456789abcdefABCDEF''. asciiLower c \<in> set lower_hex \<and>
      asciiLower (asciiLower c) = asciiLower c \<and> \<not> isAsciiSpace c"
    by code_simp
  with c show "asciiLower c \<in> set lower_hex" "asciiLower (asciiLower c) = asciiLower c" "\<not> isAsciiSpace c"
    by blast+
  then show "isAsciiHex (asciiLower c)" by (auto simp: isAsciiHex_iff lower_hex_def)
qed


section \<open>Normal forms\<close>

lemma trimAscii_id: "\<forall>c \<in> set s. \<not> isAsciiSpace c \<Longrightarrow> trimAscii s = s"
proof -
  assume s: "\<forall>c \<in> set s. \<not> isAsciiSpace c"
  have "dropWhile isAsciiSpace t = t" if "set t = set s" for t
    using s that by (cases t) auto
  then show "trimAscii s = s" by (simp add: trimAscii_def)
qed

lemma trimAscii_pad:
  assumes "list_all isAsciiSpace a" "list_all isAsciiSpace b"
  shows "trimAscii (a @ s @ b) = trimAscii s"
proof -
  have "dropWhile isAsciiSpace (a @ s @ b) = dropWhile isAsciiSpace (s @ b)"
    using assms(1) by (simp add: list_all_iff)
  moreover have "dropWhile isAsciiSpace (rev (dropWhile isAsciiSpace (s @ b)))
      = dropWhile isAsciiSpace (rev (dropWhile isAsciiSpace s))"
  proof (cases "\<forall>c \<in> set s. isAsciiSpace c")
    case True
    then have "dropWhile isAsciiSpace s = []" "dropWhile isAsciiSpace (s @ b) = []"
      using assms(2) by (auto simp: list_all_iff)
    then show ?thesis by (simp only:)
  next
    case False
    then have "dropWhile isAsciiSpace (s @ b) = dropWhile isAsciiSpace s @ b"
      by (auto simp: dropWhile_append)
    moreover have "dropWhile isAsciiSpace (rev b @ r) = dropWhile isAsciiSpace r" for r
      by (rule dropWhile_append2) (use assms(2) in \<open>simp add: list_all_iff\<close>)
    ultimately show ?thesis by simp
  qed
  ultimately show ?thesis by (simp add: trimAscii_def)
qed

definition normal_form :: "string \<Rightarrow> bool" where
  "normal_form n \<longleftrightarrow> length n = 32 \<and> set n \<subseteq> set lower_hex"

lemma normalizeMachineId_normal: "normalizeMachineId s = Some n \<Longrightarrow> normal_form n"
  by (auto simp: normalizeMachineId_def Let_def normal_form_def list_all_iff asciiLower_hex split: if_splits)

lemma lower_hex_chars: "c \<in> set lower_hex \<Longrightarrow> isAsciiHex c \<and> asciiLower c = c \<and> \<not> isAsciiSpace c"
proof -
  have "\<forall>c \<in> set lower_hex. isAsciiHex c \<and> asciiLower c = c \<and> \<not> isAsciiSpace c" by code_simp
  then show "c \<in> set lower_hex \<Longrightarrow> isAsciiHex c \<and> asciiLower c = c \<and> \<not> isAsciiSpace c" by blast
qed

lemma normalizeMachineId_fixed:
  assumes "normal_form n"
  shows "normalizeMachineId n = Some n"
proof -
  have "trimAscii n = n"
    using assms lower_hex_chars by (intro trimAscii_id) (auto simp: normal_form_def)
  moreover have "map asciiLower n = n"
    using assms lower_hex_chars by (intro map_idI) (auto simp: normal_form_def)
  ultimately show ?thesis
    using assms lower_hex_chars by (auto simp: normalizeMachineId_def list_all_iff normal_form_def)
qed

text \<open>The loop over a UUID keeps the characters that are not at a hyphen's place.\<close>

lemma uuid_loop_Some:
  "uuid_loop i cs out = Some n \<Longrightarrow>
     set n \<subseteq> set out \<union> set lower_hex \<and>
     length n + card ({8, 13, 18, 23} \<inter> {i..<i + length cs}) = length out + length cs"
proof (induction cs arbitrary: i out)
  case (Cons c cs)
  have split: "{8, 13, 18, 23} \<inter> {i..<i + length (c # cs)} =
      (if i \<in> {8, 13, 18, 23 :: nat} then insert i ({8, 13, 18, 23} \<inter> {i + 1..<i + 1 + length cs})
       else {8, 13, 18, 23} \<inter> {i + 1..<i + 1 + length cs})"
    by auto
  show ?case
  proof (cases "i \<in> {8, 13, 18, 23}")
    case True
    then have "uuid_loop (i + 1) cs out = Some n"
      using Cons.prems by (auto split: if_splits)
    from Cons.IH [OF this] True show ?thesis unfolding split by simp
  next
    case False
    then have "isAsciiHex c" "uuid_loop (i + 1) cs (out @ [asciiLower c]) = Some n"
      using Cons.prems by (auto split: if_splits)
    with Cons.IH [OF this(2)] False show ?thesis unfolding split using asciiLower_hex(1) by auto
  qed
qed simp

lemma normalizeProductUuid_normal: "normalizeProductUuid s = Some n \<Longrightarrow> normal_form n"
proof -
  assume "normalizeProductUuid s = Some n"
  then have l: "length (trimAscii s) = 36" and u: "uuid_loop 0 (trimAscii s) [] = Some n"
    by (auto simp: normalizeProductUuid_def Let_def split: if_splits)
  have "{8, 13, 18, 23} \<inter> {0..<0 + length (trimAscii s)} = {8, 13, 18, 23 :: nat}" using l by auto
  with uuid_loop_Some [OF u] l show ?thesis by (simp add: normal_form_def)
qed

lemma read_loop_eq:
  "length contents \<le> 4097 \<Longrightarrow> read_loop contents rest bad =
     (if length contents + length rest \<le> 4096 then (contents @ rest, bad)
      else (take 4097 (contents @ rest), False))"
proof (induction rest arbitrary: contents)
  case Nil
  then show ?case by (subst read_loop.simps) (simp add: kMaxComponentSize_def)
next
  case (Cons c rest)
  then show ?case
    by (subst read_loop.simps) (simp add: kMaxComponentSize_def del: read_loop.simps)
qed

declare read_loop.simps [simp del]

lemma readFile_eq:
  "readFile files path = \<lparr>rd_status = ReadStatus_Success, rd_contents = t\<rparr> \<longleftrightarrow>
     files path = Readable t False \<and> length t \<le> 4096"
  by (auto simp: readFile_def read_loop_eq kMaxComponentSize_def split: file_view.split)


section \<open>The identity as a function of the components\<close>

lemma Machine_appendU32_be: "Machine_appendU32 output n = output @ be_bytes 4 (of_nat n :: u32)"
  by (simp add: Machine_appendU32_def Let_def be_bytes_def upt_conv_Cons eval_nat_numeral)

lemma appendField_sized32: "appendField output s = output @ sized32 (octets s)"
  by (simp add: appendField_def Machine_appendU32_be sized32_def)

lemma component_input_inject:
  assumes "component_input c = component_input d"
    and "length (nc_type c) < 2 ^ 32" "length (nc_type d) < 2 ^ 32"
    and "length (nc_value c) < 2 ^ 32" "length (nc_value d) < 2 ^ 32"
  shows "c = d"
proof -
  from assms(1) have "sized32 (octets (nc_type c)) @ sized32 (octets (nc_value c)) =
      sized32 (octets (nc_type d)) @ sized32 (octets (nc_value d))"
    by (simp add: component_input_def appendField_sized32)
  with assms(2-5) have "octets (nc_type c) = octets (nc_type d)"
    "sized32 (octets (nc_value c)) = sized32 (octets (nc_value d))"
    by (simp_all add: sized32.append_eq_iff)
  with assms(4,5) sized32.inject [of "octets (nc_value c)" "octets (nc_value d)"] show ?thesis
    by (cases c; cases d) simp
qed

definition component_record :: "('h, 'w) openssl \<Rightarrow> NormalizedComponent \<Rightarrow> bytes" where
  "component_record ossl c =
     sized32 (octets (nc_type c)) @ sized32 (case sha256 ossl (component_input c) of Inr d \<Rightarrow> d | Inl _ \<Rightarrow> [])"

lemma append_components_eq:
  "append_components ossl t cs =
     (if \<forall>c \<in> set cs. is_ok (sha256 ossl (component_input c))
      then Some (t @ concat (map (component_record ossl) cs)) else None)"
  by (induction cs arbitrary: t)
     (auto simp: component_record_def appendField_sized32 Machine_appendU32_be sized32_def
        is_ok_def split: sum.splits)

text \<open>The components a machine offers, as the code collects and sorts them.\<close>

definition machine_components ::
  "LinuxMachineIdentityConfig \<Rightarrow> MachineIdentityReadFunction \<Rightarrow> NormalizedComponent list" where
  "machine_components config reader =
     sort_key nc_type (snd (readComponent reader (mic_product_uuid_path config) ComponentType_ProductUuid
       (snd (readComponent reader (mic_machine_id_path config) ComponentType_MachineId []))))"

definition identity_transcript :: "('h, 'w) openssl \<Rightarrow> NormalizedComponent list \<Rightarrow> bytes" where
  "identity_transcript ossl cs =
     sized32 (octets kHashDomain) @ be_bytes 4 (of_nat (length cs) :: u32)
       @ concat (map (component_record ossl) cs)"

lemma collect_ok:
  assumes "collectLinuxMachineIdentity ossl config reader = (ErrorCode_None, identity)"
  obtains digest where
    "machine_components config reader \<noteq> []"
    "\<forall>c \<in> set (machine_components config reader). is_ok (sha256 ossl (component_input c))"
    "sha256 ossl (identity_transcript ossl (machine_components config reader)) = Inr digest"
    "mi_exact_id identity = hexDigest digest"
    "mic_require_machine_id config \<longrightarrow> mc_status (mi_components identity ! 0) = ComponentStatus_Available"
    "mic_require_product_uuid config \<longrightarrow> mc_status (mi_components identity ! 1) = ComponentStatus_Available"
proof -
  obtain s1 n1 where r1: "readComponent reader (mic_machine_id_path config) ComponentType_MachineId [] = (s1, n1)"
    by fastforce
  obtain s2 n2 where r2: "readComponent reader (mic_product_uuid_path config) ComponentType_ProductUuid n1 = (s2, n2)"
    by fastforce
  have m: "machine_components config reader = sort_key nc_type n2"
    by (simp add: machine_components_def r1 r2)
  have t: "Machine_appendU32 (appendField [] kHashDomain) (length (sort_key nc_type n2))
      @ concat (map (component_record ossl) (sort_key nc_type n2)) = identity_transcript ossl (sort_key nc_type n2)"
    by (simp add: identity_transcript_def appendField_sized32 Machine_appendU32_be)
  have ne: "sort_key nc_type n2 = [] \<longleftrightarrow> n2 = []" by (metis length_0_conv length_sort)
  from assms show thesis
    unfolding collectLinuxMachineIdentity_def Let_def r1 r2 prod.case append_components_eq t
    by (auto split: if_splits sum.splits simp: m ne intro: that)
qed


lemma machine_components_normal:
  assumes "c \<in> set (machine_components config reader)"
  shows "nc_type c \<in> {''machine-id'', ''product-uuid''} \<and> normal_form (nc_value c)"
proof -
  have r: "c \<in> set (snd (readComponent reader path type out)) \<Longrightarrow> c \<in> set out \<or>
      nc_type c \<in> {''machine-id'', ''product-uuid''} \<and> normal_form (nc_value c)" for path type out
    by (auto simp: readComponent_def split: option.splits if_splits
        dest: normalizeMachineId_normal normalizeProductUuid_normal)
  from assms show ?thesis by (auto simp: machine_components_def dest!: r)
qed

lemma nibble_digits: "a < 16 \<Longrightarrow> b < 16 \<Longrightarrow>
    ''0123456789abcdef'' ! a = ''0123456789abcdef'' ! b \<longleftrightarrow> a = b"
proof -
  have "distinct ''0123456789abcdef''" by simp
  from nth_eq_iff_index_eq [OF this, of a b] show "a < 16 \<Longrightarrow> b < 16 \<Longrightarrow>
    ''0123456789abcdef'' ! a = ''0123456789abcdef'' ! b \<longleftrightarrow> a = b" by simp
qed

lemma unat_nibbles: "unat (drop_bit 4 (b :: u8)) < 16" "unat (b AND 15) < 16"
proof -
  have "unat b < 256" using unsigned_less [of b] by simp
  moreover have "unat (drop_bit 4 b) = unat b div 16"
    by (simp only: unat_drop_bit_eq) (simp add: drop_bit_eq_div)
  ultimately show "unat (drop_bit 4 b) < 16" by simp
  have "b AND 15 \<le> 15" by (rule word_and_le1)
  then show "unat (b AND 15) < 16" by (simp add: word_le_nat_alt)
qed

lemma nibbles_inject:
  assumes "drop_bit 4 (a :: u8) = drop_bit 4 b" "a AND 15 = b AND 15"
  shows "a = b"
proof (rule bit_word_eqI)
  fix n assume "n < LENGTH(8)"
  have m: "(15 :: u8) = mask 4" by (simp add: mask_eq_exp_minus_1)
  show "bit a n \<longleftrightarrow> bit b n"
  proof (cases "n < 4")
    case True
    from assms(2) have "bit (a AND 15) n \<longleftrightarrow> bit (b AND 15) n" by simp
    then show ?thesis using True by (simp add: m bit_and_iff bit_mask_iff)
  next
    case False
    from assms(1) have "bit (drop_bit 4 a) (n - 4) \<longleftrightarrow> bit (drop_bit 4 b) (n - 4)" by simp
    then show ?thesis using False by (simp add: bit_drop_bit_eq)
  qed
qed

lemma hexDigest_simps:
  "hexDigest [] = []"
  "hexDigest (b # bs) = ''0123456789abcdef'' ! unat (drop_bit 4 b)
     # ''0123456789abcdef'' ! unat (b AND 15) # hexDigest bs"
  by (simp_all add: hexDigest_def)

lemma hexDigest_inject: "hexDigest a = hexDigest b \<Longrightarrow> a = b"
proof (induction a arbitrary: b)
  case Nil
  then show ?case by (cases b) (simp_all add: hexDigest_simps)
next
  case (Cons x xs)
  then obtain y ys where b: "b = y # ys" by (cases b) (auto simp: hexDigest_simps)
  with Cons.prems have "unat (drop_bit 4 x) = unat (drop_bit 4 y)" "unat (x AND 15) = unat (y AND 15)"
    "hexDigest xs = hexDigest ys"
    by (simp_all add: hexDigest_simps nibble_digits unat_nibbles)
  then have "x = y" and "xs = ys"
    using Cons.IH nibbles_inject [of x y] by (simp_all only: word_unat_eq_iff [symmetric])
  with b show ?case by simp
qed

lemma hexDigest_length: "length (hexDigest d) = 2 * length d"
  by (induction d) (simp_all add: hexDigest_simps)

lemma hexDigest_chars: "set (hexDigest d) \<subseteq> set lower_hex"
proof (induction d)
  case (Cons b d)
  have "''0123456789abcdef'' ! i \<in> set lower_hex" if "i < 16" for i
    unfolding lower_hex_def by (rule nth_mem) (use that in simp)
  with Cons show ?case using unat_nibbles [of b] by (auto simp: hexDigest_simps)
qed (simp add: hexDigest_simps)

lemma concat_records_inject:
  assumes "concat (map (component_record ossl) cs) = concat (map (component_record ossl) ds)"
    and "length cs = length ds"
    and "\<forall>c \<in> set cs \<union> set ds. length (nc_type c) < 2 ^ 32 \<and> is_ok (sha256 ossl (component_input c))"
  shows "map nc_type cs = map nc_type ds \<and>
         map (\<lambda>c. sha256 ossl (component_input c)) cs = map (\<lambda>c. sha256 ossl (component_input c)) ds"
  using assms(2,1,3)
proof (induction cs ds rule: list_induct2)
  case (Cons c cs d ds)
  obtain x y where h: "sha256 ossl (component_input c) = Inr x" "sha256 ossl (component_input d) = Inr y"
    using Cons.prems(2) by (auto elim!: is_okE)
  have l: "length x < 2 ^ 32" "length y < 2 ^ 32"
    using sha256_length [OF h(1)] sha256_length [OF h(2)] by (simp_all add: kSha256Size_def)
  have "component_record ossl c = sized32 (octets (nc_type c)) @ sized32 x"
    "component_record ossl d = sized32 (octets (nc_type d)) @ sized32 y"
    using h by (simp_all add: component_record_def)
  with Cons.prems(1) have
    "sized32 (octets (nc_type c)) @ sized32 x @ concat (map (component_record ossl) cs) =
     sized32 (octets (nc_type d)) @ sized32 y @ concat (map (component_record ossl) ds)"
    by simp
  moreover have "length (nc_type c) < 2 ^ 32" "length (nc_type d) < 2 ^ 32" using Cons.prems(2) by auto
  ultimately have "nc_type c = nc_type d" "x = y"
    "concat (map (component_record ossl) cs) = concat (map (component_record ossl) ds)"
    using l by (simp_all add: sized32.append_eq_iff)
  with Cons h show ?case by simp
qed simp


lemma transcript_inject:
  assumes "identity_transcript ossl cs = identity_transcript ossl ds"
    and "length cs < 2 ^ 32" "length ds < 2 ^ 32"
    and "\<forall>c \<in> set cs \<union> set ds. length (nc_type c) < 2 ^ 32 \<and> is_ok (sha256 ossl (component_input c))"
  shows "map (\<lambda>c. sha256 ossl (component_input c)) cs = map (\<lambda>c. sha256 ossl (component_input c)) ds"
proof -
  have "be_bytes 4 (of_nat (length cs) :: u32) @ concat (map (component_record ossl) cs) =
      be_bytes 4 (of_nat (length ds) :: u32) @ concat (map (component_record ossl) ds)"
    using assms(1) by (simp add: identity_transcript_def)
  then have "(of_nat (length cs) :: u32) = of_nat (length ds)"
    and r: "concat (map (component_record ossl) cs) = concat (map (component_record ossl) ds)"
    by (simp_all add: be32.append_eq_iff)
  then have "length cs = length ds"
    using assms(2,3) of_nat_word_eq_less [of "length cs" "length ds", where ?'a = 32] by simp
  from concat_records_inject [OF r this assms(4)] show ?thesis by simp
qed

lemma machine_components_length: "length (machine_components config reader) \<le> 2"
proof -
  have "length (snd (readComponent reader path type out)) \<le> length out + 1" for path type out
    by (simp add: readComponent_def split: option.split)
  from this [of "mic_machine_id_path config" ComponentType_MachineId "[]"]
    this [of "mic_product_uuid_path config" ComponentType_ProductUuid
       "snd (readComponent reader (mic_machine_id_path config) ComponentType_MachineId [])"]
  show ?thesis by (simp add: machine_components_def)
qed

text \<open>The inputs the identity of a machine hashes.\<close>

definition hashed_inputs ::
  "('h, 'w) openssl \<Rightarrow> LinuxMachineIdentityConfig \<Rightarrow> MachineIdentityReadFunction \<Rightarrow> bytes set" where
  "hashed_inputs ossl config reader =
     insert (identity_transcript ossl (machine_components config reader))
       (component_input ` set (machine_components config reader))"

section \<open>Properties\<close>

text \<open>
  Normalisation: what either routine accepts is 32 lower-case hexadecimal characters, a
  normalised machine id is its own normal form, and white space around the contents of either
  file does not matter.
\<close>

lemma normalisation_correct:
  "(normalizeMachineId s = Some n \<longrightarrow> normal_form n \<and> normalizeMachineId n = Some n) \<and>
   (normalizeProductUuid s = Some n \<longrightarrow> normal_form n) \<and>
   (list_all isAsciiSpace a \<and> list_all isAsciiSpace b \<longrightarrow>
      normalizeMachineId (a @ s @ b) = normalizeMachineId s \<and>
      normalizeProductUuid (a @ s @ b) = normalizeProductUuid s)"
  using normalizeMachineId_normal [of s n] normalizeMachineId_fixed [of n]
    normalizeProductUuid_normal [of s n] trimAscii_pad [of a b s]
  by (auto simp: normalizeMachineId_def normalizeProductUuid_def)

text \<open>
  Every outcome of the collection: on success the identity is 64 lower-case hexadecimal
  characters and every required component was available; on failure the identity is empty and the
  error says that no usable component, or not every required one, was available, or that a hash
  failed.
\<close>

lemma identity_outcomes:
  assumes "collectLinuxMachineIdentity ossl config reader = (e, identity)"
  shows "if e = ErrorCode_None
         then length (mi_exact_id identity) = 64 \<and> set (mi_exact_id identity) \<subseteq> set lower_hex \<and>
              (mic_require_machine_id config \<longrightarrow>
                 mc_status (mi_components identity ! 0) = ComponentStatus_Available) \<and>
              (mic_require_product_uuid config \<longrightarrow>
                 mc_status (mi_components identity ! 1) = ComponentStatus_Available)
         else mi_exact_id identity = [] \<and>
              e \<in> {ErrorCode_MachineIdentityUnavailable, ErrorCode_InternalError}"
proof (cases "e = ErrorCode_None")
  case True
  from collect_ok [OF assms [unfolded True]] obtain digest where
    d: "sha256 ossl (identity_transcript ossl (machine_components config reader)) = Inr digest"
       "mi_exact_id identity = hexDigest digest"
    and r: "mic_require_machine_id config \<longrightarrow> mc_status (mi_components identity ! 0) = ComponentStatus_Available"
       "mic_require_product_uuid config \<longrightarrow> mc_status (mi_components identity ! 1) = ComponentStatus_Available" .
  have "length (mi_exact_id identity) = 64"
    using sha256_length [OF d(1)] d(2) by (simp add: hexDigest_length kSha256Size_def)
  with True d(2) r hexDigest_chars [of digest] show ?thesis by simp
next
  case False
  with assms show ?thesis
    by (auto simp: collectLinuxMachineIdentity_def Let_def split: prod.splits if_splits option.splits sum.splits)
qed

text \<open>
  Two machines with the same identity have the same components: as long as SHA-256 does not
  collide on the inputs the two collections hash, equal identities mean that the same components
  were available with the same normalised values.
\<close>

lemma same_identity_same_machine:
  assumes a: "collectLinuxMachineIdentity ossl config reader = (ErrorCode_None, identity)"
    and b: "collectLinuxMachineIdentity ossl config' reader' = (ErrorCode_None, identity')"
    and same: "mi_exact_id identity = mi_exact_id identity'"
    and collision_free: "inj_on (sha256 ossl) (hashed_inputs ossl config reader \<union> hashed_inputs ossl config' reader')"
  shows "machine_components config reader = machine_components config' reader'"
proof -
  let ?cs = "machine_components config reader" and ?ds = "machine_components config' reader'"
  from collect_ok [OF a] obtain x where
    x: "\<forall>c \<in> set ?cs. is_ok (sha256 ossl (component_input c))"
       "sha256 ossl (identity_transcript ossl ?cs) = Inr x" "mi_exact_id identity = hexDigest x" .
  from collect_ok [OF b] obtain y where
    y: "\<forall>c \<in> set ?ds. is_ok (sha256 ossl (component_input c))"
       "sha256 ossl (identity_transcript ossl ?ds) = Inr y" "mi_exact_id identity' = hexDigest y" .
  have "x = y" using same x(3) y(3) by (simp add: hexDigest_inject)
  with x(2) y(2) have "sha256 ossl (identity_transcript ossl ?cs) = sha256 ossl (identity_transcript ossl ?ds)"
    by simp
  from inj_onD [OF collision_free this] have t: "identity_transcript ossl ?cs = identity_transcript ossl ?ds"
    by (simp add: hashed_inputs_def)
  have n: "length (nc_type c) < 2 ^ 32 \<and> length (nc_value c) < 2 ^ 32" if "c \<in> set ?cs \<union> set ?ds" for c
    using that machine_components_normal [of c config reader] machine_components_normal [of c config' reader']
    by (auto simp: normal_form_def)
  have "map (\<lambda>c. sha256 ossl (component_input c)) ?cs = map (\<lambda>c. sha256 ossl (component_input c)) ?ds"
    using machine_components_length [of config reader] machine_components_length [of config' reader'] x(1) y(1) n
    by (intro transcript_inject [OF t]) auto
  moreover have "inj_on (\<lambda>c. sha256 ossl (component_input c)) (set ?cs \<union> set ?ds)"
  proof (rule inj_onI)
    fix c d
    assume cd: "c \<in> set ?cs \<union> set ?ds" "d \<in> set ?cs \<union> set ?ds"
      and eq: "sha256 ossl (component_input c) = sha256 ossl (component_input d)"
    have "component_input c \<in> hashed_inputs ossl config reader \<union> hashed_inputs ossl config' reader'"
      "component_input d \<in> hashed_inputs ossl config reader \<union> hashed_inputs ossl config' reader'"
      using cd unfolding hashed_inputs_def by blast+
    from inj_onD [OF collision_free eq this] have "component_input c = component_input d" .
    with n [OF cd(1)] n [OF cd(2)] show "c = d" by (intro component_input_inject) auto
  qed
  ultimately show ?thesis by (rule map_inj_on)
qed

end
