(* ===== verification/ServiceConfig.thy ===== *)
theory ServiceConfig
  imports MachineIdentity Handshake
begin

text \<open>
  The configuration of the service, \<^verbatim>\<open>src/src/ya_license_service/src/config.cpp\<close>.  The TOML
  parser is a parameter: the type \<open>'n\<close> of its nodes, what reading a file gives, and the accessors of
  a node that the code uses.  A conversion the parser refuses is \<open>None\<close>.
\<close>

section \<open>The parser\<close>

datatype 'n parse_outcome = Parse_error | Other_exception | Parsed "string \<rightharpoonup> 'n"

record 'n toml =
  toml_symlink_status :: "string \<Rightarrow> bool option"
  toml_parse_file :: "string \<Rightarrow> 'n parse_outcome"
  toml_value_string :: "'n \<Rightarrow> string option"
  toml_value_int64 :: "'n \<Rightarrow> int option"
  toml_value_bool :: "'n \<Rightarrow> bool option"
  toml_as_table :: "'n \<Rightarrow> (string \<rightharpoonup> 'n) option"
  toml_as_array :: "'n \<Rightarrow> 'n list option"

section \<open>Data\<close>

datatype ConfigError =
    ConfigError_None
  | ConfigError_Io
  | ConfigError_Parse
  | ConfigError_MissingField
  | ConfigError_InvalidValue
  | ConfigError_DuplicateKeyId

type_synonym 'a ConfigResult = "ConfigError + 'a"

record TrustKeyConfig =
  tk_id :: string
  tk_public_key_path :: string

record ServiceConfig =
  sc_identity_key_id :: string
  sc_identity_private_key_path :: string
  sc_license_path :: string
  sc_product_id :: string
  sc_license_keys :: "TrustKeyConfig list"
  sc_socket_path :: string
  sc_socket_mode :: u32
  sc_backlog :: int
  sc_allowed_uids :: "u32 list"
  sc_allowed_gids :: "u32 list"
  sc_max_connections :: u32
  sc_handshake_timeout_ms :: u32
  sc_io_timeout_ms :: u32
  sc_idle_timeout_ms :: u32
  sc_heartbeat_interval_ms :: u32
  sc_heartbeat_timeout_ms :: u32
  sc_machine_identity :: LinuxMachineIdentityConfig

definition default_service_config :: "string \<Rightarrow> string \<Rightarrow> string \<Rightarrow> string \<Rightarrow> ServiceConfig" where
  "default_service_config identity_id identity_path license_path product_id =
     \<lparr>sc_identity_key_id = identity_id, sc_identity_private_key_path = identity_path,
      sc_license_path = license_path, sc_product_id = product_id, sc_license_keys = [],
      sc_socket_path = ''/run/yoauthorize/license-v1.sock'', sc_socket_mode = 432, sc_backlog = 64,
      sc_allowed_uids = [], sc_allowed_gids = [], sc_max_connections = 64,
      sc_handshake_timeout_ms = 5000, sc_io_timeout_ms = 5000, sc_idle_timeout_ms = 30000,
      sc_heartbeat_interval_ms = 5000, sc_heartbeat_timeout_ms = 15000,
      sc_machine_identity = default_machine_identity_config\<rparr>"

section \<open>Helpers\<close>

definition requiredString :: "'n toml \<Rightarrow> (string \<rightharpoonup> 'n) \<Rightarrow> string \<Rightarrow> string option" where
  "requiredString tp table key =
     (case Option.bind (table key) (toml_value_string tp) of
        Some v \<Rightarrow> if v = [] then None else Some v
      | None \<Rightarrow> None)"

text \<open>The new value of the output, \<open>None\<close> where the routine returns false.\<close>

definition assignInteger ::
  "'n toml \<Rightarrow> (string \<rightharpoonup> 'n) \<Rightarrow> string \<Rightarrow> (int \<Rightarrow> 't) \<Rightarrow> 't \<Rightarrow> int \<Rightarrow> int \<Rightarrow> 't option" where
  "assignInteger tp table key cast output minimum maximum =
     (case table key of
        None \<Rightarrow> Some output
      | Some node \<Rightarrow>
          (case toml_value_int64 tp node of
             None \<Rightarrow> None
           | Some v \<Rightarrow> if v < 0 \<or> v < minimum \<or> v > maximum then None else Some (cast v)))"

fun parseIds_loop :: "'n toml \<Rightarrow> 'n list \<Rightarrow> u32 list \<Rightarrow> u32 list option" where
  "parseIds_loop tp [] output = Some output"
| "parseIds_loop tp (item # rest) output =
     (case toml_value_int64 tp item of
        None \<Rightarrow> None
      | Some v \<Rightarrow>
          if v < 0 \<or> v > 4294967295 then None
          else let i = of_int v :: u32
               in if i \<in> set output then None else parseIds_loop tp rest (output @ [i]))"

definition parseIds :: "'n toml \<Rightarrow> 'n \<Rightarrow> u32 list option" where
  "parseIds tp node =
     (case toml_as_array tp node of None \<Rightarrow> None | Some values \<Rightarrow> parseIds_loop tp values [])"

text \<open>A string that may be absent but not invalid: \<open>Inl\<close> where the code returns an error.\<close>

definition optionalString :: "'n toml \<Rightarrow> (string \<rightharpoonup> 'n) \<Rightarrow> string \<Rightarrow> string \<Rightarrow> string ConfigResult" where
  "optionalString tp table key output =
     (case requiredString tp table key of
        Some v \<Rightarrow> Inr v
      | None \<Rightarrow> if table key \<noteq> None then Inl ConfigError_InvalidValue else Inr output)"

definition assignIntegers :: "'n toml \<Rightarrow> (string \<rightharpoonup> 'n) \<Rightarrow> ServiceConfig \<Rightarrow> ServiceConfig ConfigResult" where
  "assignIntegers tp service c =
     (case do {
        mode \<leftarrow> assignInteger tp service ''socket_mode'' of_int (sc_socket_mode c) 0 511;
        backlog \<leftarrow> assignInteger tp service ''backlog'' (\<lambda>v. v) (sc_backlog c) 1 4096;
        max_connections \<leftarrow> assignInteger tp service ''max_connections'' of_int (sc_max_connections c) 1 10000;
        handshake \<leftarrow> assignInteger tp service ''handshake_timeout_ms'' of_int (sc_handshake_timeout_ms c) 100 60000;
        io \<leftarrow> assignInteger tp service ''io_timeout_ms'' of_int (sc_io_timeout_ms c) 100 60000;
        idle \<leftarrow> assignInteger tp service ''idle_timeout_ms'' of_int (sc_idle_timeout_ms c) 1000 3600000;
        interval \<leftarrow> assignInteger tp service ''heartbeat_interval_ms'' of_int (sc_heartbeat_interval_ms c) 1000 60000;
        timeout \<leftarrow> assignInteger tp service ''heartbeat_timeout_ms'' of_int (sc_heartbeat_timeout_ms c) 2000 300000;
        if timeout \<le> interval then None
        else Some (c\<lparr>sc_socket_mode := mode, sc_backlog := backlog, sc_max_connections := max_connections,
                     sc_handshake_timeout_ms := handshake, sc_io_timeout_ms := io,
                     sc_idle_timeout_ms := idle, sc_heartbeat_interval_ms := interval,
                     sc_heartbeat_timeout_ms := timeout\<rparr>)
      } of
        None \<Rightarrow> Inl ConfigError_InvalidValue
      | Some c \<Rightarrow> Inr c)"

definition readMachine :: "'n toml \<Rightarrow> (string \<rightharpoonup> 'n) \<Rightarrow> LinuxMachineIdentityConfig \<Rightarrow>
    LinuxMachineIdentityConfig ConfigResult" where
  "readMachine tp machine mc =
     (case optionalString tp machine ''machine_id_path'' (mic_machine_id_path mc) of
        Inl e \<Rightarrow> Inl e
      | Inr machine_id_path \<Rightarrow>
          (case optionalString tp machine ''product_uuid_path'' (mic_product_uuid_path mc) of
             Inl e \<Rightarrow> Inl e
           | Inr product_uuid_path \<Rightarrow>
               let required_machine = Option.bind (machine ''require_machine_id'') (toml_value_bool tp);
                   required_uuid = Option.bind (machine ''require_product_uuid'') (toml_value_bool tp)
               in if (machine ''require_machine_id'' \<noteq> None \<and> required_machine = None)
                     \<or> (machine ''require_product_uuid'' \<noteq> None \<and> required_uuid = None)
                  then Inl ConfigError_InvalidValue
                  else Inr (mc\<lparr>mic_machine_id_path := machine_id_path,
                               mic_product_uuid_path := product_uuid_path,
                               mic_require_machine_id := (case required_machine of
                                  Some b \<Rightarrow> b | None \<Rightarrow> mic_require_machine_id mc),
                               mic_require_product_uuid := (case required_uuid of
                                  Some b \<Rightarrow> b | None \<Rightarrow> mic_require_product_uuid mc)\<rparr>)))"

fun readKeys :: "'n toml \<Rightarrow> 'n list \<Rightarrow> TrustKeyConfig list \<Rightarrow> TrustKeyConfig list ConfigResult" where
  "readKeys tp [] keys = Inr keys"
| "readKeys tp (item # rest) keys =
     (case toml_as_table tp item of
        None \<Rightarrow> Inl ConfigError_InvalidValue
      | Some key \<Rightarrow>
          (case (requiredString tp key ''id'', requiredString tp key ''public_key'') of
             (Some i, Some key_path) \<Rightarrow>
               if i \<in> tk_id ` set keys then Inl ConfigError_DuplicateKeyId
               else readKeys tp rest (keys @ [\<lparr>tk_id = i, tk_public_key_path = key_path\<rparr>])
           | _ \<Rightarrow> Inl ConfigError_MissingField))"

section \<open>Loading\<close>

text \<open>The part of \<^verbatim>\<open>loadConfig\<close> on the parsed document.\<close>

definition readConfig :: "'n toml \<Rightarrow> (string \<rightharpoonup> 'n) \<Rightarrow> ServiceConfig ConfigResult" where
  "readConfig tp document =
     (case (Option.bind (document ''service'') (toml_as_table tp),
            Option.bind (document ''license_keys'') (toml_as_array tp)) of
        (Some service, Some keys) \<Rightarrow>
          if keys = [] then Inl ConfigError_MissingField
          else (case (requiredString tp service ''identity_key_id'',
                      requiredString tp service ''identity_private_key'',
                      requiredString tp service ''license'', requiredString tp service ''product_id'',
                      service ''allowed_uids'') of
                  (Some identity_id, Some identity_path, Some license_path, Some product_id,
                   Some allowed_uids) \<Rightarrow>
                    if length identity_id > 65535 then Inl ConfigError_MissingField
                    else let config = default_service_config identity_id identity_path license_path product_id
                         in (case optionalString tp service ''socket'' (sc_socket_path config) of
                               Inl e \<Rightarrow> Inl e
                             | Inr socket \<Rightarrow>
                                 (case parseIds tp allowed_uids of
                                    None \<Rightarrow> Inl ConfigError_InvalidValue
                                  | Some uids \<Rightarrow>
                                      if uids = [] then Inl ConfigError_InvalidValue
                                      else (case (case service ''allowed_gids'' of
                                                    None \<Rightarrow> Some []
                                                  | Some node \<Rightarrow> parseIds tp node) of
                                              None \<Rightarrow> Inl ConfigError_InvalidValue
                                            | Some gids \<Rightarrow>
                                                (case assignIntegers tp service
                                                        (config\<lparr>sc_socket_path := socket,
                                                           sc_allowed_uids := uids,
                                                           sc_allowed_gids := gids\<rparr>) of
                                                   Inl e \<Rightarrow> Inl e
                                                 | Inr config \<Rightarrow>
                                                     (case (case Option.bind (document ''machine_identity'')
                                                                  (toml_as_table tp) of
                                                              None \<Rightarrow> Inr (sc_machine_identity config)
                                                            | Some machine \<Rightarrow>
                                                                readMachine tp machine (sc_machine_identity config)) of
                                                        Inl e \<Rightarrow> Inl e
                                                      | Inr mc \<Rightarrow>
                                                          (case readKeys tp keys [] of
                                                             Inl e \<Rightarrow> Inl e
                                                           | Inr ks \<Rightarrow>
                                                               Inr (config\<lparr>sc_machine_identity := mc,
                                                                           sc_license_keys := ks\<rparr>)))))))
                | _ \<Rightarrow> Inl ConfigError_MissingField)
      | _ \<Rightarrow> Inl ConfigError_MissingField)"

definition loadConfig :: "'n toml \<Rightarrow> string \<Rightarrow> ServiceConfig ConfigResult" where
  "loadConfig tp path =
     (case toml_symlink_status tp path of
        None \<Rightarrow> Inl ConfigError_Io
      | Some regular \<Rightarrow>
          if \<not> regular then Inl ConfigError_Io
          else (case toml_parse_file tp path of
                  Parse_error \<Rightarrow> Inl ConfigError_Parse
                | Other_exception \<Rightarrow> Inl ConfigError_Io
                | Parsed document \<Rightarrow> readConfig tp document))"


section \<open>What a loaded configuration guarantees\<close>

lemma requiredString_nonempty: "requiredString tp table key = Some v \<Longrightarrow> v \<noteq> []"
  by (auto simp: requiredString_def split: option.splits if_splits)

lemma parseIds_loop_distinct:
  "parseIds_loop tp items out = Some ids \<Longrightarrow> distinct out \<Longrightarrow> distinct ids"
  by (induction items arbitrary: out) (auto simp: Let_def split: option.splits if_splits)

lemma parseIds_distinct: "parseIds tp node = Some ids \<Longrightarrow> distinct ids"
  by (auto simp: parseIds_def split: option.splits dest: parseIds_loop_distinct)

lemma readKeys_distinct:
  "readKeys tp items keys = Inr ks \<Longrightarrow> distinct (map tk_id keys) \<Longrightarrow>
     (\<forall>k \<in> set keys. tk_id k \<noteq> [] \<and> tk_public_key_path k \<noteq> []) \<Longrightarrow>
     distinct (map tk_id ks) \<and> length ks = length keys + length items \<and>
     (\<forall>k \<in> set ks. tk_id k \<noteq> [] \<and> tk_public_key_path k \<noteq> [])"
proof (induction items arbitrary: keys)
  case (Cons item items)
  obtain key where key: "toml_as_table tp item = Some key"
    using Cons.prems(1) by (cases "toml_as_table tp item") simp_all
  obtain i where i: "requiredString tp key ''id'' = Some i"
    using Cons.prems(1) key by (cases "requiredString tp key ''id''") simp_all
  obtain p where p: "requiredString tp key ''public_key'' = Some p"
    using Cons.prems(1) key i by (cases "requiredString tp key ''public_key''") simp_all
  have new: "i \<notin> tk_id ` set keys" and
    k: "readKeys tp items (keys @ [\<lparr>tk_id = i, tk_public_key_path = p\<rparr>]) = Inr ks"
    using Cons.prems(1) key i p by (simp_all split: if_splits)
  from Cons.IH [OF k] new Cons.prems(2,3) requiredString_nonempty [OF i] requiredString_nonempty [OF p]
  show ?case by simp
qed simp

text \<open>An unsigned field within the limits the loader gives it.\<close>

lemma assignInteger_bounds:
  assumes "assignInteger tp table key of_int (d :: u32) lo hi = Some v"
    and "0 \<le> lo" "hi < 2 ^ 32" "lo \<le> uint d" "uint d \<le> hi"
  shows "lo \<le> uint v \<and> uint v \<le> hi"
proof -
  have "uint (of_int x :: u32) = x" if "0 \<le> x" "x < 2 ^ 32" for x
    using that by (simp add: unsigned_of_int take_bit_int_eq_self)
  with assms show ?thesis by (auto simp: assignInteger_def split: option.splits if_splits)
qed

lemma assignInteger_int_bounds:
  "assignInteger tp table key (\<lambda>v. v) d lo hi = Some v \<Longrightarrow> lo \<le> d \<Longrightarrow> d \<le> hi \<Longrightarrow> lo \<le> v \<and> v \<le> hi"
  by (auto simp: assignInteger_def split: option.splits if_splits)

definition integers_ok :: "ServiceConfig \<Rightarrow> bool" where
  "integers_ok c \<longleftrightarrow>
     uint (sc_socket_mode c) \<le> 511 \<and> 1 \<le> sc_backlog c \<and> sc_backlog c \<le> 4096 \<and>
     1 \<le> uint (sc_max_connections c) \<and> uint (sc_max_connections c) \<le> 10000 \<and>
     100 \<le> uint (sc_handshake_timeout_ms c) \<and> uint (sc_handshake_timeout_ms c) \<le> 60000 \<and>
     100 \<le> uint (sc_io_timeout_ms c) \<and> uint (sc_io_timeout_ms c) \<le> 60000 \<and>
     1000 \<le> uint (sc_idle_timeout_ms c) \<and> uint (sc_idle_timeout_ms c) \<le> 3600000 \<and>
     1000 \<le> uint (sc_heartbeat_interval_ms c) \<and> uint (sc_heartbeat_interval_ms c) \<le> 60000 \<and>
     2000 \<le> uint (sc_heartbeat_timeout_ms c) \<and> uint (sc_heartbeat_timeout_ms c) \<le> 300000 \<and>
     sc_heartbeat_interval_ms c < sc_heartbeat_timeout_ms c"

lemma assignIntegers_ok:
  assumes "assignIntegers tp service c = Inr c'" and "integers_ok c"
  shows "integers_ok c'"
proof -
  from assms(1) obtain a b d e f g h i where v:
    "assignInteger tp service ''socket_mode'' of_int (sc_socket_mode c) 0 511 = Some a"
    "assignInteger tp service ''backlog'' (\<lambda>v. v) (sc_backlog c) 1 4096 = Some b"
    "assignInteger tp service ''max_connections'' of_int (sc_max_connections c) 1 10000 = Some d"
    "assignInteger tp service ''handshake_timeout_ms'' of_int (sc_handshake_timeout_ms c) 100 60000 = Some e"
    "assignInteger tp service ''io_timeout_ms'' of_int (sc_io_timeout_ms c) 100 60000 = Some f"
    "assignInteger tp service ''idle_timeout_ms'' of_int (sc_idle_timeout_ms c) 1000 3600000 = Some g"
    "assignInteger tp service ''heartbeat_interval_ms'' of_int (sc_heartbeat_interval_ms c) 1000 60000 = Some h"
    "assignInteger tp service ''heartbeat_timeout_ms'' of_int (sc_heartbeat_timeout_ms c) 2000 300000 = Some i"
    and "\<not> i \<le> h"
    and "c' = c\<lparr>sc_socket_mode := a, sc_backlog := b, sc_max_connections := d, sc_handshake_timeout_ms := e,
           sc_io_timeout_ms := f, sc_idle_timeout_ms := g, sc_heartbeat_interval_ms := h, sc_heartbeat_timeout_ms := i\<rparr>"
    unfolding assignIntegers_def by (auto simp: bind_eq_Some_conv split: option.splits if_splits)
  then show ?thesis
    using assms(2) assignInteger_bounds [OF v(1)] assignInteger_int_bounds [OF v(2)] assignInteger_bounds [OF v(3)]
      assignInteger_bounds [OF v(4)] assignInteger_bounds [OF v(5)] assignInteger_bounds [OF v(6)]
      assignInteger_bounds [OF v(7)] assignInteger_bounds [OF v(8)]
    unfolding integers_ok_def by (simp add: not_le)
qed


definition config_ok :: "ServiceConfig \<Rightarrow> bool" where
  "config_ok c \<longleftrightarrow>
     sc_identity_key_id c \<noteq> [] \<and> length (sc_identity_key_id c) \<le> 65535 \<and>
     sc_identity_private_key_path c \<noteq> [] \<and> sc_license_path c \<noteq> [] \<and> sc_product_id c \<noteq> [] \<and>
     sc_socket_path c \<noteq> [] \<and>
     sc_allowed_uids c \<noteq> [] \<and> distinct (sc_allowed_uids c) \<and> distinct (sc_allowed_gids c) \<and>
     sc_license_keys c \<noteq> [] \<and> distinct (map tk_id (sc_license_keys c)) \<and>
     (\<forall>k \<in> set (sc_license_keys c). tk_id k \<noteq> [] \<and> tk_public_key_path k \<noteq> []) \<and>
     integers_ok c"

lemma optionalString_nonempty:
  "optionalString tp table key d = Inr v \<Longrightarrow> d \<noteq> [] \<Longrightarrow> v \<noteq> []"
  by (auto simp: optionalString_def split: option.splits if_splits dest: requiredString_nonempty)

lemma assignIntegers_other:
  "assignIntegers tp service c = Inr c' \<Longrightarrow>
     sc_identity_key_id c' = sc_identity_key_id c \<and>
     sc_identity_private_key_path c' = sc_identity_private_key_path c \<and>
     sc_license_path c' = sc_license_path c \<and> sc_product_id c' = sc_product_id c \<and>
     sc_socket_path c' = sc_socket_path c \<and> sc_allowed_uids c' = sc_allowed_uids c \<and>
     sc_allowed_gids c' = sc_allowed_gids c"
  by (auto simp: assignIntegers_def bind_eq_Some_conv split: option.splits if_splits)

lemma readConfig_inv:
  assumes "readConfig tp document = Inr c"
  obtains service keys iid ipath lpath product uid_node socket uids gids c1 mc ks where
    "requiredString tp service ''identity_key_id'' = Some iid"
    "requiredString tp service ''identity_private_key'' = Some ipath"
    "requiredString tp service ''license'' = Some lpath"
    "requiredString tp service ''product_id'' = Some product"
    "length iid \<le> 65535" "keys \<noteq> []"
    "optionalString tp service ''socket'' (sc_socket_path (default_service_config iid ipath lpath product)) = Inr socket"
    "parseIds tp uid_node = Some uids" "uids \<noteq> []" "distinct gids"
    "assignIntegers tp service ((default_service_config iid ipath lpath product)
        \<lparr>sc_socket_path := socket, sc_allowed_uids := uids, sc_allowed_gids := gids\<rparr>) = Inr c1"
    "readKeys tp keys [] = Inr ks"
    "c = c1\<lparr>sc_machine_identity := mc, sc_license_keys := ks\<rparr>"
proof -
  note inv = assms [unfolded readConfig_def]
  obtain service where service: "Option.bind (document ''service'') (toml_as_table tp) = Some service"
    using inv by (cases "Option.bind (document ''service'') (toml_as_table tp)") simp_all
  obtain keys where keys: "Option.bind (document ''license_keys'') (toml_as_array tp) = Some keys"
    using inv service by (cases "Option.bind (document ''license_keys'') (toml_as_array tp)") simp_all
  have ne: "keys \<noteq> []" using inv service keys by auto
  note inv = inv [unfolded service keys prod.case option.case if_not_P [OF ne]]
  obtain iid where iid: "requiredString tp service ''identity_key_id'' = Some iid"
    using inv by (cases "requiredString tp service ''identity_key_id''") simp_all
  obtain ipath where ipath: "requiredString tp service ''identity_private_key'' = Some ipath"
    using inv iid by (cases "requiredString tp service ''identity_private_key''") simp_all
  obtain lpath where lpath: "requiredString tp service ''license'' = Some lpath"
    using inv iid ipath by (cases "requiredString tp service ''license''") simp_all
  obtain product where product: "requiredString tp service ''product_id'' = Some product"
    using inv iid ipath lpath by (cases "requiredString tp service ''product_id''") simp_all
  obtain uid_node where node: "service ''allowed_uids'' = Some uid_node"
    using inv iid ipath lpath product by (cases "service ''allowed_uids''") simp_all
  note inv = inv [unfolded iid ipath lpath product node prod.case option.case guard_simps Let_def]
  from inv obtain socket uids gids c1 mc ks where
    "optionalString tp service ''socket'' (sc_socket_path (default_service_config iid ipath lpath product)) = Inr socket"
    "parseIds tp uid_node = Some uids" "uids \<noteq> []"
    "(case service ''allowed_gids'' of None \<Rightarrow> Some [] | Some node \<Rightarrow> parseIds tp node) = Some gids"
    "assignIntegers tp service ((default_service_config iid ipath lpath product)
        \<lparr>sc_socket_path := socket, sc_allowed_uids := uids, sc_allowed_gids := gids\<rparr>) = Inr c1"
    "readKeys tp keys [] = Inr ks"
    "c = c1\<lparr>sc_machine_identity := mc, sc_license_keys := ks\<rparr>"
    by auto
  moreover from this(4) have "distinct gids" by (auto split: option.splits dest: parseIds_distinct)
  moreover have "length iid \<le> 65535" using inv by simp
  ultimately show thesis using iid ipath lpath product ne by (intro that) auto
qed

lemma loadConfig_ok:
  assumes "loadConfig tp path = Inr c"
  shows "config_ok c"
proof -
  from assms obtain document where "readConfig tp document = Inr c"
    by (auto simp: loadConfig_def split: option.splits if_splits parse_outcome.splits)
  then show ?thesis
  proof (cases rule: readConfig_inv)
    case (1 service keys iid ipath lpath product uid_node socket uids gids c1 mc ks)
    let ?c0 = "(default_service_config iid ipath lpath product)
        \<lparr>sc_socket_path := socket, sc_allowed_uids := uids, sc_allowed_gids := gids\<rparr>"
    have "integers_ok ?c0" by (simp add: integers_ok_def default_service_config_def)
    with assignIntegers_ok [OF 1(11)] have "integers_ok c1" by simp
    moreover have "socket \<noteq> []" using optionalString_nonempty [OF 1(7)] by (simp add: default_service_config_def)
    ultimately show ?thesis
      using assignIntegers_other [OF 1(11)] readKeys_distinct [OF 1(12)] parseIds_distinct [OF 1(8)] 1
        requiredString_nonempty [OF 1(1)] requiredString_nonempty [OF 1(2)]
        requiredString_nonempty [OF 1(3)] requiredString_nonempty [OF 1(4)]
      by (auto simp: config_ok_def integers_ok_def default_service_config_def)
  qed
qed

section \<open>Properties\<close>

text \<open>
  C32.  Every configuration the loader accepts is within bounds: all required strings are present and
  not empty, at least one user is allowed and no id is listed twice, at least one license key is
  given and no key id twice, every number lies within its documented range and the heartbeat timeout
  exceeds the heartbeat interval.
\<close>

theorem loaded_config_in_bounds:
  assumes "loadConfig tp path = Inr c"
  shows "config_ok c"
  using assms by (rule loadConfig_ok)

text \<open>
  The loader accepts identity key ids of up to 65535 bytes, but the protocol carries at most
  255: a service whose key id is longer never answers a hello, whatever the client sends.
\<close>

lemma long_key_id_never_answers:
  assumes "length (sv_service_key_id sv) > kMaxKeyIdSize"
  shows "ServerHandshake_handleClientHello ossl fb message sv w \<noteq> Some (Inr reply, sv', w')"
proof
  assume h: "ServerHandshake_handleClientHello ossl fb message sv w = Some (Inr reply, sv', w')"
  obtain client eph nonce where
    a: "ServerHandshake_answer ossl fb client (min (sv_max_version sv) (chm_max_version client))
         eph nonce sv = (Inr reply, sv')"
    by (rule handleClientHello_ok [OF h]) (rule that)
  obtain server where "encodeServerHello fb server = Inr reply" "shm_service_key_id server = sv_service_key_id sv"
    by (rule answer_ok [OF a]) (auto intro: that)
  with assms show False by (simp add: encodeServerHello_def split: if_splits)
qed

end
