(* ===== verification/Posix.thy ===== *)
theory Posix
  imports Prelude "HOL-Library.Monad_Syntax"
begin

text \<open>
  The operating system as the code sees it: a parameter, a record of the calls the sources make, over
  a state \<open>'w\<close> of the outside world.  A call returns its result and the world after it; a failed call
  returns the value of \<^verbatim>\<open>errno\<close>.  File descriptors are numbers.  Removing a file is
  \<^verbatim>\<open>std::filesystem::remove\<close>, false where that throws.

  The read loop that two components share is here too.
\<close>

section \<open>The calls\<close>

datatype open_flag = O_RDONLY | O_WRONLY | O_CREAT | O_EXCL | O_CLOEXEC | O_NOFOLLOW

abbreviation (input) EINTR :: nat where "EINTR \<equiv> 4"
abbreviation (input) ELOOP :: nat where "ELOOP \<equiv> 40"

record stat_info =
  st_regular :: bool
  st_mode :: u32
  st_size :: int

record 'w posix =
  px_open :: "string \<Rightarrow> open_flag list \<Rightarrow> u32 \<Rightarrow> 'w \<Rightarrow> (nat + nat) \<times> 'w"
  px_fstat :: "nat \<Rightarrow> 'w \<Rightarrow> (nat + stat_info) \<times> 'w"
  px_read :: "nat \<Rightarrow> nat \<Rightarrow> 'w \<Rightarrow> (nat + bytes) \<times> 'w"
  px_write :: "nat \<Rightarrow> bytes \<Rightarrow> 'w \<Rightarrow> (nat + nat) \<times> 'w"
  px_fsync :: "nat \<Rightarrow> 'w \<Rightarrow> bool \<times> 'w"
  px_close :: "nat \<Rightarrow> 'w \<Rightarrow> bool \<times> 'w"
  px_remove :: "string \<Rightarrow> 'w \<Rightarrow> bool \<times> 'w"
  px_time :: "'w \<Rightarrow> u64 \<times> 'w"

text \<open>\<^verbatim>\<open>S_IRWXG | S_IRWXO\<close>, and the owner's permissions of a private and a public file.\<close>

definition S_IRWXG_O :: u32 where "S_IRWXG_O = 63"

text \<open>What POSIX documents of the calls: a read or a write transfers at most what was asked for.\<close>

definition posix_bounded :: "'w posix \<Rightarrow> bool" where
  "posix_bounded px \<longleftrightarrow>
     (\<forall>fd n w bs w'. px_read px fd n w = (Inr bs, w') \<longrightarrow> length bs \<le> n) \<and>
     (\<forall>fd bs w n w'. px_write px fd bs w = (Inr n, w') \<longrightarrow> n \<le> length bs)"

text \<open>
  Interrupted calls are not interrupted forever: some measure of the world decreases with every
  interrupted read and write.
\<close>

definition interrupts_end :: "'w posix \<Rightarrow> bool" where
  "interrupts_end px \<longleftrightarrow>
     (\<exists>f :: 'w \<Rightarrow> nat.
        (\<forall>fd n w w'. px_read px fd n w = (Inl EINTR, w') \<longrightarrow> f w' < f w) \<and>
        (\<forall>fd bs w w'. px_write px fd bs w = (Inl EINTR, w') \<longrightarrow> f w' < f w))"

section \<open>Reading a known number of bytes\<close>

text \<open>
  \<^verbatim>\<open>while (offset < size) { count = read(fd, data + offset, size - offset); if (count <= 0) fail;
  offset += count; }\<close>: the bytes read so far are \<open>acc\<close>, \<open>remaining\<close> is the rest of the buffer.
\<close>

function read_fully :: "'w posix \<Rightarrow> nat \<Rightarrow> nat \<Rightarrow> bytes \<Rightarrow> 'w \<Rightarrow> bytes option \<times> 'w" where
  "read_fully px fd remaining acc w =
     (if remaining = 0 then (Some acc, w)
      else case px_read px fd remaining w of
             (Inl _, w') \<Rightarrow> (None, w')
           | (Inr bs, w') \<Rightarrow> if bs = [] then (None, w')
                             else read_fully px fd (remaining - length bs) (acc @ bs) w')"
  by pat_completeness auto
termination by (relation "measure (\<lambda>(px, fd, remaining, acc, w). remaining)") auto

declare read_fully.simps [simp del]

lemma read_fully_length:
  assumes "posix_bounded px" "read_fully px fd remaining acc w = (Some out, w')"
  shows "length out = length acc + remaining"
  using assms
proof (induction px fd remaining acc w rule: read_fully.induct)
  case (1 px fd remaining acc w)
  show ?case
  proof (cases "remaining = 0")
    case True
    with 1(3) show ?thesis by (simp add: read_fully.simps)
  next
    case False
    with 1(3) obtain bs w1 where
      r: "px_read px fd remaining w = (Inr bs, w1)" "bs \<noteq> []"
      by (subst (asm) read_fully.simps) (auto split: prod.splits sum.splits if_splits)
    with 1(3) False have "read_fully px fd (remaining - length bs) (acc @ bs) w1 = (Some out, w')"
      by (subst (asm) read_fully.simps) simp
    from 1(1) [OF False r(1) [symmetric] refl r(2) 1(2) this]
    have "length out = length (acc @ bs) + (remaining - length bs)" .
    moreover from 1(2) r(1) have "length bs \<le> remaining" unfolding posix_bounded_def by metis
    ultimately show ?thesis by simp
  qed
qed

end
