(* ===== verification/KeyStore.thy ===== *)
theory KeyStore
  imports ServiceConfig Posix
begin

text \<open>
  The key files of the service, \<^verbatim>\<open>src/src/ya_license_service/src/key_store.cpp\<close>.
\<close>

section \<open>Data\<close>

datatype KeyStoreError =
    KeyStoreError_None
  | KeyStoreError_OpenFailed
  | KeyStoreError_InvalidFile
  | KeyStoreError_InvalidPermissions
  | KeyStoreError_InvalidSize
  | KeyStoreError_DuplicateKeyId

type_synonym 'a KeyStoreResult = "KeyStoreError + 'a"

record LoadedKeys =
  lk_identity_key_id :: string
  lk_identity_private_key :: bytes
  lk_license_public_keys :: "(string \<times> bytes) list"

definition LoadedKeys_destroy :: "LoadedKeys \<Rightarrow> LoadedKeys" where
  "LoadedKeys_destroy keys = keys\<lparr>lk_identity_private_key := cleanse (lk_identity_private_key keys)\<rparr>"

section \<open>Loading\<close>

definition loadRawKey :: "'w posix \<Rightarrow> string \<Rightarrow> bool \<Rightarrow> 'w \<Rightarrow> bytes KeyStoreResult \<times> 'w" where
  "loadRawKey px path is_private w =
     (case px_open px path [O_RDONLY, O_CLOEXEC, O_NOFOLLOW] 0 w of
        (Inl errno, w) \<Rightarrow>
          (Inl (if errno = ELOOP then KeyStoreError_InvalidFile else KeyStoreError_OpenFailed), w)
      | (Inr fd, w) \<Rightarrow>
          (case px_fstat px fd w of
             (Inl _, w) \<Rightarrow> (Inl KeyStoreError_InvalidFile, snd (px_close px fd w))
           | (Inr info, w) \<Rightarrow>
               if \<not> st_regular info then (Inl KeyStoreError_InvalidFile, snd (px_close px fd w))
               else if is_private \<and> st_mode info AND S_IRWXG_O \<noteq> 0
               then (Inl KeyStoreError_InvalidPermissions, snd (px_close px fd w))
               else if st_size info \<noteq> int kKeySize
               then (Inl KeyStoreError_InvalidSize, snd (px_close px fd w))
               else (case read_fully px fd kKeySize [] w of
                       (None, w) \<Rightarrow> (Inl KeyStoreError_InvalidFile, snd (px_close px fd w))
                     | (Some key, w) \<Rightarrow> (Inr key, snd (px_close px fd w)))))"

fun loadLicenseKeys ::
  "'w posix \<Rightarrow> TrustKeyConfig list \<Rightarrow> (string \<times> bytes) list \<Rightarrow> 'w \<Rightarrow>
     (string \<times> bytes) list KeyStoreResult \<times> 'w" where
  "loadLicenseKeys px [] loaded w = (Inr loaded, w)"
| "loadLicenseKeys px (key # rest) loaded w =
     (case loadRawKey px (tk_public_key_path key) False w of
        (Inl e, w) \<Rightarrow> (Inl e, w)
      | (Inr pub, w) \<Rightarrow>
          if map_of loaded (tk_id key) \<noteq> None then (Inl KeyStoreError_DuplicateKeyId, w)
          else loadLicenseKeys px rest (loaded @ [(tk_id key, pub)]) w)"

definition loadKeys :: "'w posix \<Rightarrow> ServiceConfig \<Rightarrow> 'w \<Rightarrow> LoadedKeys KeyStoreResult \<times> 'w" where
  "loadKeys px config w =
     (case loadRawKey px (sc_identity_private_key_path config) True w of
        (Inl e, w) \<Rightarrow> (Inl e, w)
      | (Inr identity, w) \<Rightarrow>
          (case loadLicenseKeys px (sc_license_keys config) [] w of
             (Inl e, w) \<Rightarrow> (Inl e, w)
           | (Inr public_keys, w) \<Rightarrow>
               (Inr \<lparr>lk_identity_key_id = sc_identity_key_id config, lk_identity_private_key = identity,
                     lk_license_public_keys = public_keys\<rparr>, w)))"

section \<open>What a loaded key guarantees\<close>

text \<open>
  The file a key was read from, as the checks saw it: opened without following a link, regular, of
  the size of a key, and closed to group and others if it is private.
\<close>

definition key_file_checked :: "'w posix \<Rightarrow> string \<Rightarrow> bool \<Rightarrow> 'w \<Rightarrow> bool" where
  "key_file_checked px path is_private w \<longleftrightarrow>
     (\<exists>fd w1 info w2.
        px_open px path [O_RDONLY, O_CLOEXEC, O_NOFOLLOW] 0 w = (Inr fd, w1) \<and>
        px_fstat px fd w1 = (Inr info, w2) \<and> st_regular info \<and> st_size info = 32 \<and>
        (is_private \<longrightarrow> st_mode info AND S_IRWXG_O = 0))"

lemma loadRawKey_ok:
  assumes "posix_bounded px" "loadRawKey px path is_private w = (Inr key, w')"
  shows "length key = 32 \<and> key_file_checked px path is_private w"
proof -
  from assms(2) obtain fd w1 info w2 w3 where
    f: "px_open px path [O_RDONLY, O_CLOEXEC, O_NOFOLLOW] 0 w = (Inr fd, w1)"
    "px_fstat px fd w1 = (Inr info, w2)" "st_regular info" "st_size info = int kKeySize"
    "is_private \<longrightarrow> st_mode info AND S_IRWXG_O = 0" and
    r: "read_fully px fd kKeySize [] w2 = (Some key, w3)"
    unfolding loadRawKey_def by (auto split: prod.splits sum.splits if_splits option.splits)
  from read_fully_length [OF assms(1) r] f show ?thesis
    by (auto simp: key_file_checked_def kKeySize_def)
qed

lemma loadLicenseKeys_ok:
  assumes "posix_bounded px" "loadLicenseKeys px ks loaded w = (Inr out, w')"
    and "distinct (map fst loaded)" "\<forall>(i, k) \<in> set loaded. length k = 32"
  shows "map fst out = map fst loaded @ map tk_id ks \<and> distinct (map fst out) \<and>
         (\<forall>(i, k) \<in> set out. length k = 32)"
  using assms(2-4)
proof (induction ks arbitrary: loaded w)
  case (Cons key ks)
  obtain r w1 where r: "loadRawKey px (tk_public_key_path key) False w = (r, w1)" by fastforce
  with Cons.prems(1) obtain public where public: "r = Inr public" by (cases r) simp_all
  with Cons.prems(1) r have new: "map_of loaded (tk_id key) = None"
    by (cases "map_of loaded (tk_id key)") simp_all
  with Cons.prems(1) r public
  have k: "loadLicenseKeys px ks (loaded @ [(tk_id key, public)]) w1 = (Inr out, w')" by simp
  have "tk_id key \<notin> fst ` set loaded" by (rule map_of_eq_None_iff [THEN iffD1, OF new])
  with Cons.prems(2,3) loadRawKey_ok [OF assms(1) r [unfolded public]]
  have "distinct (map fst (loaded @ [(tk_id key, public)]))"
    "\<forall>(i, k) \<in> set (loaded @ [(tk_id key, public)]). length k = 32" by simp_all
  note ih = Cons.IH [OF k this]
  then have "map fst out = map fst loaded @ map tk_id (key # ks)" by simp
  with ih show ?case by blast
qed simp

lemma loadKeys_ok:
  assumes "posix_bounded px" "loadKeys px config w = (Inr keys, w')"
  shows "length (lk_identity_private_key keys) = 32 \<and>
         key_file_checked px (sc_identity_private_key_path config) True w \<and>
         lk_identity_key_id keys = sc_identity_key_id config \<and>
         map fst (lk_license_public_keys keys) = map tk_id (sc_license_keys config) \<and>
         distinct (map fst (lk_license_public_keys keys)) \<and>
         (\<forall>i k. map_of (lk_license_public_keys keys) i = Some k \<longrightarrow> length k = 32)"
proof -
  from assms(2) obtain identity w1 public_keys where
    i: "loadRawKey px (sc_identity_private_key_path config) True w = (Inr identity, w1)" and
    p: "loadLicenseKeys px (sc_license_keys config) [] w1 = (Inr public_keys, w')" and
    k: "keys = \<lparr>lk_identity_key_id = sc_identity_key_id config, lk_identity_private_key = identity,
               lk_license_public_keys = public_keys\<rparr>"
    by (auto simp: loadKeys_def split: prod.splits sum.splits)
  from loadRawKey_ok [OF assms(1) i] loadLicenseKeys_ok [OF assms(1) p] k show ?thesis
    by (auto dest: map_of_SomeD)
qed

section \<open>Properties\<close>

text \<open>
  Keys are loaded only from files that pass the checks: the identity key is 32 bytes read from
  a regular file that was opened without following a link and that neither group nor others may
  access; the license keys are 32 bytes each, one under every configured id and no others.
\<close>

lemma loaded_keys_checked:
  assumes "posix_bounded px" "loadKeys px config w = (Inr keys, w')"
  shows "length (lk_identity_private_key keys) = 32 \<and>
         key_file_checked px (sc_identity_private_key_path config) True w \<and>
         lk_identity_key_id keys = sc_identity_key_id config \<and>
         map fst (lk_license_public_keys keys) = map tk_id (sc_license_keys config) \<and>
         distinct (map fst (lk_license_public_keys keys)) \<and>
         (\<forall>i k. map_of (lk_license_public_keys keys) i = Some k \<longrightarrow> length k = 32)"
  using assms by (rule loadKeys_ok)

end
