(* ===== verification/Issuer.thy ===== *)
theory Issuer
  imports License
begin

text \<open>
  The signing side of a license, \<^verbatim>\<open>src/tools/license_generator/issuer.cpp\<close>: the checks on
  a definition, the bytes that are signed and the package.  The builder of the generated FlatBuffers
  code is the part \<open>FinishLicensePayload\<close>, \<open>FinishLicensePackageBuffer\<close> of the parameter \<open>lf\<close>.
\<close>

section \<open>Data\<close>

datatype IssueError = IssueError_None | IssueError_InvalidInput | IssueError_SigningFailed

record LicenseDefinition =
  ld_key_id :: string
  ld_license_id :: string
  ld_product_id :: string
  ld_customer_id :: string
  ld_issue_time :: u64
  ld_not_before :: u64
  ld_expire_time :: u64
  ld_features :: "string list"
  ld_max_sessions :: u32
  ld_machine_id :: string

type_synonym IssueResult = "IssueError + bytes"

section \<open>Issuing\<close>

definition kIssuerSignatureDomain :: string where "kIssuerSignatureDomain = ''YOAUTHORIZE-LICENSE-V1''"
definition kMaxIdentifierSize :: nat where "kMaxIdentifierSize = 255"
definition kIssuerMaxFeatures :: nat where "kIssuerMaxFeatures = 256"
definition kIssuerMaxFeatureSize :: nat where "kIssuerMaxFeatureSize = 128"

definition Issuer_appendU16 :: "bytes \<Rightarrow> u16 \<Rightarrow> bytes" where
  "Issuer_appendU16 output v = output @ [ucast (drop_bit 8 v)] @ [ucast v]"

definition Issuer_appendU32 :: "bytes \<Rightarrow> u32 \<Rightarrow> bytes" where
  "Issuer_appendU32 output v =
     foldl (\<lambda>acc i. acc @ [ucast (drop_bit (24 - 8 * i) v)]) output [0..<4]"

definition valid_definition :: "LicenseDefinition \<Rightarrow> bool" where
  "valid_definition d =
     (if ld_key_id d = [] \<or> length (ld_key_id d) > 65535 \<or>
         ld_license_id d = [] \<or> length (ld_license_id d) > kMaxIdentifierSize \<or>
         ld_product_id d = [] \<or> length (ld_product_id d) > kMaxIdentifierSize \<or>
         ld_customer_id d = [] \<or> length (ld_customer_id d) > kMaxIdentifierSize \<or>
         ld_issue_time d = 0 \<or> ld_not_before d = 0 \<or> ld_not_before d < ld_issue_time d \<or>
         ld_max_sessions d = 0 \<or> length (ld_features d) > kIssuerMaxFeatures
      then False
      else if ld_expire_time d \<noteq> 0 \<and> ld_expire_time d \<le> ld_not_before d then False
      else list_all (\<lambda>feature. \<not> (feature = [] \<or> length feature > kIssuerMaxFeatureSize)) (ld_features d))"

definition policy_of :: "LicenseDefinition \<Rightarrow> MachinePolicyTable" where
  "policy_of d = \<lparr>mpt_mode = (if ld_machine_id d = [] then wire_Unbound else wire_Exact),
                  mpt_machine_id = Some (ld_machine_id d)\<rparr>"

definition payload_of :: "LicenseDefinition \<Rightarrow> LicensePayloadTable" where
  "payload_of d =
     \<lparr>lpt_license_id = Some (ld_license_id d), lpt_product_id = Some (ld_product_id d),
      lpt_customer_id = Some (ld_customer_id d), lpt_issue_time = ld_issue_time d,
      lpt_not_before = ld_not_before d, lpt_expire_time = ld_expire_time d,
      lpt_license_type = (if ld_expire_time d = 0 then wire_Permanent else wire_Subscription),
      lpt_features = Some (map Some (ld_features d)), lpt_max_sessions = ld_max_sessions d,
      lpt_machine_policy = Some (policy_of d)\<rparr>"

definition signed_bytes_of :: "string \<Rightarrow> bytes \<Rightarrow> bytes" where
  "signed_bytes_of key_id payload_bytes =
     (let out = octets kIssuerSignatureDomain;
          out = Issuer_appendU16 out 1;
          out = Issuer_appendU16 out (of_nat (length key_id));
          out = out @ octets key_id;
          out = Issuer_appendU32 out (of_nat (length payload_bytes))
      in out @ payload_bytes)"

definition issueLicense ::
  "('h, 'w) openssl \<Rightarrow> license_fb \<Rightarrow> LicenseDefinition \<Rightarrow> bytes \<Rightarrow> IssueResult" where
  "issueLicense ossl lf d signing_private_key =
     (if \<not> valid_definition d then Inl IssueError_InvalidInput
      else let payload_bytes = FinishLicensePayload lf (payload_of d)
           in (case signEd25519 ossl signing_private_key (signed_bytes_of (ld_key_id d) payload_bytes) of
                 Inl _ \<Rightarrow> Inl IssueError_SigningFailed
               | Inr signature \<Rightarrow>
                   Inr (FinishLicensePackageBuffer lf
                          \<lparr>lkt_format_version = 1, lkt_key_id = Some (ld_key_id d),
                           lkt_payload = Some payload_bytes, lkt_signature = Some signature\<rparr>)))"

section \<open>The generated code\<close>

text \<open>
  What FlatBuffers documents of the code it generates, for buffers of the size the validator admits:
  a finished buffer passes its verifier and the accessors return what the builder was given; a buffer
  is never smaller than a vector stored in it.
\<close>

definition license_codec :: "license_fb \<Rightarrow> bool" where
  "license_codec lf \<longleftrightarrow>
     (\<forall>t. let b = FinishLicensePayload lf t in
        length b \<le> kMaxLicenseSize \<longrightarrow> b \<noteq> [] \<and> VerifyLicensePayload lf b \<and> GetLicensePayload lf b = t) \<and>
     (\<forall>t. let b = FinishLicensePackageBuffer lf t in
        length b \<le> kMaxLicenseSize \<longrightarrow>
          8 \<le> length b \<and> LicensePackageBufferHasIdentifier lf b \<and> VerifyLicensePackageBuffer lf b \<and>
          GetLicensePackage lf b = t \<and> (\<forall>p. lkt_payload t = Some p \<longrightarrow> length p \<le> length b))"

section \<open>The two sides agree\<close>

text \<open>The snapshot a validator reads from a license issued for a definition.\<close>

definition snapshot_of :: "LicenseDefinition \<Rightarrow> LicenseSnapshot" where
  "snapshot_of d =
     \<lparr>ls_license_id = ld_license_id d, ls_product_id = ld_product_id d,
      ls_customer_id = ld_customer_id d, ls_issue_time = ld_issue_time d,
      ls_not_before = ld_not_before d, ls_expire_time = ld_expire_time d,
      ls_type = (if ld_expire_time d = 0 then LicenseType_Permanent else LicenseType_Subscription),
      ls_features = ld_features d, ls_max_sessions = ld_max_sessions d,
      ls_machine_mode = (if ld_machine_id d = [] then MachineMode_Unbound else MachineMode_Exact),
      ls_machine_id = ld_machine_id d\<rparr>"

definition usable :: "LicenseDefinition \<Rightarrow> string \<Rightarrow> u64 \<Rightarrow> bool" where
  "usable d machine now \<longleftrightarrow>
     (ld_machine_id d = [] \<or> machine = ld_machine_id d) \<and> ld_not_before d \<le> now \<and>
     (ld_expire_time d = 0 \<or> now < ld_expire_time d)"

lemma Issuer_append_eq:
  "Issuer_appendU16 = License_appendU16" "Issuer_appendU32 = License_appendU32"
  by (simp_all add: fun_eq_iff Issuer_appendU16_def License_appendU16_def Issuer_appendU32_def
      License_appendU32_def upt_conv_Cons eval_nat_numeral)

lemma signed_bytes_of_eq: "signed_bytes_of key_id payload = signatureInput 1 key_id payload"
  by (simp add: signed_bytes_of_def signatureInput_def Let_def kIssuerSignatureDomain_def
      kSignatureDomain_def Issuer_append_eq)

lemma issueLicense_ok:
  assumes "issueLicense ossl lf d key = Inr package"
  obtains signature where "valid_definition d"
    "signEd25519 ossl key (signatureInput 1 (ld_key_id d) (FinishLicensePayload lf (payload_of d)))
       = Inr signature"
    "package = FinishLicensePackageBuffer lf
       \<lparr>lkt_format_version = 1, lkt_key_id = Some (ld_key_id d),
        lkt_payload = Some (FinishLicensePayload lf (payload_of d)), lkt_signature = Some signature\<rparr>"
  using assms
  by (auto simp: issueLicense_def Let_def signed_bytes_of_eq split: if_splits sum.splits)

lemma payload_grants:
  assumes "valid_definition d"
  shows "grants (payload_of d) product machine now s \<longleftrightarrow>
           product = ld_product_id d \<and> usable d machine now \<and> s = snapshot_of d"
  using assms
  by (auto simp: grants_def payload_of_def policy_of_def bound_to_def in_force_def usable_def
      snapshot_of_def valid_definition_def value_or_empty_def convertType_def list_all_iff comp_def
      split: if_splits)

lemma issued_package:
  assumes codec: "license_codec lf" and small: "length package \<le> kMaxLicenseSize"
    and issued: "issueLicense ossl lf d private = Inr package"
    and pair: "ed25519_pair ossl private public"
    and trusted: "map_of (lv_trusted_keys validator) (ld_key_id d) = Some public"
  shows "well_formed_package lf package \<and>
         (\<exists>payload. (\<forall>p. signed_payload ossl lf validator package p \<longleftrightarrow> p = payload) \<and>
                    VerifyLicensePayload lf payload \<and> GetLicensePayload lf payload = payload_of d)"
proof -
  let ?p = "FinishLicensePayload lf (payload_of d)"
  from issued obtain signature where v: "valid_definition d" and
    s: "signEd25519 ossl private (signatureInput 1 (ld_key_id d) ?p) = Inr signature" and
    p: "package = FinishLicensePackageBuffer lf
       \<lparr>lkt_format_version = 1, lkt_key_id = Some (ld_key_id d), lkt_payload = Some ?p,
        lkt_signature = Some signature\<rparr>" (is "_ = FinishLicensePackageBuffer lf ?t")
    by (rule issueLicense_ok)
  from codec small p have o: "8 \<le> length package" "LicensePackageBufferHasIdentifier lf package"
    "VerifyLicensePackageBuffer lf package" "GetLicensePackage lf package = ?t"
    "length ?p \<le> length package"
    unfolding license_codec_def Let_def by auto
  with codec small have i: "?p \<noteq> []" "VerifyLicensePayload lf ?p" "GetLicensePayload lf ?p = payload_of d"
    unfolding license_codec_def Let_def by auto
  from pair s have "verifyEd25519 ossl public (signatureInput 1 (ld_key_id d) ?p) signature = CryptoError_None"
    unfolding ed25519_pair_def by blast
  with o(4) i(1) v trusted signEd25519_length [OF s]
  have "signed_payload ossl lf validator package q \<longleftrightarrow> q = ?p" for q
    by (auto simp: signed_payload_def valid_definition_def split: if_splits)
  with o(1-3) i(2,3) small show ?thesis unfolding well_formed_package_def by blast
qed

lemma issued_license_iff:
  assumes "license_codec lf" "ed25519_pair ossl private public"
    and "issueLicense ossl lf d private = Inr package" "length package \<le> kMaxLicenseSize"
    and "map_of (lv_trusted_keys validator) (ld_key_id d) = Some public"
  shows "LicenseValidator_validate ossl lf validator package product machine now = Inr s \<longleftrightarrow>
           product = ld_product_id d \<and> usable d machine now \<and> s = snapshot_of d"
proof -
  from issued_package [OF assms(1,4,3,2,5)] obtain payload where
    "well_formed_package lf package" and
    p: "\<And>p. signed_payload ossl lf validator package p \<longleftrightarrow> p = payload"
    "VerifyLicensePayload lf payload" "GetLicensePayload lf payload = payload_of d" by auto
  moreover from assms(3) have "valid_definition d" by (rule issueLicense_ok)
  ultimately show ?thesis unfolding validate_iff by (auto simp: payload_grants)
qed

section \<open>Properties\<close>

text \<open>
  What the issuer signs is what the validator checks: both sides compute the same bytes from the
  key id and the payload, although each has its own code for it.
\<close>

lemma issuer_signs_what_validator_checks:
  "issueLicense ossl lf d key =
     (if \<not> valid_definition d then Inl IssueError_InvalidInput
      else case signEd25519 ossl key
                  (signatureInput 1 (ld_key_id d) (FinishLicensePayload lf (payload_of d))) of
             Inl _ \<Rightarrow> Inl IssueError_SigningFailed
           | Inr signature \<Rightarrow> Inr (FinishLicensePackageBuffer lf
               \<lparr>lkt_format_version = 1, lkt_key_id = Some (ld_key_id d),
                lkt_payload = Some (FinishLicensePayload lf (payload_of d)),
                lkt_signature = Some signature\<rparr>))"
  by (simp add: issueLicense_def signed_bytes_of_eq Let_def)

text \<open>
  C21.  An issued license means what its definition says: a validator that trusts the signing key
  accepts the package with a snapshot exactly when the definition's product is asked for, on the
  machine it is bound to if it is bound to one, from its start until before its expiry, and the
  snapshot holds the definition's data.
\<close>

theorem issued_license_validates:
  assumes "license_codec lf" "ed25519_pair ossl private public"
    and "issueLicense ossl lf d private = Inr package" "length package \<le> kMaxLicenseSize"
    and "map_of (lv_trusted_keys validator) (ld_key_id d) = Some public"
  shows "LicenseValidator_validate ossl lf validator package product machine now = Inr s \<longleftrightarrow>
           product = ld_product_id d \<and> usable d machine now \<and> s = snapshot_of d"
  using assms by (rule issued_license_iff)

end
