(* ===== verification/Digits.thy ===== *)
theory Digits
  imports Prelude
begin

text \<open>
  Numbers as text and reading them back, as the C++ standard library does it: \<^verbatim>\<open>std::to_string\<close> and the
  inserter of streams for integers, and the part of the input streams that the sources use.
\<close>

section \<open>Writing a number\<close>

fun nat_digits :: "nat \<Rightarrow> string" where
  "nat_digits n = (if n < 10 then [char_of (48 + n)] else nat_digits (n div 10) @ [char_of (48 + n mod 10)])"

declare nat_digits.simps [simp del]

definition int_digits :: "int \<Rightarrow> string" where
  "int_digits i = (if i < 0 then CHR ''-'' # nat_digits (nat (- i)) else nat_digits (nat i))"

section \<open>Digits\<close>

definition is_digit :: "char \<Rightarrow> bool" where
  "is_digit c \<longleftrightarrow> 48 \<le> (of_char c :: nat) \<and> (of_char c :: nat) \<le> 57"

definition digit_value :: "char \<Rightarrow> nat" where
  "digit_value c = of_char c - 48"

definition decimal :: "string \<Rightarrow> nat" where
  "decimal ds = foldl (\<lambda>v c. 10 * v + digit_value c) 0 ds"

section \<open>Reading from a stream\<close>

text \<open>What is left to read, and the two flags of the state.\<close>

record istream =
  is_rest :: string
  is_eof :: bool
  is_fail :: bool

definition istream_of :: "string \<Rightarrow> istream" where
  "istream_of s = \<lparr>is_rest = s, is_eof = False, is_fail = False\<rparr>"

definition is_good :: "istream \<Rightarrow> bool" where
  "is_good st \<longleftrightarrow> \<not> is_eof st \<and> \<not> is_fail st"

text \<open>
  \<^verbatim>\<open>std::getline\<close> with a delimiter: it leaves the string as it was if the stream is not good, and fails
  if it extracts nothing.
\<close>

definition getline :: "char \<Rightarrow> istream \<Rightarrow> string \<Rightarrow> string \<times> istream" where
  "getline delim st str =
     (if \<not> is_good st then (str, st\<lparr>is_fail := True\<rparr>)
      else let line = takeWhile (\<lambda>c. c \<noteq> delim) (is_rest st)
           in (case dropWhile (\<lambda>c. c \<noteq> delim) (is_rest st) of
                 [] \<Rightarrow> (line, \<lparr>is_rest = [], is_eof = True, is_fail = (line = [])\<rparr>)
               | _ # rest \<Rightarrow> (line, st\<lparr>is_rest := rest\<rparr>)))"

definition is_space :: "char \<Rightarrow> bool" where
  "is_space c \<longleftrightarrow> (of_char c :: nat) \<in> {9, 10, 11, 12, 13, 32}"

text \<open>
  The extraction of a 64-bit \<^verbatim>\<open>long\<close>.  The variable keeps its value, which may be indeterminate
  (\<open>None\<close>), if there is nothing to read; text that is no number gives zero, a number out of range the
  nearest bound, and both fail.
\<close>

definition extract_long :: "istream \<Rightarrow> int option \<Rightarrow> int option \<times> istream" where
  "extract_long st before =
     (if \<not> is_good st then (before, st\<lparr>is_fail := True\<rparr>)
      else case dropWhile is_space (is_rest st) of
        [] \<Rightarrow> (before, \<lparr>is_rest = [], is_eof = True, is_fail = True\<rparr>)
      | c # cs \<Rightarrow>
          let signed = c = CHR ''-'' \<or> c = CHR ''+'';
              text = (if signed then cs else c # cs);
              ds = takeWhile is_digit text; rest = dropWhile is_digit text;
              n = (if c = CHR ''-'' then - int (decimal ds) else int (decimal ds));
              bounded = max (- (2 ^ 63)) (min (2 ^ 63 - 1) n)
          in (Some (if ds = [] then 0 else bounded),
              \<lparr>is_rest = rest, is_eof = (rest = []), is_fail = (ds = [] \<or> bounded \<noteq> n)\<rparr>))"

definition ignore_one :: "istream \<Rightarrow> istream" where
  "ignore_one st =
     (if \<not> is_good st then st\<lparr>is_fail := True\<rparr>
      else case is_rest st of [] \<Rightarrow> st\<lparr>is_eof := True\<rparr> | _ # rest \<Rightarrow> st\<lparr>is_rest := rest\<rparr>)"

section \<open>Reading what was written\<close>

lemma digit_char: "n < 10 \<Longrightarrow> (of_char (char_of (48 + n) :: char) :: nat) = 48 + n"
  by simp

lemma is_digit_char: "(n :: nat) < 10 \<Longrightarrow> is_digit (char_of (48 + n))"
  by (simp add: is_digit_def)

lemma nat_digits_props:
  "list_all is_digit (nat_digits n) \<and> nat_digits n \<noteq> [] \<and> decimal (nat_digits n) = n"
proof (induction n rule: nat_digits.induct)
  case (1 n)
  show ?case
  proof (cases "n < 10")
    case True
    then show ?thesis by (subst (1 2 3) nat_digits.simps) (simp add: is_digit_char decimal_def digit_value_def)
  next
    case False
    with 1 have "list_all is_digit (nat_digits (n div 10))" "decimal (nat_digits (n div 10)) = n div 10" by auto
    with False show ?thesis
      by (subst (1 2 3) nat_digits.simps) (simp add: is_digit_char decimal_def digit_value_def)
  qed
qed

lemma takeWhile_digits:
  assumes "rest = [] \<or> \<not> is_digit (hd rest)"
  shows "takeWhile is_digit (nat_digits n @ rest) = nat_digits n" "dropWhile is_digit (nat_digits n @ rest) = rest"
proof -
  have d: "\<And>c. c \<in> set (nat_digits n) \<Longrightarrow> is_digit c" using nat_digits_props [of n] by (simp add: list_all_iff)
  have "takeWhile is_digit rest = []" "dropWhile is_digit rest = rest" using assms by (cases rest; simp)+
  then show "takeWhile is_digit (nat_digits n @ rest) = nat_digits n" "dropWhile is_digit (nat_digits n @ rest) = rest"
    using d by (simp_all add: takeWhile_append2 dropWhile_append2)
qed

lemma digit_no_sign: "is_digit c \<Longrightarrow> c \<noteq> CHR ''-'' \<and> c \<noteq> CHR ''+'' \<and> \<not> is_space c"
  by (auto simp: is_digit_def is_space_def)

lemma nat_digits_Cons: obtains c cs where "nat_digits n = c # cs" "is_digit c"
  using nat_digits_props [of n] by (cases "nat_digits n") auto

lemma extract_int_digits:
  assumes "- (2 ^ 63) \<le> i" "i < 2 ^ 63" "rest \<noteq> []" "\<not> is_digit (hd rest)"
  shows "extract_long (istream_of (int_digits i @ rest)) before = (Some i, istream_of rest)"
proof (cases "i < 0")
  case True
  have "is_space (CHR ''-'') = False" by (simp add: is_space_def)
  moreover have "nat_digits (nat (- i)) \<noteq> []" "int (decimal (nat_digits (nat (- i)))) = - i"
    using nat_digits_props [of "nat (- i)"] True by auto
  ultimately show ?thesis
    using assms True takeWhile_digits [of rest "nat (- i)"]
    by (simp add: extract_long_def int_digits_def istream_of_def is_good_def Let_def
        del: dropWhile_eq_Nil_conv takeWhile_eq_Nil_iff)
next
  case False
  obtain c cs where c: "nat_digits (nat i) = c # cs" "is_digit c" by (rule nat_digits_Cons)
  have v: "int (decimal (c # cs)) = i" using nat_digits_props [of "nat i"] c False by simp
  have "takeWhile is_digit (c # cs @ rest) = c # cs" "dropWhile is_digit (c # cs @ rest) = rest"
    using takeWhile_digits [of rest "nat i"] assms(4) c by simp_all
  then show ?thesis
    using assms False c v digit_no_sign [OF c(2)]
    by (simp add: extract_long_def int_digits_def istream_of_def is_good_def Let_def
        del: dropWhile_eq_Nil_conv takeWhile_eq_Nil_iff)
qed

lemma getline_field:
  assumes "delim \<notin> set s"
  shows "getline delim (istream_of (s @ delim # rest)) str = (s, istream_of rest)"
proof -
  have "takeWhile (\<lambda>c. c \<noteq> delim) (s @ delim # rest) = s" "dropWhile (\<lambda>c. c \<noteq> delim) (s @ delim # rest) = delim # rest"
    using assms by (induction s) auto
  then show ?thesis by (simp add: getline_def istream_of_def is_good_def Let_def)
qed

lemma getline_last:
  assumes "delim \<notin> set s"
  shows "fst (getline delim (istream_of s) str) = s"
proof -
  have "takeWhile (\<lambda>c. c \<noteq> delim) s = s" using assms by (induction s) auto
  then show ?thesis by (simp add: getline_def istream_of_def is_good_def Let_def split: list.split)
qed

lemma ignore_one_Cons: "ignore_one (istream_of (c # s)) = istream_of s"
  by (simp add: ignore_one_def istream_of_def is_good_def)

end
