(* ===== verification/Generator.thy ===== *)
theory Generator
  imports Issuer Posix Digits
begin

text \<open>
  The command line tool around the issuer, \<^verbatim>\<open>src/tools/license_generator/main.cpp\<close>.  The
  world \<open>'w\<close> is shared by the system calls and the entropy source.  The two loops that retry an
  interrupted call are partial: \<open>None\<close> is a loop that never ends.  A run ends with the exit status
  and the text written to standard error, or with the exception that
  \<^verbatim>\<open>std::filesystem::remove\<close> throws and nothing catches.
\<close>

section \<open>Files\<close>

partial_function (option) write_fully :: "'w posix \<Rightarrow> nat \<Rightarrow> bytes \<Rightarrow> 'w \<Rightarrow> (bool \<times> 'w) option" where
  "write_fully px fd bytes w =
     (if bytes = [] then Some (True, w)
      else case px_write px fd bytes w of
             (Inl errno, w) \<Rightarrow> if errno = EINTR then write_fully px fd bytes w else Some (False, w)
           | (Inr count, w) \<Rightarrow> if count = 0 then Some (False, w)
                               else write_fully px fd (drop count bytes) w)"

text \<open>The result of a routine that may throw: \<open>None\<close> inside is the exception.\<close>

definition remove_then :: "'w posix \<Rightarrow> string \<Rightarrow> 'a \<Rightarrow> 'w \<Rightarrow> 'a option \<times> 'w" where
  "remove_then px path result w =
     (case px_remove px path w of (True, w) \<Rightarrow> (Some result, w) | (False, w) \<Rightarrow> (None, w))"

definition writeNewFile ::
  "'w posix \<Rightarrow> string \<Rightarrow> bytes \<Rightarrow> u32 \<Rightarrow> 'w \<Rightarrow> (bool option \<times> 'w) option" where
  "writeNewFile px path bytes mode w =
     (case px_open px path [O_WRONLY, O_CREAT, O_EXCL, O_CLOEXEC] mode w of
        (Inl _, w) \<Rightarrow> Some (Some False, w)
      | (Inr fd, w) \<Rightarrow>
          (case write_fully px fd bytes w of
             None \<Rightarrow> None
           | Some (False, w) \<Rightarrow> Some (remove_then px path False (snd (px_close px fd w)))
           | Some (True, w) \<Rightarrow>
               let (flushed, w) = px_fsync px fd w;
                   (closed, w) = px_close px fd w;
                   success = (flushed \<and> closed)
               in if \<not> success then Some (remove_then px path False w) else Some (Some True, w)))"

partial_function (option) read_retry ::
  "'w posix \<Rightarrow> nat \<Rightarrow> nat \<Rightarrow> bytes \<Rightarrow> 'w \<Rightarrow> (bytes option \<times> 'w) option" where
  "read_retry px fd remaining acc w =
     (if remaining = 0 then Some (Some acc, w)
      else case px_read px fd remaining w of
             (Inl errno, w) \<Rightarrow> if errno = EINTR then read_retry px fd remaining acc w else Some (None, w)
           | (Inr bs, w) \<Rightarrow> if bs = [] then Some (None, w)
                            else read_retry px fd (remaining - length bs) (acc @ bs) w)"

definition readPrivateKey :: "'w posix \<Rightarrow> string \<Rightarrow> 'w \<Rightarrow> (bytes CryptoResult \<times> 'w) option" where
  "readPrivateKey px path w =
     (case px_open px path [O_RDONLY, O_CLOEXEC, O_NOFOLLOW] 0 w of
        (Inl _, w) \<Rightarrow> Some (Inl CryptoError_InvalidInput, w)
      | (Inr fd, w) \<Rightarrow>
          (case px_fstat px fd w of
             (Inl _, w) \<Rightarrow> Some (Inl CryptoError_InvalidInput, snd (px_close px fd w))
           | (Inr info, w) \<Rightarrow>
               if \<not> st_regular info \<or> st_mode info AND S_IRWXG_O \<noteq> 0 \<or> st_size info \<noteq> int kKeySize
               then Some (Inl CryptoError_InvalidInput, snd (px_close px fd w))
               else (case read_retry px fd kKeySize [] w of
                       None \<Rightarrow> None
                     | Some (None, w) \<Rightarrow> Some (Inl CryptoError_InvalidInput, snd (px_close px fd w))
                     | Some (Some key, w) \<Rightarrow> Some (Inr key, snd (px_close px fd w)))))"

section \<open>Numbers\<close>

text \<open>
  \<^verbatim>\<open>std::from_chars\<close> on an unsigned type of \<open>n\<close> bits: the longest prefix of decimal digits, its
  value and the rest; \<open>None\<close> where there is no digit or the value is out of range.
\<close>

definition from_chars :: "nat \<Rightarrow> string \<Rightarrow> (nat \<times> string) option" where
  "from_chars bits s =
     (let ds = takeWhile is_digit s
      in if ds = [] \<or> decimal ds \<ge> 2 ^ bits then None else Some (decimal ds, dropWhile is_digit s))"

definition parseNumber :: "nat \<Rightarrow> string \<Rightarrow> nat option" where
  "parseNumber bits s =
     (case from_chars bits s of Some (v, rest) \<Rightarrow> if rest = [] then Some v else None | None \<Rightarrow> None)"

section \<open>Commands\<close>

datatype run_end = Exit nat string | Uncaught_exception

definition usage :: string where
  "usage =
     ''usage:'' @ [CHR 0x0A] @
     ''  yoauthorize-license-generator keygen <private-key> <public-key>'' @ [CHR 0x0A] @
     ''  yoauthorize-license-generator issue <private-key> <key-id> '' @
     ''<output> <license-id> <product-id> <customer-id> '' @
     ''<valid-seconds|0> <max-sessions> [feature...]'' @ [CHR 0x0A]"

definition complain :: "string \<Rightarrow> run_end" where
  "complain message = Exit 1 (message @ [CHR 0x0A])"

definition keygen ::
  "('h, 'w) openssl \<Rightarrow> 'w posix \<Rightarrow> string list \<Rightarrow> 'w \<Rightarrow> (run_end \<times> 'w) option" where
  "keygen ossl px argv w =
     (if length argv \<noteq> 4 then Some (Exit 2 [], w)
      else case generateEd25519KeyPair ossl w of
        (Inl _, w) \<Rightarrow> Some (Exit 1 [], w)
      | (Inr keys, w) \<Rightarrow>
          (case writeNewFile px (argv ! 2) (private_key keys) 384 w of
             None \<Rightarrow> None
           | Some (None, w) \<Rightarrow> Some (Uncaught_exception, w)
           | Some (Some False, w) \<Rightarrow> Some (complain ''failed to create private key'', w)
           | Some (Some True, w) \<Rightarrow>
               (case writeNewFile px (argv ! 3) (public_key keys) 420 w of
                  None \<Rightarrow> None
                | Some (None, w) \<Rightarrow> Some (Uncaught_exception, w)
                | Some (Some False, w) \<Rightarrow>
                    (case remove_then px (argv ! 2) (complain ''failed to create public key'') w of
                       (Some r, w) \<Rightarrow> Some (r, w)
                     | (None, w) \<Rightarrow> Some (Uncaught_exception, w))
                | Some (Some True, w) \<Rightarrow> Some (Exit 0 [], w))))"

definition definition_of :: "string list \<Rightarrow> u64 \<Rightarrow> u64 \<Rightarrow> u32 \<Rightarrow> LicenseDefinition" where
  "definition_of argv now validity_seconds max_sessions =
     \<lparr>ld_key_id = argv ! 3, ld_license_id = argv ! 5, ld_product_id = argv ! 6,
      ld_customer_id = argv ! 7, ld_issue_time = now, ld_not_before = now,
      ld_expire_time = (if validity_seconds = 0 then 0 else now + validity_seconds),
      ld_features = drop 10 argv, ld_max_sessions = max_sessions, ld_machine_id = []\<rparr>"

definition issue ::
  "('h, 'w) openssl \<Rightarrow> license_fb \<Rightarrow> 'w posix \<Rightarrow> string list \<Rightarrow> 'w \<Rightarrow> (run_end \<times> 'w) option" where
  "issue ossl lf px argv w =
     (if length argv < 10 then Some (Exit 2 [], w)
      else case (parseNumber 64 (argv ! 8), parseNumber 32 (argv ! 9)) of
        (Some validity, Some sessions) \<Rightarrow>
          if sessions = 0 then Some (Exit 2 [], w)
          else (case readPrivateKey px (argv ! 2) w of
                  None \<Rightarrow> None
                | Some (Inl _, w) \<Rightarrow> Some (complain ''failed to load signing private key'', w)
                | Some (Inr key, w) \<Rightarrow>
                    let (now, w) = px_time px w
                    in (case issueLicense ossl lf
                               (definition_of argv now (of_nat validity) (of_nat sessions)) key of
                          Inl _ \<Rightarrow> Some (complain ''failed to issue license'', w)
                        | Inr package \<Rightarrow>
                            (case writeNewFile px (argv ! 4) package 420 w of
                               None \<Rightarrow> None
                             | Some (None, w) \<Rightarrow> Some (Uncaught_exception, w)
                             | Some (Some False, w) \<Rightarrow> Some (complain ''failed to issue license'', w)
                             | Some (Some True, w) \<Rightarrow> Some (Exit 0 [], w))))
      | _ \<Rightarrow> Some (Exit 2 [], w))"

definition with_usage :: "(run_end \<times> 'w) option \<Rightarrow> (run_end \<times> 'w) option" where
  "with_usage r =
     (case r of Some (Exit status err, w) \<Rightarrow>
        Some (Exit status (if status = 2 then err @ usage else err), w) | _ \<Rightarrow> r)"

definition generator_main ::
  "('h, 'w) openssl \<Rightarrow> license_fb \<Rightarrow> 'w posix \<Rightarrow> string list \<Rightarrow> 'w \<Rightarrow> (run_end \<times> 'w) option" where
  "generator_main ossl lf px argv w =
     (if length argv \<ge> 2 \<and> argv ! 1 = ''keygen'' then with_usage (keygen ossl px argv w)
      else if length argv \<ge> 2 \<and> argv ! 1 = ''issue'' then with_usage (issue ossl lf px argv w)
      else Some (Exit 2 usage, w))"

section \<open>The retry loops end\<close>

lemma write_fully_ends:
  assumes "interrupts_end px"
  shows "\<exists>r. write_fully px fd bs w = Some r"
proof -
  from assms obtain f :: "'a \<Rightarrow> nat" where
    f: "\<And>bs w w'. px_write px fd bs w = (Inl EINTR, w') \<Longrightarrow> f w' < f w"
    unfolding interrupts_end_def by blast
  have "wf (measures [\<lambda>(bs :: bytes, w). length bs, \<lambda>(bs, w). f w])" by simp
  then show ?thesis
  proof (induction "(bs, w)" arbitrary: bs w rule: wf_induct_rule)
    case (less bs w)
    then have step: "length bs' < length bs \<or> length bs' = length bs \<and> f w' < f w \<Longrightarrow>
        \<exists>r. write_fully px fd bs' w' = Some r" for bs' w' by auto
    obtain res w' where c: "px_write px fd bs w = (res, w')" by fastforce
    show ?case
    proof (cases res)
      case (Inl errno)
      with c f step [of bs w'] show ?thesis by (subst write_fully.simps) auto
    next
      case (Inr count)
      with c step [of "drop count bs" w'] show ?thesis by (subst write_fully.simps) auto
    qed
  qed
qed

lemma read_retry_ends:
  assumes "interrupts_end px"
  shows "\<exists>r. read_retry px fd n acc w = Some r"
proof -
  from assms obtain f :: "'a \<Rightarrow> nat" where
    f: "\<And>n w w'. px_read px fd n w = (Inl EINTR, w') \<Longrightarrow> f w' < f w"
    unfolding interrupts_end_def by blast
  have "wf (measures [\<lambda>(n, w). n, \<lambda>(n, w). f w])" by simp
  then show ?thesis
  proof (induction "(n, w)" arbitrary: n acc w rule: wf_induct_rule)
    case (less n w)
    then have step: "n' < n \<or> n' = n \<and> f w' < f w \<Longrightarrow> \<exists>r. read_retry px fd n' acc' w' = Some r"
      for n' acc' w' by auto
    obtain res w' where c: "px_read px fd n w = (res, w')" by fastforce
    show ?case
    proof (cases res)
      case (Inl errno)
      with c f step [of n w' acc] show ?thesis by (subst read_retry.simps) auto
    next
      case (Inr bs)
      with c step [of "n - length bs" w' "acc @ bs"] show ?thesis by (subst read_retry.simps) auto
    qed
  qed
qed

lemma retries_end [simp]:
  assumes "interrupts_end px"
  shows "write_fully px fd bs w \<noteq> None" "read_retry px fd n acc w \<noteq> None"
  using write_fully_ends [OF assms, of fd bs w] read_retry_ends [OF assms, of fd n acc w] by auto

lemma file_routines_end [simp]:
  assumes "interrupts_end px"
  shows "writeNewFile px path bs mode w \<noteq> None" "readPrivateKey px path w \<noteq> None"
  using assms
  by (simp_all add: writeNewFile_def readPrivateKey_def Let_def
      split: prod.splits sum.splits option.split bool.splits)

lemma commands_end [simp]:
  assumes "interrupts_end px"
  shows "keygen ossl px argv w \<noteq> None" "issue ossl lf px argv w \<noteq> None"
  using assms
  by (simp_all add: keygen_def issue_def Let_def
      split: prod.splits sum.splits option.split bool.splits)

section \<open>What the tool issues\<close>

lemma parseNumber_range: "parseNumber bits s = Some v \<Longrightarrow> v < 2 ^ bits"
  by (auto simp: parseNumber_def from_chars_def Let_def split: option.splits if_splits)

text \<open>
  The sum of the time and the validity is computed in 64 bits.  A definition with a wrapped expiry is
  refused, because it would expire before it starts, except when the sum wraps to zero.
\<close>

lemma expiry_of_definition:
  fixes now :: u64
  assumes "valid_definition (definition_of argv now (of_nat validity) sessions)" "validity < 2 ^ 64"
  shows "unat (ld_expire_time (definition_of argv now (of_nat validity) sessions)) =
           (if validity = 0 \<or> unat now + validity = 2 ^ 64 then 0 else unat now + validity)"
proof -
  have v: "unat (of_nat validity :: u64) = validity" "(of_nat validity :: u64) = 0 \<longleftrightarrow> validity = 0"
    using assms(2) by (auto simp: unat_of_nat take_bit_nat_eq_self word_of_nat_eq_0_iff dest: dvd_imp_le)
  show ?thesis
  proof (cases "validity = 0")
    case False
    then have e: "ld_expire_time (definition_of argv now (of_nat validity) sessions) = now + of_nat validity"
      (is "?e = _") using v(2) by (simp add: definition_of_def)
    have sum: "unat ?e = (unat now + validity) mod 2 ^ 64"
      using v(1) by (simp add: e unat_word_ariths)
    from assms(1) have "?e = 0 \<or> now < ?e"
      by (auto simp: valid_definition_def definition_of_def split: if_splits)
    then have "unat ?e = 0 \<or> unat now < unat ?e" by (auto simp: word_less_nat_alt)
    moreover have "unat now < 2 ^ 64" using unsigned_less [of now, where ?'a = nat] by simp
    ultimately show ?thesis using sum assms(2) False by (auto simp: mod_if split: if_splits)
  qed (simp add: definition_of_def)
qed

section \<open>Properties\<close>

text \<open>
  The tool always ends, on whatever command line, provided that system calls are not interrupted
  for ever: it exits with a status or is terminated by the exception of a failed removal.
\<close>

lemma generator_terminates:
  assumes "interrupts_end px"
  shows "\<exists>status_or_exception w'. generator_main ossl lf px argv w = Some (status_or_exception, w')"
proof -
  have "generator_main ossl lf px argv w \<noteq> None"
    using assms by (auto simp: generator_main_def with_usage_def split: option.splits run_end.splits)
  then show ?thesis by auto
qed

text \<open>
  C33.  When the tool reports that it issued a license, the new file it wrote is the package for exactly
  the command line's data, signed with the key of the given file: \<^verbatim>\<open>argv[3]\<close> is the key's id,
  \<^verbatim>\<open>argv[5]\<close> to \<^verbatim>\<open>argv[7]\<close> are the ids of the license, the product and the customer, and \<^verbatim>\<open>argv[10]\<close> and what
  follows are the features; the license is not bound to a machine and starts now.  A validity of zero gives
  a license that never expires; any other gives one that expires that many seconds from now, with one
  exception: a validity for which the sum is \<open>2 ^ 64\<close> wraps to zero and gives a license that never
  expires.
\<close>

theorem issue_writes_requested_license:
  assumes "issue ossl lf px argv w = Some (Exit 0 err, w')"
  shows "\<exists>validity sessions key w1 now w2 d package.
           10 \<le> length argv \<and>
           parseNumber 64 (argv ! 8) = Some validity \<and> parseNumber 32 (argv ! 9) = Some sessions \<and>
           sessions \<noteq> 0 \<and> readPrivateKey px (argv ! 2) w = Some (Inr key, w1) \<and> px_time px w1 = (now, w2) \<and>
           issueLicense ossl lf d key = Inr package \<and>
           writeNewFile px (argv ! 4) package 420 w2 = Some (Some True, w') \<and>
           ld_key_id d = argv ! 3 \<and> ld_license_id d = argv ! 5 \<and> ld_product_id d = argv ! 6 \<and>
           ld_customer_id d = argv ! 7 \<and> ld_features d = drop 10 argv \<and> ld_machine_id d = [] \<and>
           ld_issue_time d = now \<and> ld_not_before d = now \<and>
           unat (ld_max_sessions d) = sessions \<and>
           unat (ld_expire_time d) =
             (if validity = 0 \<or> unat now + validity = 2 ^ 64 then 0 else unat now + validity)"
proof -
  from assms obtain validity sessions key w1 now w2 package where
    p: "10 \<le> length argv" "parseNumber 64 (argv ! 8) = Some validity" "parseNumber 32 (argv ! 9) = Some sessions"
    "sessions \<noteq> 0" and
    r: "readPrivateKey px (argv ! 2) w = Some (Inr key, w1)" "px_time px w1 = (now, w2)"
    "issueLicense ossl lf (definition_of argv now (of_nat validity) (of_nat sessions)) key = Inr package"
    "writeNewFile px (argv ! 4) package 420 w2 = Some (Some True, w')"
    by (auto simp: issue_def Let_def complain_def not_less
        split: prod.splits sum.splits option.splits bool.splits if_splits)
  have "valid_definition (definition_of argv now (of_nat validity) (of_nat sessions))"
    using r(3) by (rule issueLicense_ok)
  from expiry_of_definition [OF this parseNumber_range [OF p(2)]]
    parseNumber_range [OF p(3)] p r show ?thesis
    by (intro exI [of _ validity] exI [of _ sessions] exI [of _ key] exI [of _ w1] exI [of _ now]
        exI [of _ w2] exI [of _ "definition_of argv now (of_nat validity) (of_nat sessions)"]
        exI [of _ package])
       (simp add: definition_of_def unat_of_nat take_bit_nat_eq_self)
qed

end
