(* ===== verification/Session.thy ===== *)
theory Session
  imports License
begin

text \<open>
  The table of open sessions, \<^verbatim>\<open>src/src/ya_license_core/src/session.cpp\<close>.  The
  \<^verbatim>\<open>unordered_map\<close> is an association list with one entry per id: the order is never observed.  Every method
  holds the object's mutex for its whole body, so that the methods are atomic and a history of the
  object is a sequence of calls.
\<close>

section \<open>Data\<close>

record Session =
  ss_id :: bytes
  ss_product_id :: string
  ss_peer_identity :: string
  ss_features :: "string list"
  ss_expire_time :: u64
  ss_last_heartbeat_ms :: u64

record SessionManager =
  sm_sessions :: "(bytes \<times> Session) list"

definition SessionManager_new :: SessionManager where
  "SessionManager_new = \<lparr>sm_sessions = []\<rparr>"

section \<open>Operations\<close>

definition SessionIdHash :: "bytes \<Rightarrow> u64" where
  "SessionIdHash sid = foldl (\<lambda>hash byte. (hash * 131) XOR ucast byte) 0 sid"

text \<open>
  The loop that draws an id: it may run forever when the entropy source keeps returning ids that
  are in use, so that it is a partial function.  The buffer is the id of the new session.
\<close>

partial_function (option) drawSessionId ::
  "('h, 'w) openssl \<Rightarrow> (bytes \<times> Session) list \<Rightarrow> bytes \<Rightarrow> 'w \<Rightarrow> (bytes CoreResult \<times> 'w) option" where
  "drawSessionId ossl sessions sid w =
     (case randomBytes ossl sid w of
        (Inl _, w') \<Rightarrow> Some (Inl ErrorCode_InternalError, w')
      | (Inr id', w') \<Rightarrow> if map_of sessions id' \<noteq> None then drawSessionId ossl sessions id' w'
                         else Some (Inr id', w'))"

declare drawSessionId.simps [code]

definition active_sessions :: "string \<Rightarrow> (bytes \<times> Session) list \<Rightarrow> nat" where
  "active_sessions product_id sessions =
     length (filter (\<lambda>(_, s). ss_product_id s = product_id) sessions)"

definition SessionManager_create ::
  "('h, 'w) openssl \<Rightarrow> string \<Rightarrow> string \<Rightarrow> string list \<Rightarrow> u64 \<Rightarrow> u64 \<Rightarrow> u32 \<Rightarrow> SessionManager \<Rightarrow> 'w \<Rightarrow>
     (Session CoreResult \<times> SessionManager \<times> 'w) option" where
  "SessionManager_create ossl product_id peer_identity features expire_time now_monotonic_ms
       max_sessions m w =
     (if product_id = [] \<or> peer_identity = [] \<or> max_sessions = 0
      then Some (Inl ErrorCode_InvalidLicense, m, w)
      else if active_sessions product_id (sm_sessions m) \<ge> unat max_sessions
      then Some (Inl ErrorCode_SessionLimitExceeded, m, w)
      else case drawSessionId ossl (sm_sessions m) (replicate 16 0) w of
        None \<Rightarrow> None
      | Some (Inl e, w') \<Rightarrow> Some (Inl e, m, w')
      | Some (Inr sid, w') \<Rightarrow>
          let session = \<lparr>ss_id = sid, ss_product_id = product_id, ss_peer_identity = peer_identity,
                         ss_features = features, ss_expire_time = expire_time,
                         ss_last_heartbeat_ms = now_monotonic_ms\<rparr>
          in Some (Inr session, m\<lparr>sm_sessions := (sid, session) # sm_sessions m\<rparr>, w'))"

definition SessionManager_heartbeat :: "bytes \<Rightarrow> u64 \<Rightarrow> SessionManager \<Rightarrow> ErrorCode \<times> SessionManager" where
  "SessionManager_heartbeat sid now_monotonic_ms m =
     (case map_of (sm_sessions m) sid of
        None \<Rightarrow> (ErrorCode_InvalidSession, m)
      | Some _ \<Rightarrow>
          (ErrorCode_None,
           m\<lparr>sm_sessions := map (\<lambda>(k, s). (k, if k = sid then s\<lparr>ss_last_heartbeat_ms := now_monotonic_ms\<rparr>
                                               else s)) (sm_sessions m)\<rparr>))"

definition SessionManager_close :: "bytes \<Rightarrow> SessionManager \<Rightarrow> bool \<times> SessionManager" where
  "SessionManager_close sid m =
     (map_of (sm_sessions m) sid \<noteq> None,
      m\<lparr>sm_sessions := filter (\<lambda>(k, _). k \<noteq> sid) (sm_sessions m)\<rparr>)"

definition inactive :: "u64 \<Rightarrow> u64 \<Rightarrow> Session \<Rightarrow> bool" where
  "inactive now_monotonic_ms timeout_ms s \<longleftrightarrow>
     now_monotonic_ms \<ge> ss_last_heartbeat_ms s \<and>
     now_monotonic_ms - ss_last_heartbeat_ms s \<ge> timeout_ms"

definition SessionManager_expireInactive :: "u64 \<Rightarrow> u64 \<Rightarrow> SessionManager \<Rightarrow> nat \<times> SessionManager" where
  "SessionManager_expireInactive now_monotonic_ms timeout_ms m =
     (let kept = filter (\<lambda>(_, s). \<not> inactive now_monotonic_ms timeout_ms s) (sm_sessions m)
      in (length (sm_sessions m) - length kept, m\<lparr>sm_sessions := kept\<rparr>))"

definition SessionManager_size :: "SessionManager \<Rightarrow> nat" where
  "SessionManager_size m = length (sm_sessions m)"

definition lookup_session :: "SessionManager \<Rightarrow> bytes \<Rightarrow> Session option" where
  "lookup_session m sid = map_of (sm_sessions m) sid"

section \<open>The interface of a session table\<close>

text \<open>
  What a connection relies on when it holds the id of a session: closing a session removes it and
  no other, a heartbeat touches no other session and creates none, and both keep the table
  well formed.
\<close>

locale session_table =
  fixes lookup :: "'m \<Rightarrow> 'k \<Rightarrow> 's option"
    and erase :: "'k \<Rightarrow> 'm \<Rightarrow> bool \<times> 'm"
    and touch :: "'k \<Rightarrow> 't \<Rightarrow> 'm \<Rightarrow> 'e \<times> 'm"
    and ok :: 'e
    and wf :: "'m \<Rightarrow> bool"
  assumes erase_result: "wf m \<Longrightarrow> fst (erase k m) \<longleftrightarrow> lookup m k \<noteq> None"
    and lookup_erase: "wf m \<Longrightarrow> lookup (snd (erase k m)) j = (if j = k then None else lookup m j)"
    and touch_result: "wf m \<Longrightarrow> fst (touch k t m) = ok \<longleftrightarrow> lookup m k \<noteq> None"
    and lookup_touch: "wf m \<Longrightarrow> lookup (snd (touch k t m)) j = None \<longleftrightarrow> lookup m j = None"
    and lookup_touch_other: "wf m \<Longrightarrow> j \<noteq> k \<Longrightarrow> lookup (snd (touch k t m)) j = lookup m j"
    and wf_erase: "wf m \<Longrightarrow> wf (snd (erase k m))"
    and wf_touch: "wf m \<Longrightarrow> wf (snd (touch k t m))"
begin

lemma erase_again:
  assumes "wf m"
  shows "\<not> fst (erase k (snd (erase k m)))" "fst (touch k t (snd (erase k m))) \<noteq> ok"
  using assms wf_erase [OF assms, of k] by (simp_all add: erase_result touch_result lookup_erase)

lemma erase_commutes:
  assumes "wf m"
  shows "lookup (snd (erase a (snd (erase b m)))) j = lookup (snd (erase b (snd (erase a m)))) j"
  using assms wf_erase [OF assms] by (simp add: lookup_erase)

end

section \<open>Well-formed tables\<close>

definition manager_wf :: "SessionManager \<Rightarrow> bool" where
  "manager_wf m \<longleftrightarrow>
     distinct (map fst (sm_sessions m)) \<and>
     (\<forall>(sid, s) \<in> set (sm_sessions m). ss_id s = sid \<and> length sid = 16 \<and> ss_product_id s \<noteq> [] \<and>
        ss_peer_identity s \<noteq> [])"

lemma map_of_filter_keys: "map_of (filter (\<lambda>(k, _). k \<noteq> sid) xs) j = (if j = sid then None else map_of xs j)"
  by (induction xs) auto

lemma map_of_filter_values:
  "distinct (map fst xs) \<Longrightarrow> map_of (filter (\<lambda>(_, s). \<not> P s) xs) j =
     (case map_of xs j of None \<Rightarrow> None | Some s \<Rightarrow> if P s then None else Some s)"
  by (induction xs) (auto split: option.split simp: map_of_eq_None_iff rev_image_eqI)

lemma map_of_touch:
  "map_of (map (\<lambda>(k, s). (k, if k = sid then f s else s)) xs) j =
     map_option (\<lambda>s. if j = sid then f s else s) (map_of xs j)"
  by (induction xs) auto

lemma wf_filter: "manager_wf m \<Longrightarrow> manager_wf (m\<lparr>sm_sessions := filter P (sm_sessions m)\<rparr>)"
  by (auto simp: manager_wf_def distinct_map_filter)

lemma wf_new: "manager_wf SessionManager_new"
  by (simp add: manager_wf_def SessionManager_new_def)

lemma wf_heartbeat: "manager_wf m \<Longrightarrow> manager_wf (snd (SessionManager_heartbeat sid now m))"
  by (auto simp: manager_wf_def SessionManager_heartbeat_def comp_def split_beta split: option.split)

interpretation manager: session_table lookup_session SessionManager_close SessionManager_heartbeat
    ErrorCode_None manager_wf
proof
  show "manager_wf m \<Longrightarrow> fst (SessionManager_close k m) \<longleftrightarrow> lookup_session m k \<noteq> None" for m k
    by (simp add: SessionManager_close_def lookup_session_def)
  show "manager_wf m \<Longrightarrow> lookup_session (snd (SessionManager_close k m)) j
      = (if j = k then None else lookup_session m j)" for m k j
    by (simp add: SessionManager_close_def lookup_session_def map_of_filter_keys)
  show "manager_wf m \<Longrightarrow> fst (SessionManager_heartbeat k t m) = ErrorCode_None \<longleftrightarrow>
      lookup_session m k \<noteq> None" for m k t
    by (simp add: SessionManager_heartbeat_def lookup_session_def split: option.split)
  show "manager_wf m \<Longrightarrow> lookup_session (snd (SessionManager_heartbeat k t m)) j = None \<longleftrightarrow>
      lookup_session m j = None" for m k t j
    by (simp add: SessionManager_heartbeat_def lookup_session_def map_of_touch split: option.split)
  show "manager_wf m \<Longrightarrow> j \<noteq> k \<Longrightarrow> lookup_session (snd (SessionManager_heartbeat k t m)) j
      = lookup_session m j" for m k t j
    by (simp add: SessionManager_heartbeat_def lookup_session_def map_of_touch option.map_ident
        split: option.split)
  show "manager_wf m \<Longrightarrow> manager_wf (snd (SessionManager_close k m))" for m k
    by (simp add: SessionManager_close_def wf_filter)
  show "manager_wf m \<Longrightarrow> manager_wf (snd (SessionManager_heartbeat k t m))" for m k t
    by (rule wf_heartbeat)
qed

section \<open>Creation\<close>

text \<open>The outcome of the \<open>n\<close>-th draw of the loop, counted from zero, if no earlier draw failed.\<close>

fun nth_draw :: "('h, 'w) openssl \<Rightarrow> bytes \<Rightarrow> 'w \<Rightarrow> nat \<Rightarrow> bytes option" where
  "nth_draw ossl sid w 0 = (case randomBytes ossl sid w of (Inl _, _) \<Rightarrow> None | (Inr id', _) \<Rightarrow> Some id')"
| "nth_draw ossl sid w (Suc n) =
     (case randomBytes ossl sid w of (Inl _, _) \<Rightarrow> None | (Inr id', w') \<Rightarrow> nth_draw ossl id' w' n)"

text \<open>A draw that ends the loop: the source failed, or the id is not in use.\<close>

definition draw_ends :: "('h, 'w) openssl \<Rightarrow> (bytes \<times> Session) list \<Rightarrow> bytes \<Rightarrow> 'w \<Rightarrow> nat \<Rightarrow> bool" where
  "draw_ends ossl sessions sid w n \<longleftrightarrow>
     (case nth_draw ossl sid w n of None \<Rightarrow> True | Some sid' \<Rightarrow> map_of sessions sid' = None)"

lemma draw_ends_simps:
  "randomBytes ossl sid w = (Inl e, w') \<Longrightarrow> draw_ends ossl sessions sid w n"
  "randomBytes ossl sid w = (Inr sid', w') \<Longrightarrow> draw_ends ossl sessions sid w 0 \<longleftrightarrow> map_of sessions sid' = None"
  "randomBytes ossl sid w = (Inr sid', w') \<Longrightarrow>
     draw_ends ossl sessions sid w (Suc n) \<longleftrightarrow> draw_ends ossl sessions sid' w' n"
  by (cases n; simp add: draw_ends_def) (simp_all add: draw_ends_def)

lemma drawSessionId_hit:
  assumes "drawSessionId ossl sessions sid w = Some r"
  shows "\<exists>n. draw_ends ossl sessions sid w n"
proof (rule drawSessionId.raw_induct [OF _ assms])
  fix draw :: "('h, 'w) openssl \<Rightarrow> (bytes \<times> Session) list \<Rightarrow> bytes \<Rightarrow> 'w \<Rightarrow> (bytes CoreResult \<times> 'w) option"
    and ossl :: "('h, 'w) openssl" and sessions sid w r
  assume IH: "\<And>ossl sessions sid w r. draw ossl sessions sid w = Some r \<Longrightarrow> \<exists>n. draw_ends ossl sessions sid w n"
    and eq: "(case randomBytes ossl sid w of
        (Inl _, w') \<Rightarrow> Some (Inl ErrorCode_InternalError, w')
      | (Inr sid', w') \<Rightarrow> if map_of sessions sid' \<noteq> None then draw ossl sessions sid' w'
                         else Some (Inr sid', w')) = Some r"
  obtain x w' where x: "randomBytes ossl sid w = (x, w')" by fastforce
  show "\<exists>n. draw_ends ossl sessions sid w n"
  proof (cases x)
    case (Inl e)
    with x have "draw_ends ossl sessions sid w 0" by (simp add: draw_ends_simps(1))
    then show ?thesis ..
  next
    case (Inr sid')
    show ?thesis
    proof (cases "map_of sessions sid'")
      case None
      with x Inr have "draw_ends ossl sessions sid w 0" by (simp add: draw_ends_simps(2))
      then show ?thesis ..
    next
      case (Some s)
      with eq x Inr have "draw ossl sessions sid' w' = Some r" by simp
      from IH [OF this] obtain n where "draw_ends ossl sessions sid' w' n" ..
      with x Inr have "draw_ends ossl sessions sid w (Suc n)" by (simp add: draw_ends_simps(3))
      then show ?thesis ..
    qed
  qed
qed

lemma drawSessionId_returns:
  "(\<exists>r. drawSessionId ossl sessions sid w = Some r) \<longleftrightarrow> (\<exists>n. draw_ends ossl sessions sid w n)"
proof
  assume "\<exists>n. draw_ends ossl sessions sid w n"
  then obtain n where "draw_ends ossl sessions sid w n" ..
  then show "\<exists>r. drawSessionId ossl sessions sid w = Some r"
  proof (induction n arbitrary: sid w)
    case 0
    then show ?case
      by (subst drawSessionId.simps) (auto simp: draw_ends_def split: prod.splits sum.splits option.splits)
  next
    case (Suc n)
    obtain x w' where x: "randomBytes ossl sid w = (x, w')" by fastforce
    show ?case
    proof (cases x)
      case (Inr sid')
      with Suc.prems x have "draw_ends ossl sessions sid' w' n" by (simp add: draw_ends_simps(3))
      from Suc.IH [OF this] x Inr show ?thesis by (subst drawSessionId.simps) simp
    qed (use x in \<open>simp add: drawSessionId.simps\<close>)
  qed
qed (elim exE, rule drawSessionId_hit)

text \<open>What the loop returns is new, and as long as the buffer.\<close>

lemma drawSessionId_fresh:
  assumes "drawSessionId ossl sessions sid w = Some (Inr sid', w')"
  shows "map_of sessions sid' = None \<and> length sid' = length sid"
proof -
  have "case fst r of Inl e \<Rightarrow> True | Inr x \<Rightarrow> map_of sessions x = None \<and> length x = length sid"
    if "drawSessionId ossl sessions sid w = Some r" for r
  proof (rule drawSessionId.raw_induct [OF _ that])
    fix draw :: "('h, 'w) openssl \<Rightarrow> (bytes \<times> Session) list \<Rightarrow> bytes \<Rightarrow> 'w \<Rightarrow> (bytes CoreResult \<times> 'w) option"
      and ossl :: "('h, 'w) openssl" and sessions sid w r
    assume IH: "\<And>ossl sessions sid w r. draw ossl sessions sid w = Some r \<Longrightarrow>
        case fst r of Inl e \<Rightarrow> True | Inr x \<Rightarrow> map_of sessions x = None \<and> length x = length sid"
      and eq: "(case randomBytes ossl sid w of
          (Inl _, w') \<Rightarrow> Some (Inl ErrorCode_InternalError, w')
        | (Inr sid', w') \<Rightarrow> if map_of sessions sid' \<noteq> None then draw ossl sessions sid' w'
                           else Some (Inr sid', w')) = Some r"
    show "case fst r of Inl e \<Rightarrow> True | Inr x \<Rightarrow> map_of sessions x = None \<and> length x = length sid"
      using eq by (auto split: prod.splits sum.splits if_splits dest!: IH dest: randomBytes_length)
  qed
  from this [OF assms] show ?thesis by simp
qed


lemma drawSessionId_error:
  assumes "drawSessionId ossl sessions sid w = Some (Inl e, w')"
  shows "e = ErrorCode_InternalError"
proof -
  have "fst r = Inl e \<longrightarrow> e = ErrorCode_InternalError" if "drawSessionId ossl sessions sid w = Some r" for r
    by (rule drawSessionId.raw_induct [OF _ that])
       (auto split: prod.splits sum.splits if_splits)
  from this [OF assms] show ?thesis by simp
qed

lemma create_ok:
  assumes "SessionManager_create ossl p peer fs ex now mx m w = Some (Inr s, m', w')"
  shows "p \<noteq> []" "peer \<noteq> []" "active_sessions p (sm_sessions m) < unat mx"
    "lookup_session m (ss_id s) = None" "length (ss_id s) = 16"
    "m' = m\<lparr>sm_sessions := (ss_id s, s) # sm_sessions m\<rparr>"
    "ss_product_id s = p" "ss_peer_identity s = peer" "ss_features s = fs" "ss_expire_time s = ex"
    "ss_last_heartbeat_ms s = now"
proof -
  from assms obtain sid where
    d: "drawSessionId ossl (sm_sessions m) (replicate 16 0) w = Some (Inr sid, w')" and
    s: "s = \<lparr>ss_id = sid, ss_product_id = p, ss_peer_identity = peer, ss_features = fs,
          ss_expire_time = ex, ss_last_heartbeat_ms = now\<rparr>" and
    "m' = m\<lparr>sm_sessions := (sid, s) # sm_sessions m\<rparr>" and
    "p \<noteq> []" "peer \<noteq> []" "active_sessions p (sm_sessions m) < unat mx"
    by (auto simp: SessionManager_create_def Let_def not_le split: if_splits option.splits sum.splits)
  with drawSessionId_fresh [OF d] show "p \<noteq> []" "peer \<noteq> []" "active_sessions p (sm_sessions m) < unat mx"
    "lookup_session m (ss_id s) = None" "length (ss_id s) = 16"
    "m' = m\<lparr>sm_sessions := (ss_id s, s) # sm_sessions m\<rparr>"
    "ss_product_id s = p" "ss_peer_identity s = peer" "ss_features s = fs" "ss_expire_time s = ex"
    "ss_last_heartbeat_ms s = now"
    by (simp_all add: lookup_session_def)
qed

lemma create_error:
  "SessionManager_create ossl p peer fs ex now mx m w = Some (Inl e, m', w') \<Longrightarrow> m' = m"
  by (auto simp: SessionManager_create_def Let_def split: if_splits option.splits sum.splits)

lemma wf_create:
  assumes wf: "manager_wf m" and c: "SessionManager_create ossl p peer fs ex now mx m w = Some (res, m', w')"
  shows "manager_wf m'"
proof (cases res)
  case (Inl e)
  with create_error [OF c [unfolded Inl]] wf show ?thesis by simp
next
  case (Inr s)
  note ok = create_ok [OF c [unfolded Inr]]
  have "ss_id s \<notin> fst ` set (sm_sessions m)"
    using ok(4) by (simp add: lookup_session_def map_of_eq_None_iff)
  then show ?thesis using wf ok(1,2,5-8) by (auto simp: manager_wf_def)
qed

text \<open>The sessions of one product, after the operations that do not create any.\<close>

lemma active_filter_le: "active_sessions p (filter P xs) \<le> active_sessions p xs"
  by (induction xs) (auto simp: active_sessions_def)

lemma active_heartbeat: "active_sessions p (sm_sessions (snd (SessionManager_heartbeat sid now m)))
    = active_sessions p (sm_sessions m)"
proof -
  have "active_sessions p (map (\<lambda>(k, s). (k, if k = sid then s\<lparr>ss_last_heartbeat_ms := now\<rparr> else s)) xs)
      = active_sessions p xs" for xs
    by (induction xs) (auto simp: active_sessions_def split: if_splits)
  then show ?thesis by (simp add: SessionManager_heartbeat_def split: option.split)
qed

section \<open>Histories of a table\<close>

text \<open>
  A table after any sequence of calls in which every session of \<open>product\<close> is requested with the
  limit \<open>limit\<close>, as a service with one license does.
\<close>

inductive manager_reachable ::
  "('h, 'w) openssl \<Rightarrow> string \<Rightarrow> u32 \<Rightarrow> SessionManager \<Rightarrow> bool"
  for ossl :: "('h, 'w) openssl" and product :: string and limit :: u32 where
  manager_start: "manager_reachable ossl product limit SessionManager_new"
| manager_create: "manager_reachable ossl product limit m \<Longrightarrow> (p = product \<Longrightarrow> mx = limit) \<Longrightarrow>
    SessionManager_create ossl p peer fs ex now mx m w = Some (res, m', w') \<Longrightarrow>
    manager_reachable ossl product limit m'"
| manager_heartbeat: "manager_reachable ossl product limit m \<Longrightarrow>
    manager_reachable ossl product limit (snd (SessionManager_heartbeat sid now m))"
| manager_close: "manager_reachable ossl product limit m \<Longrightarrow>
    manager_reachable ossl product limit (snd (SessionManager_close sid m))"
| manager_expire: "manager_reachable ossl product limit m \<Longrightarrow>
    manager_reachable ossl product limit (snd (SessionManager_expireInactive now timeout m))"

lemma manager_reachable_inv:
  "manager_reachable ossl product limit m \<Longrightarrow>
     manager_wf m \<and> active_sessions product (sm_sessions m) \<le> unat limit"
proof (induction rule: manager_reachable.induct)
  case manager_start
  then show ?case using wf_new by (simp add: SessionManager_new_def active_sessions_def)
next
  case (manager_create m p mx peer fs ex now w res m' w')
  have "active_sessions product (sm_sessions m') \<le> unat limit"
  proof (cases res)
    case (Inl e)
    with create_error [OF manager_create(3) [unfolded Inl]] manager_create.IH show ?thesis by simp
  next
    case (Inr s)
    note ok = create_ok [OF manager_create(3) [unfolded Inr]]
    show ?thesis
      using ok(3,6,7) manager_create(2) manager_create.IH by (cases "p = product") (auto simp: active_sessions_def)
  qed
  with wf_create [OF _ manager_create(3)] manager_create.IH show ?case by simp
next
  case (manager_heartbeat m sid now)
  then show ?case by (simp add: wf_heartbeat active_heartbeat)
next
  case (manager_close m sid)
  then show ?case
    using active_filter_le [of product _ "sm_sessions m"]
    by (auto simp: SessionManager_close_def wf_filter intro: order_trans)
next
  case (manager_expire m now timeout)
  then show ?case
    using active_filter_le [of product _ "sm_sessions m"]
    by (auto simp: SessionManager_expireInactive_def Let_def wf_filter intro: order_trans)
qed

section \<open>Properties\<close>

text \<open>
  C7.  Over any history of the session table in which the sessions of a product are requested with
  its limit, the table never holds more sessions of the product than the limit, every session id is
  16 bytes and belongs to one session, and every session is stored under its own id.
\<close>

theorem session_limit_never_exceeded:
  assumes "manager_reachable ossl product limit m"
  shows "manager_wf m \<and> active_sessions product (sm_sessions m) \<le> unat limit"
  using assms by (rule manager_reachable_inv)

text \<open>
  The creation of a session returns exactly when the request is refused before any draw or the
  entropy source eventually fails or yields an id that is not in use.
\<close>

lemma session_create_returns_iff:
  "(\<exists>r. SessionManager_create ossl p peer fs ex now mx m w = Some r) \<longleftrightarrow>
     p = [] \<or> peer = [] \<or> active_sessions p (sm_sessions m) \<ge> unat mx \<or>
     (\<exists>n. draw_ends ossl (sm_sessions m) (replicate 16 0) w n)"
proof -
  have "(\<exists>r. SessionManager_create ossl p peer fs ex now mx m w = Some r) \<longleftrightarrow>
     p = [] \<or> peer = [] \<or> active_sessions p (sm_sessions m) \<ge> unat mx \<or>
     (\<exists>r. drawSessionId ossl (sm_sessions m) (replicate 16 0) w = Some r)"
    by (cases "drawSessionId ossl (sm_sessions m) (replicate 16 0) w")
       (auto simp: SessionManager_create_def Let_def split: prod.split sum.split)
  then show ?thesis unfolding drawSessionId_returns .
qed

text \<open>
  What creation does: a created session carries the requested data under an id that was not in
  use and is now found under it, with every other session as before and one more session of the
  product; a refused request changes nothing and says why.
\<close>

lemma session_create_effect:
  assumes "SessionManager_create ossl p peer fs ex now mx m w = Some (res, m', w')"
  shows "case res of
           Inr s \<Rightarrow> lookup_session m (ss_id s) = None \<and>
                    lookup_session m' = (lookup_session m)(ss_id s \<mapsto> s) \<and>
                    active_sessions p (sm_sessions m') = active_sessions p (sm_sessions m) + 1 \<and>
                    ss_product_id s = p \<and> ss_peer_identity s = peer \<and> ss_features s = fs \<and>
                    ss_expire_time s = ex \<and> ss_last_heartbeat_ms s = now
         | Inl e \<Rightarrow> m' = m \<and>
                    (e = ErrorCode_InvalidLicense \<longleftrightarrow> p = [] \<or> peer = [] \<or> mx = 0) \<and>
                    (e = ErrorCode_SessionLimitExceeded \<longleftrightarrow>
                       p \<noteq> [] \<and> peer \<noteq> [] \<and> mx \<noteq> 0 \<and> unat mx \<le> active_sessions p (sm_sessions m))"
proof (cases res)
  case (Inl e)
  note drawSessionId_error [of ossl "sm_sessions m" "replicate 16 0" w]
  with Inl assms show ?thesis
    by (auto simp: SessionManager_create_def Let_def not_le split: if_splits option.splits sum.splits)
next
  case (Inr s)
  note ok = create_ok [OF assms [unfolded Inr]]
  have "lookup_session m' = (lookup_session m)(ss_id s \<mapsto> s)"
    by (rule ext) (subst ok(6), simp add: lookup_session_def)
  moreover have "active_sessions p (sm_sessions m') = active_sessions p (sm_sessions m) + 1"
    by (subst ok(6)) (simp add: active_sessions_def ok(7))
  ultimately show ?thesis using Inr ok(4,7-11) by simp
qed

text \<open>
  Expiry removes exactly the sessions whose last heartbeat is at least the timeout ago, keeps
  every other session unchanged, and reports how many it removed; a clock that reads earlier than a
  heartbeat never expires that session.
\<close>

lemma expire_removes_exactly_inactive:
  assumes "manager_wf m" and "SessionManager_expireInactive now timeout m = (n, m')"
  shows "lookup_session m' sid =
           (case lookup_session m sid of
              None \<Rightarrow> None
            | Some s \<Rightarrow> if unat (ss_last_heartbeat_ms s) \<le> unat now
                            \<and> unat (ss_last_heartbeat_ms s) + unat timeout \<le> unat now
                         then None else Some s) \<and>
         SessionManager_size m' + n = SessionManager_size m"
proof -
  let ?P = "inactive now timeout"
  have a: "?P s \<longleftrightarrow> unat (ss_last_heartbeat_ms s) \<le> unat now
      \<and> unat (ss_last_heartbeat_ms s) + unat timeout \<le> unat now" for s
    by (auto simp: inactive_def word_le_nat_alt unat_sub)
  have "lookup_session m' sid =
      (case lookup_session m sid of None \<Rightarrow> None | Some s \<Rightarrow> if ?P s then None else Some s)"
    using assms
    by (auto simp: SessionManager_expireInactive_def Let_def lookup_session_def manager_wf_def
        map_of_filter_values)
  moreover have "SessionManager_size m' + n = SessionManager_size m"
    using assms(2) length_filter_le [of _ "sm_sessions m"]
    by (auto simp: SessionManager_expireInactive_def Let_def SessionManager_size_def)
  ultimately show ?thesis by (simp only: a)
qed

end
