(* ===== verification/SessionSpec.thy ===== *)
theory SessionSpec
  imports Session
begin

text \<open>
  The abstract specification of the session table of \<^verbatim>\<open>src/src/ya_license_core/src/session.cpp\<close>: a
  finite map from ids to sessions, with the calls and their answers as labels.  The table of
  \<^verbatim>\<open>SessionManager\<close> implements it: every history of calls on the object, with the answers it gave, is
  a history of the map.
\<close>

section \<open>Calls and answers\<close>

datatype session_call =
    Create string string "string list" u64 u64 u32
  | Heartbeat_call bytes u64
  | Close_call bytes
  | Expire u64 u64
  | Size

datatype session_answer =
    Created "Session CoreResult"
  | Beaten ErrorCode
  | Was_open bool
  | Counted nat

text \<open>A call on the object; only creation may fail to return.\<close>

fun perform ::
  "('h, 'w) openssl \<Rightarrow> session_call \<Rightarrow> SessionManager \<Rightarrow> 'w \<Rightarrow>
     (session_answer \<times> SessionManager \<times> 'w) option" where
  "perform ossl (Create p peer fs ex now mx) m w =
     map_option (\<lambda>(res, m', w'). (Created res, m', w')) (SessionManager_create ossl p peer fs ex now mx m w)"
| "perform ossl (Heartbeat_call sid now) m w =
     (case SessionManager_heartbeat sid now m of (e, m') \<Rightarrow> Some (Beaten e, m', w))"
| "perform ossl (Close_call sid) m w =
     (case SessionManager_close sid m of (b, m') \<Rightarrow> Some (Was_open b, m', w))"
| "perform ossl (Expire now timeout) m w =
     (case SessionManager_expireInactive now timeout m of (n, m') \<Rightarrow> Some (Counted n, m', w))"
| "perform ossl Size m w = Some (Counted (SessionManager_size m), m, w)"

inductive history ::
  "('h, 'w) openssl \<Rightarrow> SessionManager \<Rightarrow> (session_call \<times> session_answer) list \<Rightarrow> SessionManager \<Rightarrow> bool"
  for ossl :: "('h, 'w) openssl" where
  history_empty: "history ossl m [] m"
| history_call: "history ossl m labels m1 \<Longrightarrow> perform ossl call m1 w = Some (answer, m2, w') \<Longrightarrow>
    history ossl m (labels @ [(call, answer)]) m2"

section \<open>The map\<close>

text \<open>The ids of the sessions that satisfy \<open>P\<close>.\<close>

definition ids_where :: "(Session \<Rightarrow> bool) \<Rightarrow> (bytes \<rightharpoonup> Session) \<Rightarrow> bytes set" where
  "ids_where P t = {sid. \<exists>s. t sid = Some s \<and> P s}"

definition stale :: "u64 \<Rightarrow> u64 \<Rightarrow> Session \<Rightarrow> bool" where
  "stale now timeout s \<longleftrightarrow> unat (ss_last_heartbeat_ms s) + unat timeout \<le> unat now"

inductive table_step ::
  "(bytes \<rightharpoonup> Session) \<Rightarrow> session_call \<times> session_answer \<Rightarrow> (bytes \<rightharpoonup> Session) \<Rightarrow> bool" where
  step_created: "p \<noteq> [] \<Longrightarrow> peer \<noteq> [] \<Longrightarrow> card (ids_where (\<lambda>s. ss_product_id s = p) t) < unat mx \<Longrightarrow>
    length sid = 16 \<Longrightarrow> t sid = None \<Longrightarrow>
    s = \<lparr>ss_id = sid, ss_product_id = p, ss_peer_identity = peer, ss_features = fs,
         ss_expire_time = ex, ss_last_heartbeat_ms = now\<rparr> \<Longrightarrow>
    table_step t (Create p peer fs ex now mx, Created (Inr s)) (t(sid \<mapsto> s))"
| step_unlicensed: "p = [] \<or> peer = [] \<or> mx = 0 \<Longrightarrow>
    table_step t (Create p peer fs ex now mx, Created (Inl ErrorCode_InvalidLicense)) t"
| step_full: "unat mx \<le> card (ids_where (\<lambda>s. ss_product_id s = p) t) \<Longrightarrow>
    table_step t (Create p peer fs ex now mx, Created (Inl ErrorCode_SessionLimitExceeded)) t"
| step_no_entropy:
    "table_step t (Create p peer fs ex now mx, Created (Inl ErrorCode_InternalError)) t"
| step_beat: "t sid = Some s \<Longrightarrow>
    table_step t (Heartbeat_call sid now, Beaten ErrorCode_None) (t(sid \<mapsto> s\<lparr>ss_last_heartbeat_ms := now\<rparr>))"
| step_no_beat: "t sid = None \<Longrightarrow> table_step t (Heartbeat_call sid now, Beaten ErrorCode_InvalidSession) t"
| step_close: "table_step t (Close_call sid, Was_open (sid \<in> dom t)) (t(sid := None))"
| step_expire: "table_step t (Expire now timeout, Counted (card (ids_where (stale now timeout) t)))
    (t |` (- ids_where (stale now timeout) t))"
| step_size: "table_step t (Size, Counted (card (dom t))) t"

inductive table_history ::
  "(bytes \<rightharpoonup> Session) \<Rightarrow> (session_call \<times> session_answer) list \<Rightarrow> (bytes \<rightharpoonup> Session) \<Rightarrow> bool" where
  table_empty: "table_history t [] t"
| table_call: "table_history t labels t1 \<Longrightarrow> table_step t1 label t2 \<Longrightarrow> table_history t (labels @ [label]) t2"

section \<open>Counting by keys\<close>

lemma card_ids_where:
  assumes "distinct (map fst xs)"
  shows "card (ids_where P (map_of xs)) = length (filter (\<lambda>(_, s). P s) xs)"
proof -
  have "ids_where P (map_of xs) = set (map fst (filter (\<lambda>(_, s). P s) xs))"
    using assms by (force simp: ids_where_def dest: map_of_SomeD)
  moreover have "distinct (map fst (filter (\<lambda>(_, s). P s) xs))"
    using assms by (rule distinct_map_filter)
  ultimately show ?thesis by (simp add: distinct_card del: set_map)
qed

lemma lookup_session_map_of: "lookup_session m = map_of (sm_sessions m)"
  by (rule ext) (simp add: lookup_session_def)

lemma wf_distinct: "manager_wf m \<Longrightarrow> distinct (map fst (sm_sessions m))"
  by (simp add: manager_wf_def)

lemma active_sessions_card:
  "manager_wf m \<Longrightarrow>
     active_sessions p (sm_sessions m) = card (ids_where (\<lambda>s. ss_product_id s = p) (lookup_session m))"
  by (simp add: lookup_session_map_of card_ids_where wf_distinct active_sessions_def)

lemma size_card: "manager_wf m \<Longrightarrow> SessionManager_size m = card (dom (lookup_session m))"
  using distinct_card [OF wf_distinct, of m]
  by (simp add: lookup_session_map_of SessionManager_size_def dom_map_of_conv_image_fst)

lemma inactive_stale: "inactive now timeout s \<longleftrightarrow> stale now timeout s"
proof -
  have "stale now timeout s \<Longrightarrow> unat (ss_last_heartbeat_ms s) \<le> unat now" by (simp add: stale_def)
  then show ?thesis by (auto simp: inactive_def stale_def word_le_nat_alt unat_sub)
qed

lemma expire_card:
  assumes "manager_wf m" "SessionManager_expireInactive now timeout m = (n, m')"
  shows "n = card (ids_where (stale now timeout) (lookup_session m))"
proof -
  have "length (sm_sessions m) = length (filter (\<lambda>(_, s). stale now timeout s) (sm_sessions m)) +
      length (filter (\<lambda>(_, s). \<not> stale now timeout s) (sm_sessions m))"
    using sum_length_filter_compl [of "\<lambda>(_, s). stale now timeout s" "sm_sessions m"]
    by (simp add: case_prod_unfold)
  with assms show ?thesis
    by (auto simp: SessionManager_expireInactive_def Let_def inactive_stale lookup_session_map_of
        card_ids_where wf_distinct)
qed

lemma expire_lookup:
  assumes "manager_wf m" "SessionManager_expireInactive now timeout m = (n, m')"
  shows "lookup_session m' = lookup_session m |` (- ids_where (stale now timeout) (lookup_session m))"
proof
  fix sid
  have "lookup_session m' sid = (case lookup_session m sid of None \<Rightarrow> None
      | Some s \<Rightarrow> if stale now timeout s then None else Some s)"
    using assms by (auto simp: SessionManager_expireInactive_def Let_def lookup_session_def
        manager_wf_def map_of_filter_values inactive_stale)
  then show "lookup_session m' sid = (lookup_session m |` (- ids_where (stale now timeout) (lookup_session m))) sid"
    by (auto simp: restrict_map_def ids_where_def split: option.splits)
qed

section \<open>The refinement\<close>

lemma create_refines:
  assumes "manager_wf m" "SessionManager_create ossl p peer fs ex now mx m w = Some (res, m', w')"
  shows "table_step (lookup_session m) (Create p peer fs ex now mx, Created res) (lookup_session m')"
proof (cases res)
  case (Inl e)
  have "p = [] \<or> peer = [] \<or> mx = 0 \<Longrightarrow> e = ErrorCode_InvalidLicense"
    "\<not> (p = [] \<or> peer = [] \<or> mx = 0) \<Longrightarrow> e = ErrorCode_SessionLimitExceeded \<and>
       unat mx \<le> active_sessions p (sm_sessions m) \<or> e = ErrorCode_InternalError"
    using assms(2) Inl drawSessionId_error [of ossl "sm_sessions m" "replicate 16 0" w]
    by (auto simp: SessionManager_create_def Let_def split: if_splits option.splits sum.splits)
  then show ?thesis
    using Inl create_error [OF assms(2) [unfolded Inl]] active_sessions_card [OF assms(1), of p]
    by (cases "p = [] \<or> peer = [] \<or> mx = 0") (auto intro: step_unlicensed step_full step_no_entropy)
next
  case (Inr s)
  note ok = create_ok [OF assms(2) [unfolded Inr]]
  have "lookup_session m' = (lookup_session m)(ss_id s \<mapsto> s)"
    by (rule ext) (subst ok(6), simp add: lookup_session_def)
  with ok(1-5,7-11) Inr active_sessions_card [OF assms(1), of p] show ?thesis
    by (auto intro!: step_created)
qed

lemma heartbeat_refines:
  assumes "SessionManager_heartbeat sid now m = (e, m')"
  shows "table_step (lookup_session m) (Heartbeat_call sid now, Beaten e) (lookup_session m')"
proof (cases "lookup_session m sid")
  case None
  with assms show ?thesis by (auto simp: SessionManager_heartbeat_def lookup_session_def intro: step_no_beat)
next
  case (Some s)
  have "lookup_session m' = (lookup_session m)(sid \<mapsto> s\<lparr>ss_last_heartbeat_ms := now\<rparr>)"
  proof
    fix j
    show "lookup_session m' j = ((lookup_session m)(sid \<mapsto> s\<lparr>ss_last_heartbeat_ms := now\<rparr>)) j"
      using assms Some
      by (auto simp: SessionManager_heartbeat_def lookup_session_def map_of_touch option.map_ident)
  qed
  moreover have "e = ErrorCode_None" using assms Some by (auto simp: SessionManager_heartbeat_def lookup_session_def)
  ultimately show ?thesis using Some by (auto intro: step_beat)
qed

lemma perform_refines:
  assumes "manager_wf m" "perform ossl call m w = Some (answer, m', w')"
  shows "manager_wf m' \<and> table_step (lookup_session m) (call, answer) (lookup_session m')"
proof (cases call)
  case (Create p peer fs ex now mx)
  with assms(2) obtain res where c: "SessionManager_create ossl p peer fs ex now mx m w = Some (res, m', w')"
    "answer = Created res" by auto
  with Create create_refines [OF assms(1) c(1)] wf_create [OF assms(1) c(1)] show ?thesis by simp
next
  case (Heartbeat_call sid now)
  with assms(2) obtain e where h: "SessionManager_heartbeat sid now m = (e, m')" "answer = Beaten e"
    by (auto split: prod.splits)
  with Heartbeat_call heartbeat_refines [OF h(1)] wf_heartbeat [OF assms(1), of sid now] show ?thesis by simp
next
  case (Close_call sid)
  with assms(2) have c: "SessionManager_close sid m = (fst (SessionManager_close sid m), m')"
    "answer = Was_open (fst (SessionManager_close sid m))" by (auto split: prod.splits)
  have "lookup_session m' = (lookup_session m)(sid := None)"
    using manager.lookup_erase [OF assms(1), of sid] c by (auto simp: fun_eq_iff) (metis snd_conv)+
  moreover have "fst (SessionManager_close sid m) \<longleftrightarrow> sid \<in> dom (lookup_session m)"
    using manager.erase_result [OF assms(1)] by auto
  moreover have "manager_wf m'" using manager.wf_erase [OF assms(1), of sid] c by (metis snd_conv)
  ultimately show ?thesis using Close_call c(2) step_close [of "lookup_session m" sid] by simp
next
  case (Expire now timeout)
  with assms(2) obtain n where e: "SessionManager_expireInactive now timeout m = (n, m')" "answer = Counted n"
    by (auto split: prod.splits)
  have "manager_wf m'"
    using e(1) wf_filter [OF assms(1)] by (auto simp: SessionManager_expireInactive_def Let_def)
  then show ?thesis
    using Expire e(2) expire_card [OF assms(1) e(1)] expire_lookup [OF assms(1) e(1)]
      step_expire [of "lookup_session m" now timeout] by simp
next
  case Size
  with assms show ?thesis using step_size [of "lookup_session m"] by (auto simp: size_card)
qed

lemma history_refines:
  assumes "history ossl m labels m'" "manager_wf m"
  shows "manager_wf m' \<and> table_history (lookup_session m) labels (lookup_session m')"
  using assms
proof (induction rule: history.induct)
  case (history_empty m)
  then show ?case by (simp add: table_empty)
next
  case (history_call m labels m1 call w answer m2 w')
  then show ?case using perform_refines [of m1 ossl call w answer m2 w'] table_call by blast
qed

section \<open>Properties\<close>

text \<open>
  C12.  The session table implements its specification: every sequence of calls on the object from its
  construction on, with the answers the object gave, is a sequence of steps of a map from ids to
  sessions.  In the map a session is created only under a new 16-byte id and below the limit of its
  product, a heartbeat moves one time stamp, closing removes one id and reports whether it was there,
  and expiry removes and counts exactly the sessions whose last heartbeat lies the timeout or more
  before now, without wrap-around.
\<close>

theorem session_table_refines_map:
  assumes "history ossl SessionManager_new labels m"
  shows "table_history Map.empty labels (lookup_session m)"
proof -
  have "lookup_session SessionManager_new = Map.empty" by (simp add: lookup_session_map_of SessionManager_new_def)
  with history_refines [OF assms wf_new] show ?thesis by simp
qed

end
