(* ===== verification/Core_Witnesses.thy ===== *)
theory Core_Witnesses
  imports Protocol_Witnesses KeyStore Generator SessionSpec
begin

text \<open>
  Concrete runs of the licensing core: a sample of the generated license code, of the system calls
  and of the TOML parser, and inputs at which the hypotheses of the core's properties hold.
\<close>

section \<open>A sample of the generated license code\<close>

text \<open>
  Tables are numbered by their place in two lists; a table that is not in its list is encoded longer
  than a license may be.
\<close>

definition sample_license_fb :: "LicensePayloadTable list \<Rightarrow> LicensePackageTable list \<Rightarrow> license_fb" where
  "sample_license_fb payloads packages = \<lparr>
     LicensePackageBufferHasIdentifier = (\<lambda>b. take 8 b = octets ''....YALC''),
     VerifyLicensePackageBuffer = (\<lambda>b. length b = 9 \<and> unat (b ! 8) < length packages),
     GetLicensePackage = (\<lambda>b. packages ! unat (b ! 8)),
     VerifyLicensePayload = (\<lambda>b. length b = 1 \<and> unat (b ! 0) < length payloads),
     GetLicensePayload = (\<lambda>b. payloads ! unat (b ! 0)),
     FinishLicensePayload = (\<lambda>t. case position t payloads of
        Some i \<Rightarrow> [of_nat i] | None \<Rightarrow> replicate (Suc kMaxLicenseSize) 0),
     FinishLicensePackageBuffer = (\<lambda>t. case position t packages of
        Some i \<Rightarrow> octets ''....YALC'' @ [of_nat i] | None \<Rightarrow> replicate (Suc kMaxLicenseSize) 0)\<rparr>"

lemma sample_license_codec:
  assumes "length payloads \<le> 256" "length packages \<le> 256"
    and "\<And>t p. t \<in> set packages \<Longrightarrow> lkt_payload t = Some p \<Longrightarrow> length p \<le> 9"
  shows "license_codec (sample_license_fb payloads packages)"
proof -
  have index: "unat (of_nat i :: u8) = i \<and> i < length ts \<and> ts ! i = t \<and> t \<in> set ts"
    if "position t ts = Some i" "length ts \<le> 256" for t :: 'b and ts i
    using position_Some [OF that(1)] that(2) by (auto simp: unat_of_nat take_bit_nat_eq_self)
  have a: "b \<noteq> [] \<and> VerifyLicensePayload (sample_license_fb payloads packages) b \<and>
           GetLicensePayload (sample_license_fb payloads packages) b = t"
    if "b = FinishLicensePayload (sample_license_fb payloads packages) t" "length b \<le> kMaxLicenseSize" for b t
  proof -
    from that obtain i where i: "position t payloads = Some i"
      by (auto simp: sample_license_fb_def split: option.splits)
    with index [OF i assms(1)] that(1) show ?thesis by (simp add: sample_license_fb_def)
  qed
  have b: "8 \<le> length b \<and> LicensePackageBufferHasIdentifier (sample_license_fb payloads packages) b \<and>
           VerifyLicensePackageBuffer (sample_license_fb payloads packages) b \<and>
           GetLicensePackage (sample_license_fb payloads packages) b = t \<and>
           (\<forall>p. lkt_payload t = Some p \<longrightarrow> length p \<le> length b)"
    if "b = FinishLicensePackageBuffer (sample_license_fb payloads packages) t"
      "length b \<le> kMaxLicenseSize" for b t
  proof -
    from that obtain i where i: "position t packages = Some i"
      by (auto simp: sample_license_fb_def split: option.splits)
    with index [OF i assms(2)] that(1) assms(3) show ?thesis
      by (auto simp: sample_license_fb_def nth_append eval_nat_numeral)
  qed
  show ?thesis unfolding license_codec_def Let_def using a b by blast
qed

definition sample_definition :: LicenseDefinition where
  "sample_definition = \<lparr>ld_key_id = ''k'', ld_license_id = ''L1'', ld_product_id = ''p'',
     ld_customer_id = ''c'', ld_issue_time = 100, ld_not_before = 100, ld_expire_time = 200,
     ld_features = [''f''], ld_max_sessions = 2, ld_machine_id = []\<rparr>"

definition sample_signature :: bytes where
  "sample_signature = replicate 32 5 @ replicate 32 32"

definition sample_packages :: "LicensePackageTable list" where
  "sample_packages = [\<lparr>lkt_format_version = 1, lkt_key_id = Some ''k'', lkt_payload = Some [0],
     lkt_signature = Some sample_signature\<rparr>]"

definition sample_lf :: license_fb where
  "sample_lf = sample_license_fb [payload_of sample_definition] sample_packages"

lemma sample_lf_codec: "license_codec sample_lf"
  unfolding sample_lf_def by (rule sample_license_codec) (auto simp: sample_packages_def)

definition sample_package :: bytes where
  "sample_package = octets ''....YALC'' @ [0]"

definition sample_validator :: LicenseValidator where
  "sample_validator = \<lparr>lv_trusted_keys = [(''k'', replicate 32 5)]\<rparr>"

lemma sample_issue:
  "issueLicense sample_openssl sample_lf sample_definition (replicate 32 5) = Inr sample_package"
  by code_simp

theorem issued_license_validates_witness:
  "LicenseValidator_validate sample_openssl sample_lf sample_validator sample_package ''p'' ''m'' 150
     = Inr (snapshot_of sample_definition) \<and>
   LicenseValidator_validate sample_openssl sample_lf sample_validator sample_package ''p'' ''m'' 200
     \<noteq> Inr (snapshot_of sample_definition)"
proof -
  have s: "length sample_package \<le> kMaxLicenseSize" by (simp add: sample_package_def kMaxLicenseSize_def)
  have t: "map_of (lv_trusted_keys sample_validator) (ld_key_id sample_definition) = Some (replicate 32 5)"
    by (simp add: sample_validator_def sample_definition_def)
  show ?thesis
    unfolding issued_license_validates [OF sample_lf_codec sample_ed25519_pair sample_issue s t]
    by (simp add: sample_definition_def usable_def)
qed

section \<open>Sessions\<close>

definition sample_create :: "(Session CoreResult \<times> SessionManager \<times> nat) option" where
  "sample_create = SessionManager_create sample_openssl ''p'' ''peer'' [''f''] 200 10 2
     SessionManager_new 3"

definition sample_session :: Session where
  "sample_session = \<lparr>ss_id = replicate 16 3, ss_product_id = ''p'', ss_peer_identity = ''peer'',
     ss_features = [''f''], ss_expire_time = 200, ss_last_heartbeat_ms = 10\<rparr>"

definition sample_manager :: SessionManager where
  "sample_manager = \<lparr>sm_sessions = [(replicate 16 3, sample_session)]\<rparr>"

lemma sample_create_ok:
  "SessionManager_create sample_openssl ''p'' ''peer'' [''f''] 200 10 2 SessionManager_new 3
     = Some (Inr sample_session, sample_manager, 4)"
  by (subst SessionManager_create_def, subst drawSessionId.simps)
     (simp add: SessionManager_new_def active_sessions_def randomBytes_def validSize_def INT_MAX_def sample_openssl_def sample_openssl_on_def
       sample_session_def sample_manager_def Let_def)

lemma sample_manager_reachable: "manager_reachable sample_openssl ''p'' 2 sample_manager"
  by (rule manager_create [OF manager_start _ sample_create_ok]) simp

theorem session_limit_never_exceeded_witness:
  "manager_wf sample_manager \<and> active_sessions ''p'' (sm_sessions sample_manager) \<le> 2"
  using session_limit_never_exceeded [OF sample_manager_reachable] by simp

definition sample_labels :: "(session_call \<times> session_answer) list" where
  "sample_labels = [(Create ''p'' ''peer'' [''f''] 200 10 2, Created (Inr sample_session)),
     (Heartbeat_call (replicate 16 3) 12, Beaten ErrorCode_None), (Expire 20 9, Counted 0),
     (Close_call (replicate 16 3), Was_open True), (Size, Counted 0)]"

lemma sample_history: "history sample_openssl SessionManager_new sample_labels SessionManager_new"
proof -
  let ?m = "\<lparr>sm_sessions = [(replicate 16 3, sample_session\<lparr>ss_last_heartbeat_ms := 12\<rparr>)]\<rparr>"
  have "perform sample_openssl (Create ''p'' ''peer'' [''f''] 200 10 2) SessionManager_new 3
      = Some (Created (Inr sample_session), sample_manager, 4)"
    using sample_create_ok by simp
  from history_call [OF history_empty this]
  have "history sample_openssl SessionManager_new (take 1 sample_labels) sample_manager"
    by (simp add: sample_labels_def)
  from history_call [OF this, of "Heartbeat_call (replicate 16 3) 12" 4 "Beaten ErrorCode_None" ?m 4]
  have "history sample_openssl SessionManager_new (take 2 sample_labels) ?m"
    by (simp add: sample_labels_def SessionManager_heartbeat_def sample_manager_def)
  from history_call [OF this, of "Expire 20 9" 4 "Counted 0" ?m 4]
  have "history sample_openssl SessionManager_new (take 3 sample_labels) ?m"
    by (simp add: sample_labels_def SessionManager_expireInactive_def inactive_def Let_def)
  from history_call [OF this, of "Close_call (replicate 16 3)" 4 "Was_open True" SessionManager_new 4]
  have "history sample_openssl SessionManager_new (take 4 sample_labels) SessionManager_new"
    by (simp add: sample_labels_def SessionManager_close_def SessionManager_new_def)
  from history_call [OF this, of Size 4 "Counted 0" SessionManager_new 4]
  show ?thesis by (simp add: sample_labels_def SessionManager_size_def SessionManager_new_def)
qed

theorem session_table_refines_map_witness: "table_history Map.empty sample_labels Map.empty"
  using session_table_refines_map [OF sample_history]
  by (simp add: lookup_session_map_of SessionManager_new_def)

section \<open>Machine identity\<close>

definition sample_reader :: "string \<Rightarrow> MachineIdentityReadFunction" where
  "sample_reader contents = (\<lambda>path. Some
     (if path = ''/etc/machine-id''
      then \<lparr>rd_status = ReadStatus_Success, rd_contents = contents\<rparr>
      else \<lparr>rd_status = ReadStatus_Missing, rd_contents = []\<rparr>))"

definition upper_id :: string where "upper_id = replicate 32 (CHR ''A'')"
definition lower_id :: string where "lower_id = replicate 32 (CHR ''a'')"

lemma sample_ids:
  "normalizeMachineId upper_id = Some lower_id" "normalizeMachineId lower_id = Some lower_id"
  "normalizeProductUuid upper_id = None"
  by code_simp+

definition sample_machine :: MachineIdentity where
  "sample_machine = \<lparr>mi_exact_id = concat (replicate 32 ''53''),
     mi_components = [\<lparr>mc_type = ComponentType_MachineId, mc_status = ComponentStatus_Available\<rparr>,
                      \<lparr>mc_type = ComponentType_ProductUuid, mc_status = ComponentStatus_Missing\<rparr>]\<rparr>"

lemma sample_collect:
  "collectLinuxMachineIdentity sample_openssl default_machine_identity_config (sample_reader upper_id)
     = (ErrorCode_None, sample_machine)"
  "collectLinuxMachineIdentity sample_openssl default_machine_identity_config (sample_reader lower_id)
     = (ErrorCode_None, sample_machine)"
  by code_simp+

lemma sample_components:
  "machine_components default_machine_identity_config (sample_reader upper_id)
     = [\<lparr>nc_type = ''machine-id'', nc_value = lower_id\<rparr>]"
  "machine_components default_machine_identity_config (sample_reader lower_id)
     = [\<lparr>nc_type = ''machine-id'', nc_value = lower_id\<rparr>]"
  by (simp_all add: machine_components_def readComponent_def sample_reader_def sample_ids
      default_machine_identity_config_def)

lemma same_identity_same_machine_instance:
  "machine_components default_machine_identity_config (sample_reader upper_id)
     = machine_components default_machine_identity_config (sample_reader lower_id)"
proof (rule same_identity_same_machine [OF sample_collect refl])
  let ?c = "\<lparr>nc_type = ''machine-id'', nc_value = lower_id\<rparr>"
  have "sha256 sample_openssl (identity_transcript sample_openssl [?c])
          \<noteq> sha256 sample_openssl (component_input ?c)"
    by code_simp
  then show "inj_on (sha256 sample_openssl)
      (hashed_inputs sample_openssl default_machine_identity_config (sample_reader upper_id) \<union>
       hashed_inputs sample_openssl default_machine_identity_config (sample_reader lower_id))"
    by (auto simp: hashed_inputs_def sample_components inj_on_def)
qed

section \<open>Configuration\<close>

datatype sample_node =
    Text string
  | Number int
  | Truth bool
  | Table "(string \<times> sample_node) list"
  | Array "sample_node list"

definition sample_document :: "(string \<times> sample_node) list" where
  "sample_document =
     [(''service'', Table [(''identity_key_id'', Text ''svc''), (''identity_private_key'', Text ''/id''),
                           (''license'', Text ''/lic''), (''product_id'', Text ''p''),
                           (''allowed_uids'', Array [Number 1000])]),
      (''license_keys'', Array [Table [(''id'', Text ''k''), (''public_key'', Text ''/k'')]])]"

definition sample_toml :: "sample_node toml" where
  "sample_toml = \<lparr>
     toml_symlink_status = (\<lambda>_. Some True),
     toml_parse_file = (\<lambda>_. Parsed (map_of sample_document)),
     toml_value_string = (\<lambda>n. case n of Text s \<Rightarrow> Some s | _ \<Rightarrow> None),
     toml_value_int64 = (\<lambda>n. case n of Number i \<Rightarrow> Some i | _ \<Rightarrow> None),
     toml_value_bool = (\<lambda>n. case n of Truth b \<Rightarrow> Some b | _ \<Rightarrow> None),
     toml_as_table = (\<lambda>n. case n of Table t \<Rightarrow> Some (map_of t) | _ \<Rightarrow> None),
     toml_as_array = (\<lambda>n. case n of Array ns \<Rightarrow> Some ns | _ \<Rightarrow> None)\<rparr>"

definition sample_config :: ServiceConfig where
  "sample_config = (default_service_config ''svc'' ''/id'' ''/lic'' ''p'')
     \<lparr>sc_allowed_uids := [1000],
      sc_license_keys := [\<lparr>tk_id = ''k'', tk_public_key_path = ''/k''\<rparr>]\<rparr>"

lemma sample_load: "loadConfig sample_toml ''/etc/ya.toml'' = Inr sample_config"
  by code_simp

theorem loaded_config_in_bounds_witness: "config_ok sample_config"
  using loaded_config_in_bounds [OF sample_load] .

lemma long_key_id_never_answers_instance:
  "\<nexists>reply sv w. ServerHandshake_handleClientHello sample_openssl sample_codec (sample_buffer 0)
     (ServerHandshake_new (replicate 256 (CHR ''k'')) (replicate 32 9) 1 1) 2 = Some (Inr reply, sv, w)"
proof -
  let ?sv = "ServerHandshake_new (replicate 256 (CHR ''k'')) (replicate 32 9) 1 1"
  have "length (sv_service_key_id ?sv) > kMaxKeyIdSize" by (simp add: ServerHandshake_new_def kMaxKeyIdSize_def)
  from long_key_id_never_answers [OF this, of sample_openssl sample_codec "sample_buffer 0" 2] show ?thesis by blast
qed

section \<open>System calls\<close>

text \<open>
  A sample of the system: every file is a private key file of 32 bytes, every write succeeds, the
  first read after an even time is interrupted, and the clock is the state of the world.
\<close>

definition sample_posix :: "u64 \<Rightarrow> nat posix" where
  "sample_posix time = \<lparr>
     px_open = (\<lambda>_ _ _ w. (Inr 3, w)),
     px_fstat = (\<lambda>_ w. (Inr \<lparr>st_regular = True, st_mode = 384, st_size = 32\<rparr>, w)),
     px_read = (\<lambda>_ n w. if w = 1 then (Inl EINTR, 0) else (Inr (replicate (min n 16) 5), w)),
     px_write = (\<lambda>_ bs w. (Inr (length bs), w)),
     px_fsync = (\<lambda>_ w. (True, w)),
     px_close = (\<lambda>_ w. (True, w)),
     px_remove = (\<lambda>_ w. (True, w)),
     px_time = (\<lambda>w. (time, w))\<rparr>"

lemma sample_posix_bounded: "posix_bounded (sample_posix t)"
  by (auto simp: posix_bounded_def sample_posix_def split: if_splits)

lemma sample_interrupts_end: "interrupts_end (sample_posix t)"
  unfolding interrupts_end_def
  by (rule exI [of _ "\<lambda>w. w"]) (auto simp: sample_posix_def split: if_splits)

definition sample_keys :: LoadedKeys where
  "sample_keys = \<lparr>lk_identity_key_id = ''svc'', lk_identity_private_key = replicate 32 5,
     lk_license_public_keys = [(''k'', replicate 32 5)]\<rparr>"

lemma generator_terminates_instance:
  "\<exists>r w'. generator_main sample_openssl sample_lf (sample_posix 100) [''gen'', ''keygen'', ''a'', ''b''] 1
     = Some (r, w')"
  by (rule generator_terminates [OF sample_interrupts_end])

definition sample_argv :: "string list" where
  "sample_argv = [''gen'', ''issue'', ''/key'', ''k'', ''/out'', ''L1'', ''p'', ''c'', ''100'', ''2'', ''f'']"

lemma sample_numbers: "parseNumber 64 ''100'' = Some 100" "parseNumber 32 ''2'' = Some 2"
  by code_simp+

lemma sample_run_issue:
  "\<exists>w'. issue sample_openssl sample_lf (sample_posix 100) sample_argv 1 = Some (Exit 0 [], w')"
proof -
  have r: "read_retry (sample_posix 100) 3 32 [] 1 = Some (Some (replicate 32 5), 0)"
    by (subst read_retry.simps, simp add: sample_posix_def, subst read_retry.simps, simp,
        subst read_retry.simps, simp, subst read_retry.simps, simp add: replicate_add [symmetric])
  have k: "readPrivateKey (sample_posix 100) ''/key'' 1 = Some (Inr (replicate 32 5), 0)"
    using r by (simp add: readPrivateKey_def sample_posix_def S_IRWXG_O_def kKeySize_def)
  note n = sample_numbers
  have d: "definition_of sample_argv 100 100 2 = sample_definition"
    by (simp add: definition_of_def sample_argv_def sample_definition_def)
  have w: "writeNewFile (sample_posix 100) ''/out'' sample_package 420 0 = Some (Some True, 0)"
    unfolding writeNewFile_def
    by (subst write_fully.simps, subst write_fully.simps)
       (simp add: sample_posix_def sample_package_def)
  show ?thesis
    using k n d w sample_issue
    by (simp add: issue_def sample_argv_def [symmetric] Let_def) (simp add: sample_argv_def sample_posix_def)
qed

theorem issue_writes_requested_license_witness:
  "\<exists>key d package. issueLicense sample_openssl sample_lf d key = Inr package \<and>
     ld_product_id d = sample_argv ! 6 \<and> ld_features d = drop 10 sample_argv \<and> unat (ld_expire_time d) = 200"
proof -
  obtain w' where "issue sample_openssl sample_lf (sample_posix 100) sample_argv 1 = Some (Exit 0 [], w')"
    using sample_run_issue by blast
  from issue_writes_requested_license [OF this] sample_numbers show ?thesis
    by (auto simp: sample_argv_def sample_posix_def)
qed

end
