(* ===== verification/Connection.thy ===== *)
theory Connection
  imports Handshake Session
begin

text \<open>
  One client of the service, \<^verbatim>\<open>src/src/ya_license_service/src/connection.cpp\<close>: a state machine
  over the handshake and one session of the shared table.  The table is a reference in the code; here
  it is passed to every method and returned by it, as is the state of the entropy source.  A
  method's result is \<open>None\<close> where a decoder follows a null pointer or the loop that draws a session
  id does not end.
\<close>

section \<open>Data\<close>

datatype ConnectionError =
    ConnectionError_None
  | ConnectionError_InvalidFrame
  | ConnectionError_HandshakeFailed
  | ConnectionError_InvalidMessage
  | ConnectionError_ProductMismatch
  | ConnectionError_SessionLimitExceeded
  | ConnectionError_InvalidSession
  | ConnectionError_LicenseExpired
  | ConnectionError_Closed

record ConnectionResult =
  cr_error :: ConnectionError
  cr_response :: "bytes option"
  cr_closed :: bool

datatype ConnectionState =
    State_AwaitingHello
  | State_AwaitingFinished
  | State_AwaitingAuthorize
  | State_Active
  | State_Closed

record Connection =
  cn_handshake :: ServerHandshake
  cn_license :: LicenseSnapshot
  cn_peer_identity :: string
  cn_heartbeat_interval_ms :: u32
  cn_heartbeat_timeout_ms :: u32
  cn_session :: "Session option"
  cn_state :: ConnectionState

text \<open>\<^verbatim>\<open>{.error = e, .closed = true}\<close>\<close>

definition closing :: "ConnectionError \<Rightarrow> ConnectionResult" where
  "closing e = \<lparr>cr_error = e, cr_response = None, cr_closed = True\<rparr>"

section \<open>Methods\<close>

definition wrapPlaintext :: "bytes \<Rightarrow> bytes" where
  "wrapPlaintext payload =
     encodeHeader \<lparr>fh_version = kFrameVersion, fh_flags = 0, fh_sequence = 0,
                    fh_payload_size = of_nat (length payload)\<rparr> @ payload"

definition Connection_new ::
  "string \<Rightarrow> bytes \<Rightarrow> LicenseSnapshot \<Rightarrow> string \<Rightarrow> u32 \<Rightarrow> u32 \<Rightarrow> Connection" where
  "Connection_new service_key_id identity_private_key license peer_identity interval timeout =
     \<lparr>cn_handshake = ServerHandshake_new service_key_id identity_private_key 1 1,
      cn_license = license, cn_peer_identity = peer_identity,
      cn_heartbeat_interval_ms = interval, cn_heartbeat_timeout_ms = timeout,
      cn_session = None, cn_state = State_AwaitingHello\<rparr>"

definition Connection_closeSession :: "Connection \<Rightarrow> SessionManager \<Rightarrow> Connection \<times> SessionManager" where
  "Connection_closeSession c m =
     (case cn_session c of
        Some s \<Rightarrow> (c\<lparr>cn_session := None\<rparr>, snd (SessionManager_close (ss_id s) m))
      | None \<Rightarrow> (c, m))"

definition Connection_destroy :: "Connection \<Rightarrow> SessionManager \<Rightarrow> SessionManager" where
  "Connection_destroy c m = snd (Connection_closeSession c m)"

text \<open>\<^verbatim>\<open>state_ = State::Closed; closeSession(); return {.error = e, .closed = true};\<close>\<close>

definition close_with ::
  "ConnectionError \<Rightarrow> Connection \<Rightarrow> SessionManager \<Rightarrow> ConnectionResult \<times> Connection \<times> SessionManager" where
  "close_with e c m =
     (let (c, m) = Connection_closeSession (c\<lparr>cn_state := State_Closed\<rparr>) m in (closing e, c, m))"

definition Connection_encryptedResponse ::
  "('h, 'w) openssl \<Rightarrow> bytes \<Rightarrow> bool \<Rightarrow> Connection \<Rightarrow> SessionManager \<Rightarrow>
     ConnectionResult \<times> Connection \<times> SessionManager" where
  "Connection_encryptedResponse ossl plaintext close_after c m =
     (case ServerHandshake_seal ossl plaintext (cn_handshake c) of
        (Inl _, h) \<Rightarrow> close_with ConnectionError_InvalidFrame (c\<lparr>cn_handshake := h\<rparr>) m
      | (Inr sealed, h) \<Rightarrow>
          let c = c\<lparr>cn_handshake := h\<rparr>;
              c = (if close_after then c\<lparr>cn_state := State_Closed\<rparr> else c)
          in (\<lparr>cr_error = ConnectionError_None, cr_response = Some sealed, cr_closed = close_after\<rparr>, c, m))"

definition Connection_handleHello ::
  "('h, 'w) openssl \<Rightarrow> flatbuffers \<Rightarrow> bytes \<Rightarrow> Connection \<Rightarrow> 'w \<Rightarrow> (ConnectionResult \<times> Connection \<times> 'w) option" where
  "Connection_handleHello ossl fb frame c w =
     (case decodeFrame frame kDefaultMaxPayloadSize of
        Inl _ \<Rightarrow> Some (closing ConnectionError_InvalidFrame, c\<lparr>cn_state := State_Closed\<rparr>, w)
      | Inr (header, payload) \<Rightarrow>
          if fh_flags header \<noteq> 0 \<or> fh_sequence header \<noteq> 0
          then Some (closing ConnectionError_InvalidFrame, c\<lparr>cn_state := State_Closed\<rparr>, w)
          else (case ServerHandshake_handleClientHello ossl fb payload (cn_handshake c) w of
                  None \<Rightarrow> None
                | Some (Inl _, h, w) \<Rightarrow>
                    Some (closing ConnectionError_HandshakeFailed,
                          c\<lparr>cn_handshake := h, cn_state := State_Closed\<rparr>, w)
                | Some (Inr response, h, w) \<Rightarrow>
                    Some (\<lparr>cr_error = ConnectionError_None,
                           cr_response = Some (wrapPlaintext response), cr_closed = False\<rparr>,
                          c\<lparr>cn_handshake := h, cn_state := State_AwaitingFinished\<rparr>, w)))"

definition license_expired :: "LicenseSnapshot \<Rightarrow> u64 \<Rightarrow> bool" where
  "license_expired license now_unix_seconds \<longleftrightarrow>
     ls_expire_time license \<noteq> 0 \<and> now_unix_seconds \<ge> ls_expire_time license"

text \<open>
  The body of \<^verbatim>\<open>handleAuthorize\<close> between the decoding of the request and the encoding of the answer:
  the answer, the error and the connection with its session when one was created.
\<close>

definition Connection_authorize ::
  "('h, 'w) openssl \<Rightarrow> AuthorizeMessage \<Rightarrow> u64 \<Rightarrow> u64 \<Rightarrow> Connection \<Rightarrow> SessionManager \<Rightarrow> 'w \<Rightarrow>
     (AuthResultMessage \<times> ConnectionError \<times> Connection \<times> SessionManager \<times> 'w) option" where
  "Connection_authorize ossl request now_monotonic_ms now_unix_seconds c m w =
     (let license = cn_license c;
          response = \<lparr>arm_request_id = azm_request_id request,
            arm_protocol_version = sv_selected_version (cn_handshake c),
            arm_error = AuthorizationError_None, arm_session_id = None, arm_features = [],
            arm_expire_time = 0, arm_heartbeat_interval_ms = cn_heartbeat_interval_ms c,
            arm_heartbeat_timeout_ms = cn_heartbeat_timeout_ms c\<rparr>
      in if azm_product_id request \<noteq> ls_product_id license
         then Some (response\<lparr>arm_error := AuthorizationError_ProductMismatch\<rparr>,
                    ConnectionError_ProductMismatch, c, m, w)
         else if license_expired license now_unix_seconds
         then Some (response\<lparr>arm_error := AuthorizationError_Expired\<rparr>, ConnectionError_LicenseExpired, c, m, w)
         else case SessionManager_create ossl (ls_product_id license) (cn_peer_identity c)
                     (ls_features license) (ls_expire_time license) now_monotonic_ms
                     (ls_max_sessions license) m w of
                None \<Rightarrow> None
              | Some (Inl _, m, w) \<Rightarrow>
                  Some (response\<lparr>arm_error := AuthorizationError_SessionLimitExceeded\<rparr>,
                        ConnectionError_SessionLimitExceeded, c, m, w)
              | Some (Inr session, m, w) \<Rightarrow>
                  Some (response\<lparr>arm_session_id := Some (ss_id session),
                                 arm_features := ss_features session,
                                 arm_expire_time := ss_expire_time session\<rparr>,
                        ConnectionError_None,
                        c\<lparr>cn_session := Some session, cn_state := State_Active\<rparr>, m, w))"

definition Connection_handleAuthorize ::
  "('h, 'w) openssl \<Rightarrow> flatbuffers \<Rightarrow> bytes \<Rightarrow> u64 \<Rightarrow> u64 \<Rightarrow> Connection \<Rightarrow> SessionManager \<Rightarrow> 'w \<Rightarrow>
     (ConnectionResult \<times> Connection \<times> SessionManager \<times> 'w) option" where
  "Connection_handleAuthorize ossl fb plaintext now_monotonic_ms now_unix_seconds c m w =
     (case decodeAuthorize fb plaintext of
        None \<Rightarrow> None
      | Some (Inl _) \<Rightarrow> Some (closing ConnectionError_InvalidMessage, c\<lparr>cn_state := State_Closed\<rparr>, m, w)
      | Some (Inr request) \<Rightarrow>
          if azm_protocol_version request \<noteq> sv_selected_version (cn_handshake c)
          then Some (closing ConnectionError_InvalidMessage, c\<lparr>cn_state := State_Closed\<rparr>, m, w)
          else case Connection_authorize ossl request now_monotonic_ms now_unix_seconds c m w of
            None \<Rightarrow> None
          | Some (response, result_error, c, m, w) \<Rightarrow>
              (case encodeAuthResult fb response of
                 Inl _ \<Rightarrow>
                   (case close_with ConnectionError_InvalidMessage c m of
                      (res, c, m) \<Rightarrow> Some (res, c, m, w))
               | Inr encoded \<Rightarrow>
                   (case Connection_encryptedResponse ossl encoded
                           (result_error \<noteq> ConnectionError_None) c m of
                      (res, c, m) \<Rightarrow> Some (res\<lparr>cr_error := result_error\<rparr>, c, m, w))))"

definition Connection_handleHeartbeat ::
  "('h, 'w) openssl \<Rightarrow> flatbuffers \<Rightarrow> HeartbeatMessage \<Rightarrow> u64 \<Rightarrow> u64 \<Rightarrow> Connection \<Rightarrow> SessionManager \<Rightarrow>
     ConnectionResult \<times> Connection \<times> SessionManager" where
  "Connection_handleHeartbeat ossl fb heartbeat now_monotonic_ms now_unix_seconds c m =
     (case cn_session c of
        None \<Rightarrow> close_with ConnectionError_InvalidSession c m
      | Some session \<Rightarrow>
          if hbm_protocol_version heartbeat \<noteq> sv_selected_version (cn_handshake c)
             \<or> hbm_session_id heartbeat \<noteq> ss_id session
          then close_with ConnectionError_InvalidSession c m
          else (case SessionManager_heartbeat (ss_id session) now_monotonic_ms m of
            (e, m) \<Rightarrow>
              if e \<noteq> ErrorCode_None then close_with ConnectionError_InvalidSession c m
              else let expired = license_expired (cn_license c) now_unix_seconds;
                       ack = \<lparr>ham_request_id = hbm_request_id heartbeat,
                              ham_protocol_version = sv_selected_version (cn_handshake c),
                              ham_state = (if expired then AuthorizationState_Expired
                                           else AuthorizationState_Valid),
                              ham_features = ss_features session,
                              ham_expire_time = ss_expire_time session\<rparr>
                   in (case encodeHeartbeatAck fb ack of
                         Inl _ \<Rightarrow> close_with ConnectionError_InvalidMessage c m
                       | Inr encoded \<Rightarrow>
                           if expired
                           then (case Connection_closeSession c m of
                                   (c, m) \<Rightarrow>
                                     (case Connection_encryptedResponse ossl encoded True c m of
                                        (res, c, m) \<Rightarrow>
                                          (res\<lparr>cr_error := ConnectionError_LicenseExpired\<rparr>, c, m)))
                           else Connection_encryptedResponse ossl encoded False c m)))"

definition Connection_handleActive ::
  "('h, 'w) openssl \<Rightarrow> flatbuffers \<Rightarrow> bytes \<Rightarrow> u64 \<Rightarrow> u64 \<Rightarrow> Connection \<Rightarrow> SessionManager \<Rightarrow>
     (ConnectionResult \<times> Connection \<times> SessionManager) option" where
  "Connection_handleActive ossl fb plaintext now_monotonic_ms now_unix_seconds c m =
     (case decodeHeartbeat fb plaintext of
        None \<Rightarrow> None
      | Some (Inr heartbeat) \<Rightarrow>
          Some (Connection_handleHeartbeat ossl fb heartbeat now_monotonic_ms now_unix_seconds c m)
      | Some (Inl _) \<Rightarrow>
          (case decodeCloseSession fb plaintext of
             None \<Rightarrow> None
           | Some (Inr close) \<Rightarrow>
               if csm_protocol_version close = sv_selected_version (cn_handshake c)
               then Some (close_with ConnectionError_None c m)
               else Some (close_with ConnectionError_InvalidMessage c m)
           | Some (Inl _) \<Rightarrow> Some (close_with ConnectionError_InvalidMessage c m)))"

definition Connection_handle ::
  "('h, 'w) openssl \<Rightarrow> flatbuffers \<Rightarrow> bytes \<Rightarrow> u64 \<Rightarrow> u64 \<Rightarrow> Connection \<Rightarrow> SessionManager \<Rightarrow> 'w \<Rightarrow>
     (ConnectionResult \<times> Connection \<times> SessionManager \<times> 'w) option" where
  "Connection_handle ossl fb frame now_monotonic_ms now_unix_seconds c m w =
     (case cn_state c of
        State_Closed \<Rightarrow>
          Some (\<lparr>cr_error = ConnectionError_Closed, cr_response = None, cr_closed = False\<rparr>, c, m, w)
      | State_AwaitingHello \<Rightarrow>
          (case Connection_handleHello ossl fb frame c w of
             None \<Rightarrow> None
           | Some (res, c, w) \<Rightarrow> Some (res, c, m, w))
      | State_AwaitingFinished \<Rightarrow>
          (case ServerHandshake_handleClientFinished ossl fb frame (cn_handshake c) of
             None \<Rightarrow> None
           | Some (e, h) \<Rightarrow>
               if e \<noteq> HandshakeError_None
               then Some (closing ConnectionError_HandshakeFailed,
                          c\<lparr>cn_handshake := h, cn_state := State_Closed\<rparr>, m, w)
               else Some (\<lparr>cr_error = ConnectionError_None, cr_response = None, cr_closed = False\<rparr>,
                          c\<lparr>cn_handshake := h, cn_state := State_AwaitingAuthorize\<rparr>, m, w))
      | _ \<Rightarrow>
          (case ServerHandshake_open ossl frame (cn_handshake c) of
             (Inl _, h) \<Rightarrow>
               (case close_with ConnectionError_InvalidFrame (c\<lparr>cn_handshake := h\<rparr>) m of
                  (res, c, m) \<Rightarrow> Some (res, c, m, w))
           | (Inr opened, h) \<Rightarrow>
               let c = c\<lparr>cn_handshake := h\<rparr>
               in if cn_state c = State_AwaitingAuthorize
                  then Connection_handleAuthorize ossl fb opened now_monotonic_ms now_unix_seconds c m w
                  else (case Connection_handleActive ossl fb opened now_monotonic_ms now_unix_seconds c m of
                          None \<Rightarrow> None
                        | Some (res, c, m) \<Rightarrow> Some (res, c, m, w))))"

definition Connection_established :: "Connection \<Rightarrow> bool" where
  "Connection_established c \<longleftrightarrow> cn_state c = State_AwaitingAuthorize \<or> cn_state c = State_Active"

definition Connection_closed :: "Connection \<Rightarrow> bool" where
  "Connection_closed c \<longleftrightarrow> cn_state c = State_Closed"


section \<open>The session a connection owns\<close>

definition owned :: "Connection \<Rightarrow> bytes set" where
  "owned c = (case cn_session c of None \<Rightarrow> {} | Some s \<Rightarrow> {ss_id s})"

text \<open>
  A step of a connection on the table: sessions of others are untouched, a session the connection
  gives up is gone, a session it gains is new, and a session it keeps is neither lost nor revived.
\<close>

definition id_step :: "bool \<Rightarrow> bool \<Rightarrow> Session option \<Rightarrow> Session option \<Rightarrow> bool" where
  "id_step had has before after \<longleftrightarrow>
     (if had then if has then after = None \<longleftrightarrow> before = None else after = None
      else if has then before = None \<and> after \<noteq> None else after = before)"

definition session_step :: "Connection \<Rightarrow> SessionManager \<Rightarrow> Connection \<Rightarrow> SessionManager \<Rightarrow> bool" where
  "session_step c m c' m' \<longleftrightarrow> manager_wf m' \<and>
     (\<forall>sid. id_step (sid \<in> owned c) (sid \<in> owned c') (lookup_session m sid) (lookup_session m' sid))"

lemma session_step_refl: "manager_wf m \<Longrightarrow> cn_session c' = cn_session c \<Longrightarrow> session_step c m c' m"
  by (simp add: session_step_def id_step_def owned_def)

lemma session_step_trans_same:
  assumes "cn_session c1 = cn_session c" "session_step c1 m c' m'"
  shows "session_step c m c' m'"
  using assms by (simp add: session_step_def owned_def)

lemma closeSession_step:
  assumes "manager_wf m" and "Connection_closeSession c m = (c', m')"
  shows "session_step c m c' m' \<and> cn_session c' = None \<and> cn_state c' = cn_state c \<and>
         cn_handshake c' = cn_handshake c \<and> cn_license c' = cn_license c"
  using assms manager.wf_erase [OF assms(1)] manager.lookup_erase [OF assms(1)]
  by (auto simp: Connection_closeSession_def session_step_def id_step_def owned_def split: option.splits)

lemma close_with_step:
  assumes "manager_wf m" and "close_with e c m = (res, c', m')"
  shows "session_step c m c' m' \<and> cn_session c' = None \<and> cn_state c' = State_Closed \<and>
         res = closing e"
proof -
  obtain c1 m1 where k: "Connection_closeSession (c\<lparr>cn_state := State_Closed\<rparr>) m = (c1, m1)" by fastforce
  from closeSession_step [OF assms(1) k] assms(2) k show ?thesis
    by (auto simp: close_with_def session_step_def owned_def)
qed

lemma encryptedResponse_step:
  assumes "manager_wf m" and "Connection_encryptedResponse ossl p close_after c m = (res, c', m')"
  shows "session_step c m c' m' \<and>
    (case ServerHandshake_seal ossl p (cn_handshake c) of
       (Inl _, h) \<Rightarrow> cn_session c' = None \<and> cn_state c' = State_Closed \<and> cr_closed res \<and> cr_response res = None
     | (Inr sealed, h) \<Rightarrow> c' = c\<lparr>cn_handshake := h, cn_state := (if close_after then State_Closed else cn_state c)\<rparr> \<and>
                         m' = m \<and> cr_response res = Some sealed \<and> cr_closed res = close_after)"
proof -
  obtain x h where s: "ServerHandshake_seal ossl p (cn_handshake c) = (x, h)" by fastforce
  show ?thesis
  proof (cases x)
    case (Inl e)
    with s assms have "close_with ConnectionError_InvalidFrame (c\<lparr>cn_handshake := h\<rparr>) m = (res, c', m')"
      by (simp add: Connection_encryptedResponse_def)
    from close_with_step [OF assms(1) this] s Inl show ?thesis
      by (auto simp: closing_def intro: session_step_trans_same [rotated])
  next
    case (Inr sealed)
    with s assms show ?thesis
      by (auto simp: Connection_encryptedResponse_def Let_def session_step_refl)
  qed
qed

text \<open>The state of a connection, its session and its handshake go together.\<close>

definition conn_inv :: "Connection \<Rightarrow> bool" where
  "conn_inv c \<longleftrightarrow>
     (cn_session c \<noteq> None \<longleftrightarrow> cn_state c = State_Active) \<and>
     (case cn_state c of
        State_AwaitingHello \<Rightarrow> sv_state (cn_handshake c) = HandshakeState_Initial
      | State_AwaitingFinished \<Rightarrow> sv_state (cn_handshake c) = HandshakeState_AwaitingFinished
      | State_Closed \<Rightarrow> True
      | _ \<Rightarrow> sv_state (cn_handshake c) = HandshakeState_Established)"

lemma conn_inv_closed: "cn_state c = State_Closed \<Longrightarrow> cn_session c = None \<Longrightarrow> conn_inv c"
  by (simp add: conn_inv_def)

lemma seal_keeps_state: "ServerHandshake_seal ossl p h = (r, h') \<Longrightarrow>
    sv_state h' = sv_state h \<and> sv_selected_version h' = sv_selected_version h"
  by (auto simp: ServerHandshake_seal_def split: HandshakeState.splits option.splits prod.splits)

lemma open_keeps_state: "ServerHandshake_open ossl f h = (r, h') \<Longrightarrow>
    sv_state h' = sv_state h \<and> sv_selected_version h' = sv_selected_version h"
  by (auto simp: ServerHandshake_open_def split: HandshakeState.splits option.splits prod.splits)

lemma encryptedResponse_inv:
  assumes "manager_wf m" "Connection_encryptedResponse ossl p close_after c m = (res, c', m')"
    and "conn_inv c" "close_after \<longrightarrow> cn_session c = None"
  shows "conn_inv c'"
proof -
  obtain x h where s: "ServerHandshake_seal ossl p (cn_handshake c) = (x, h)" by fastforce
  from encryptedResponse_step [OF assms(1,2)] s seal_keeps_state [OF s] assms(3,4) show ?thesis
    by (cases x) (auto simp: conn_inv_def split: ConnectionState.splits if_splits)
qed

section \<open>Handlers\<close>

text \<open>What a handler of one frame promises: the invariant again, and a step on the session table.\<close>

definition handled :: "Connection \<Rightarrow> SessionManager \<Rightarrow> Connection \<Rightarrow> SessionManager \<Rightarrow> bool" where
  "handled c m c' m' \<longleftrightarrow> conn_inv c' \<and> session_step c m c' m' \<and> cn_license c' = cn_license c"

lemma closeSession_license: "Connection_closeSession c m = (c', m') \<Longrightarrow> cn_license c' = cn_license c"
  by (auto simp: Connection_closeSession_def split: option.splits)

lemma close_with_license: "close_with e c m = (res, c', m') \<Longrightarrow> cn_license c' = cn_license c"
  by (auto simp: close_with_def dest!: closeSession_license split: prod.splits)

lemma close_with_handled:
  assumes "manager_wf m" "close_with e c m = (res, c', m')"
  shows "handled c m c' m'"
  using close_with_step [OF assms] close_with_license [OF assms(2)]
  by (simp add: handled_def conn_inv_closed)

lemma encryptedResponse_license:
  assumes "Connection_encryptedResponse ossl p close_after c m = (res, c', m')"
  shows "cn_license c' = cn_license c"
proof -
  obtain x h where s: "ServerHandshake_seal ossl p (cn_handshake c) = (x, h)" by fastforce
  with assms close_with_license [of ConnectionError_InvalidFrame "c\<lparr>cn_handshake := h\<rparr>" m res c' m']
  show ?thesis by (cases x) (auto simp: Connection_encryptedResponse_def Let_def)
qed

lemma encryptedResponse_handled:
  assumes "manager_wf m" "Connection_encryptedResponse ossl p close_after c m = (res, c', m')"
    and "conn_inv c" "close_after \<longrightarrow> cn_session c = None"
  shows "handled c m c' m'"
  using encryptedResponse_step [OF assms(1,2)] encryptedResponse_inv [OF assms] encryptedResponse_license [OF assms(2)]
  by (simp add: handled_def)

lemma id_step_trans:
  "id_step a b x y \<Longrightarrow> id_step b d y z \<Longrightarrow> (a \<and> d \<longrightarrow> b) \<Longrightarrow> id_step a d x z"
  by (cases a; cases b; cases d) (simp_all add: id_step_def)

lemma session_step_trans:
  assumes "session_step c m c1 m1" "session_step c1 m1 c' m'" "owned c \<inter> owned c' \<subseteq> owned c1"
  shows "session_step c m c' m'"
  unfolding session_step_def
proof (intro conjI allI)
  show "manager_wf m'" using assms(2) by (simp add: session_step_def)
  fix sid
  show "id_step (sid \<in> owned c) (sid \<in> owned c') (lookup_session m sid) (lookup_session m' sid)"
    by (rule id_step_trans [of _ "sid \<in> owned c1" _ "lookup_session m1 sid"])
       (use assms in \<open>auto simp: session_step_def\<close>)
qed

lemma handled_compose:
  assumes "session_step c m c1 m1" "handled c1 m1 c' m'" "cn_license c1 = cn_license c"
    and "owned c \<inter> owned c' \<subseteq> owned c1"
  shows "handled c m c' m'"
  using assms session_step_trans [of c m c1 m1 c' m'] by (simp add: handled_def)

lemma heartbeat_step:
  assumes "manager_wf m" "cn_session c = Some s"
  shows "session_step c m c (snd (SessionManager_heartbeat (ss_id s) now m))"
  using assms manager.wf_touch [OF assms(1)] manager.lookup_touch [OF assms(1)]
    manager.lookup_touch_other [OF assms(1)]
  by (auto simp: session_step_def id_step_def owned_def)

lemma handleClientHello_waits:
  assumes "ServerHandshake_handleClientHello ossl fb p h w = Some (Inr response, h', w')"
  shows "sv_state h' = HandshakeState_AwaitingFinished"
proof -
  obtain client eph nonce where
    a: "ServerHandshake_answer ossl fb client (min (sv_max_version h) (chm_max_version client))
         eph nonce h = (Inr response, h')"
    by (rule handleClientHello_ok [OF assms]) (rule that)
  show ?thesis by (rule answer_ok [OF a]) simp
qed

lemma handleHello_handled:
  assumes "manager_wf m" "conn_inv c" "cn_state c = State_AwaitingHello"
    and "Connection_handleHello ossl fb frame c w = Some (res, c', w')"
  shows "handled c m c' m"
proof -
  have n: "cn_session c = None" using assms(2,3) by (simp add: conn_inv_def)
  have closed: "handled c m c1 m"
    if "cn_state c1 = State_Closed" "cn_session c1 = None" "cn_license c1 = cn_license c" for c1
    using assms(1) n that by (simp add: handled_def conn_inv_closed session_step_refl)
  show ?thesis
  proof (cases "decodeFrame frame kDefaultMaxPayloadSize")
    case (Inl e)
    with assms(4) n have "c' = c\<lparr>cn_state := State_Closed\<rparr>" by (simp add: Connection_handleHello_def)
    with n show ?thesis by (intro closed) simp_all
  next
    case (Inr hp)
    obtain header payload where hp: "hp = (header, payload)" by fastforce
    show ?thesis
    proof (cases "fh_flags header \<noteq> 0 \<or> fh_sequence header \<noteq> 0")
      case True
      with assms(4) Inr hp have "c' = c\<lparr>cn_state := State_Closed\<rparr>" by (auto simp: Connection_handleHello_def)
      with n show ?thesis by (intro closed) simp_all
    next
      case False
      with assms(4) Inr hp obtain r h where
        s: "ServerHandshake_handleClientHello ossl fb payload (cn_handshake c) w = Some (r, h, w')"
        by (auto simp: Connection_handleHello_def split: option.splits sum.splits)
      show ?thesis
      proof (cases r)
        case (Inl e)
        with assms(4) \<open>decodeFrame frame kDefaultMaxPayloadSize = Inr hp\<close> hp False s
        have "c' = c\<lparr>cn_handshake := h, cn_state := State_Closed\<rparr>" by (simp add: Connection_handleHello_def)
        with n show ?thesis by (intro closed) simp_all
      next
        case (Inr response)
        with assms(4) \<open>decodeFrame frame kDefaultMaxPayloadSize = Inr hp\<close> hp False s
        have c': "c' = c\<lparr>cn_handshake := h, cn_state := State_AwaitingFinished\<rparr>"
          by (simp add: Connection_handleHello_def)
        with assms(1) n handleClientHello_waits [OF s [unfolded Inr]] show ?thesis
          by (simp add: handled_def conn_inv_def session_step_refl)
      qed
    qed
  qed
qed

lemma authorize_cases:
  assumes "Connection_authorize ossl request ms t c m w = Some (response, e, c', m', w')"
  obtains (refused) "e \<noteq> ConnectionError_None" "c' = c" "m' = m" "arm_session_id response = None"
      "arm_error response \<noteq> AuthorizationError_None"
  | (granted) session where "e = ConnectionError_None"
      "c' = c\<lparr>cn_session := Some session, cn_state := State_Active\<rparr>"
      "azm_product_id request = ls_product_id (cn_license c)" "\<not> license_expired (cn_license c) t"
      "SessionManager_create ossl (ls_product_id (cn_license c)) (cn_peer_identity c)
         (ls_features (cn_license c)) (ls_expire_time (cn_license c)) ms
         (ls_max_sessions (cn_license c)) m w = Some (Inr session, m', w')"
      "response = \<lparr>arm_request_id = azm_request_id request,
            arm_protocol_version = sv_selected_version (cn_handshake c),
            arm_error = AuthorizationError_None, arm_session_id = Some (ss_id session),
            arm_features = ss_features session, arm_expire_time = ss_expire_time session,
            arm_heartbeat_interval_ms = cn_heartbeat_interval_ms c,
            arm_heartbeat_timeout_ms = cn_heartbeat_timeout_ms c\<rparr>"
proof -
  consider (p) "azm_product_id request \<noteq> ls_product_id (cn_license c)"
    | (x) "azm_product_id request = ls_product_id (cn_license c)" "license_expired (cn_license c) t"
    | (s) "azm_product_id request = ls_product_id (cn_license c)" "\<not> license_expired (cn_license c) t" by blast
  then show thesis
  proof cases
    case p
    with assms show thesis by (intro refused) (auto simp: Connection_authorize_def Let_def)
  next
    case x
    with assms show thesis by (intro refused) (auto simp: Connection_authorize_def Let_def)
  next
    case s
    with assms obtain r where r: "SessionManager_create ossl (ls_product_id (cn_license c)) (cn_peer_identity c)
         (ls_features (cn_license c)) (ls_expire_time (cn_license c)) ms
         (ls_max_sessions (cn_license c)) m w = Some (r, m', w')"
      by (auto simp: Connection_authorize_def Let_def split: option.splits sum.splits)
    show thesis
    proof (cases r)
      case (Inl x)
      with assms s r create_error [OF r [unfolded Inl]] show thesis
        by (intro refused) (auto simp: Connection_authorize_def Let_def)
    next
      case (Inr session)
      with assms s r show thesis by (intro granted) (auto simp: Connection_authorize_def Let_def)
    qed
  qed
qed

lemma create_step:
  assumes "manager_wf m" "cn_session c = None"
    and "SessionManager_create ossl p peer fs ex now mx m w = Some (Inr session, m', w')"
  shows "session_step c m (c\<lparr>cn_session := Some session, cn_state := st\<rparr>) m'"
proof -
  note ok = create_ok [OF assms(3)]
  have "lookup_session m' = (lookup_session m)(ss_id session \<mapsto> session)"
    by (rule ext) (subst ok(6), simp add: lookup_session_def)
  with wf_create [OF assms(1,3)] ok(4) assms(2) show ?thesis
    by (simp add: session_step_def id_step_def owned_def)
qed

lemma handleAuthorize_cases:
  assumes "Connection_handleAuthorize ossl fb p ms t c m w = Some (res, c', m', w')"
  obtains (bad) "c' = c\<lparr>cn_state := State_Closed\<rparr>" "m' = m"
    | (go) request response e c1 m1 where
        "decodeAuthorize fb p = Some (Inr request)"
        "azm_protocol_version request = sv_selected_version (cn_handshake c)"
        "Connection_authorize ossl request ms t c m w = Some (response, e, c1, m1, w')"
        "case encodeAuthResult fb response of
           Inl _ \<Rightarrow> (\<exists>r. close_with ConnectionError_InvalidMessage c1 m1 = (r, c', m'))
         | Inr encoded \<Rightarrow> (\<exists>r. Connection_encryptedResponse ossl encoded (e \<noteq> ConnectionError_None) c1 m1 = (r, c', m'))"
proof -
  from assms obtain d where d: "decodeAuthorize fb p = Some d"
    by (auto simp: Connection_handleAuthorize_def split: option.splits)
  show thesis
  proof (cases d)
    case (Inl e)
    with assms d show thesis by (intro bad) (auto simp: Connection_handleAuthorize_def)
  next
    case (Inr request)
    show thesis
    proof (cases "azm_protocol_version request = sv_selected_version (cn_handshake c)")
      case False
      with assms d Inr show thesis by (intro bad) (auto simp: Connection_handleAuthorize_def)
    next
      case True
      with assms d Inr obtain response e c1 m1 w1 where
        a: "Connection_authorize ossl request ms t c m w = Some (response, e, c1, m1, w1)"
        by (auto simp: Connection_handleAuthorize_def split: option.splits)
      with assms d Inr True have "w1 = w'" and
        "case encodeAuthResult fb response of
           Inl _ \<Rightarrow> (\<exists>r. close_with ConnectionError_InvalidMessage c1 m1 = (r, c', m'))
         | Inr encoded \<Rightarrow> (\<exists>r. Connection_encryptedResponse ossl encoded (e \<noteq> ConnectionError_None) c1 m1 = (r, c', m'))"
        by (auto simp: Connection_handleAuthorize_def split: sum.splits prod.splits)
      with go d Inr True a show thesis by blast
    qed
  qed
qed

lemma handleAuthorize_handled:
  assumes wf: "manager_wf m" and inv: "conn_inv c" and st: "cn_state c = State_AwaitingAuthorize"
    and h: "Connection_handleAuthorize ossl fb p ms t c m w = Some (res, c', m', w')"
  shows "handled c m c' m'"
proof -
  have n: "cn_session c = None" using inv st by (simp add: conn_inv_def)
  have closed: "handled c m (c\<lparr>cn_state := State_Closed\<rparr>) m"
    using wf n by (simp add: handled_def conn_inv_closed session_step_refl)
  show ?thesis using h
  proof (cases rule: handleAuthorize_cases)
    case bad
    with closed show ?thesis by simp
  next
    case (go request response e c1 m1)
    from go(3) show ?thesis
    proof (cases rule: authorize_cases)
      case refused
      with go(4) n wf inv show ?thesis
        by (auto split: sum.splits intro: close_with_handled encryptedResponse_handled)
    next
      case (granted session)
      have step: "session_step c m c1 m1" unfolding granted(2) using wf n granted(5) by (rule create_step)
      then have wf1: "manager_wf m1" by (simp add: session_step_def)
      have inv1: "conn_inv c1" using inv st by (simp add: granted(2) conn_inv_def)
      have "handled c1 m1 c' m'"
        using go(4) wf1 inv1 granted(1)
        by (auto split: sum.splits intro: close_with_handled encryptedResponse_handled)
      with step show ?thesis
        by (rule handled_compose) (simp_all add: granted(2) owned_def n)
    qed
  qed
qed


lemma handleHeartbeat_handled:
  assumes wf: "manager_wf m" and inv: "conn_inv c"
    and h: "Connection_handleHeartbeat ossl fb hb ms t c m = (res, c', m')"
  shows "handled c m c' m'"
proof (cases "cn_session c")
  case None
  with h close_with_handled [OF wf] show ?thesis by (simp add: Connection_handleHeartbeat_def)
next
  case (Some s)
  show ?thesis
  proof (cases "hbm_protocol_version hb \<noteq> sv_selected_version (cn_handshake c) \<or> hbm_session_id hb \<noteq> ss_id s")
    case True
    with h Some close_with_handled [OF wf] show ?thesis by (auto simp: Connection_handleHeartbeat_def)
  next
    case False
    obtain e m1 where e: "SessionManager_heartbeat (ss_id s) ms m = (e, m1)" by fastforce
    have step: "session_step c m c m1" using heartbeat_step [OF wf Some, of ms] e by simp
    then have wf1: "manager_wf m1" by (simp add: session_step_def)
    have via: "handled c m c' m'" if "handled c m1 c' m'"
      using step that by (rule handled_compose) auto
    let ?x = "license_expired (cn_license c) t"
    let ?ack = "\<lparr>ham_request_id = hbm_request_id hb,
       ham_protocol_version = sv_selected_version (cn_handshake c),
       ham_state = (if ?x then AuthorizationState_Expired else AuthorizationState_Valid),
       ham_features = ss_features s, ham_expire_time = ss_expire_time s\<rparr>"
    consider (lost) "e \<noteq> ErrorCode_None"
      | (unencoded) x where "e = ErrorCode_None" "encodeHeartbeatAck fb ?ack = Inl x"
      | (valid) encoded where "e = ErrorCode_None" "encodeHeartbeatAck fb ?ack = Inr encoded" "\<not> ?x"
      | (expired) encoded where "e = ErrorCode_None" "encodeHeartbeatAck fb ?ack = Inr encoded" ?x
      by (cases "encodeHeartbeatAck fb ?ack") blast+
    then show ?thesis
    proof cases
      case lost
      with h Some False e have "close_with ConnectionError_InvalidSession c m1 = (res, c', m')"
        by (simp add: Connection_handleHeartbeat_def)
      then show ?thesis by (intro via close_with_handled [OF wf1])
    next
      case unencoded
      with h Some False e have "close_with ConnectionError_InvalidMessage c m1 = (res, c', m')"
        by (simp add: Connection_handleHeartbeat_def Let_def)
      then show ?thesis by (intro via close_with_handled [OF wf1])
    next
      case valid
      with h Some False e have "Connection_encryptedResponse ossl encoded False c m1 = (res, c', m')"
        by (simp add: Connection_handleHeartbeat_def Let_def)
      from encryptedResponse_handled [OF wf1 this inv] show ?thesis by (intro via) simp
    next
      case expired
      obtain c2 m2 where k: "Connection_closeSession c m1 = (c2, m2)" by fastforce
      obtain r where "Connection_encryptedResponse ossl encoded True c2 m2 = (r, c', m')"
        using h Some False e expired k by (auto simp: Connection_handleHeartbeat_def Let_def split: prod.splits)
      note enc = this and cl = closeSession_step [OF wf1 k]
      have "cn_state c = State_Active" "sv_state (cn_handshake c) = HandshakeState_Established"
        using inv Some by (auto simp: conn_inv_def split: ConnectionState.splits)
      have wf2: "manager_wf m2" using cl by (simp add: session_step_def)
      have "handled c2 m2 c' m'"
      proof -
        obtain y hs where y: "ServerHandshake_seal ossl encoded (cn_handshake c2) = (y, hs)" by fastforce
        from encryptedResponse_step [OF wf2 enc] y cl have "cn_session c' = None \<and> cn_state c' = State_Closed"
          by (cases y) auto
        with encryptedResponse_step [OF wf2 enc] encryptedResponse_license [OF enc] show ?thesis
          by (simp add: handled_def conn_inv_closed)
      qed
      moreover have "cn_session c' = None"
        using encryptedResponse_step [OF wf2 enc] cl by (auto split: prod.splits sum.splits)
      ultimately have "handled c m1 c' m'"
        using cl by (intro handled_compose [of c m1 c2 m2]) (simp_all add: owned_def)
      then show ?thesis by (rule via)
    qed
  qed
qed


lemma handleActive_handled:
  assumes "manager_wf m" "conn_inv c"
    and "Connection_handleActive ossl fb p ms t c m = Some (res, c', m')"
  shows "handled c m c' m'"
proof -
  from assms(3) obtain d where d: "decodeHeartbeat fb p = Some d"
    by (auto simp: Connection_handleActive_def split: option.splits)
  show ?thesis
  proof (cases d)
    case (Inr hb)
    with assms(3) d have "Connection_handleHeartbeat ossl fb hb ms t c m = (res, c', m')"
      by (simp add: Connection_handleActive_def)
    with assms(1,2) show ?thesis by (rule handleHeartbeat_handled)
  next
    case (Inl x)
    with assms(3) d obtain e where "close_with e c m = (res, c', m')"
      by (auto simp: Connection_handleActive_def split: option.splits sum.splits if_splits)
    with assms(1) show ?thesis by (rule close_with_handled)
  qed
qed

lemma finished_handled:
  assumes wf: "manager_wf m" and inv: "conn_inv c" and st: "cn_state c = State_AwaitingFinished"
    and f: "ServerHandshake_handleClientFinished ossl fb frame (cn_handshake c) = Some (e, h)"
  shows "handled c m (c\<lparr>cn_handshake := h, cn_state := if e \<noteq> HandshakeError_None then State_Closed
                                                          else State_AwaitingAuthorize\<rparr>) m"
proof -
  have n: "cn_session c = None" using inv st by (simp add: conn_inv_def)
  from f show ?thesis
  proof (cases rule: handleClientFinished_cases)
    case (failed x)
    with wf n show ?thesis by (simp add: handled_def conn_inv_closed session_step_refl)
  next
    case (accepted reader reader' plaintext finished)
    with wf n show ?thesis by (simp add: handled_def conn_inv_def session_step_refl)
  qed
qed

lemma opened_handled:
  assumes "handled (c\<lparr>cn_handshake := h\<rparr>) m c' m'"
  shows "handled c m c' m'"
  using assms by (simp add: handled_def session_step_def owned_def)

lemma handle_records:
  assumes wf: "manager_wf m" and inv: "conn_inv c"
    and h: "Connection_handle ossl fb frame ms t c m w = Some (res, c', m', w')"
    and st: "cn_state c = State_AwaitingAuthorize \<or> cn_state c = State_Active"
  shows "handled c m c' m'"
proof -
  obtain x hs where o: "ServerHandshake_open ossl frame (cn_handshake c) = (x, hs)" by fastforce
  let ?c = "c\<lparr>cn_handshake := hs\<rparr>"
  have inv': "conn_inv ?c"
    using inv st open_keeps_state [OF o] by (auto simp: conn_inv_def)
  have "handled ?c m c' m'"
  proof (cases x)
    case (Inl e)
    with h o st have "close_with ConnectionError_InvalidFrame ?c m = (res, c', m')"
      by (auto simp: Connection_handle_def split: prod.splits)
    with wf show ?thesis by (rule close_with_handled)
  next
    case (Inr opened)
    show ?thesis
    proof (cases "cn_state c = State_AwaitingAuthorize")
      case True
      with h o Inr have "Connection_handleAuthorize ossl fb opened ms t ?c m w = Some (res, c', m', w')"
        by (simp add: Connection_handle_def Let_def)
      from handleAuthorize_handled [OF wf inv' _ this] True show ?thesis by simp
    next
      case False
      with h o Inr st have "Connection_handleActive ossl fb opened ms t ?c m = Some (res, c', m')"
        by (auto simp: Connection_handle_def Let_def split: option.splits)
      with wf inv' show ?thesis by (rule handleActive_handled)
    qed
  qed
  then show ?thesis by (rule opened_handled)
qed

lemma handle_handled:
  assumes wf: "manager_wf m" and inv: "conn_inv c"
    and h: "Connection_handle ossl fb frame ms t c m w = Some (res, c', m', w')"
  shows "handled c m c' m'"
proof (cases "cn_state c")
  case State_AwaitingHello
  with h have "Connection_handleHello ossl fb frame c w = Some (res, c', w')" "m' = m"
    by (auto simp: Connection_handle_def split: option.splits)
  with handleHello_handled [OF wf inv State_AwaitingHello] show ?thesis by simp
next
  case State_AwaitingFinished
  with h obtain e hs where
    f: "ServerHandshake_handleClientFinished ossl fb frame (cn_handshake c) = Some (e, hs)"
    by (auto simp: Connection_handle_def split: option.splits)
  with h State_AwaitingFinished have "c' = c\<lparr>cn_handshake := hs, cn_state :=
      if e \<noteq> HandshakeError_None then State_Closed else State_AwaitingAuthorize\<rparr>" "m' = m"
    by (auto simp: Connection_handle_def split: if_splits)
  with finished_handled [OF wf inv State_AwaitingFinished f] show ?thesis by simp
next
  case State_Closed
  with h inv wf show ?thesis
    by (simp add: Connection_handle_def handled_def session_step_refl)
next
  case State_AwaitingAuthorize
  note records = handle_records [OF wf inv h]
  then show ?thesis using State_AwaitingAuthorize by simp
next
  case State_Active
  note records = handle_records [OF wf inv h]
  then show ?thesis using State_Active by simp
qed


section \<open>Reachable connections\<close>

text \<open>
  A connection and the table after any sequence of frames from the peer; between two frames other
  connections and the housekeeping may change the table in any way that keeps it well formed.
\<close>

inductive conn_reachable ::
  "('h, 'w) openssl \<Rightarrow> flatbuffers \<Rightarrow> Connection \<Rightarrow> SessionManager \<Rightarrow> bool"
  for ossl :: "('h, 'w) openssl" and fb :: flatbuffers where
  conn_start: "manager_wf m \<Longrightarrow>
    conn_reachable ossl fb (Connection_new kid key license peer interval timeout) m"
| conn_frame: "conn_reachable ossl fb c m \<Longrightarrow>
    Connection_handle ossl fb frame ms t c m w = Some (res, c', m', w') \<Longrightarrow> conn_reachable ossl fb c' m'"
| conn_others: "conn_reachable ossl fb c m \<Longrightarrow> manager_wf m' \<Longrightarrow> conn_reachable ossl fb c m'"

lemma conn_reachable_inv: "conn_reachable ossl fb c m \<Longrightarrow> conn_inv c \<and> manager_wf m"
proof (induction rule: conn_reachable.induct)
  case conn_start
  then show ?case by (simp add: conn_inv_def Connection_new_def ServerHandshake_new_def)
next
  case (conn_frame c m frame ms t w res c' m' w')
  from handle_handled [OF _ _ conn_frame(2)] conn_frame.IH show ?case
    by (simp add: handled_def session_step_def)
qed simp

text \<open>How a connection becomes active.\<close>

lemma answered_active:
  assumes wf: "manager_wf m" and a: "cn_state c' = State_Active"
    and k: "case encodeAuthResult fb response of
           Inl _ \<Rightarrow> (\<exists>r. close_with ConnectionError_InvalidMessage c m = (r, c', m'))
         | Inr encoded \<Rightarrow> (\<exists>r. Connection_encryptedResponse ossl encoded close_after c m = (r, c', m'))"
  shows "\<not> close_after \<and> m' = m \<and> cn_session c' = cn_session c"
proof (cases "encodeAuthResult fb response")
  case (Inl y)
  with k obtain r where "close_with ConnectionError_InvalidMessage c m = (r, c', m')" by auto
  from close_with_step [OF wf this] a show ?thesis by simp
next
  case (Inr encoded)
  with k obtain r where "Connection_encryptedResponse ossl encoded close_after c m = (r, c', m')" by auto
  from encryptedResponse_step [OF wf this] a show ?thesis
    by (auto split: prod.splits sum.splits if_splits)
qed

lemma handleAuthorize_active:
  assumes wf: "manager_wf m" and a: "cn_state c' = State_Active"
    and h: "Connection_handleAuthorize ossl fb p ms t c m w = Some (res, c', m', w')"
  obtains request session where
    "decodeAuthorize fb p = Some (Inr request)"
    "azm_protocol_version request = sv_selected_version (cn_handshake c)"
    "azm_product_id request = ls_product_id (cn_license c)" "\<not> license_expired (cn_license c) t"
    "SessionManager_create ossl (ls_product_id (cn_license c)) (cn_peer_identity c)
         (ls_features (cn_license c)) (ls_expire_time (cn_license c)) ms
         (ls_max_sessions (cn_license c)) m w = Some (Inr session, m', w')"
    "cn_session c' = Some session"
  using h
proof (cases rule: handleAuthorize_cases)
  case bad
  with a show thesis by simp
next
  case (go request response e c1 m1)
  from go(3) show thesis
  proof (cases rule: authorize_cases)
    case refused
    with answered_active [OF _ a go(4)] wf show thesis by simp
  next
    case (granted session)
    from answered_active [OF wf_create [OF wf granted(5)] a go(4)] granted go(1,2) show thesis
      by (intro that) auto
  qed
qed

lemma activation_state:
  assumes "cn_state c \<noteq> State_Active" "cn_state c' = State_Active"
    and "Connection_handle ossl fb frame ms t c m w = Some (res, c', m', w')"
  shows "cn_state c = State_AwaitingAuthorize"
proof (cases "cn_state c")
  case State_AwaitingHello
  with assms(2,3) show ?thesis
    by (auto simp: Connection_handle_def Connection_handleHello_def split: option.splits sum.splits if_splits)
next
  case State_AwaitingFinished
  with assms(2,3) show ?thesis by (auto simp: Connection_handle_def split: option.splits if_splits)
next
  case State_Closed
  with assms(2,3) show ?thesis by (auto simp: Connection_handle_def)
qed (use assms(1) in simp_all)

lemma becomes_active:
  assumes wf: "manager_wf m" and n: "cn_state c \<noteq> State_Active"
    and h: "Connection_handle ossl fb frame ms t c m w = Some (res, c', m', w')"
    and a: "cn_state c' = State_Active"
  obtains plaintext hs request session where
    "cn_state c = State_AwaitingAuthorize"
    "ServerHandshake_open ossl frame (cn_handshake c) = (Inr plaintext, hs)"
    "decodeAuthorize fb plaintext = Some (Inr request)"
    "azm_protocol_version request = sv_selected_version (cn_handshake c)"
    "azm_product_id request = ls_product_id (cn_license c)" "\<not> license_expired (cn_license c) t"
    "SessionManager_create ossl (ls_product_id (cn_license c)) (cn_peer_identity c)
         (ls_features (cn_license c)) (ls_expire_time (cn_license c)) ms
         (ls_max_sessions (cn_license c)) m w = Some (Inr session, m', w')"
    "cn_session c' = Some session"
proof -
  have st: "cn_state c = State_AwaitingAuthorize" by (rule activation_state [OF n a h])
  obtain x hs where o: "ServerHandshake_open ossl frame (cn_handshake c) = (x, hs)" by fastforce
  let ?c = "c\<lparr>cn_handshake := hs\<rparr>"
  show thesis
  proof (cases x)
    case (Inl e)
    with h o st have "close_with ConnectionError_InvalidFrame ?c m = (res, c', m')"
      by (auto simp: Connection_handle_def split: prod.splits)
    from close_with_step [OF wf this] a show thesis by simp
  next
    case (Inr plaintext)
    with h o st have "Connection_handleAuthorize ossl fb plaintext ms t ?c m w = Some (res, c', m', w')"
      by (simp add: Connection_handle_def Let_def)
    from handleAuthorize_active [OF wf a this] obtain request session where
      "decodeAuthorize fb plaintext = Some (Inr request)"
      "azm_protocol_version request = sv_selected_version hs"
      "azm_product_id request = ls_product_id (cn_license c)" "\<not> license_expired (cn_license c) t"
      "SessionManager_create ossl (ls_product_id (cn_license c)) (cn_peer_identity c)
         (ls_features (cn_license c)) (ls_expire_time (cn_license c)) ms
         (ls_max_sessions (cn_license c)) m w = Some (Inr session, m', w')"
      "cn_session c' = Some session" by auto
    with open_keeps_state [OF o] st o Inr show thesis by (intro that) auto
  qed
qed

text \<open>A connection that handles any frame after the license expired is closed.\<close>

lemma handleHeartbeat_expired:
  assumes "manager_wf m" "license_expired (cn_license c) t"
    and "Connection_handleHeartbeat ossl fb hb ms t c m = (res, c', m')"
  shows "cn_state c' = State_Closed"
proof -
  have closed: "cn_state c' = State_Closed" if "close_with e c m1 = (res, c', m')" for e m1
    using that by (auto simp: close_with_def Connection_closeSession_def split: option.splits)
  have enc: "cn_state c' = State_Closed"
    if "Connection_encryptedResponse ossl p True c1 m1 = (r, c', m')" for p c1 m1 r
    using that by (auto simp: Connection_encryptedResponse_def close_with_def Connection_closeSession_def
        Let_def split: option.splits sum.splits prod.splits)
  show ?thesis
    using assms(2,3) unfolding Connection_handleHeartbeat_def Let_def
    by (auto split: option.splits if_splits sum.splits prod.splits intro: closed enc)
qed

lemma handleActive_expired:
  assumes "manager_wf m" "license_expired (cn_license c) t"
    and "Connection_handleActive ossl fb p ms t c m = Some (res, c', m')"
  shows "cn_state c' = State_Closed"
proof -
  from assms(3) obtain d where d: "decodeHeartbeat fb p = Some d"
    by (auto simp: Connection_handleActive_def split: option.splits)
  show ?thesis
  proof (cases d)
    case (Inr hb)
    with assms(3) d have "Connection_handleHeartbeat ossl fb hb ms t c m = (res, c', m')"
      by (simp add: Connection_handleActive_def)
    with assms(1,2) show ?thesis by (rule handleHeartbeat_expired)
  next
    case (Inl x)
    with assms(3) d obtain e where "close_with e c m = (res, c', m')"
      by (auto simp: Connection_handleActive_def split: option.splits sum.splits if_splits)
    from close_with_step [OF assms(1) this] show ?thesis by simp
  qed
qed

lemma expired_closes:
  assumes inv: "conn_inv c" "manager_wf m" and "cn_state c = State_Active" "cn_session c = Some s"
    and "license_expired (cn_license c) t"
    and "Connection_handle ossl fb frame ms t c m w = Some (res, c', m', w')"
  shows "cn_state c' = State_Closed \<and> cn_session c' = None \<and> lookup_session m' (ss_id s) = None"
proof -
  obtain x hs where o: "ServerHandshake_open ossl frame (cn_handshake c) = (x, hs)" by fastforce
  have "cn_state c' = State_Closed"
  proof (cases x)
    case (Inl e)
    with assms(3,6) o have "close_with ConnectionError_InvalidFrame (c\<lparr>cn_handshake := hs\<rparr>) m = (res, c', m')"
      by (auto simp: Connection_handle_def split: prod.splits)
    from close_with_step [OF inv(2) this] show ?thesis by simp
  next
    case (Inr p)
    with assms(3,6) o have "Connection_handleActive ossl fb p ms t (c\<lparr>cn_handshake := hs\<rparr>) m = Some (res, c', m')"
      by (auto simp: Connection_handle_def Let_def split: option.splits)
    from handleActive_expired [OF inv(2) _ this] assms(5) show ?thesis by simp
  qed
  moreover have h: "handled c m c' m'" by (rule handle_handled [OF inv(2,1) assms(6)])
  ultimately have n: "cn_session c' = None" by (simp add: handled_def conn_inv_def)
  have "id_step (ss_id s \<in> owned c) (ss_id s \<in> owned c') (lookup_session m (ss_id s)) (lookup_session m' (ss_id s))"
    using h by (simp add: handled_def session_step_def)
  with n assms(4) \<open>cn_state c' = State_Closed\<close> show ?thesis by (simp add: owned_def id_step_def)
qed

lemma destroy_releases:
  assumes wf: "manager_wf m"
  shows "manager_wf (Connection_destroy c m) \<and>
         lookup_session (Connection_destroy c m) sid =
           (if sid \<in> owned c then None else lookup_session m sid)"
proof -
  obtain c' m' where k: "Connection_closeSession c m = (c', m')" by fastforce
  from closeSession_step [OF wf k]
  have "manager_wf m'" and n: "cn_session c' = None" and
    "id_step (sid \<in> owned c) (sid \<in> owned c') (lookup_session m sid) (lookup_session m' sid)"
    by (simp_all add: session_step_def)
  then show ?thesis by (simp add: Connection_destroy_def k owned_def id_step_def)
qed

section \<open>Properties\<close>

text \<open>
  A connection touches only its own session: whatever frame it handles, sessions of others stay
  as they were, a session it gives up is gone from the table, a session it gains was not in the
  table before; and in every reachable state it holds a session exactly while it is active, which
  it is only with an established handshake.
\<close>

lemma connection_owns_its_session:
  assumes "conn_reachable ossl fb c m"
    and "Connection_handle ossl fb frame ms t c m w = Some (res, c', m', w')"
  shows "conn_inv c' \<and> manager_wf m' \<and>
         (\<forall>sid. sid \<notin> owned c \<and> sid \<notin> owned c' \<longrightarrow> lookup_session m' sid = lookup_session m sid) \<and>
         (\<forall>sid. sid \<in> owned c \<and> sid \<notin> owned c' \<longrightarrow> lookup_session m' sid = None) \<and>
         (\<forall>sid. sid \<in> owned c' \<and> sid \<notin> owned c \<longrightarrow>
            lookup_session m sid = None \<and> lookup_session m' sid \<noteq> None)"
proof -
  have "handled c m c' m'" using conn_reachable_inv [OF assms(1)] handle_handled [OF _ _ assms(2)] by blast
  then have i: "conn_inv c'" "manager_wf m'" and
    s: "id_step (sid \<in> owned c) (sid \<in> owned c') (lookup_session m sid) (lookup_session m' sid)" for sid
    by (simp_all add: handled_def session_step_def)
  show ?thesis
  proof (intro conjI allI impI i)
    fix sid
    assume "sid \<notin> owned c \<and> sid \<notin> owned c'"
    with s [of sid] show "lookup_session m' sid = lookup_session m sid" by (simp add: id_step_def)
  next
    fix sid
    assume "sid \<in> owned c \<and> sid \<notin> owned c'"
    with s [of sid] show "lookup_session m' sid = None" by (simp add: id_step_def)
  next
    fix sid
    assume a: "sid \<in> owned c' \<and> sid \<notin> owned c"
    with s [of sid] show "lookup_session m sid = None" by (simp add: id_step_def)
    from a s [of sid] show "lookup_session m' sid \<noteq> None" by (simp add: id_step_def)
  qed
qed

text \<open>
  C3.  Access is granted only to an authenticated request for the licensed product: a connection
  becomes active only by a frame that opens under the established keys to an authorize message of
  the negotiated version for the license's product, before the license expires and while fewer
  sessions of the product are open than the license allows; it then holds a new session with the
  license's features and expiry.
\<close>

theorem access_granted_only_within_license:
  assumes "conn_reachable ossl fb c m" "cn_state c \<noteq> State_Active"
    and "Connection_handle ossl fb frame ms t c m w = Some (res, c', m', w')"
    and "cn_state c' = State_Active"
  shows "sv_state (cn_handshake c) = HandshakeState_Established \<and>
         (\<exists>plaintext hs request session.
            ServerHandshake_open ossl frame (cn_handshake c) = (Inr plaintext, hs) \<and>
            decodeAuthorize fb plaintext = Some (Inr request) \<and>
            azm_protocol_version request = sv_selected_version (cn_handshake c) \<and>
            azm_product_id request = ls_product_id (cn_license c) \<and>
            \<not> license_expired (cn_license c) t \<and>
            active_sessions (ls_product_id (cn_license c)) (sm_sessions m) < unat (ls_max_sessions (cn_license c)) \<and>
            cn_session c' = Some session \<and> lookup_session m (ss_id session) = None \<and>
            ss_features session = ls_features (cn_license c) \<and>
            ss_expire_time session = ls_expire_time (cn_license c))"
proof -
  have inv: "conn_inv c" "manager_wf m" using conn_reachable_inv [OF assms(1)] by simp_all
  obtain plaintext hs request session where
    g: "cn_state c = State_AwaitingAuthorize"
    "ServerHandshake_open ossl frame (cn_handshake c) = (Inr plaintext, hs)"
    "decodeAuthorize fb plaintext = Some (Inr request)"
    "azm_protocol_version request = sv_selected_version (cn_handshake c)"
    "azm_product_id request = ls_product_id (cn_license c)" "\<not> license_expired (cn_license c) t"
    and k: "SessionManager_create ossl (ls_product_id (cn_license c)) (cn_peer_identity c)
         (ls_features (cn_license c)) (ls_expire_time (cn_license c)) ms
         (ls_max_sessions (cn_license c)) m w = Some (Inr session, m', w')"
    and s: "cn_session c' = Some session"
    by (rule becomes_active [OF inv(2) assms(2-4)])
  note ok = create_ok [OF k]
  have "sv_state (cn_handshake c) = HandshakeState_Established" using inv(1) g(1) by (simp add: conn_inv_def)
  with g ok(3,4,9,10) s show ?thesis by blast
qed

text \<open>
  An expired license ends the session: whatever frame an active connection handles at or after
  the expiry time, it is closed afterwards and its session is gone from the table.
\<close>

lemma expired_license_closes:
  assumes "conn_reachable ossl fb c m" "cn_state c = State_Active" "cn_session c = Some s"
    and "license_expired (cn_license c) t"
    and "Connection_handle ossl fb frame ms t c m w = Some (res, c', m', w')"
  shows "cn_state c' = State_Closed \<and> cn_session c' = None \<and> lookup_session m' (ss_id s) = None"
  using conn_reachable_inv [OF assms(1)] expired_closes [OF _ _ assms(2-5)] by blast

text \<open>
  A connection leaves nothing behind: when the object is destroyed in whatever state it
  reached, no session it held is in the table, every other session is as before, and the table is
  well formed.
\<close>

lemma destroyed_connection_releases:
  assumes "conn_reachable ossl fb c m"
  shows "manager_wf (Connection_destroy c m) \<and>
         lookup_session (Connection_destroy c m) sid =
           (if sid \<in> owned c then None else lookup_session m sid)"
  using conn_reachable_inv [OF assms] destroy_releases [of m c sid] by blast

end
