(* ===== verification/Seats.thy ===== *)
theory Seats
  imports Connection SessionSpec
begin

text \<open>
  Many connections of \<^verbatim>\<open>src/src/ya_license_service/src/connection.cpp\<close> over the one session table of
  \<^verbatim>\<open>src/src/ya_license_core/src/session.cpp\<close>, whose reference they share.  Frames of different peers come
  in any order; one frame is handled before the next.  \<^verbatim>\<open>AuthorizationService::run\<close> serves one peer after
  another, which is one of these orders; \<^verbatim>\<open>src/guide/docs/09-service.md\<close> asks for the limit to hold whatever
  the order is.  The specification is a room with as many seats as the license allows: who is in it is
  all that counts.  \<^verbatim>\<open>SessionManager::expireInactive\<close> has no caller, so that it is no step here.
\<close>

section \<open>The connections and their table\<close>

text \<open>The objects by a number of their own; every connection was constructed with the same license.\<close>

record house =
  ho_connections :: "nat \<rightharpoonup> Connection"
  ho_table :: SessionManager

datatype house_label = Arrival nat | Frame_of nat u64 | Departure nat

inductive house_step ::
  "('h, 'w) openssl \<Rightarrow> flatbuffers \<Rightarrow> LicenseSnapshot \<Rightarrow> house \<Rightarrow> house_label \<Rightarrow> house \<Rightarrow> bool"
  for ossl :: "('h, 'w) openssl" and fb license where
  arrival: "ho_connections h i = None \<Longrightarrow> c = Connection_new kid key license peer interval timeout \<Longrightarrow>
    house_step ossl fb license h (Arrival i) (h\<lparr>ho_connections := (ho_connections h)(i \<mapsto> c)\<rparr>)"
| frame_of: "ho_connections h i = Some c \<Longrightarrow>
    Connection_handle ossl fb frame ms now c (ho_table h) w = Some (res, c', m', w') \<Longrightarrow>
    house_step ossl fb license h (Frame_of i now) \<lparr>ho_connections = (ho_connections h)(i \<mapsto> c'), ho_table = m'\<rparr>"
| departure: "ho_connections h i = Some c \<Longrightarrow>
    house_step ossl fb license h (Departure i)
      \<lparr>ho_connections = (ho_connections h)(i := None), ho_table = Connection_destroy c (ho_table h)\<rparr>"

inductive house_history ::
  "('h, 'w) openssl \<Rightarrow> flatbuffers \<Rightarrow> LicenseSnapshot \<Rightarrow> house_label list \<Rightarrow> house \<Rightarrow> bool"
  for ossl :: "('h, 'w) openssl" and fb license where
  house_open: "house_history ossl fb license [] \<lparr>ho_connections = Map.empty, ho_table = SessionManager_new\<rparr>"
| house_next: "house_history ossl fb license labels h \<Longrightarrow> house_step ossl fb license h label h' \<Longrightarrow>
    house_history ossl fb license (labels @ [label]) h'"

section \<open>The seats\<close>

text \<open>
  Who is seated.  A seat is taken by a frame before the license expires while one is free; a frame that
  comes later empties the seat of its sender, and a sender may lose or leave it at any time.
\<close>

inductive seat_step :: "LicenseSnapshot \<Rightarrow> nat set \<Rightarrow> house_label \<Rightarrow> nat set \<Rightarrow> bool"
  for license where
  seat_arrival: "i \<notin> S \<Longrightarrow> seat_step license S (Arrival i) S"
| seat_taken: "i \<notin> S \<Longrightarrow> card S < unat (ls_max_sessions license) \<Longrightarrow> \<not> license_expired license now \<Longrightarrow>
    seat_step license S (Frame_of i now) (insert i S)"
| seat_kept: "i \<in> S \<Longrightarrow> \<not> license_expired license now \<Longrightarrow> seat_step license S (Frame_of i now) S"
| seat_lost: "seat_step license S (Frame_of i now) (S - {i})"
| seat_departure: "seat_step license S (Departure i) (S - {i})"

inductive seat_history :: "LicenseSnapshot \<Rightarrow> house_label list \<Rightarrow> nat set \<Rightarrow> bool" for license where
  seats_empty: "seat_history license [] {}"
| seats_next: "seat_history license labels S \<Longrightarrow> seat_step license S label S' \<Longrightarrow>
    seat_history license (labels @ [label]) S'"

definition seated :: "house \<Rightarrow> nat set" where
  "seated h = {i. \<exists>c. ho_connections h i = Some c \<and> cn_state c = State_Active}"

section \<open>What the specification gives\<close>

lemma seat_step_finite: "seat_step license S label S' \<Longrightarrow> finite S \<Longrightarrow> finite S'"
  by (induction rule: seat_step.induct) auto

lemma seat_step_bound:
  "seat_step license S label S' \<Longrightarrow> finite S \<Longrightarrow> card S \<le> unat (ls_max_sessions license) \<Longrightarrow>
     card S' \<le> unat (ls_max_sessions license)"
proof (induction rule: seat_step.induct)
  case (seat_lost S i now)
  then show ?case by (meson Diff_subset card_mono le_trans)
next
  case (seat_departure S i)
  then show ?case by (meson Diff_subset card_mono le_trans)
qed auto

lemma seat_history_bound:
  "seat_history license labels S \<Longrightarrow> finite S \<and> card S \<le> unat (ls_max_sessions license)"
  by (induction rule: seat_history.induct) (auto intro: seat_step_finite seat_step_bound)

section \<open>Products\<close>

text \<open>No operation of a connection gives a session another product than its license's.\<close>

definition products_from :: "string \<Rightarrow> SessionManager \<Rightarrow> SessionManager \<Rightarrow> bool" where
  "products_from p m m' \<longleftrightarrow>
     (\<forall>sid s'. lookup_session m' sid = Some s' \<longrightarrow>
        ss_product_id s' = p \<or> (\<exists>s. lookup_session m sid = Some s \<and> ss_product_id s = ss_product_id s'))"

lemma products_from_refl [simp]: "products_from p m m"
  by (simp add: products_from_def)

lemma products_from_trans: "products_from p m m1 \<Longrightarrow> products_from p m1 m' \<Longrightarrow> products_from p m m'"
  by (fastforce simp: products_from_def)

lemma close_products:
  assumes "manager_wf m"
  shows "products_from p m (snd (SessionManager_close sid m))"
  using manager.lookup_erase [OF assms] by (auto simp: products_from_def)

lemma heartbeat_products:
  assumes "SessionManager_heartbeat sid now m = (e, m')"
  shows "products_from p m m'"
  using heartbeat_refines [OF assms]
  by (cases rule: table_step.cases) (auto simp: products_from_def)

lemma create_products:
  assumes "SessionManager_create ossl p peer fs ex now mx m w = Some (Inr s, m', w')"
  shows "products_from p m m'"
  using create_ok(6,7) [OF assms] by (auto simp: products_from_def lookup_session_def)

lemma closeSession_products:
  "manager_wf m \<Longrightarrow> Connection_closeSession c m = (c', m') \<Longrightarrow> products_from p m m'"
  by (auto simp: Connection_closeSession_def close_products split: option.splits)

lemma close_with_products:
  "manager_wf m \<Longrightarrow> close_with e c m = (res, c', m') \<Longrightarrow> products_from p m m'"
  by (auto simp: close_with_def dest: closeSession_products split: prod.splits)

lemma encryptedResponse_products:
  assumes "manager_wf m" "Connection_encryptedResponse ossl p close_after c m = (res, c', m')"
  shows "products_from q m m'"
proof (cases "ServerHandshake_seal ossl p (cn_handshake c)")
  case (Pair x h)
  with assms show ?thesis
    by (cases x) (auto simp: Connection_encryptedResponse_def Let_def dest: close_with_products)
qed

lemma authorize_products:
  assumes "Connection_authorize ossl request ms t c m w = Some (response, e, c', m', w')"
  shows "products_from (ls_product_id (cn_license c)) m m'"
  using assms by (cases rule: authorize_cases) (auto dest: create_products)

lemma authorize_wf:
  assumes "manager_wf m" "Connection_authorize ossl request ms t c m w = Some (response, e, c', m', w')"
  shows "manager_wf m'"
  using assms(2) by (cases rule: authorize_cases) (auto simp: assms(1) dest: wf_create [OF assms(1)])

lemma handleAuthorize_products:
  assumes "manager_wf m" "Connection_handleAuthorize ossl fb p ms t c m w = Some (res, c', m', w')"
  shows "products_from (ls_product_id (cn_license c)) m m'"
  using assms(2)
proof (cases rule: handleAuthorize_cases)
  case (go request response e c1 m1)
  have "products_from (ls_product_id (cn_license c)) m1 m'"
    using go(4) authorize_wf [OF assms(1) go(3)]
    by (auto split: sum.splits dest: close_with_products encryptedResponse_products)
  with authorize_products [OF go(3)] show ?thesis by (rule products_from_trans)
qed simp

lemma handleHeartbeat_products:
  assumes "manager_wf m" "Connection_handleHeartbeat ossl fb hb ms t c m = (res, c', m')"
  shows "products_from p m m'"
proof (cases "cn_session c")
  case None
  with assms show ?thesis by (auto simp: Connection_handleHeartbeat_def dest: close_with_products)
next
  case (Some s)
  obtain e m1 where e: "SessionManager_heartbeat (ss_id s) ms m = (e, m1)" by fastforce
  have wf: "manager_wf m1" using wf_heartbeat [OF assms(1), of "ss_id s" ms] e by simp
  have closed: "products_from p m1 m'"
    if "Connection_closeSession c m1 = (c2, m2)" "Connection_encryptedResponse ossl x True c2 m2 = (r, c', m')" for c2 m2 x r
  proof -
    have "manager_wf m2" using closeSession_step [OF wf that(1)] by (simp add: session_step_def)
    then show ?thesis
      by (rule products_from_trans [OF closeSession_products [OF wf that(1)] encryptedResponse_products [OF _ that(2)]])
  qed
  have "products_from p m m' \<or> products_from p m1 m'"
    using assms Some e wf closed
    by (auto simp: Connection_handleHeartbeat_def Let_def split: if_splits sum.splits prod.splits
        dest: close_with_products encryptedResponse_products)
  with heartbeat_products [OF e, of p] show ?thesis by (auto intro: products_from_trans)
qed

lemma handleActive_products:
  assumes "manager_wf m" "Connection_handleActive ossl fb p ms t c m = Some (res, c', m')"
  shows "products_from q m m'"
  using assms
  by (auto simp: Connection_handleActive_def split: option.splits sum.splits if_splits
      dest: close_with_products handleHeartbeat_products)

lemma handle_products:
  assumes "manager_wf m" "Connection_handle ossl fb frame ms t c m w = Some (res, c', m', w')"
  shows "products_from (ls_product_id (cn_license c)) m m'"
proof (cases "cn_state c = State_AwaitingAuthorize \<or> cn_state c = State_Active")
  case False
  with assms(2) have "m' = m"
    by (cases "cn_state c") (auto simp: Connection_handle_def split: option.splits if_splits)
  then show ?thesis by simp
next
  case True
  obtain x hs where o: "ServerHandshake_open ossl frame (cn_handshake c) = (x, hs)" by fastforce
  show ?thesis
  proof (cases x)
    case (Inl e)
    with assms(2) o True have "close_with ConnectionError_InvalidFrame (c\<lparr>cn_handshake := hs\<rparr>) m = (res, c', m')"
      by (auto simp: Connection_handle_def split: prod.splits)
    with assms(1) show ?thesis by (rule close_with_products)
  next
    case (Inr opened)
    with assms(2) o True have
      "Connection_handleAuthorize ossl fb opened ms t (c\<lparr>cn_handshake := hs\<rparr>) m w = Some (res, c', m', w') \<or>
       Connection_handleActive ossl fb opened ms t (c\<lparr>cn_handshake := hs\<rparr>) m = Some (res, c', m')"
      by (auto simp: Connection_handle_def Let_def split: option.splits)
    with handleAuthorize_products [OF assms(1)] handleActive_products [OF assms(1)] show ?thesis by fastforce
  qed
qed

section \<open>The invariant\<close>

text \<open>
  Every entry of the table belongs to one connection, no two connections own the same entry, and the
  entries are of the license's product.
\<close>

definition house_inv :: "LicenseSnapshot \<Rightarrow> house \<Rightarrow> bool" where
  "house_inv license h \<longleftrightarrow> manager_wf (ho_table h) \<and>
     (\<forall>i c. ho_connections h i = Some c \<longrightarrow> conn_inv c \<and> cn_license c = license) \<and>
     (\<forall>sid. lookup_session (ho_table h) sid \<noteq> None \<longleftrightarrow> (\<exists>i c. ho_connections h i = Some c \<and> sid \<in> owned c)) \<and>
     (\<forall>i j c d sid. ho_connections h i = Some c \<longrightarrow> ho_connections h j = Some d \<longrightarrow>
        sid \<in> owned c \<longrightarrow> sid \<in> owned d \<longrightarrow> i = j) \<and>
     (\<forall>sid s. lookup_session (ho_table h) sid = Some s \<longrightarrow> ss_product_id s = ls_product_id license)"

lemma house_invD:
  assumes "house_inv license h"
  shows "manager_wf (ho_table h)"
    "ho_connections h i = Some c \<Longrightarrow> conn_inv c" "ho_connections h i = Some c \<Longrightarrow> cn_license c = license"
    "lookup_session (ho_table h) sid \<noteq> None \<longleftrightarrow> (\<exists>i c. ho_connections h i = Some c \<and> sid \<in> owned c)"
    "ho_connections h i = Some c \<Longrightarrow> ho_connections h j = Some d \<Longrightarrow> sid \<in> owned c \<Longrightarrow> sid \<in> owned d \<Longrightarrow> i = j"
    "lookup_session (ho_table h) sid = Some s \<Longrightarrow> ss_product_id s = ls_product_id license"
  using assms unfolding house_inv_def by blast+

lemma house_invI:
  assumes "manager_wf m"
    "\<And>i c. cs i = Some c \<Longrightarrow> conn_inv c \<and> cn_license c = license"
    "\<And>sid. lookup_session m sid \<noteq> None \<longleftrightarrow> (\<exists>i c. cs i = Some c \<and> sid \<in> owned c)"
    "\<And>i j c d sid. cs i = Some c \<Longrightarrow> cs j = Some d \<Longrightarrow> sid \<in> owned c \<Longrightarrow> sid \<in> owned d \<Longrightarrow> i = j"
    "\<And>sid s. lookup_session m sid = Some s \<Longrightarrow> ss_product_id s = ls_product_id license"
  shows "house_inv license \<lparr>ho_connections = cs, ho_table = m\<rparr>"
  unfolding house_inv_def house.simps using assms by blast

text \<open>One connection moves: its step on the table and the products say what becomes of the whole.\<close>

lemma house_inv_move:
  assumes inv: "house_inv license h" and c: "ho_connections h i = Some c"
    and step: "session_step c (ho_table h) c' m'" "conn_inv c'" "cn_license c' = license"
    and prod: "products_from (ls_product_id license) (ho_table h) m'"
  shows "house_inv license \<lparr>ho_connections = (ho_connections h)(i \<mapsto> c'), ho_table = m'\<rparr>"
proof -
  note D = house_invD [OF inv]
  have id: "id_step (sid \<in> owned c) (sid \<in> owned c') (lookup_session (ho_table h) sid) (lookup_session m' sid)" for sid
    using step(1) by (simp add: session_step_def)
  have fresh: "sid \<notin> owned d" if "sid \<in> owned c'" "ho_connections h j = Some d" "j \<noteq> i" for sid j d
  proof
    assume d: "sid \<in> owned d"
    then have "lookup_session (ho_table h) sid \<noteq> None" using D(4) that(2) by blast
    then have "sid \<in> owned c" using id [of sid] that(1) by (auto simp: id_step_def split: if_splits)
    with D(5) [OF c that(2) _ d] that(3) show False by simp
  qed
  have other: "(\<exists>j d. j \<noteq> i \<and> ho_connections h j = Some d \<and> sid \<in> owned d) \<longleftrightarrow>
      lookup_session (ho_table h) sid \<noteq> None \<and> sid \<notin> owned c" for sid
    unfolding D(4) using D(5) [OF c] c by (metis option.inject)
  have table: "lookup_session m' sid \<noteq> None \<longleftrightarrow>
      sid \<in> owned c' \<or> (\<exists>j d. j \<noteq> i \<and> ho_connections h j = Some d \<and> sid \<in> owned d)" for sid
    unfolding other using id [of sid] D(4) [of sid] c
    by (cases "sid \<in> owned c"; cases "sid \<in> owned c'") (auto simp: id_step_def)
  have "(\<exists>j d. ((ho_connections h)(i \<mapsto> c')) j = Some d \<and> sid \<in> owned d) \<longleftrightarrow>
      sid \<in> owned c' \<or> (\<exists>j d. j \<noteq> i \<and> ho_connections h j = Some d \<and> sid \<in> owned d)" for sid
    by auto
  with table have t: "lookup_session m' sid \<noteq> None \<longleftrightarrow>
      (\<exists>j d. ((ho_connections h)(i \<mapsto> c')) j = Some d \<and> sid \<in> owned d)" for sid by simp
  show ?thesis
  proof (rule house_invI)
    show "manager_wf m'" using step(1) by (simp add: session_step_def)
    show "conn_inv d \<and> cn_license d = license" if "((ho_connections h)(i \<mapsto> c')) j = Some d" for j d
      using that step(2,3) D(2,3) by (auto split: if_splits)
    show "lookup_session m' sid \<noteq> None \<longleftrightarrow> (\<exists>j d. ((ho_connections h)(i \<mapsto> c')) j = Some d \<and> sid \<in> owned d)" for sid
      by (rule t)
    show "j = k" if "((ho_connections h)(i \<mapsto> c')) j = Some d" "((ho_connections h)(i \<mapsto> c')) k = Some e"
        "sid \<in> owned d" "sid \<in> owned e" for j k d e sid
      using that fresh D(5) by (auto split: if_splits)
    show "ss_product_id s = ls_product_id license" if "lookup_session m' sid = Some s" for sid s
      using prod that D(6) unfolding products_from_def by fastforce
  qed
qed

lemma house_inv_arrival:
  assumes inv: "house_inv license h" and n: "ho_connections h i = None"
  shows "house_inv license (h\<lparr>ho_connections := (ho_connections h)(i \<mapsto> Connection_new kid key license peer interval timeout)\<rparr>)"
proof -
  let ?c = "Connection_new kid key license peer interval timeout"
  have c: "conn_inv ?c" "cn_license ?c = license" "owned ?c = {}"
    by (simp_all add: conn_inv_def Connection_new_def ServerHandshake_new_def owned_def)
  have "(\<exists>j d. ((ho_connections h)(i \<mapsto> ?c)) j = Some d \<and> sid \<in> owned d) \<longleftrightarrow>
      (\<exists>j d. ho_connections h j = Some d \<and> sid \<in> owned d)" for sid
    using n c(3) by (metis empty_iff fun_upd_apply option.distinct(1) option.inject)
  then show ?thesis using inv c unfolding house_inv_def by auto
qed

lemma house_inv_departure:
  assumes inv: "house_inv license h" and c: "ho_connections h i = Some c"
  shows "house_inv license \<lparr>ho_connections = (ho_connections h)(i := None), ho_table = Connection_destroy c (ho_table h)\<rparr>"
proof -
  note D = house_invD [OF inv]
  have l: "lookup_session (Connection_destroy c (ho_table h)) sid =
      (if sid \<in> owned c then None else lookup_session (ho_table h) sid)" for sid
    using destroy_releases [OF D(1)] by simp
  have "(\<exists>j d. ((ho_connections h)(i := None)) j = Some d \<and> sid \<in> owned d) \<longleftrightarrow>
      lookup_session (ho_table h) sid \<noteq> None \<and> sid \<notin> owned c" for sid
    unfolding D(4) using D(5) [OF c] c by (metis fun_upd_apply option.distinct(1) option.inject)
  moreover have "manager_wf (Connection_destroy c (ho_table h))" using destroy_releases [OF D(1)] by simp
  ultimately show ?thesis
    using inv unfolding house_inv_def by (auto simp: l split: if_splits)
qed

lemma house_step_inv:
  assumes "house_step ossl fb license h label h'" "house_inv license h"
  shows "house_inv license h'"
  using assms
proof (induction rule: house_step.induct)
  case (frame_of h i c frame ms now w res c' m' w')
  note D = house_invD [OF frame_of.prems]
  have "handled c (ho_table h) c' m'" using handle_handled [OF D(1) D(2) [OF frame_of(1)] frame_of(2)] .
  then show ?case
    using house_inv_move [OF frame_of.prems frame_of(1)] handle_products [OF D(1) frame_of(2)] D(3) [OF frame_of(1)]
    by (simp add: handled_def)
qed (auto intro: house_inv_arrival house_inv_departure)

lemma house_history_inv: "house_history ossl fb license labels h \<Longrightarrow> house_inv license h"
proof (induction rule: house_history.induct)
  case house_open
  show ?case
    using wf_new by (simp add: house_inv_def lookup_session_map_of SessionManager_new_def)
next
  case (house_next labels h label h')
  then show ?case by (auto intro: house_step_inv)
qed

section \<open>Seats and entries\<close>

text \<open>An active connection and its entry of the table determine each other.\<close>

lemma seated_entries:
  assumes "house_inv license h"
  shows "bij_betw (\<lambda>i. ss_id (the (cn_session (the (ho_connections h i))))) (seated h) (dom (lookup_session (ho_table h)))"
proof -
  note D = house_invD [OF assms]
  let ?f = "\<lambda>i. ss_id (the (cn_session (the (ho_connections h i))))"
  have own: "owned c = {?f i} \<and> i \<in> seated h \<or> owned c = {} \<and> i \<notin> seated h" if "ho_connections h i = Some c" for i c
    using D(2) [OF that] that
    by (cases "cn_session c") (auto simp: conn_inv_def owned_def seated_def)
  have "inj_on ?f (seated h)"
  proof (rule inj_onI)
    fix i j
    assume s: "i \<in> seated h" "j \<in> seated h" "?f i = ?f j"
    then obtain c d where "ho_connections h i = Some c" "ho_connections h j = Some d" by (auto simp: seated_def)
    with s own D(5) show "i = j" by (metis insertI1)
  qed
  moreover have "?f ` seated h = dom (lookup_session (ho_table h))"
  proof (intro equalityI subsetI)
    fix sid
    assume "sid \<in> ?f ` seated h"
    then obtain i c where "sid = ?f i" "i \<in> seated h" "ho_connections h i = Some c" by (auto simp: seated_def)
    moreover from this own [of i c] have "sid \<in> owned c" by blast
    ultimately show "sid \<in> dom (lookup_session (ho_table h))" using D(4) [of sid] by blast
  next
    fix sid
    assume "sid \<in> dom (lookup_session (ho_table h))"
    then obtain i c where "ho_connections h i = Some c" "sid \<in> owned c" using D(4) [of sid] by auto
    with own [of i c] have "i \<in> seated h" "sid = ?f i" by auto
    then show "sid \<in> ?f ` seated h" by blast
  qed
  ultimately show ?thesis by (simp add: bij_betw_def)
qed

lemma seated_count:
  assumes "house_inv license h"
  shows "card (seated h) = SessionManager_size (ho_table h)"
    "card (seated h) = active_sessions (ls_product_id license) (sm_sessions (ho_table h))"
proof -
  note D = house_invD [OF assms]
  have "ids_where (\<lambda>s. ss_product_id s = ls_product_id license) (lookup_session (ho_table h)) = dom (lookup_session (ho_table h))"
    using D(6) by (auto simp: ids_where_def)
  then show "card (seated h) = SessionManager_size (ho_table h)"
    "card (seated h) = active_sessions (ls_product_id license) (sm_sessions (ho_table h))"
    using bij_betw_same_card [OF seated_entries [OF assms]]
    by (simp_all add: size_card [OF D(1)] active_sessions_card [OF D(1)])
qed

section \<open>The refinement\<close>

lemma seated_upd:
  "seated \<lparr>ho_connections = (ho_connections h)(i \<mapsto> c'), ho_table = m'\<rparr> =
     (if cn_state c' = State_Active then insert i (seated h) else seated h - {i})"
  "seated \<lparr>ho_connections = (ho_connections h)(i := None), ho_table = m'\<rparr> = seated h - {i}"
  by (auto simp: seated_def)

lemma frame_takes_seat:
  assumes inv: "house_inv license h" and c: "ho_connections h i = Some c"
    and h: "Connection_handle ossl fb frame ms now c (ho_table h) w = Some (res, c', m', w')"
  shows "seat_step license (seated h) (Frame_of i now) (seated \<lparr>ho_connections = (ho_connections h)(i \<mapsto> c'), ho_table = m'\<rparr>)"
proof -
  note D = house_invD [OF inv]
  have i: "i \<in> seated h \<longleftrightarrow> cn_state c = State_Active" using c by (simp add: seated_def)
  show ?thesis
  proof (cases "cn_state c' = State_Active")
    case False
    then show ?thesis by (simp add: seated_upd seat_lost)
  next
    case active: True
    show ?thesis
    proof (cases "cn_state c = State_Active")
      case True
      then obtain s where "cn_session c = Some s" using D(2) [OF c] by (auto simp: conn_inv_def)
      from expired_closes [OF D(2) [OF c] D(1) True this _ h] active have "\<not> license_expired license now"
        using D(3) [OF c] by auto
      with i True active show ?thesis by (simp add: seated_upd insert_absorb seat_kept)
    next
      case False
      from becomes_active [OF D(1) False h active] obtain session where
        e: "\<not> license_expired license now" and
        k: "SessionManager_create ossl (ls_product_id license) (cn_peer_identity c) (ls_features license)
          (ls_expire_time license) ms (ls_max_sessions license) (ho_table h) w = Some (Inr session, m', w')"
        using D(3) [OF c] by metis
      have "card (seated h) < unat (ls_max_sessions license)"
        using create_ok(3) [OF k] seated_count(2) [OF inv] by simp
      with e i False active show ?thesis by (simp add: seated_upd seat_taken)
    qed
  qed
qed

lemma house_step_refines:
  assumes "house_step ossl fb license h label h'" "house_inv license h"
  shows "seat_step license (seated h) label (seated h')"
  using assms
proof (induction rule: house_step.induct)
  case (arrival h i c kid key peer interval timeout)
  then have "i \<notin> seated h" "seated (h\<lparr>ho_connections := (ho_connections h)(i \<mapsto> c)\<rparr>) = seated h"
    by (auto simp: seated_def Connection_new_def)
  then show ?case by (simp add: seat_arrival)
next
  case (frame_of h i c frame ms now w res c' m' w')
  then show ?case by (intro frame_takes_seat)
next
  case (departure h i c)
  show ?case unfolding seated_upd by (rule seat_departure)
qed

lemma house_refines:
  assumes "house_history ossl fb license labels h"
  shows "seat_history license labels (seated h)"
  using assms
proof (induction rule: house_history.induct)
  case house_open
  have "seated \<lparr>ho_connections = Map.empty, ho_table = SessionManager_new\<rparr> = {}" by (simp add: seated_def)
  then show ?case by (simp add: seats_empty)
next
  case (house_next labels h label h')
  then show ?case using house_step_refines [OF _ house_history_inv] by (blast intro: seats_next)
qed

text \<open>
  C10.  Any number of connections over one table implement a room with the license's number of seats: every
  history of arrivals, frames in any order and departures is a history of the room, in which the
  connections that are active are the ones seated.  So a seat is taken only by a frame that comes
  before the license expires and while one is free, a frame that comes after it never leaves its sender
  seated, and one connection's frames never move another.
\<close>

theorem connections_refine_seats:
  assumes "house_history ossl fb license labels h"
  shows "seat_history license labels (seated h)"
  using assms by (rule house_refines)

text \<open>
  C11.  However the frames of the peers interleave, the session table is exactly what the active
  connections hold: as many entries as there are active connections, at most the number the license
  allows; each active connection's session is in the table, and two of them never share one.
\<close>

theorem table_is_the_active_connections:
  assumes "house_history ossl fb license labels h"
  shows "SessionManager_size (ho_table h) = card (seated h) \<and> card (seated h) \<le> unat (ls_max_sessions license) \<and>
    bij_betw (\<lambda>i. ss_id (the (cn_session (the (ho_connections h i))))) (seated h) (dom (lookup_session (ho_table h)))"
proof -
  have inv: "house_inv license h" by (rule house_history_inv [OF assms])
  show ?thesis
    using seat_history_bound [OF house_refines [OF assms]] seated_count(1) [OF inv] seated_entries [OF inv] by simp
qed

end
