(* ===== verification/Connection_Witnesses.thy ===== *)
theory Connection_Witnesses
  imports Protocol_Witnesses Seats
begin

text \<open>
  A conversation between a client and a connection of the service on the sample providers: hello,
  finished, authorize and a heartbeat, so that the properties of a connection apply to an active one.
\<close>

definition talk_table :: "Envelope list" where
  "talk_table = sample_table @
     [\<lparr>env_protocol_version = 1, env_request_id = 8, env_body = Message_Authorize (Some
        \<lparr>azt_product_id = Some ''p'', azt_process_id = 1, azt_process_start_time = 2\<rparr>)\<rparr>,
      \<lparr>env_protocol_version = 1, env_request_id = 8, env_body = Message_AuthResult (Some
        \<lparr>art_error = 0, art_session_id = Some (replicate 16 4), art_features = Some [Some ''f''],
         art_expire_time = 200, art_heartbeat_interval_ms = 5000, art_heartbeat_timeout_ms = 15000\<rparr>)\<rparr>,
      \<lparr>env_protocol_version = 1, env_request_id = 9, env_body = Message_Heartbeat (Some
        \<lparr>hbt_session_id = Some (replicate 16 4)\<rparr>)\<rparr>,
      \<lparr>env_protocol_version = 1, env_request_id = 9, env_body = Message_HeartbeatAck (Some
        \<lparr>hat_state = 1, hat_features = Some [Some ''f''], hat_expire_time = 200\<rparr>)\<rparr>]"

definition talk_codec :: flatbuffers where
  "talk_codec = sample_fb talk_table"

lemma talk_codec_ok [simp]: "fb_codec talk_codec"
  unfolding talk_codec_def by (rule sample_fb_codec) (simp add: talk_table_def sample_table_def)

definition talk_license :: LicenseSnapshot where
  "talk_license = \<lparr>ls_license_id = ''L1'', ls_product_id = ''p'', ls_customer_id = ''c'',
     ls_issue_time = 100, ls_not_before = 100, ls_expire_time = 200,
     ls_type = LicenseType_Subscription, ls_features = [''f''], ls_max_sessions = 2,
     ls_machine_mode = MachineMode_Unbound, ls_machine_id = []\<rparr>"

definition talk_connection :: Connection where
  "talk_connection = Connection_new ''svc'' (replicate 32 9) talk_license ''peer'' 5000 15000"

text \<open>
  The frames of the client after its hello, and the states of the connection after each frame.
\<close>

definition talk_frame :: "u8 \<Rightarrow> nat \<Rightarrow> bytes" where
  "talk_frame sequence i =
     [89, 65, 76, 49, 0, 1, 0, 1, 0, 0, 0, 0, 0, 0, 0, sequence, 0, 0, 0, 25] @ sample_buffer i @ replicate 16 73"

definition talk_key :: RecordKey where
  "talk_key = \<lparr>rk_key = replicate 32 32, rk_nonce_salt = replicate 4 32\<rparr>"

definition talk_server :: "u64 \<Rightarrow> u64 \<Rightarrow> HandshakeState \<Rightarrow> ServerHandshake" where
  "talk_server write read state = \<lparr>sv_service_key_id = ''svc'', sv_identity_private_key = replicate 32 0,
     sv_min_version = 1, sv_max_version = 1, sv_selected_version = 1, sv_request_id = 7,
     sv_transcript_hash = replicate 32 171,
     sv_writer = Some \<lparr>rw_key = talk_key, rw_next_sequence = write\<rparr>,
     sv_reader = Some \<lparr>rr_key = talk_key, rr_next_sequence = read\<rparr>, sv_state = state\<rparr>"

definition talk_session :: Session where
  "talk_session = \<lparr>ss_id = replicate 16 4, ss_product_id = ''p'', ss_peer_identity = ''peer'',
     ss_features = [''f''], ss_expire_time = 200, ss_last_heartbeat_ms = 10\<rparr>"

definition talk_manager :: SessionManager where
  "talk_manager = \<lparr>sm_sessions = [(replicate 16 4, talk_session)]\<rparr>"

definition talk1 :: Connection where
  "talk1 = talk_connection\<lparr>cn_handshake := talk_server 1 1 HandshakeState_AwaitingFinished,
     cn_state := State_AwaitingFinished\<rparr>"

definition talk2 :: Connection where
  "talk2 = talk_connection\<lparr>cn_handshake := talk_server 1 2 HandshakeState_Established,
     cn_state := State_AwaitingAuthorize\<rparr>"

definition talk3 :: Connection where
  "talk3 = talk_connection\<lparr>cn_handshake := talk_server 2 3 HandshakeState_Established,
     cn_session := Some talk_session, cn_state := State_Active\<rparr>"

lemma talk_step1:
  "Connection_handle sample_openssl talk_codec (wrapPlaintext (sample_buffer 0)) 5 150 talk_connection
     SessionManager_new 2
   = Some (\<lparr>cr_error = ConnectionError_None, cr_response = Some (wrapPlaintext (sample_buffer 1)),
            cr_closed = False\<rparr>, talk1, SessionManager_new, 4)"
  by code_simp

lemma talk_step2:
  "Connection_handle sample_openssl talk_codec (talk_frame 1 2) 6 150 talk1 SessionManager_new 4
   = Some (\<lparr>cr_error = ConnectionError_None, cr_response = None, cr_closed = False\<rparr>,
           talk2, SessionManager_new, 4)"
  by code_simp

definition talk_request :: AuthorizeMessage where
  "talk_request = \<lparr>azm_request_id = 8, azm_protocol_version = 1, azm_product_id = ''p'',
     azm_process_id = 1, azm_process_start_time = 2\<rparr>"

definition talk_result :: AuthResultMessage where
  "talk_result = \<lparr>arm_request_id = 8, arm_protocol_version = 1, arm_error = AuthorizationError_None,
     arm_session_id = Some (replicate 16 4), arm_features = [''f''], arm_expire_time = 200,
     arm_heartbeat_interval_ms = 5000, arm_heartbeat_timeout_ms = 15000\<rparr>"

lemma talk_create:
  "SessionManager_create sample_openssl ''p'' ''peer'' [''f''] 200 10 2 SessionManager_new 4
     = Some (Inr talk_session, talk_manager, 5)"
  by (subst SessionManager_create_def, subst drawSessionId.simps)
     (simp add: SessionManager_new_def active_sessions_def randomBytes_def validSize_def INT_MAX_def
       sample_openssl_def sample_openssl_on_def talk_session_def talk_manager_def Let_def)

lemma talk_authorize:
  "Connection_authorize sample_openssl talk_request 10 150
     (talk2\<lparr>cn_handshake := talk_server 1 3 HandshakeState_Established\<rparr>) SessionManager_new 4
   = Some (talk_result, ConnectionError_None,
       talk3\<lparr>cn_handshake := talk_server 1 3 HandshakeState_Established\<rparr>, talk_manager, 5)"
  using talk_create
  by (simp add: Connection_authorize_def Let_def talk2_def talk3_def talk_connection_def
      Connection_new_def talk_license_def license_expired_def talk_request_def talk_result_def
      talk_server_def talk_session_def)

lemma talk_records:
  "ServerHandshake_open sample_openssl (talk_frame 2 3) (talk_server 1 2 HandshakeState_Established)
     = (Inr (sample_buffer 3), talk_server 1 3 HandshakeState_Established)"
  "decodeAuthorize talk_codec (sample_buffer 3) = Some (Inr talk_request)"
  "encodeAuthResult talk_codec talk_result = Inr (sample_buffer 4)"
  "ServerHandshake_seal sample_openssl (sample_buffer 4) (talk_server 1 3 HandshakeState_Established)
     = (Inr (talk_frame 1 4), talk_server 2 3 HandshakeState_Established)"
  by code_simp+

lemma talk_step3:
  "Connection_handle sample_openssl talk_codec (talk_frame 2 3) 10 150 talk2 SessionManager_new 4
   = Some (\<lparr>cr_error = ConnectionError_None, cr_response = Some (talk_frame 1 4), cr_closed = False\<rparr>,
           talk3, talk_manager, 5)"
proof -
  have h: "cn_handshake talk2 = talk_server 1 2 HandshakeState_Established"
    "cn_state talk2 = State_AwaitingAuthorize" "azm_protocol_version talk_request = 1"
    "sv_selected_version (talk_server 1 3 HandshakeState_Established) = 1"
    by (simp_all add: talk2_def talk_request_def talk_server_def)
  have "Connection_encryptedResponse sample_openssl (sample_buffer 4) False
      (talk3\<lparr>cn_handshake := talk_server 1 3 HandshakeState_Established\<rparr>) talk_manager
    = (\<lparr>cr_error = ConnectionError_None, cr_response = Some (talk_frame 1 4), cr_closed = False\<rparr>,
       talk3, talk_manager)"
    using talk_records(4) by (simp add: Connection_encryptedResponse_def talk3_def)
  then show ?thesis
    using talk_authorize talk_records
    by (simp add: Connection_handle_def Connection_handleAuthorize_def h Let_def)
qed

lemma talk_heartbeat:
  "ServerHandshake_open sample_openssl (talk_frame 3 5) (talk_server 2 3 HandshakeState_Established)
     = (Inr (sample_buffer 5), talk_server 2 4 HandshakeState_Established)"
  "decodeHeartbeat talk_codec (sample_buffer 5)
     = Some (Inr \<lparr>hbm_request_id = 9, hbm_protocol_version = 1, hbm_session_id = replicate 16 4\<rparr>)"
  by code_simp+

lemma talk_step4:
  "\<exists>res c' m' w'. Connection_handle sample_openssl talk_codec (talk_frame 3 5) 20 200 talk3 talk_manager 5
     = Some (res, c', m', w')"
proof -
  have "cn_handshake talk3 = talk_server 2 3 HandshakeState_Established" "cn_state talk3 = State_Active"
    by (simp_all add: talk3_def)
  then show ?thesis
    using talk_heartbeat
    by (simp add: Connection_handle_def Connection_handleActive_def Let_def split: prod.splits)
qed

lemma talk_reachable:
  "conn_reachable sample_openssl talk_codec talk2 SessionManager_new"
  "conn_reachable sample_openssl talk_codec talk3 talk_manager"
proof -
  have "conn_reachable sample_openssl talk_codec talk_connection SessionManager_new"
    unfolding talk_connection_def by (rule conn_start [OF wf_new])
  from conn_frame [OF conn_frame [OF this talk_step1] talk_step2]
  show "conn_reachable sample_openssl talk_codec talk2 SessionManager_new" .
  from conn_frame [OF this talk_step3]
  show "conn_reachable sample_openssl talk_codec talk3 talk_manager" .
qed

lemma connection_owns_its_session_instance:
  "conn_inv talk3 \<and> lookup_session SessionManager_new (replicate 16 4) = None \<and>
   lookup_session talk_manager (replicate 16 4) \<noteq> None"
  using connection_owns_its_session [OF talk_reachable(1) talk_step3]
  by (auto simp: owned_def talk2_def talk3_def talk_connection_def Connection_new_def talk_session_def)

theorem access_granted_only_within_license_witness:
  "\<exists>plaintext hs. ServerHandshake_open sample_openssl (talk_frame 2 3) (cn_handshake talk2)
     = (Inr plaintext, hs)"
  using access_granted_only_within_license [OF talk_reachable(1) _ talk_step3]
  by (auto simp: talk2_def talk3_def)

lemma expired_license_closes_instance:
  "\<exists>res c' m' w'. Connection_handle sample_openssl talk_codec (talk_frame 3 5) 20 200 talk3 talk_manager 5
     = Some (res, c', m', w') \<and> cn_state c' = State_Closed \<and> lookup_session m' (replicate 16 4) = None"
proof -
  obtain res c' m' w' where h: "Connection_handle sample_openssl talk_codec (talk_frame 3 5) 20 200
      talk3 talk_manager 5 = Some (res, c', m', w')" using talk_step4 by blast
  have "cn_state talk3 = State_Active" "cn_session talk3 = Some talk_session"
    "license_expired (cn_license talk3) 200" "ss_id talk_session = replicate 16 4"
    by (simp_all add: talk3_def talk_connection_def Connection_new_def talk_license_def
        license_expired_def talk_session_def)
  with expired_license_closes [OF talk_reachable(2) this(1-3) h] h show ?thesis by auto
qed

text \<open>Two connections share the table; the first goes through the conversation, the second only arrives.\<close>

definition talk_house :: house where
  "talk_house = \<lparr>ho_connections = [0 \<mapsto> talk3, 1 \<mapsto> talk_connection], ho_table = talk_manager\<rparr>"

definition talk_labels :: "house_label list" where
  "talk_labels = [Arrival 0, Arrival 1, Frame_of 0 150, Frame_of 0 150, Frame_of 0 150]"

lemma talk_history: "house_history sample_openssl talk_codec talk_license talk_labels talk_house"
proof -
  let ?h = "\<lambda>c m. \<lparr>ho_connections = [0 \<mapsto> c, 1 \<mapsto> talk_connection], ho_table = m\<rparr>"
  have frame: "house_step sample_openssl talk_codec talk_license (?h c m) (Frame_of 0 150) (?h c' m')"
    if "Connection_handle sample_openssl talk_codec frame ms 150 c m w = Some (res, c', m', w')" for frame ms c m w res c' m' w'
    using frame_of [of "?h c m" 0 c sample_openssl talk_codec frame ms 150 w res c' m' w' talk_license] that
    by (simp add: fun_upd_twist)
  have "house_history sample_openssl talk_codec talk_license [Arrival 0]
      \<lparr>ho_connections = [0 \<mapsto> talk_connection], ho_table = SessionManager_new\<rparr>"
    using house_next [OF house_open arrival [OF _ refl]] by (simp add: talk_connection_def)
  from house_next [OF this arrival [OF _ refl, where i = 1]]
  have "house_history sample_openssl talk_codec talk_license [Arrival 0, Arrival 1] (?h talk_connection SessionManager_new)"
    by (simp add: talk_connection_def)
  from house_next [OF house_next [OF house_next [OF this frame [OF talk_step1]] frame [OF talk_step2]] frame [OF talk_step3]]
  show ?thesis by (simp add: talk_labels_def talk_house_def)
qed

lemma talk_seated: "seated talk_house = {0}"
  by (auto simp: seated_def talk_house_def talk3_def talk_connection_def Connection_new_def split: if_splits)

theorem connections_refine_seats_witness: "seat_history talk_license talk_labels {0}"
  using connections_refine_seats [OF talk_history] by (simp add: talk_seated)

theorem table_is_the_active_connections_witness:
  "SessionManager_size talk_manager = 1 \<and> (\<exists>s. dom (lookup_session talk_manager) = {s})"
proof -
  have "ho_table talk_house = talk_manager" by (simp add: talk_house_def)
  with table_is_the_active_connections [OF talk_history] show ?thesis
    by (auto simp: talk_seated bij_betw_def)
qed

end
