(* ===== verification/UnixSocket.thy ===== *)
theory UnixSocket
  imports Posix
begin

text \<open>
  The transport, \<^verbatim>\<open>src/src/ya_license_transport/src/unix_socket.cpp\<close>: the client side and the
  accepted side of a stream socket, and the listener.  The system calls are a parameter \<open>so\<close>, a
  record of functions on a state \<open>'w\<close> of the outside world; descriptors are integers, negative where
  the code keeps \<open>-1\<close>, and a failed call gives the value of \<^verbatim>\<open>errno\<close>.  What another
  thread does reaches an operation through its calls: a concurrent \<^verbatim>\<open>close\<close> makes the
  cancellation descriptor readable.  Loops that wait are partial: \<open>None\<close> is a call that never returns.
\<close>

section \<open>Data\<close>

datatype StatusCode =
    StatusCode_Ok
  | StatusCode_Timeout
  | StatusCode_EndOfFile
  | StatusCode_Canceled
  | StatusCode_InvalidArgument
  | StatusCode_SystemError

record TransportStatus =
  ts_code :: StatusCode
  ts_system_error :: nat

text \<open>A point of the steady clock in nanoseconds; \<open>None\<close> is \<^verbatim>\<open>Deadline::max()\<close>.\<close>

type_synonym Deadline = "int option"

definition noDeadline :: Deadline where "noDeadline = None"

definition status_success :: TransportStatus where
  "status_success = \<lparr>ts_code = StatusCode_Ok, ts_system_error = 0\<rparr>"

definition status_of :: "StatusCode \<Rightarrow> TransportStatus" where
  "status_of code = \<lparr>ts_code = code, ts_system_error = 0\<rparr>"

record PeerCredentials =
  pc_pid :: int
  pc_uid :: u32
  pc_gid :: u32

record sockaddr_un =
  sun_path :: string
  sun_length :: nat

record lstat_info =
  lst_socket :: bool
  lst_dev :: nat
  lst_ino :: nat

record 'w socket_calls =
  so_eventfd :: "'w \<Rightarrow> int \<times> 'w"
  so_signal :: "int \<Rightarrow> 'w \<Rightarrow> nat option \<times> 'w"
  so_now :: "'w \<Rightarrow> int \<times> 'w"
  so_poll :: "int \<Rightarrow> u16 \<Rightarrow> int \<Rightarrow> u16 \<Rightarrow> int \<Rightarrow> 'w \<Rightarrow> (nat + nat \<times> u16 \<times> u16) \<times> 'w"
  so_dup :: "int \<Rightarrow> 'w \<Rightarrow> (nat + int) \<times> 'w"
  so_close :: "int \<Rightarrow> 'w \<Rightarrow> 'w"
  so_shutdown :: "int \<Rightarrow> 'w \<Rightarrow> 'w"
  so_lstat :: "string \<Rightarrow> 'w \<Rightarrow> (nat + lstat_info) \<times> 'w"
  so_unlink :: "string \<Rightarrow> 'w \<Rightarrow> nat option \<times> 'w"
  so_socket :: "'w \<Rightarrow> (nat + int) \<times> 'w"
  so_connect :: "int \<Rightarrow> sockaddr_un \<Rightarrow> 'w \<Rightarrow> nat option \<times> 'w"
  so_error :: "int \<Rightarrow> 'w \<Rightarrow> (nat + nat) \<times> 'w"
  so_peercred :: "int \<Rightarrow> 'w \<Rightarrow> (nat + PeerCredentials) \<times> 'w"
  so_recv :: "int \<Rightarrow> nat \<Rightarrow> 'w \<Rightarrow> (nat + bytes) \<times> 'w"
  so_send :: "int \<Rightarrow> bytes \<Rightarrow> 'w \<Rightarrow> (nat + nat) \<times> 'w"
  so_umask :: "u32 \<Rightarrow> 'w \<Rightarrow> u32 \<times> 'w"
  so_bind :: "int \<Rightarrow> sockaddr_un \<Rightarrow> 'w \<Rightarrow> nat option \<times> 'w"
  so_chmod :: "string \<Rightarrow> u32 \<Rightarrow> 'w \<Rightarrow> nat option \<times> 'w"
  so_listen :: "int \<Rightarrow> int \<Rightarrow> 'w \<Rightarrow> nat option \<times> 'w"
  so_accept :: "int \<Rightarrow> 'w \<Rightarrow> (nat + int) \<times> 'w"

abbreviation (input) EAGAIN :: nat where "EAGAIN \<equiv> 11"
abbreviation (input) EEXIST :: nat where "EEXIST \<equiv> 17"
abbreviation (input) EMFILE :: nat where "EMFILE \<equiv> 24"
abbreviation (input) EADDRINUSE :: nat where "EADDRINUSE \<equiv> 98"
abbreviation (input) EISCONN :: nat where "EISCONN \<equiv> 106"
abbreviation (input) ECONNREFUSED :: nat where "ECONNREFUSED \<equiv> 111"
abbreviation (input) EALREADY :: nat where "EALREADY \<equiv> 114"
abbreviation (input) EINPROGRESS :: nat where "EINPROGRESS \<equiv> 115"
abbreviation (input) ENOENT_socket :: nat where "ENOENT_socket \<equiv> 2"
abbreviation (input) POLLIN :: u16 where "POLLIN \<equiv> 1"
abbreviation (input) POLLOUT :: u16 where "POLLOUT \<equiv> 4"

definition POLL_FAILURE :: u16 where
  "POLL_FAILURE = 8 OR 16 OR 32"

section \<open>Helpers\<close>

definition systemError :: "nat \<Rightarrow> TransportStatus" where
  "systemError e = \<lparr>ts_code = StatusCode_SystemError, ts_system_error = e\<rparr>"

definition invalidArgument :: TransportStatus where
  "invalidArgument = status_of StatusCode_InvalidArgument"

text \<open>\<^verbatim>\<open>write\<close> on the event descriptor, repeated while it is interrupted.\<close>

partial_function (option) signalCancel :: "'w socket_calls \<Rightarrow> int \<Rightarrow> 'w \<Rightarrow> 'w option" where
  "signalCancel so fd w =
     (if fd < 0 then Some w
      else case so_signal so fd w of
             (Some e, w) \<Rightarrow> if e = EINTR then signalCancel so fd w else Some w
           | (None, w) \<Rightarrow> Some w)"

text \<open>The path has 108 bytes in the address and is followed by a zero byte.\<close>

definition makeAddress :: "string \<Rightarrow> TransportStatus + sockaddr_un" where
  "makeAddress path =
     (if path = [] \<or> length path \<ge> 108 then Inl invalidArgument
      else Inr \<lparr>sun_path = path, sun_length = 2 + length path + 1\<rparr>)"

definition timeoutMilliseconds :: "'w socket_calls \<Rightarrow> Deadline \<Rightarrow> 'w \<Rightarrow> int \<times> 'w" where
  "timeoutMilliseconds so deadline w =
     (case deadline of
        None \<Rightarrow> (-1, w)
      | Some d \<Rightarrow>
          (case so_now so w of
             (now, w) \<Rightarrow>
               let remaining = d - now
               in if remaining \<le> 0 then (0, w)
                  else let milliseconds = (remaining + 999999) div 1000000
                       in (if milliseconds > 2147483647 then 2147483647 else milliseconds, w)))"

partial_function (option) waitFor ::
  "'w socket_calls \<Rightarrow> int \<Rightarrow> int \<Rightarrow> u16 \<Rightarrow> Deadline \<Rightarrow> 'w \<Rightarrow> (TransportStatus \<times> 'w) option" where
  "waitFor so fd cancel_fd events deadline w =
     (case timeoutMilliseconds so deadline w of
        (timeout, w) \<Rightarrow>
          (case so_poll so fd events cancel_fd POLLIN timeout w of
             (Inl errno, w) \<Rightarrow> if errno = EINTR then waitFor so fd cancel_fd events deadline w
                               else Some (systemError errno, w)
           | (Inr (result, revents0, revents1), w) \<Rightarrow>
               if result = 0 then Some (status_of StatusCode_Timeout, w)
               else if revents1 AND POLLIN \<noteq> 0 then Some (status_of StatusCode_Canceled, w)
               else if revents0 AND (events OR POLL_FAILURE) \<noteq> 0 then Some (status_success, w)
               else waitFor so fd cancel_fd events deadline w))"

partial_function (option) duplicateFd :: "'w socket_calls \<Rightarrow> int \<Rightarrow> 'w \<Rightarrow> ((nat + int) \<times> 'w) option" where
  "duplicateFd so fd w =
     (case so_dup so fd w of
        (Inl errno, w) \<Rightarrow> if errno = EINTR then duplicateFd so fd w else Some (Inl errno, w)
      | (Inr duplicate, w) \<Rightarrow> Some (Inr duplicate, w))"

definition closeFd :: "'w socket_calls \<Rightarrow> int \<Rightarrow> 'w \<Rightarrow> 'w" where
  "closeFd so fd w = (if fd \<ge> 0 then so_close so fd w else w)"

partial_function (option) connect_retry ::
  "'w socket_calls \<Rightarrow> int \<Rightarrow> sockaddr_un \<Rightarrow> 'w \<Rightarrow> (nat option \<times> 'w) option" where
  "connect_retry so fd address w =
     (case so_connect so fd address w of
        (Some errno, w) \<Rightarrow> if errno = EINTR then connect_retry so fd address w else Some (Some errno, w)
      | (None, w) \<Rightarrow> Some (None, w))"

definition removeStaleSocket :: "'w socket_calls \<Rightarrow> string \<Rightarrow> 'w \<Rightarrow> (TransportStatus \<times> 'w) option" where
  "removeStaleSocket so path w =
     (case so_lstat so path w of
        (Inl errno, w) \<Rightarrow> Some (if errno = ENOENT_socket then status_success else systemError errno, w)
      | (Inr metadata, w) \<Rightarrow>
          if \<not> lst_socket metadata then Some (systemError EEXIST, w)
          else (case makeAddress path of
            Inl status \<Rightarrow> Some (status, w)
          | Inr address \<Rightarrow>
              (case so_socket so w of
                 (Inl errno, w) \<Rightarrow> Some (systemError errno, w)
               | (Inr probe, w) \<Rightarrow>
                   (case connect_retry so probe address w of
                      None \<Rightarrow> None
                    | Some (result, w) \<Rightarrow>
                        let w = closeFd so probe w
                        in if result = None \<or> result \<in> {Some EINPROGRESS, Some EAGAIN, Some EALREADY}
                           then Some (systemError EADDRINUSE, w)
                           else if result = Some ENOENT_socket then Some (status_success, w)
                           else if result \<noteq> Some ECONNREFUSED then Some (systemError (the result), w)
                           else (case so_lstat so path w of
                              (Inl errno, w) \<Rightarrow>
                                Some (if errno = ENOENT_socket then status_success else systemError errno, w)
                            | (Inr current, w) \<Rightarrow>
                                if \<not> lst_socket current \<or> lst_dev current \<noteq> lst_dev metadata
                                   \<or> lst_ino current \<noteq> lst_ino metadata
                                then Some (systemError EAGAIN, w)
                                else (case so_unlink so path w of
                                        (None, w) \<Rightarrow> Some (status_success, w)
                                      | (Some errno, w) \<Rightarrow> Some (systemError errno, w)))))))"

section \<open>The stream socket\<close>

record UnixSocketTransport =
  us_path :: string
  us_fd :: int
  us_cancel_fd :: int
  us_canceled :: bool

definition UnixSocketTransport_new :: "'w socket_calls \<Rightarrow> string \<Rightarrow> 'w \<Rightarrow> UnixSocketTransport \<times> 'w" where
  "UnixSocketTransport_new so path w =
     (case so_eventfd so w of
        (cancel_fd, w) \<Rightarrow>
          (\<lparr>us_path = path, us_fd = -1, us_cancel_fd = cancel_fd, us_canceled = False\<rparr>, w))"

definition UnixSocketTransport_accepted :: "'w socket_calls \<Rightarrow> int \<Rightarrow> 'w \<Rightarrow> UnixSocketTransport \<times> 'w" where
  "UnixSocketTransport_accepted so fd w =
     (case so_eventfd so w of
        (cancel_fd, w) \<Rightarrow>
          (\<lparr>us_path = [], us_fd = fd, us_cancel_fd = cancel_fd, us_canceled = False\<rparr>, w))"

text \<open>A duplicate of the descriptor for one operation: \<open>Inl\<close> where there is none, with \<^verbatim>\<open>errno\<close>.\<close>

definition operationFd :: "'w socket_calls \<Rightarrow> int \<Rightarrow> 'w \<Rightarrow> ((nat + int) \<times> 'w) option" where
  "operationFd so fd w = (if fd < 0 then Some (Inl 0, w) else duplicateFd so fd w)"

definition resetSocket :: "'w socket_calls \<Rightarrow> UnixSocketTransport \<Rightarrow> 'w \<Rightarrow> UnixSocketTransport \<times> 'w" where
  "resetSocket so t w =
     (t\<lparr>us_fd := -1\<rparr>, if us_fd t \<ge> 0 then closeFd so (us_fd t) (so_shutdown so (us_fd t) w) else w)"

definition canceled_or_success :: "UnixSocketTransport \<Rightarrow> TransportStatus" where
  "canceled_or_success t = (if us_canceled t then status_of StatusCode_Canceled else status_success)"

text \<open>
  \<^verbatim>\<open>connect\<close> after the call of \<^verbatim>\<open>::connect\<close> on the duplicate \<open>op\<close>; the duplicate is closed when
  the routine returns.
\<close>

definition finish_connect ::
  "'w socket_calls \<Rightarrow> Deadline \<Rightarrow> int \<Rightarrow> nat option \<Rightarrow> UnixSocketTransport \<Rightarrow> 'w \<Rightarrow>
     (TransportStatus \<times> UnixSocketTransport \<times> 'w) option" where
  "finish_connect so deadline op result t w =
     (case result of
        None \<Rightarrow> Some (canceled_or_success t, t, closeFd so op w)
      | Some errno \<Rightarrow>
          if errno \<noteq> EINPROGRESS
          then (case resetSocket so t w of (t, w) \<Rightarrow> Some (systemError errno, t, closeFd so op w))
          else (case waitFor so op (us_cancel_fd t) POLLOUT deadline w of
             None \<Rightarrow> None
           | Some (status, w) \<Rightarrow>
               if ts_code status \<noteq> StatusCode_Ok
               then if ts_code status \<noteq> StatusCode_Canceled
                    then (case resetSocket so t w of (t, w) \<Rightarrow> Some (status, t, closeFd so op w))
                    else Some (status, t, closeFd so op w)
               else (case so_error so op w of
                  (Inl errno, w) \<Rightarrow>
                    (case resetSocket so t w of (t, w) \<Rightarrow> Some (systemError errno, t, closeFd so op w))
                | (Inr socket_error, w) \<Rightarrow>
                    if socket_error \<noteq> 0
                    then (case resetSocket so t w of
                            (t, w) \<Rightarrow> Some (systemError socket_error, t, closeFd so op w))
                    else Some (canceled_or_success t, t, closeFd so op w))))"

definition UnixSocketTransport_connect ::
  "'w socket_calls \<Rightarrow> Deadline \<Rightarrow> UnixSocketTransport \<Rightarrow> 'w \<Rightarrow>
     (TransportStatus \<times> UnixSocketTransport \<times> 'w) option" where
  "UnixSocketTransport_connect so deadline t w =
     (if us_cancel_fd t < 0 then Some (systemError EMFILE, t, w)
      else case makeAddress (us_path t) of
        Inl status \<Rightarrow> Some (status, t, w)
      | Inr address \<Rightarrow>
          (case so_socket so w of
             (Inl errno, w) \<Rightarrow> Some (systemError errno, t, w)
           | (Inr fd, w) \<Rightarrow>
               if us_canceled t then Some (status_of StatusCode_Canceled, t, closeFd so fd w)
               else if us_fd t \<ge> 0 then Some (systemError EISCONN, t, closeFd so fd w)
               else let t = t\<lparr>us_fd := fd\<rparr>
                    in (case operationFd so (us_fd t) w of
                          None \<Rightarrow> None
                        | Some (Inl errno, w) \<Rightarrow> Some (systemError errno, t, w)
                        | Some (Inr op, w) \<Rightarrow>
                            (case connect_retry so op address w of
                               None \<Rightarrow> None
                             | Some (result, w) \<Rightarrow> finish_connect so deadline op result t w))))"

partial_function (option) recv_loop ::
  "'w socket_calls \<Rightarrow> int \<Rightarrow> int \<Rightarrow> Deadline \<Rightarrow> nat \<Rightarrow> bytes \<Rightarrow> 'w \<Rightarrow>
     ((TransportStatus + bytes) \<times> 'w) option" where
  "recv_loop so op cancel_fd deadline remaining acc w =
     (if remaining = 0 then Some (Inr acc, w)
      else case waitFor so op cancel_fd POLLIN deadline w of
        None \<Rightarrow> None
      | Some (status, w) \<Rightarrow>
          if ts_code status \<noteq> StatusCode_Ok then Some (Inl status, w)
          else (case so_recv so op remaining w of
             (Inr bs, w) \<Rightarrow>
               if bs = [] then Some (Inl (status_of StatusCode_EndOfFile), w)
               else recv_loop so op cancel_fd deadline (remaining - length bs) (acc @ bs) w
           | (Inl errno, w) \<Rightarrow>
               if errno \<noteq> EINTR \<and> errno \<noteq> EAGAIN then Some (Inl (systemError errno), w)
               else recv_loop so op cancel_fd deadline remaining acc w))"

definition UnixSocketTransport_readExact ::
  "'w socket_calls \<Rightarrow> nat \<Rightarrow> Deadline \<Rightarrow> UnixSocketTransport \<Rightarrow> 'w \<Rightarrow>
     ((TransportStatus + bytes) \<times> 'w) option" where
  "UnixSocketTransport_readExact so n deadline t w =
     (case operationFd so (us_fd t) w of
        None \<Rightarrow> None
      | Some (Inl _, w) \<Rightarrow> Some (Inl (status_of StatusCode_Canceled), w)
      | Some (Inr op, w) \<Rightarrow>
          (case recv_loop so op (us_cancel_fd t) deadline n [] w of
             None \<Rightarrow> None
           | Some (res, w) \<Rightarrow> Some (res, closeFd so op w)))"

partial_function (option) send_loop ::
  "'w socket_calls \<Rightarrow> int \<Rightarrow> int \<Rightarrow> Deadline \<Rightarrow> bytes \<Rightarrow> 'w \<Rightarrow> (TransportStatus \<times> 'w) option" where
  "send_loop so op cancel_fd deadline data w =
     (if data = [] then Some (status_success, w)
      else case waitFor so op cancel_fd POLLOUT deadline w of
        None \<Rightarrow> None
      | Some (status, w) \<Rightarrow>
          if ts_code status \<noteq> StatusCode_Ok then Some (status, w)
          else (case so_send so op data w of
             (Inr count, w) \<Rightarrow>
               if count = 0 then Some (status_of StatusCode_EndOfFile, w)
               else send_loop so op cancel_fd deadline (drop count data) w
           | (Inl errno, w) \<Rightarrow>
               if errno \<noteq> EINTR \<and> errno \<noteq> EAGAIN then Some (systemError errno, w)
               else send_loop so op cancel_fd deadline data w))"

definition UnixSocketTransport_writeAll ::
  "'w socket_calls \<Rightarrow> bytes \<Rightarrow> Deadline \<Rightarrow> UnixSocketTransport \<Rightarrow> 'w \<Rightarrow> (TransportStatus \<times> 'w) option" where
  "UnixSocketTransport_writeAll so data deadline t w =
     (case operationFd so (us_fd t) w of
        None \<Rightarrow> None
      | Some (Inl _, w) \<Rightarrow> Some (status_of StatusCode_Canceled, w)
      | Some (Inr op, w) \<Rightarrow>
          (case send_loop so op (us_cancel_fd t) deadline data w of
             None \<Rightarrow> None
           | Some (res, w) \<Rightarrow> Some (res, closeFd so op w)))"

definition UnixSocketTransport_close ::
  "'w socket_calls \<Rightarrow> UnixSocketTransport \<Rightarrow> 'w \<Rightarrow> (UnixSocketTransport \<times> 'w) option" where
  "UnixSocketTransport_close so t w =
     (case signalCancel so (us_cancel_fd t) w of
        None \<Rightarrow> None
      | Some w \<Rightarrow>
          Some (t\<lparr>us_canceled := True, us_fd := -1\<rparr>,
                if us_fd t \<ge> 0 then closeFd so (us_fd t) (so_shutdown so (us_fd t) w) else w))"

text \<open>The destructor: \<^verbatim>\<open>close\<close>, then the destructor of the state, whose socket is gone by then.\<close>

definition UnixSocketTransport_destroy :: "'w socket_calls \<Rightarrow> UnixSocketTransport \<Rightarrow> 'w \<Rightarrow> 'w option" where
  "UnixSocketTransport_destroy so t w =
     (case UnixSocketTransport_close so t w of
        None \<Rightarrow> None
      | Some (t, w) \<Rightarrow> Some (closeFd so (us_cancel_fd t) (closeFd so (us_fd t) w)))"

definition UnixSocketTransport_peerCredentials ::
  "'w socket_calls \<Rightarrow> UnixSocketTransport \<Rightarrow> 'w \<Rightarrow> ((TransportStatus + PeerCredentials) \<times> 'w) option" where
  "UnixSocketTransport_peerCredentials so t w =
     (case operationFd so (us_fd t) w of
        None \<Rightarrow> None
      | Some (Inl _, w) \<Rightarrow> Some (Inl (status_of StatusCode_Canceled), w)
      | Some (Inr op, w) \<Rightarrow>
          (case so_peercred so op w of
             (Inl errno, w) \<Rightarrow> Some (Inl (systemError errno), closeFd so op w)
           | (Inr credentials, w) \<Rightarrow> Some (Inr credentials, closeFd so op w)))"

definition UnixSocketTransport_isOpen :: "UnixSocketTransport \<Rightarrow> bool" where
  "UnixSocketTransport_isOpen t \<longleftrightarrow> us_fd t \<ge> 0"

section \<open>The listener\<close>

record UnixSocketListener =
  ul_path :: string
  ul_mode :: u32
  ul_backlog :: int
  ul_fd :: int
  ul_cancel_fd :: int
  ul_device :: nat
  ul_inode :: nat
  ul_owns_path :: bool
  ul_canceled :: bool

definition UnixSocketListener_new ::
  "'w socket_calls \<Rightarrow> string \<Rightarrow> u32 \<Rightarrow> int \<Rightarrow> 'w \<Rightarrow> UnixSocketListener \<times> 'w" where
  "UnixSocketListener_new so path mode backlog w =
     (case so_eventfd so w of
        (cancel_fd, w) \<Rightarrow>
          (\<lparr>ul_path = path, ul_mode = mode, ul_backlog = backlog, ul_fd = -1, ul_cancel_fd = cancel_fd,
            ul_device = 0, ul_inode = 0, ul_owns_path = False, ul_canceled = False\<rparr>, w))"

text \<open>A failure after the socket was bound: the descriptor is closed and the path removed.\<close>

definition abandon ::
  "'w socket_calls \<Rightarrow> TransportStatus \<Rightarrow> int \<Rightarrow> UnixSocketListener \<Rightarrow> 'w \<Rightarrow>
     TransportStatus \<times> UnixSocketListener \<times> 'w" where
  "abandon so status fd l w = (status, l, snd (so_unlink so (ul_path l) (closeFd so fd w)))"

definition bind_private :: "'w socket_calls \<Rightarrow> int \<Rightarrow> sockaddr_un \<Rightarrow> 'w \<Rightarrow> nat option \<times> 'w" where
  "bind_private so fd address w =
     (case so_umask so 63 w of
        (previous_umask, w) \<Rightarrow>
          (case so_bind so fd address w of
             (bind_result, w) \<Rightarrow> (bind_result, snd (so_umask so previous_umask w))))"

definition publish ::
  "'w socket_calls \<Rightarrow> int \<Rightarrow> UnixSocketListener \<Rightarrow> 'w \<Rightarrow> TransportStatus \<times> UnixSocketListener \<times> 'w" where
  "publish so fd l w =
     (case so_chmod so (ul_path l) (ul_mode l) w of
        (Some errno, w) \<Rightarrow> abandon so (systemError errno) fd l w
      | (None, w) \<Rightarrow>
          (case so_listen so fd (ul_backlog l) w of
             (Some errno, w) \<Rightarrow> abandon so (systemError errno) fd l w
           | (None, w) \<Rightarrow>
               (case so_lstat so (ul_path l) w of
                  (Inl errno, w) \<Rightarrow> abandon so (systemError errno) fd l w
                | (Inr metadata, w) \<Rightarrow>
                    if ul_canceled l then abandon so (status_of StatusCode_Canceled) fd l w
                    else if ul_fd l \<ge> 0 then abandon so (systemError EADDRINUSE) fd l w
                    else (status_success,
                          l\<lparr>ul_fd := fd, ul_device := lst_dev metadata, ul_inode := lst_ino metadata,
                            ul_owns_path := True\<rparr>, w))))"

definition UnixSocketListener_listen ::
  "'w socket_calls \<Rightarrow> UnixSocketListener \<Rightarrow> 'w \<Rightarrow> (TransportStatus \<times> UnixSocketListener \<times> 'w) option" where
  "UnixSocketListener_listen so l w =
     (if ul_backlog l \<le> 0 \<or> ul_mode l AND NOT 511 \<noteq> 0 then Some (invalidArgument, l, w)
      else if ul_cancel_fd l < 0 then Some (systemError EMFILE, l, w)
      else if ul_canceled l then Some (status_of StatusCode_Canceled, l, w)
      else if ul_fd l \<ge> 0 then Some (systemError EADDRINUSE, l, w)
      else case makeAddress (ul_path l) of
        Inl status \<Rightarrow> Some (status, l, w)
      | Inr address \<Rightarrow>
          (case removeStaleSocket so (ul_path l) w of
             None \<Rightarrow> None
           | Some (status, w) \<Rightarrow>
               if ts_code status \<noteq> StatusCode_Ok then Some (status, l, w)
               else (case so_socket so w of
                  (Inl errno, w) \<Rightarrow> Some (systemError errno, l, w)
                | (Inr fd, w) \<Rightarrow>
                    (case bind_private so fd address w of
                       (Some errno, w) \<Rightarrow> Some (systemError errno, l, closeFd so fd w)
                     | (None, w) \<Rightarrow> Some (publish so fd l w)))))"

partial_function (option) accept_loop ::
  "'w socket_calls \<Rightarrow> int \<Rightarrow> int \<Rightarrow> Deadline \<Rightarrow> 'w \<Rightarrow>
     ((TransportStatus + UnixSocketTransport) \<times> 'w) option" where
  "accept_loop so op cancel_fd deadline w =
     (case waitFor so op cancel_fd POLLIN deadline w of
        None \<Rightarrow> None
      | Some (status, w) \<Rightarrow>
          if ts_code status \<noteq> StatusCode_Ok then Some (Inl status, w)
          else (case so_accept so op w of
             (Inr fd, w) \<Rightarrow>
               (case UnixSocketTransport_accepted so fd w of
                  (t, w) \<Rightarrow>
                    if us_cancel_fd t < 0
                    then (case UnixSocketTransport_destroy so t w of
                            None \<Rightarrow> None
                          | Some w \<Rightarrow> Some (Inl (systemError EMFILE), w))
                    else Some (Inr t, w))
           | (Inl errno, w) \<Rightarrow>
               if errno \<noteq> EINTR \<and> errno \<noteq> EAGAIN then Some (Inl (systemError errno), w)
               else accept_loop so op cancel_fd deadline w))"

definition UnixSocketListener_accept ::
  "'w socket_calls \<Rightarrow> Deadline \<Rightarrow> UnixSocketListener \<Rightarrow> 'w \<Rightarrow>
     ((TransportStatus + UnixSocketTransport) \<times> 'w) option" where
  "UnixSocketListener_accept so deadline l w =
     (case operationFd so (ul_fd l) w of
        None \<Rightarrow> None
      | Some (Inl _, w) \<Rightarrow> Some (Inl (status_of StatusCode_Canceled), w)
      | Some (Inr op, w) \<Rightarrow>
          (case accept_loop so op (ul_cancel_fd l) deadline w of
             None \<Rightarrow> None
           | Some (res, w) \<Rightarrow> Some (res, closeFd so op w)))"

definition UnixSocketListener_close ::
  "'w socket_calls \<Rightarrow> UnixSocketListener \<Rightarrow> 'w \<Rightarrow> (UnixSocketListener \<times> 'w) option" where
  "UnixSocketListener_close so l w =
     (case signalCancel so (ul_cancel_fd l) w of
        None \<Rightarrow> None
      | Some w \<Rightarrow>
          let w = closeFd so (ul_fd l) w;
              closed = l\<lparr>ul_canceled := True, ul_fd := -1, ul_owns_path := False\<rparr>
          in if \<not> ul_owns_path l then Some (closed, w)
             else (case so_lstat so (ul_path l) w of
                     (Inl _, w) \<Rightarrow> Some (closed, w)
                   | (Inr metadata, w) \<Rightarrow>
                       if lst_socket metadata \<and> lst_dev metadata = ul_device l
                          \<and> lst_ino metadata = ul_inode l
                       then Some (closed, snd (so_unlink so (ul_path l) w))
                       else Some (closed, w)))"

definition UnixSocketListener_destroy :: "'w socket_calls \<Rightarrow> UnixSocketListener \<Rightarrow> 'w \<Rightarrow> 'w option" where
  "UnixSocketListener_destroy so l w =
     (case UnixSocketListener_close so l w of
        None \<Rightarrow> None
      | Some (l, w) \<Rightarrow> Some (closeFd so (ul_cancel_fd l) (closeFd so (ul_fd l) w)))"

definition UnixSocketListener_isOpen :: "UnixSocketListener \<Rightarrow> bool" where
  "UnixSocketListener_isOpen l \<longleftrightarrow> ul_fd l \<ge> 0"

section \<open>A stream under the calls\<close>

text \<open>
  What the system promises of one connected stream: \<open>D\<close> are the descriptor and its duplicates,
  \<open>incoming w\<close> the bytes the peer sends that have not been received yet, \<open>outgoing w\<close> the bytes sent
  to it.  Receiving takes a prefix of what comes in, sending appends a prefix of the data, and no
  other call changes either.
\<close>

definition same_streams :: "('w \<Rightarrow> bytes) \<Rightarrow> ('w \<Rightarrow> bytes) \<Rightarrow> 'w \<Rightarrow> 'w \<Rightarrow> bool" where
  "same_streams incoming outgoing w w' \<longleftrightarrow> incoming w' = incoming w \<and> outgoing w' = outgoing w"

definition received :: "('w \<Rightarrow> bytes) \<Rightarrow> ('w \<Rightarrow> bytes) \<Rightarrow> nat \<Rightarrow> 'w \<Rightarrow> nat + bytes \<Rightarrow> 'w \<Rightarrow> bool" where
  "received incoming outgoing n w r w' \<longleftrightarrow>
     (case r of Inl _ \<Rightarrow> same_streams incoming outgoing w w'
      | Inr bs \<Rightarrow> length bs \<le> n \<and> incoming w = bs @ incoming w' \<and> outgoing w' = outgoing w)"

definition sent :: "('w \<Rightarrow> bytes) \<Rightarrow> ('w \<Rightarrow> bytes) \<Rightarrow> bytes \<Rightarrow> 'w \<Rightarrow> nat + nat \<Rightarrow> 'w \<Rightarrow> bool" where
  "sent incoming outgoing data w r w' \<longleftrightarrow>
     (case r of Inl _ \<Rightarrow> same_streams incoming outgoing w w'
      | Inr n \<Rightarrow> n \<le> length data \<and> outgoing w' = outgoing w @ take n data \<and> incoming w' = incoming w)"

definition stream :: "'w socket_calls \<Rightarrow> int set \<Rightarrow> ('w \<Rightarrow> bytes) \<Rightarrow> ('w \<Rightarrow> bytes) \<Rightarrow> bool" where
  "stream so D incoming outgoing \<longleftrightarrow>
     (\<forall>fd\<in>D. \<forall>w r w'. so_dup so fd w = (r, w') \<longrightarrow>
        (\<forall>op. r = Inr op \<longrightarrow> op \<in> D) \<and> same_streams incoming outgoing w w') \<and>
     (\<forall>w t w'. so_now so w = (t, w') \<longrightarrow> same_streams incoming outgoing w w') \<and>
     (\<forall>fd ev cfd cev n w r w'. so_poll so fd ev cfd cev n w = (r, w') \<longrightarrow> same_streams incoming outgoing w w') \<and>
     (\<forall>fd w. same_streams incoming outgoing w (so_close so fd w)) \<and>
     (\<forall>op\<in>D. \<forall>n w r w'. so_recv so op n w = (r, w') \<longrightarrow> received incoming outgoing n w r w') \<and>
     (\<forall>op\<in>D. \<forall>data w r w'. so_send so op data w = (r, w') \<longrightarrow> sent incoming outgoing data w r w')"

lemma streamD:
  assumes "stream so D incoming outgoing"
  shows stream_dup: "fd \<in> D \<Longrightarrow> so_dup so fd w = (r, w') \<Longrightarrow>
      (\<forall>op. r = Inr op \<longrightarrow> op \<in> D) \<and> same_streams incoming outgoing w w'"
    and stream_now: "so_now so w = (t, w') \<Longrightarrow> same_streams incoming outgoing w w'"
    and stream_poll: "so_poll so e ev cfd cev ms w = (p, w') \<Longrightarrow> same_streams incoming outgoing w w'"
    and stream_close: "same_streams incoming outgoing w (so_close so e w)"
    and stream_recv: "op \<in> D \<Longrightarrow> so_recv so op n w = (q, w') \<Longrightarrow> received incoming outgoing n w q w'"
    and stream_send: "op \<in> D \<Longrightarrow> so_send so op data w = (k, w') \<Longrightarrow> sent incoming outgoing data w k w'"
  using assms unfolding stream_def by simp_all

lemma same_streams_trans [trans]:
  "same_streams i out u v \<Longrightarrow> same_streams i out v w \<Longrightarrow> same_streams i out u w"
  by (simp add: same_streams_def)

lemma same_streamsI: "i w' = i w \<Longrightarrow> out w' = out w \<Longrightarrow> same_streams i out w w'"
  by (simp add: same_streams_def)

lemma same_streams_refl [simp]: "same_streams i out w w"
  by (simp add: same_streams_def)

lemma timeout_keeps:
  assumes "stream so D incoming outgoing" "timeoutMilliseconds so deadline w = (t, w')"
  shows "same_streams incoming outgoing w w'"
  using assms(2) stream_now [OF assms(1)]
  by (auto simp: timeoutMilliseconds_def Let_def split: option.splits prod.splits if_splits)

lemma waitFor_keeps:
  assumes "stream so D incoming outgoing" "waitFor so fd cfd ev deadline w = Some r"
  shows "same_streams incoming outgoing w (snd r)"
proof -
  have "so = so \<longrightarrow> same_streams incoming outgoing w (snd r)"
  proof (rule waitFor.raw_induct [where P = "\<lambda>s _ _ _ _ w r. s = so \<longrightarrow> same_streams incoming outgoing w (snd r)",
        OF _ assms(2)])
    fix wait :: "'a socket_calls \<Rightarrow> int \<Rightarrow> int \<Rightarrow> u16 \<Rightarrow> Deadline \<Rightarrow> 'a \<Rightarrow> (TransportStatus \<times> 'a) option"
      and s fd cfd ev deadline w r
    assume IH: "\<And>s fd cfd ev deadline w r. wait s fd cfd ev deadline w = Some r \<Longrightarrow>
        s = so \<longrightarrow> same_streams incoming outgoing w (snd r)"
      and eq: "(case timeoutMilliseconds s deadline w of
        (timeout, w) \<Rightarrow>
          (case so_poll s fd ev cfd POLLIN timeout w of
             (Inl errno, w) \<Rightarrow> if errno = EINTR then wait s fd cfd ev deadline w
                               else Some (systemError errno, w)
           | (Inr (result, revents0, revents1), w) \<Rightarrow>
               if result = 0 then Some (status_of StatusCode_Timeout, w)
               else if revents1 AND POLLIN \<noteq> 0 then Some (status_of StatusCode_Canceled, w)
               else if revents0 AND (ev OR POLL_FAILURE) \<noteq> 0 then Some (status_success, w)
               else wait s fd cfd ev deadline w)) = Some r"
    obtain t w1 p w2 where c: "timeoutMilliseconds s deadline w = (t, w1)"
      "so_poll s fd ev cfd POLLIN t w1 = (p, w2)" by fastforce
    with eq have "snd r = w2 \<or> wait s fd cfd ev deadline w2 = Some r"
      by (auto split: sum.splits if_splits)
    moreover have "s = so \<Longrightarrow> same_streams incoming outgoing w w2"
      using timeout_keeps [OF assms(1)] stream_poll [OF assms(1)] c same_streams_trans by metis
    ultimately show "s = so \<longrightarrow> same_streams incoming outgoing w (snd r)"
      using IH [of s fd cfd ev deadline w2 r] same_streams_trans by metis
  qed
  then show ?thesis by simp
qed

text \<open>What a read of \<open>n\<close> bytes and a write do to the two streams, in success and in failure.\<close>

definition read_effect ::
  "('w \<Rightarrow> bytes) \<Rightarrow> ('w \<Rightarrow> bytes) \<Rightarrow> nat \<Rightarrow> bytes \<Rightarrow> 'w \<Rightarrow> TransportStatus + bytes \<Rightarrow> 'w \<Rightarrow> bool" where
  "read_effect incoming outgoing n acc w res w' \<longleftrightarrow> outgoing w' = outgoing w \<and>
     (case res of
        Inr bs \<Rightarrow> \<exists>xs. bs = acc @ xs \<and> length xs = n \<and> incoming w = xs @ incoming w'
      | Inl status \<Rightarrow> ts_code status \<noteq> StatusCode_Ok \<and> (\<exists>xs. length xs < n \<and> incoming w = xs @ incoming w'))"

definition write_effect ::
  "('w \<Rightarrow> bytes) \<Rightarrow> ('w \<Rightarrow> bytes) \<Rightarrow> bytes \<Rightarrow> 'w \<Rightarrow> TransportStatus \<Rightarrow> 'w \<Rightarrow> bool" where
  "write_effect incoming outgoing data w status w' \<longleftrightarrow> incoming w' = incoming w \<and>
     (if ts_code status = StatusCode_Ok then outgoing w' = outgoing w @ data
      else \<exists>k<length data. outgoing w' = outgoing w @ take k data)"

lemma read_effect_same:
  "same_streams i out v w \<Longrightarrow> read_effect i out n acc w res w' \<Longrightarrow> read_effect i out n acc v res w'"
  by (auto simp: read_effect_def same_streams_def split: sum.splits)

lemma read_effect_step:
  assumes "length bs \<le> n" "i v = bs @ i w" "out w = out v"
    and "read_effect i out (n - length bs) (acc @ bs) w res w'"
  shows "read_effect i out n acc v res w'"
proof (cases res)
  case (Inl status)
  with assms(4) obtain xs where "length xs < n - length bs" "i w = xs @ i w'" "ts_code status \<noteq> StatusCode_Ok"
    "out w' = out w" by (auto simp: read_effect_def)
  with assms(1-3) Inl show ?thesis
    by (auto simp: read_effect_def intro!: exI [of _ "bs @ xs"])
next
  case (Inr all)
  with assms show ?thesis by (auto simp: read_effect_def)
qed

lemma write_effect_same:
  "same_streams i out v w \<Longrightarrow> write_effect i out data w st w' \<Longrightarrow> write_effect i out data v st w'"
  by (auto simp: write_effect_def same_streams_def)

lemma write_effect_step:
  assumes "0 < n" "n \<le> length data" "out w = out v @ take n data" "i w = i v"
    and "write_effect i out (drop n data) w st w'"
  shows "write_effect i out data v st w'"
proof (cases "ts_code st = StatusCode_Ok")
  case True
  with assms show ?thesis by (simp add: write_effect_def)
next
  case False
  with assms(5) obtain k where k: "k < length data - n" "out w' = out w @ take k (drop n data)"
    by (auto simp: write_effect_def)
  have "take n data @ take k (drop n data) = take (n + k) data" by (simp add: take_add)
  with k assms(2-5) False show ?thesis
    by (auto simp: write_effect_def intro!: exI [of _ "n + k"])
qed

lemma read_effect_fail:
  "0 < n \<Longrightarrow> ts_code st \<noteq> StatusCode_Ok \<Longrightarrow> same_streams i out w w' \<Longrightarrow> read_effect i out n acc w (Inl st) w'"
  by (auto simp: read_effect_def same_streams_def)

lemma write_effect_fail:
  "data \<noteq> [] \<Longrightarrow> ts_code st \<noteq> StatusCode_Ok \<Longrightarrow> same_streams i out w w' \<Longrightarrow> write_effect i out data w st w'"
  by (auto simp: write_effect_def same_streams_def intro!: exI [of _ 0])

lemma error_codes [simp]:
  "ts_code (systemError e) \<noteq> StatusCode_Ok"
  "ts_code (status_of c) = c"
  "ts_code status_success = StatusCode_Ok"
  by (simp_all add: systemError_def status_of_def status_success_def)

lemmas effect_fails =
  read_effect_fail [OF _ error_codes(1)] write_effect_fail [OF _ error_codes(1)]
  read_effect_fail [where st = "status_of StatusCode_EndOfFile", simplified]
  write_effect_fail [where st = "status_of StatusCode_EndOfFile", simplified]

text \<open>One round of either loop, whatever the rest of the loop (\<open>loop\<close>) does with its effect.\<close>

lemma recv_round:
  assumes "stream so D incoming outgoing" "op \<in> D" "n \<noteq> 0" "so_recv so op n w = (q, w')"
    and eq: "(case (q, w') of
             (Inr bs, w) \<Rightarrow> if bs = [] then Some (Inl (status_of StatusCode_EndOfFile), w)
                            else loop (n - length bs) (acc @ bs) w
           | (Inl errno, w) \<Rightarrow> if errno \<noteq> EINTR \<and> errno \<noteq> EAGAIN then Some (Inl (systemError errno), w)
                               else loop n acc w) = Some r"
    and IH: "\<And>n acc w. loop n acc w = Some r \<Longrightarrow> read_effect incoming outgoing n acc w (fst r) (snd r)"
  shows "read_effect incoming outgoing n acc w (fst r) (snd r)"
proof (cases q)
  case (Inl errno)
  with stream_recv [OF assms(1,2,4)] have same: "same_streams incoming outgoing w w'"
    by (simp add: received_def)
  from eq Inl have "r = (Inl (systemError errno), w') \<or> loop n acc w' = Some r" by (auto split: if_splits)
  with IH [of n acc w'] same assms(3) show ?thesis
    by (auto intro: effect_fails read_effect_same)
next
  case (Inr bs)
  with stream_recv [OF assms(1,2,4)]
  have b: "length bs \<le> n" "incoming w = bs @ incoming w'" "outgoing w' = outgoing w"
    by (auto simp: received_def)
  from eq Inr have "bs = [] \<and> r = (Inl (status_of StatusCode_EndOfFile), w') \<or>
      loop (n - length bs) (acc @ bs) w' = Some r" by (auto split: if_splits)
  with IH [of "n - length bs" "acc @ bs" w'] b assms(3) show ?thesis
    by (auto intro: read_effect_step intro!: effect_fails same_streamsI)
qed

lemma send_round:
  assumes "stream so D incoming outgoing" "op \<in> D" "data \<noteq> []" "so_send so op data w = (q, w')"
    and eq: "(case (q, w') of
             (Inr count, w) \<Rightarrow> if count = 0 then Some (status_of StatusCode_EndOfFile, w)
                               else loop (drop count data) w
           | (Inl errno, w) \<Rightarrow> if errno \<noteq> EINTR \<and> errno \<noteq> EAGAIN then Some (systemError errno, w)
                               else loop data w) = Some r"
    and IH: "\<And>data w. loop data w = Some r \<Longrightarrow> write_effect incoming outgoing data w (fst r) (snd r)"
  shows "write_effect incoming outgoing data w (fst r) (snd r)"
proof (cases q)
  case (Inl errno)
  with stream_send [OF assms(1,2,4)] have same: "same_streams incoming outgoing w w'"
    by (simp add: sent_def)
  from eq Inl have "r = (systemError errno, w') \<or> loop data w' = Some r" by (auto split: if_splits)
  with IH [of data w'] same assms(3) show ?thesis
    by (auto intro: effect_fails write_effect_same)
next
  case (Inr count)
  with stream_send [OF assms(1,2,4)]
  have b: "count \<le> length data" "outgoing w' = outgoing w @ take count data" "incoming w' = incoming w"
    by (auto simp: sent_def)
  from eq Inr have "count = 0 \<and> r = (status_of StatusCode_EndOfFile, w') \<or>
      0 < count \<and> loop (drop count data) w' = Some r" by (auto split: if_splits)
  with IH [of "drop count data" w'] b assms(3) show ?thesis
    by (auto intro: write_effect_step intro!: effect_fails same_streamsI)
qed

lemma recv_loop_effect:
  assumes "stream so D incoming outgoing" "op \<in> D"
    and "recv_loop so op cfd deadline n acc w = Some r"
  shows "read_effect incoming outgoing n acc w (fst r) (snd r)"
proof -
  let ?P = "\<lambda>s p n acc w r. s = so \<and> p = op \<longrightarrow> read_effect incoming outgoing n acc w (fst r) (snd r)"
  have "?P so op n acc w r"
  proof (rule recv_loop.raw_induct [where P = "\<lambda>s p _ _ n acc w r. ?P s p n acc w r", OF _ assms(3)], intro impI, elim conjE)
    fix loop :: "'a socket_calls \<Rightarrow> int \<Rightarrow> int \<Rightarrow> Deadline \<Rightarrow> nat \<Rightarrow> bytes \<Rightarrow> 'a \<Rightarrow>
        ((TransportStatus + bytes) \<times> 'a) option"
      and s p cfd deadline n acc w r
    assume IH: "\<And>s p cfd deadline n acc w r. loop s p cfd deadline n acc w = Some r \<Longrightarrow> ?P s p n acc w r"
      and eq: "(if n = 0 then Some (Inr acc, w)
      else case waitFor s p cfd POLLIN deadline w of
        None \<Rightarrow> None
      | Some (status, w) \<Rightarrow>
          if ts_code status \<noteq> StatusCode_Ok then Some (Inl status, w)
          else (case so_recv s p n w of
             (Inr bs, w) \<Rightarrow>
               if bs = [] then Some (Inl (status_of StatusCode_EndOfFile), w)
               else loop s p cfd deadline (n - length bs) (acc @ bs) w
           | (Inl errno, w) \<Rightarrow>
               if errno \<noteq> EINTR \<and> errno \<noteq> EAGAIN then Some (Inl (systemError errno), w)
               else loop s p cfd deadline n acc w)) = Some r"
      and so: "s = so" "p = op"
    show "read_effect incoming outgoing n acc w (fst r) (snd r)"
    proof (cases "n = 0")
      case True
      with eq show ?thesis by (auto simp: read_effect_def)
    next
      case False
      with eq obtain st w1 where wt: "waitFor so op cfd POLLIN deadline w = Some (st, w1)"
        by (auto simp: so split: option.splits)
      have same: "same_streams incoming outgoing w w1" using waitFor_keeps [OF assms(1) wt] by simp
      obtain q w2 where q: "so_recv so op n w1 = (q, w2)" by fastforce
      show ?thesis
      proof (cases "ts_code st = StatusCode_Ok")
        case True
        show ?thesis
          by (rule read_effect_same [OF same], rule recv_round [OF assms(1,2) False q, where loop = "loop s p cfd deadline"])
             (use eq wt True False q so IH in \<open>auto split: sum.splits\<close>)
      qed (use eq wt False so read_effect_fail [OF _ _ same] in auto)
    qed
  qed
  then show ?thesis by simp
qed

lemma send_loop_effect:
  assumes "stream so D incoming outgoing" "op \<in> D"
    and "send_loop so op cfd deadline data w = Some r"
  shows "write_effect incoming outgoing data w (fst r) (snd r)"
proof -
  let ?P = "\<lambda>s p data w r. s = so \<and> p = op \<longrightarrow> write_effect incoming outgoing data w (fst r) (snd r)"
  have "?P so op data w r"
  proof (rule send_loop.raw_induct [where P = "\<lambda>s p _ _ data w r. ?P s p data w r", OF _ assms(3)], intro impI, elim conjE)
    fix loop :: "'a socket_calls \<Rightarrow> int \<Rightarrow> int \<Rightarrow> Deadline \<Rightarrow> bytes \<Rightarrow> 'a \<Rightarrow> (TransportStatus \<times> 'a) option"
      and s p cfd deadline data w r
    assume IH: "\<And>s p cfd deadline data w r. loop s p cfd deadline data w = Some r \<Longrightarrow> ?P s p data w r"
      and eq: "(if data = [] then Some (status_success, w)
      else case waitFor s p cfd POLLOUT deadline w of
        None \<Rightarrow> None
      | Some (status, w) \<Rightarrow>
          if ts_code status \<noteq> StatusCode_Ok then Some (status, w)
          else (case so_send s p data w of
             (Inr count, w) \<Rightarrow>
               if count = 0 then Some (status_of StatusCode_EndOfFile, w)
               else loop s p cfd deadline (drop count data) w
           | (Inl errno, w) \<Rightarrow>
               if errno \<noteq> EINTR \<and> errno \<noteq> EAGAIN then Some (systemError errno, w)
               else loop s p cfd deadline data w)) = Some r"
      and so: "s = so" "p = op"
    show "write_effect incoming outgoing data w (fst r) (snd r)"
    proof (cases "data = []")
      case True
      with eq show ?thesis by (auto simp: write_effect_def)
    next
      case False
      with eq obtain st w1 where wt: "waitFor so op cfd POLLOUT deadline w = Some (st, w1)"
        by (auto simp: so split: option.splits)
      have same: "same_streams incoming outgoing w w1" using waitFor_keeps [OF assms(1) wt] by simp
      obtain q w2 where q: "so_send so op data w1 = (q, w2)" by fastforce
      show ?thesis
      proof (cases "ts_code st = StatusCode_Ok")
        case True
        show ?thesis
          by (rule write_effect_same [OF same], rule send_round [OF assms(1,2) False q, where loop = "loop s p cfd deadline"])
             (use eq wt True False q so IH in \<open>auto split: sum.splits\<close>)
      qed (use eq wt False so write_effect_fail [OF False _ same] in auto)
    qed
  qed
  then show ?thesis by simp
qed

lemma duplicateFd_keeps:
  assumes "stream so D incoming outgoing" "fd \<in> D" "duplicateFd so fd w = Some r"
  shows "(\<forall>op. fst r = Inr op \<longrightarrow> op \<in> D) \<and> same_streams incoming outgoing w (snd r)"
proof -
  let ?Q = "\<lambda>w r. (\<forall>op. fst r = Inr op \<longrightarrow> op \<in> D) \<and> same_streams incoming outgoing w (snd r)"
  have "so = so \<and> fd = fd \<longrightarrow> ?Q w r"
  proof (rule duplicateFd.raw_induct [where P = "\<lambda>s f w r. s = so \<and> f = fd \<longrightarrow> ?Q w r", OF _ assms(3)])
    fix dup :: "'a socket_calls \<Rightarrow> int \<Rightarrow> 'a \<Rightarrow> ((nat + int) \<times> 'a) option" and s f w r
    assume IH: "\<And>s f w r. dup s f w = Some r \<Longrightarrow> s = so \<and> f = fd \<longrightarrow> ?Q w r"
      and eq: "(case so_dup s f w of
        (Inl errno, w) \<Rightarrow> if errno = EINTR then dup s f w else Some (Inl errno, w)
      | (Inr duplicate, w) \<Rightarrow> Some (Inr duplicate, w)) = Some r"
    obtain q w1 where q: "so_dup s f w = (q, w1)" by fastforce
    with eq have "r = (q, w1) \<or> dup s f w1 = Some r" by (auto split: sum.splits if_splits)
    then show "s = so \<and> f = fd \<longrightarrow> ?Q w r"
      using IH [of s f w1 r] stream_dup [OF assms(1,2), of w q w1] q
        same_streams_trans [of incoming outgoing w w1 "snd r"] by auto
  qed
  then show ?thesis by simp
qed

lemma closeFd_keeps:
  "stream so D incoming outgoing \<Longrightarrow> same_streams incoming outgoing w (closeFd so fd w)"
  by (simp add: closeFd_def stream_close)

lemma operationFd_keeps:
  assumes "stream so D incoming outgoing" "fd \<in> D" "operationFd so fd w = Some (r, w')"
  shows "(\<forall>op. r = Inr op \<longrightarrow> op \<in> D) \<and> same_streams incoming outgoing w w'"
  using assms(3) duplicateFd_keeps [OF assms(1,2)]
  by (fastforce simp: operationFd_def split: if_splits)

lemma readExact_effect:
  assumes "stream so D incoming outgoing" "us_fd t \<in> D" "0 < n"
    and "UnixSocketTransport_readExact so n deadline t w = Some (res, w')"
  shows "read_effect incoming outgoing n [] w res w'"
proof -
  from assms(4) obtain r w1 where o: "operationFd so (us_fd t) w = Some (r, w1)"
    by (auto simp: UnixSocketTransport_readExact_def split: option.splits)
  note k = operationFd_keeps [OF assms(1,2) o]
  show ?thesis
  proof (cases r)
    case (Inl e)
    with assms(3,4) o k show ?thesis
      by (auto simp: UnixSocketTransport_readExact_def intro!: read_effect_fail)
  next
    case (Inr op)
    with assms(4) o obtain w2 where
      l: "recv_loop so op (us_cancel_fd t) deadline n [] w1 = Some (res, w2)" "w' = closeFd so op w2"
      by (auto simp: UnixSocketTransport_readExact_def split: option.splits)
    from recv_loop_effect [OF assms(1) _ l(1)] k Inr
    have "read_effect incoming outgoing n [] w res w2" by (auto intro: read_effect_same)
    with closeFd_keeps [OF assms(1), of w2 op] l(2) show ?thesis
      by (auto simp: read_effect_def same_streams_def split: sum.splits)
  qed
qed

lemma writeAll_effect:
  assumes "stream so D incoming outgoing" "us_fd t \<in> D" "data \<noteq> []"
    and "UnixSocketTransport_writeAll so data deadline t w = Some (status, w')"
  shows "write_effect incoming outgoing data w status w'"
proof -
  from assms(4) obtain r w1 where o: "operationFd so (us_fd t) w = Some (r, w1)"
    by (auto simp: UnixSocketTransport_writeAll_def split: option.splits)
  note k = operationFd_keeps [OF assms(1,2) o]
  show ?thesis
  proof (cases r)
    case (Inl e)
    with assms(3,4) o k show ?thesis
      by (auto simp: UnixSocketTransport_writeAll_def intro!: write_effect_fail)
  next
    case (Inr op)
    with assms(4) o obtain w2 where
      l: "send_loop so op (us_cancel_fd t) deadline data w1 = Some (status, w2)" "w' = closeFd so op w2"
      by (auto simp: UnixSocketTransport_writeAll_def split: option.splits)
    from send_loop_effect [OF assms(1) _ l(1)] k Inr
    have "write_effect incoming outgoing data w status w2" by (auto intro: write_effect_same)
    with closeFd_keeps [OF assms(1), of w2 op] l(2) show ?thesis
      by (auto simp: write_effect_def same_streams_def)
  qed
qed

section \<open>Properties\<close>

text \<open>
  C23.  Reading and writing are exact: a read of \<open>n\<close> bytes that reports success returns the next \<open>n\<close>
  bytes of the stream, neither more nor fewer, and a write that reports success sends all the data
  in order.  A read that fails has lost fewer than \<open>n\<close> bytes, a write that fails has sent a proper
  prefix of the data, and neither touches the other direction.
\<close>

theorem transport_exact:
  assumes "stream so D incoming outgoing" "us_fd t \<in> D" "0 < n" "data \<noteq> []"
  shows "(\<forall>w res w'. UnixSocketTransport_readExact so n deadline t w = Some (res, w') \<longrightarrow>
           outgoing w' = outgoing w \<and>
           (case res of
              Inr bs \<Rightarrow> length bs = n \<and> incoming w = bs @ incoming w'
            | Inl status \<Rightarrow> ts_code status \<noteq> StatusCode_Ok \<and>
                (\<exists>lost. length lost < n \<and> incoming w = lost @ incoming w'))) \<and>
         (\<forall>w status w'. UnixSocketTransport_writeAll so data deadline t w = Some (status, w') \<longrightarrow>
           incoming w' = incoming w \<and>
           (if ts_code status = StatusCode_Ok then outgoing w' = outgoing w @ data
            else \<exists>k<length data. outgoing w' = outgoing w @ take k data))"
proof (intro conjI allI impI)
  fix w res w'
  assume "UnixSocketTransport_readExact so n deadline t w = Some (res, w')"
  from readExact_effect [OF assms(1-3) this] show "outgoing w' = outgoing w"
    "case res of
       Inr bs \<Rightarrow> length bs = n \<and> incoming w = bs @ incoming w'
     | Inl status \<Rightarrow> ts_code status \<noteq> StatusCode_Ok \<and>
         (\<exists>lost. length lost < n \<and> incoming w = lost @ incoming w')"
    by (auto simp: read_effect_def split: sum.splits)
next
  fix w status w'
  assume "UnixSocketTransport_writeAll so data deadline t w = Some (status, w')"
  from writeAll_effect [OF assms(1,2,4) this] show "incoming w' = incoming w"
    "if ts_code status = StatusCode_Ok then outgoing w' = outgoing w @ data
     else \<exists>k<length data. outgoing w' = outgoing w @ take k data"
    by (simp_all add: write_effect_def)
qed

text \<open>
  A closed transport stays closed: after a close the socket is gone, every read and write
  reports cancellation without reading or sending anything, and a connect never succeeds.
\<close>

lemma closed_transport_final:
  assumes "UnixSocketTransport_close so t w = Some (t', w')"
  shows "\<not> UnixSocketTransport_isOpen t' \<and>
         UnixSocketTransport_readExact so n deadline t' v = Some (Inl (status_of StatusCode_Canceled), v) \<and>
         UnixSocketTransport_writeAll so data deadline t' v = Some (status_of StatusCode_Canceled, v) \<and>
         UnixSocketTransport_peerCredentials so t' v = Some (Inl (status_of StatusCode_Canceled), v) \<and>
         (\<exists>status v'. UnixSocketTransport_connect so deadline t' v = Some (status, t', v') \<and>
            ts_code status \<noteq> StatusCode_Ok)"
proof -
  from assms have t: "us_fd t' = -1" "us_canceled t'"
    by (auto simp: UnixSocketTransport_close_def split: option.splits)
  then show ?thesis
    by (auto simp: UnixSocketTransport_isOpen_def UnixSocketTransport_readExact_def
        UnixSocketTransport_writeAll_def UnixSocketTransport_peerCredentials_def operationFd_def
        UnixSocketTransport_connect_def makeAddress_def invalidArgument_def
        split: sum.split prod.split)
qed

end
