(* ===== verification/Service.thy ===== *)
theory Service
  imports Connection KeyStore UnixSocket Digits
begin

text \<open>
  The service, \<^verbatim>\<open>src/src/ya_license_service/src/service.cpp\<close> and its \<^verbatim>\<open>main.cpp\<close>: start-up from the
  configuration, the loop that accepts peers and the loop that serves one.  The world \<open>'w\<close> is shared
  by the system calls, the sockets and the entropy source; the flag that asks the service to stop is
  a function \<open>stop\<close> of the world.  A loop that never ends is \<open>None\<close>.
\<close>

section \<open>Data\<close>

datatype ServiceError =
    ServiceError_None
  | ServiceError_Config
  | ServiceError_Keys
  | ServiceError_LicenseFile
  | ServiceError_MachineIdentity
  | ServiceError_InvalidLicense
  | ServiceError_Listen
  | ServiceError_Transport

type_synonym 'a ServiceResult = "ServiceError + 'a"

record AuthorizationService =
  as_config :: ServiceConfig
  as_keys :: LoadedKeys
  as_license :: LicenseSnapshot
  as_sessions :: SessionManager
  as_listener :: UnixSocketListener

section \<open>Helpers\<close>

definition kServiceMaxLicenseSize :: nat where "kServiceMaxLicenseSize = 1024 * 1024"

definition Service_readLicense :: "'w posix \<Rightarrow> string \<Rightarrow> 'w \<Rightarrow> bytes ServiceResult \<times> 'w" where
  "Service_readLicense px path w =
     (case px_open px path [O_RDONLY, O_CLOEXEC, O_NOFOLLOW] 0 w of
        (Inl _, w) \<Rightarrow> (Inl ServiceError_LicenseFile, w)
      | (Inr fd, w) \<Rightarrow>
          (case px_fstat px fd w of
             (Inl _, w) \<Rightarrow> (Inl ServiceError_LicenseFile, snd (px_close px fd w))
           | (Inr info, w) \<Rightarrow>
               if \<not> st_regular info \<or> st_size info \<le> 0 \<or> st_size info > int kServiceMaxLicenseSize
               then (Inl ServiceError_LicenseFile, snd (px_close px fd w))
               else (case read_fully px fd (nat (st_size info)) [] w of
                       (None, w) \<Rightarrow> (Inl ServiceError_LicenseFile, snd (px_close px fd w))
                     | (Some bytes, w) \<Rightarrow> (Inr bytes, snd (px_close px fd w)))))"

definition monotonicMilliseconds :: "'w socket_calls \<Rightarrow> 'w \<Rightarrow> u64 \<times> 'w" where
  "monotonicMilliseconds so w = (case so_now so w of (now, w) \<Rightarrow> (of_int (now div 1000000), w))"

definition Service_deadlineAfter :: "'w socket_calls \<Rightarrow> u32 \<Rightarrow> 'w \<Rightarrow> Deadline \<times> 'w" where
  "Service_deadlineAfter so milliseconds w =
     (case so_now so w of (now, w) \<Rightarrow> (Some (now + int (unat milliseconds) * 1000000), w))"

definition Service_readFrame ::
  "'w socket_calls \<Rightarrow> UnixSocketTransport \<Rightarrow> Deadline \<Rightarrow> 'w \<Rightarrow> (bytes ServiceResult \<times> 'w) option" where
  "Service_readFrame so t deadline w =
     (case UnixSocketTransport_readExact so kFrameHeaderSize deadline t w of
        None \<Rightarrow> None
      | Some (Inl _, w) \<Rightarrow> Some (Inl ServiceError_Transport, w)
      | Some (Inr header_bytes, w) \<Rightarrow>
          (case decodeHeader header_bytes kDefaultMaxPayloadSize of
             Inl _ \<Rightarrow> Some (Inl ServiceError_Transport, w)
           | Inr (header, _) \<Rightarrow>
               (case UnixSocketTransport_readExact so (unat (fh_payload_size header)) deadline t w of
                  None \<Rightarrow> None
                | Some (Inl _, w) \<Rightarrow> Some (Inl ServiceError_Transport, w)
                | Some (Inr payload, w) \<Rightarrow> Some (Inr (header_bytes @ payload), w))))"

definition peerAllowed :: "ServiceConfig \<Rightarrow> PeerCredentials \<Rightarrow> bool" where
  "peerAllowed config peer \<longleftrightarrow>
     pc_uid peer \<in> set (sc_allowed_uids config) \<or> pc_gid peer \<in> set (sc_allowed_gids config)"

section \<open>Start-up\<close>

definition AuthorizationService_new ::
  "'w socket_calls \<Rightarrow> ServiceConfig \<Rightarrow> LoadedKeys \<Rightarrow> LicenseSnapshot \<Rightarrow> 'w \<Rightarrow> AuthorizationService \<times> 'w" where
  "AuthorizationService_new so config keys license w =
     (case UnixSocketListener_new so (sc_socket_path config) (sc_socket_mode config) (sc_backlog config) w of
        (listener, w) \<Rightarrow>
          (\<lparr>as_config = config, as_keys = keys, as_license = license, as_sessions = SessionManager_new,
            as_listener = listener\<rparr>, w))"

definition AuthorizationService_create ::
  "('h, 'w) openssl \<Rightarrow> license_fb \<Rightarrow> 'n toml \<Rightarrow> 'w posix \<Rightarrow> (string \<Rightarrow> file_view) \<Rightarrow> 'w socket_calls \<Rightarrow>
     string \<Rightarrow> 'w \<Rightarrow> AuthorizationService ServiceResult \<times> 'w" where
  "AuthorizationService_create ossl lf tp px fs so config_path w =
     (case loadConfig tp config_path of
        Inl _ \<Rightarrow> (Inl ServiceError_Config, w)
      | Inr config \<Rightarrow>
          (case loadKeys px config w of
             (Inl _, w) \<Rightarrow> (Inl ServiceError_Keys, w)
           | (Inr keys, w) \<Rightarrow>
               (case collectLinuxMachineIdentity ossl (sc_machine_identity config)
                       (\<lambda>path. Some (readFile fs path)) of
                  (e, machine) \<Rightarrow>
                    if e \<noteq> ErrorCode_None then (Inl ServiceError_MachineIdentity, w)
                    else (case Service_readLicense px (sc_license_path config) w of
                       (Inl e, w) \<Rightarrow> (Inl e, w)
                     | (Inr license_bytes, w) \<Rightarrow>
                         (case px_time px w of
                            (now, w) \<Rightarrow>
                              (case LicenseValidator_validate ossl lf
                                      \<lparr>lv_trusted_keys = lk_license_public_keys keys\<rparr> license_bytes
                                      (sc_product_id config) (mi_exact_id machine) now of
                                 Inl _ \<Rightarrow> (Inl ServiceError_InvalidLicense, w)
                               | Inr license \<Rightarrow>
                                   (case AuthorizationService_new so config keys license w of
                                      (service, w) \<Rightarrow> (Inr service, w))))))))"

section \<open>Serving\<close>

text \<open>The end of \<^verbatim>\<open>serve\<close> after its loop.\<close>

definition finish_serve ::
  "'w socket_calls \<Rightarrow> Connection \<Rightarrow> SessionManager \<Rightarrow> UnixSocketTransport \<Rightarrow> 'w \<Rightarrow>
     (ServiceError \<times> Connection \<times> SessionManager \<times> UnixSocketTransport \<times> 'w) option" where
  "finish_serve so c m t w =
     (case UnixSocketTransport_close so t w of
        None \<Rightarrow> None
      | Some (t, w) \<Rightarrow> Some (ServiceError_None, c, m, t, w))"

text \<open>The answer of a connection is written, if there is one.\<close>

definition write_response ::
  "'w socket_calls \<Rightarrow> u32 \<Rightarrow> bytes option \<Rightarrow> UnixSocketTransport \<Rightarrow> 'w \<Rightarrow> (bool \<times> 'w) option" where
  "write_response so io_timeout_ms response t w =
     (case response of
        None \<Rightarrow> Some (True, w)
      | Some bytes \<Rightarrow>
          (case Service_deadlineAfter so io_timeout_ms w of
             (deadline, w) \<Rightarrow>
               (case UnixSocketTransport_writeAll so bytes deadline t w of
                  None \<Rightarrow> None
                | Some (status, w) \<Rightarrow> Some (ts_code status = StatusCode_Ok, w))))"

text \<open>
  One round of the loop: \<open>Inl\<close> is the end of \<^verbatim>\<open>serve\<close>, \<open>Inr\<close> the state the next round starts with.
\<close>

definition serve_round ::
  "('h, 'w) openssl \<Rightarrow> flatbuffers \<Rightarrow> 'w posix \<Rightarrow> 'w socket_calls \<Rightarrow> ServiceConfig \<Rightarrow>
     Connection \<Rightarrow> SessionManager \<Rightarrow> UnixSocketTransport \<Rightarrow> 'w \<Rightarrow>
     ((ServiceError \<times> Connection \<times> SessionManager \<times> UnixSocketTransport \<times> 'w)
        + Connection \<times> SessionManager \<times> 'w) option" where
  "serve_round ossl fb px so config c m t w =
     (if Connection_closed c then map_option Inl (finish_serve so c m t w)
      else case Service_deadlineAfter so (if Connection_established c then sc_idle_timeout_ms config
                                          else sc_handshake_timeout_ms config) w of
        (deadline, w) \<Rightarrow>
          (case Service_readFrame so t deadline w of
             None \<Rightarrow> None
           | Some (Inl e, w) \<Rightarrow> Some (Inl (e, c, m, t, w))
           | Some (Inr frame, w) \<Rightarrow>
               (case monotonicMilliseconds so w of
                  (ms, w) \<Rightarrow>
                    (case px_time px w of
                       (now, w) \<Rightarrow>
                         (case Connection_handle ossl fb frame ms now c m w of
                            None \<Rightarrow> None
                          | Some (result, c, m, w) \<Rightarrow>
                              (case write_response so (sc_io_timeout_ms config) (cr_response result) t w of
                                 None \<Rightarrow> None
                               | Some (written, w) \<Rightarrow>
                                   if \<not> written then Some (Inl (ServiceError_Transport, c, m, t, w))
                                   else if cr_closed result then map_option Inl (finish_serve so c m t w)
                                   else Some (Inr (c, m, w))))))))"

partial_function (option) serve_loop ::
  "('h, 'w) openssl \<Rightarrow> flatbuffers \<Rightarrow> 'w posix \<Rightarrow> 'w socket_calls \<Rightarrow> ServiceConfig \<Rightarrow>
     Connection \<Rightarrow> SessionManager \<Rightarrow> UnixSocketTransport \<Rightarrow> 'w \<Rightarrow>
     (ServiceError \<times> Connection \<times> SessionManager \<times> UnixSocketTransport \<times> 'w) option" where
  "serve_loop ossl fb px so config c m t w =
     (case serve_round ossl fb px so config c m t w of
        None \<Rightarrow> None
      | Some (Inl r) \<Rightarrow> Some r
      | Some (Inr (c, m, w)) \<Rightarrow> serve_loop ossl fb px so config c m t w)"

definition AuthorizationService_serve ::
  "('h, 'w) openssl \<Rightarrow> flatbuffers \<Rightarrow> 'w posix \<Rightarrow> 'w socket_calls \<Rightarrow> AuthorizationService \<Rightarrow>
     UnixSocketTransport \<Rightarrow> string \<Rightarrow> 'w \<Rightarrow>
     (ServiceError \<times> AuthorizationService \<times> UnixSocketTransport \<times> 'w) option" where
  "AuthorizationService_serve ossl fb px so service client peer_identity w =
     (case serve_loop ossl fb px so (as_config service)
             (Connection_new (lk_identity_key_id (as_keys service))
                (lk_identity_private_key (as_keys service)) (as_license service) peer_identity
                (sc_heartbeat_interval_ms (as_config service))
                (sc_heartbeat_timeout_ms (as_config service)))
             (as_sessions service) client w of
        None \<Rightarrow> None
      | Some (e, connection, m, client, w) \<Rightarrow>
          Some (e, service\<lparr>as_sessions := Connection_destroy connection m\<rparr>, client, w))"

section \<open>Accepting\<close>

definition identity_of :: "PeerCredentials \<Rightarrow> string" where
  "identity_of peer =
     ''uid='' @ nat_digits (unat (pc_uid peer)) @ '';gid='' @ nat_digits (unat (pc_gid peer))
       @ '';pid='' @ int_digits (pc_pid peer)"

text \<open>
  One accepted transport: refused peers are disconnected, others are served; in the end the transport
  is destroyed.
\<close>

definition handle_peer ::
  "('h, 'w) openssl \<Rightarrow> flatbuffers \<Rightarrow> 'w posix \<Rightarrow> 'w socket_calls \<Rightarrow> AuthorizationService \<Rightarrow>
     UnixSocketTransport \<Rightarrow> 'w \<Rightarrow> (AuthorizationService \<times> 'w) option" where
  "handle_peer ossl fb px so service t w =
     (case UnixSocketTransport_peerCredentials so t w of
        None \<Rightarrow> None
      | Some (peer, w) \<Rightarrow>
          (case (case peer of Inl _ \<Rightarrow> None
                 | Inr credentials \<Rightarrow> if peerAllowed (as_config service) credentials then Some credentials
                                      else None) of
             None \<Rightarrow>
               (case UnixSocketTransport_close so t w of
                  None \<Rightarrow> None
                | Some (t, w) \<Rightarrow>
                    (case UnixSocketTransport_destroy so t w of
                       None \<Rightarrow> None | Some w \<Rightarrow> Some (service, w)))
           | Some credentials \<Rightarrow>
               (case AuthorizationService_serve ossl fb px so service t (identity_of credentials) w of
                  None \<Rightarrow> None
                | Some (_, service, t, w) \<Rightarrow>
                    (case UnixSocketTransport_destroy so t w of
                       None \<Rightarrow> None | Some w \<Rightarrow> Some (service, w)))))"

definition close_listener ::
  "'w socket_calls \<Rightarrow> AuthorizationService \<Rightarrow> 'w \<Rightarrow> (AuthorizationService \<times> 'w) option" where
  "close_listener so service w =
     (case UnixSocketListener_close so (as_listener service) w of
        None \<Rightarrow> None
      | Some (l, w) \<Rightarrow> Some (service\<lparr>as_listener := l\<rparr>, w))"

partial_function (option) run_loop ::
  "('w \<Rightarrow> bool) \<Rightarrow> ('h, 'w) openssl \<Rightarrow> flatbuffers \<Rightarrow> 'w posix \<Rightarrow> 'w socket_calls \<Rightarrow>
     AuthorizationService \<Rightarrow> 'w \<Rightarrow> (ServiceError \<times> AuthorizationService \<times> 'w) option" where
  "run_loop stop ossl fb px so service w =
     (if stop w
      then (case close_listener so service w of
              None \<Rightarrow> None | Some (service, w) \<Rightarrow> Some (ServiceError_None, service, w))
      else case Service_deadlineAfter so 250 w of
        (deadline, w) \<Rightarrow>
          (case UnixSocketListener_accept so deadline (as_listener service) w of
             None \<Rightarrow> None
           | Some (Inl status, w) \<Rightarrow>
               if ts_code status = StatusCode_Timeout then run_loop stop ossl fb px so service w
               else if stop w
               then (case close_listener so service w of
                       None \<Rightarrow> None | Some (service, w) \<Rightarrow> Some (ServiceError_None, service, w))
               else Some (ServiceError_Transport, service, w)
           | Some (Inr t, w) \<Rightarrow>
               (case handle_peer ossl fb px so service t w of
                  None \<Rightarrow> None
                | Some (service, w) \<Rightarrow> run_loop stop ossl fb px so service w)))"

definition AuthorizationService_run ::
  "('w \<Rightarrow> bool) \<Rightarrow> ('h, 'w) openssl \<Rightarrow> flatbuffers \<Rightarrow> 'w posix \<Rightarrow> 'w socket_calls \<Rightarrow>
     AuthorizationService \<Rightarrow> 'w \<Rightarrow> (ServiceError \<times> AuthorizationService \<times> 'w) option" where
  "AuthorizationService_run stop ossl fb px so service w =
     (case UnixSocketListener_listen so (as_listener service) w of
        None \<Rightarrow> None
      | Some (status, l, w) \<Rightarrow>
          let service = service\<lparr>as_listener := l\<rparr>
          in if ts_code status \<noteq> StatusCode_Ok then Some (ServiceError_Listen, service, w)
             else run_loop stop ossl fb px so service w)"

definition AuthorizationService_stop ::
  "'w socket_calls \<Rightarrow> AuthorizationService \<Rightarrow> 'w \<Rightarrow> (AuthorizationService \<times> 'w) option" where
  "AuthorizationService_stop so service w = close_listener so service w"

text \<open>The program: its exit status and what it writes to standard error.\<close>

definition service_main ::
  "('w \<Rightarrow> bool) \<Rightarrow> ('h, 'w) openssl \<Rightarrow> flatbuffers \<Rightarrow> license_fb \<Rightarrow> 'n toml \<Rightarrow> 'w posix \<Rightarrow>
     (string \<Rightarrow> file_view) \<Rightarrow> 'w socket_calls \<Rightarrow> string list \<Rightarrow> 'w \<Rightarrow> (nat \<times> string \<times> 'w) option" where
  "service_main stop ossl fb lf tp px fs so argv w =
     (case AuthorizationService_create ossl lf tp px fs so
             (if length argv > 1 then argv ! 1 else ''/etc/yoauthorize/service.toml'') w of
        (Inl _, w) \<Rightarrow> Some (1, ''failed to initialize authorization service'' @ [CHR 0x0A], w)
      | (Inr service, w) \<Rightarrow>
          (case AuthorizationService_run stop ossl fb px so service w of
             None \<Rightarrow> None
           | Some (e, service, w) \<Rightarrow>
               (case UnixSocketListener_destroy so (as_listener service) w of
                  None \<Rightarrow> None
                | Some w \<Rightarrow>
                    if e \<noteq> ServiceError_None
                    then Some (1, ''authorization service stopped with an error'' @ [CHR 0x0A], w)
                    else Some (0, [], w))))"

section \<open>Frames from a stream\<close>

text \<open>
  What the readers of frames need of a transport: a successful read returns exactly the bytes asked
  for.  Both programs read a frame in two steps, the header and then the payload it announces; what
  they get is a frame the decoder accepts.
\<close>

lemma decodeHeader_append:
  assumes "length header_bytes = kFrameHeaderSize"
  shows "decodeHeader (header_bytes @ payload) limit = decodeHeader header_bytes limit"
proof -
  have "subspan off c (header_bytes @ payload) = subspan off c header_bytes" if "off + c \<le> 20" for off c
    using assms that by (simp add: subspan_def kFrameHeaderSize_def)
  then show ?thesis using assms by (simp add: decodeHeader_def kFrameHeaderSize_def)
qed

lemma decodeHeader_nonempty:
  assumes "decodeHeader bs limit = Inr (header, rest)"
  shows "fh_payload_size header \<noteq> 0"
  using assms unfolding decodeHeader_def Let_def by (simp split: if_splits) (elim conjE, drule sym, simp)

locale exact_reader =
  fixes read :: "nat \<Rightarrow> Deadline \<Rightarrow> 's \<Rightarrow> ((TransportStatus + bytes) \<times> 's) option"
    and stream_ok :: bool
  assumes read_length: "stream_ok \<Longrightarrow> 0 < n \<Longrightarrow> read n d s = Some (Inr bs, s') \<Longrightarrow> length bs = n"
begin

lemma two_reads_decode:
  assumes "stream_ok" "read kFrameHeaderSize d s = Some (Inr header_bytes, s1)"
    and "decodeHeader header_bytes kDefaultMaxPayloadSize = Inr (header, rest)"
    and "read (unat (fh_payload_size header)) d1 s1 = Some (Inr payload, s2)"
  shows "decodeFrame (header_bytes @ payload) kDefaultMaxPayloadSize = Inr (header, payload)"
proof -
  have "length header_bytes = kFrameHeaderSize"
    using read_length [OF assms(1) _ assms(2)] by (simp add: kFrameHeaderSize_def)
  moreover have "fh_payload_size header \<noteq> 0"
    by (rule decodeHeader_nonempty [OF assms(3)])
  then have "length payload = unat (fh_payload_size header)"
    using read_length [OF assms(1) _ assms(4)] by (simp add: unat_gt_0)
  ultimately show ?thesis
    using assms(3) by (simp add: decodeFrame_def decodeHeader_append)
qed

end

definition connected_stream :: "'w socket_calls \<Rightarrow> UnixSocketTransport \<Rightarrow> bool" where
  "connected_stream so t \<longleftrightarrow> (\<exists>D incoming outgoing. stream so D incoming outgoing \<and> us_fd t \<in> D)"

interpretation socket: exact_reader "\<lambda>n d w. UnixSocketTransport_readExact so n d t w" "connected_stream so t"
  for so t
proof
  fix n d w bs w'
  assume "connected_stream so t" and r: "0 < n" "UnixSocketTransport_readExact so n d t w = Some (Inr bs, w')"
  then obtain D incoming outgoing where "stream so D incoming outgoing" "us_fd t \<in> D"
    unfolding connected_stream_def by blast
  from readExact_effect [OF this r] show "length bs = n" by (auto simp: read_effect_def)
qed

lemma Service_readFrame_decodes:
  assumes "connected_stream so t" "Service_readFrame so t deadline w = Some (Inr frame, w')"
  shows "\<exists>header payload. decodeFrame frame kDefaultMaxPayloadSize = Inr (header, payload)"
proof -
  from assms(2) obtain h w1 header rest p where
    "UnixSocketTransport_readExact so kFrameHeaderSize deadline t w = Some (Inr h, w1)"
    "decodeHeader h kDefaultMaxPayloadSize = Inr (header, rest)"
    "UnixSocketTransport_readExact so (unat (fh_payload_size header)) deadline t w1 = Some (Inr p, w')"
    "frame = h @ p"
    by (auto simp: Service_readFrame_def split: option.splits prod.splits sum.splits)
  with socket.two_reads_decode [OF assms(1), of deadline w h w1 header rest deadline p w'] show ?thesis by blast
qed

section \<open>Sessions of a served peer\<close>

text \<open>
  What the table would be if the connection were destroyed now: the same as before it was created.
\<close>

definition borrowed :: "SessionManager \<Rightarrow> Connection \<Rightarrow> SessionManager \<Rightarrow> bool" where
  "borrowed m0 c m \<longleftrightarrow>
     (\<forall>sid. (if sid \<in> owned c then None else lookup_session m sid) = lookup_session m0 sid)"

lemma borrowed_step:
  assumes "borrowed m0 c m" "session_step c m c' m'"
  shows "borrowed m0 c' m'"
  unfolding borrowed_def
proof
  fix sid
  from assms(1) have a: "(if sid \<in> owned c then None else lookup_session m sid) = lookup_session m0 sid"
    unfolding borrowed_def by blast
  from assms(2) have "id_step (sid \<in> owned c) (sid \<in> owned c') (lookup_session m sid) (lookup_session m' sid)"
    unfolding session_step_def by blast
  with a show "(if sid \<in> owned c' then None else lookup_session m' sid) = lookup_session m0 sid"
    by (auto simp: id_step_def split: if_splits)
qed

lemma borrowed_destroy:
  assumes "borrowed m0 c m" "manager_wf m"
  shows "manager_wf (Connection_destroy c m) \<and> lookup_session (Connection_destroy c m) = lookup_session m0"
  using assms(1) destroy_releases [OF assms(2)] unfolding borrowed_def by fastforce

definition serving :: "SessionManager \<Rightarrow> Connection \<Rightarrow> SessionManager \<Rightarrow> bool" where
  "serving m0 c m \<longleftrightarrow> conn_inv c \<and> manager_wf m \<and> borrowed m0 c m"

lemma serving_handle:
  assumes "serving m0 c m" "Connection_handle ossl fb frame ms now c m w = Some (res, c', m', w')"
  shows "serving m0 c' m'"
proof -
  have "handled c m c' m'" using handle_handled [OF _ _ assms(2)] assms(1) by (simp add: serving_def)
  then show ?thesis
    using assms(1) borrowed_step by (auto simp: serving_def handled_def session_step_def)
qed

lemma serving_new: "manager_wf m \<Longrightarrow> serving m (Connection_new kid key license peer interval timeout) m"
  by (simp add: serving_def conn_inv_def Connection_new_def ServerHandshake_new_def borrowed_def owned_def)

definition round_state ::
  "(ServiceError \<times> Connection \<times> SessionManager \<times> UnixSocketTransport \<times> 'w) + Connection \<times> SessionManager \<times> 'w
     \<Rightarrow> Connection \<times> SessionManager" where
  "round_state r = (case r of Inl (_, c, m, _, _) \<Rightarrow> (c, m) | Inr (c, m, _) \<Rightarrow> (c, m))"

lemma finish_serve_state:
  "finish_serve so c m t w = Some r \<Longrightarrow> round_state (Inl r) = (c, m)"
  by (auto simp: finish_serve_def round_state_def split: option.splits)

lemma serve_round_cases:
  assumes "serve_round ossl fb px so config c m t w = Some r"
  shows "round_state r = (c, m) \<or>
    (\<exists>frame ms now v res c' m' v'. Connection_handle ossl fb frame ms now c m v = Some (res, c', m', v') \<and>
       round_state r = (c', m'))"
proof (cases "Connection_closed c")
  case True
  with assms show ?thesis by (auto simp: serve_round_def dest: finish_serve_state)
next
  case False
  let ?timeout = "if Connection_established c then sc_idle_timeout_ms config else sc_handshake_timeout_ms config"
  obtain d w1 where d: "Service_deadlineAfter so ?timeout w = (d, w1)" by fastforce
  from assms False d obtain f w2 where f: "Service_readFrame so t d w1 = Some (f, w2)"
    by (auto simp: serve_round_def split: option.splits)
  show ?thesis
  proof (cases f)
    case (Inl e)
    with assms False d f show ?thesis by (auto simp: serve_round_def round_state_def)
  next
    case (Inr frame)
    obtain ms w3 now w4 where k: "monotonicMilliseconds so w2 = (ms, w3)" "px_time px w3 = (now, w4)" by fastforce
    with assms False d f Inr obtain res c' m' w5 where
      h: "Connection_handle ossl fb frame ms now c m w4 = Some (res, c', m', w5)"
      by (auto simp: serve_round_def split: option.splits)
    with assms False d f Inr k obtain ok w6 where
      "write_response so (sc_io_timeout_ms config) (cr_response res) t w5 = Some (ok, w6)"
      by (auto simp: serve_round_def split: option.splits)
    with assms False d f Inr k h have "round_state r = (c', m')"
      by (auto simp: serve_round_def round_state_def [of "Inr _"] round_state_def [of "Inl (ServiceError_Transport, _)"]
          split: if_splits dest: finish_serve_state)
    with h show ?thesis by blast
  qed
qed

lemma serving_round:
  assumes "serving m0 c m" "serve_round ossl fb px so config c m t w = Some r" "round_state r = (c', m')"
  shows "serving m0 c' m'"
  using serve_round_cases [OF assms(2)] serving_handle [OF assms(1)] assms(1,3) by auto

lemma serve_loop_serving:
  fixes ossl :: "('h, 'w) openssl"
  assumes "serving m0 c m" "serve_loop ossl fb px so config c m t w = Some r"
  shows "serving m0 (fst (snd r)) (fst (snd (snd r)))"
proof -
  let ?P = "\<lambda>c m r. serving m0 c m \<longrightarrow> serving m0 (fst (snd r)) (fst (snd (snd r)))"
  have "?P c m r"
  proof (rule serve_loop.raw_induct [where P = "\<lambda>_ _ _ _ _ c m _ _ r. ?P c m r", OF _ assms(2)], intro impI)
    fix loop :: "('h, 'w) openssl \<Rightarrow> flatbuffers \<Rightarrow> 'w posix \<Rightarrow> 'w socket_calls \<Rightarrow> ServiceConfig \<Rightarrow>
        Connection \<Rightarrow> SessionManager \<Rightarrow> UnixSocketTransport \<Rightarrow> 'w \<Rightarrow>
        (ServiceError \<times> Connection \<times> SessionManager \<times> UnixSocketTransport \<times> 'w) option"
      and ossl :: "('h, 'w) openssl" and fb px so config c m t w r
    assume IH: "\<And>ossl fb px so config c m t w r. loop ossl fb px so config c m t w = Some r \<Longrightarrow> ?P c m r"
      and eq: "(case serve_round ossl fb px so config c m t w of
        None \<Rightarrow> None
      | Some (Inl r) \<Rightarrow> Some r
      | Some (Inr (c, m, w)) \<Rightarrow> loop ossl fb px so config c m t w) = Some r"
      and s: "serving m0 c m"
    from eq obtain x where x: "serve_round ossl fb px so config c m t w = Some x" by (auto split: option.splits)
    note step = serving_round [OF s x]
    show "serving m0 (fst (snd r)) (fst (snd (snd r)))"
    proof (cases x)
      case (Inl r')
      with eq x have "r' = r" by simp
      with Inl step show ?thesis by (simp add: round_state_def split: prod.splits)
    next
      case (Inr y)
      obtain c1 m1 w1 where y: "y = (c1, m1, w1)" by (cases y)
      with eq x Inr have "loop ossl fb px so config c1 m1 t w1 = Some r" by simp
      from IH [OF this] Inr y step show ?thesis by (simp add: round_state_def)
    qed
  qed
  with assms(1) show ?thesis by simp
qed

lemma serve_keeps_table:
  assumes "manager_wf (as_sessions service)"
    and "AuthorizationService_serve ossl fb px so service t peer w = Some (e, service', t', w')"
  shows "manager_wf (as_sessions service') \<and>
         lookup_session (as_sessions service') = lookup_session (as_sessions service) \<and>
         (\<exists>m. service' = service\<lparr>as_sessions := m\<rparr>)"
proof -
  from assms(2) obtain c m where
    l: "serve_loop ossl fb px so (as_config service)
          (Connection_new (lk_identity_key_id (as_keys service))
             (lk_identity_private_key (as_keys service)) (as_license service) peer
             (sc_heartbeat_interval_ms (as_config service)) (sc_heartbeat_timeout_ms (as_config service)))
          (as_sessions service) t w = Some (e, c, m, t', w')" and
    s: "service' = service\<lparr>as_sessions := Connection_destroy c m\<rparr>"
    by (auto simp: AuthorizationService_serve_def split: option.splits)
  from serve_loop_serving [OF serving_new [OF assms(1)] l]
  have "serving (as_sessions service) c m" by simp
  with s borrowed_destroy show ?thesis by (auto simp: serving_def)
qed

lemma handle_peer_keeps_table:
  assumes "manager_wf (as_sessions service)" "handle_peer ossl fb px so service t w = Some (service', w')"
  shows "manager_wf (as_sessions service') \<and>
         lookup_session (as_sessions service') = lookup_session (as_sessions service)"
proof -
  from assms(2) have "service' = service \<or>
      (\<exists>peer v e t' v'. AuthorizationService_serve ossl fb px so service t peer v = Some (e, service', t', v'))"
    by (auto simp: handle_peer_def split: option.splits)
  then show ?thesis
  proof
    assume "\<exists>peer v e t' v'. AuthorizationService_serve ossl fb px so service t peer v = Some (e, service', t', v')"
    then obtain peer v e t' v' where
      "AuthorizationService_serve ossl fb px so service t peer v = Some (e, service', t', v')" by blast
    from serve_keeps_table [OF assms(1) this] show ?thesis by simp
  qed (simp add: assms(1))
qed

lemma close_listener_state: "close_listener so service w = Some (service', w') \<Longrightarrow> as_sessions service' = as_sessions service"
  by (auto simp: close_listener_def split: option.splits)

lemma run_loop_keeps_table:
  fixes ossl :: "('h, 'w) openssl"
  assumes "manager_wf (as_sessions service)" "run_loop stop ossl fb px so service w = Some r"
  shows "manager_wf (as_sessions (fst (snd r))) \<and>
         lookup_session (as_sessions (fst (snd r))) = lookup_session (as_sessions service)"
proof -
  let ?P = "\<lambda>service r. manager_wf (as_sessions service) \<longrightarrow> manager_wf (as_sessions (fst (snd r))) \<and>
         lookup_session (as_sessions (fst (snd r))) = lookup_session (as_sessions service)"
  have "?P service r"
  proof (rule run_loop.raw_induct [where P = "\<lambda>_ _ _ _ _ s _ r. ?P s r", OF _ assms(2)], intro impI)
    fix loop :: "('w \<Rightarrow> bool) \<Rightarrow> ('h, 'w) openssl \<Rightarrow> flatbuffers \<Rightarrow> 'w posix \<Rightarrow> 'w socket_calls \<Rightarrow>
        AuthorizationService \<Rightarrow> 'w \<Rightarrow> (ServiceError \<times> AuthorizationService \<times> 'w) option"
      and stop and ossl :: "('h, 'w) openssl" and fb px so service w r
    assume IH: "\<And>stop ossl fb px so service w r. loop stop ossl fb px so service w = Some r \<Longrightarrow> ?P service r"
      and eq: "(if stop w
      then (case close_listener so service w of
              None \<Rightarrow> None | Some (service, w) \<Rightarrow> Some (ServiceError_None, service, w))
      else case Service_deadlineAfter so 250 w of
        (deadline, w) \<Rightarrow>
          (case UnixSocketListener_accept so deadline (as_listener service) w of
             None \<Rightarrow> None
           | Some (Inl status, w) \<Rightarrow>
               if ts_code status = StatusCode_Timeout then loop stop ossl fb px so service w
               else if stop w
               then (case close_listener so service w of
                       None \<Rightarrow> None | Some (service, w) \<Rightarrow> Some (ServiceError_None, service, w))
               else Some (ServiceError_Transport, service, w)
           | Some (Inr t, w) \<Rightarrow>
               (case handle_peer ossl fb px so service t w of
                  None \<Rightarrow> None
                | Some (service, w) \<Rightarrow> loop stop ossl fb px so service w))) = Some r"
      and wf: "manager_wf (as_sessions service)"
    from eq have "as_sessions (fst (snd r)) = as_sessions service \<or>
        (\<exists>v. loop stop ossl fb px so service v = Some r) \<or>
        (\<exists>t v service1 v1. handle_peer ossl fb px so service t v = Some (service1, v1) \<and>
           loop stop ossl fb px so service1 v1 = Some r)"
      by (auto split: if_splits option.splits prod.splits sum.splits dest: close_listener_state)
    then show "manager_wf (as_sessions (fst (snd r))) \<and>
         lookup_session (as_sessions (fst (snd r))) = lookup_session (as_sessions service)"
    proof (elim disjE exE conjE)
      fix v
      assume "loop stop ossl fb px so service v = Some r"
      from IH [OF this] wf show ?thesis by simp
    next
      fix t v service1 v1
      assume "handle_peer ossl fb px so service t v = Some (service1, v1)"
        and l: "loop stop ossl fb px so service1 v1 = Some r"
      from handle_peer_keeps_table [OF wf this(1)] IH [OF l] show ?thesis by simp
    qed (simp add: wf)
  qed
  with assms(1) show ?thesis by simp
qed

section \<open>Properties\<close>

text \<open>
  C17.  A service starts only with a license: when start-up succeeds, the configuration is the one of the
  file and within bounds, the keys are those loaded with the private key from a checked file, and the bytes
  read from the configured license file were validated with these keys, for the configured product and
  the identity of this machine as the configuration says to collect it, at the time the clock showed right
  after the file was read; the table of sessions is empty.
\<close>

theorem service_starts_only_licensed:
  assumes "posix_bounded px"
    and "AuthorizationService_create ossl lf tp px fs so path w = (Inr service, w')"
  shows "loadConfig tp path = Inr (as_config service) \<and> config_ok (as_config service) \<and>
         key_file_checked px (sc_identity_private_key_path (as_config service)) True w \<and>
         (\<exists>w1 machine package w2 now w3.
            loadKeys px (as_config service) w = (Inr (as_keys service), w1) \<and>
            collectLinuxMachineIdentity ossl (sc_machine_identity (as_config service))
              (\<lambda>p. Some (readFile fs p)) = (ErrorCode_None, machine) \<and>
            Service_readLicense px (sc_license_path (as_config service)) w1 = (Inr package, w2) \<and>
            px_time px w2 = (now, w3) \<and>
            LicenseValidator_validate ossl lf \<lparr>lv_trusted_keys = lk_license_public_keys (as_keys service)\<rparr>
              package (sc_product_id (as_config service)) (mi_exact_id machine) now = Inr (as_license service)) \<and>
         as_sessions service = SessionManager_new"
proof -
  from assms(2) obtain config keys w1 machine package w2 now w3 license where
    c: "loadConfig tp path = Inr config" and k: "loadKeys px config w = (Inr keys, w1)" and
    m: "collectLinuxMachineIdentity ossl (sc_machine_identity config) (\<lambda>p. Some (readFile fs p))
          = (ErrorCode_None, machine)" and
    r: "Service_readLicense px (sc_license_path config) w1 = (Inr package, w2)" "px_time px w2 = (now, w3)" and
    l: "LicenseValidator_validate ossl lf \<lparr>lv_trusted_keys = lk_license_public_keys keys\<rparr> package
          (sc_product_id config) (mi_exact_id machine) now = Inr license" and
    s: "AuthorizationService_new so config keys license w3 = (service, w')"
    by (auto simp: AuthorizationService_create_def split: sum.splits prod.splits if_splits)
  from s have "as_config service = config" "as_keys service = keys" "as_license service = license"
    "as_sessions service = SessionManager_new"
    by (auto simp: AuthorizationService_new_def split: prod.splits)
  with c k m r l loadConfig_ok [OF c] loadKeys_ok [OF assms(1) k] show ?thesis by auto
qed

text \<open>
  C16.  Peers leave nothing behind: after the service ran, however many peers it served and however
  each of them ended, the table of sessions is what it was before.
\<close>

theorem service_run_releases_sessions:
  assumes "manager_wf (as_sessions service)"
    and "AuthorizationService_run stop ossl fb px so service w = Some (e, service', w')"
  shows "manager_wf (as_sessions service') \<and>
         lookup_session (as_sessions service') = lookup_session (as_sessions service)"
proof -
  from assms(2) obtain status l w1 where
    "UnixSocketListener_listen so (as_listener service) w = Some (status, l, w1)"
    by (auto simp: AuthorizationService_run_def split: option.splits)
  with assms run_loop_keeps_table [of "service\<lparr>as_listener := l\<rparr>" stop ossl fb px so w1 "(e, service', w')"]
  show ?thesis by (auto simp: AuthorizationService_run_def Let_def split: if_splits)
qed

text \<open>
  Every frame the service takes from a connected stream is one the frame decoder accepts: the
  two reads, of the header and of the payload it announces, fit together.
\<close>

lemma service_frames_decode:
  assumes "connected_stream so t" "Service_readFrame so t deadline w = Some (Inr frame, w')"
  shows "\<exists>header payload. decodeFrame frame kDefaultMaxPayloadSize = Inr (header, payload)"
  using assms by (rule Service_readFrame_decodes)

end
