(* ===== verification/Client.thy ===== *)
theory Client
  imports Service
begin

text \<open>
  The client library, \<^verbatim>\<open>src/src/ya_license_sdk/src/client.cpp\<close>.  The object of
  \<^verbatim>\<open>LicenseClient::Impl\<close> is a record; its mutexes make each operation on the snapshot atomic, so a
  run is a sequence of the operations and of rounds of the heartbeat thread.  The transport is the
  one of \<^verbatim>\<open>UnixSocket\<close>.  An operation that would not return is \<open>None\<close>.
\<close>

section \<open>Data\<close>

datatype ClientState =
    ClientState_Uninitialized
  | ClientState_Connecting
  | ClientState_Valid
  | ClientState_Grace
  | ClientState_Expired
  | ClientState_Revoked
  | ClientState_Error
  | ClientState_Closed

datatype ClientError =
    ClientError_None
  | ClientError_InvalidConfig
  | ClientError_Transport
  | ClientError_Protocol
  | ClientError_ServiceIdentityInvalid
  | ClientError_AuthorizationDenied
  | ClientError_LicenseFile
  | ClientError_InvalidLicense
  | ClientError_MachineIdentity
  | ClientError_AlreadyInitialized

record Status =
  sdk_error :: ClientError
  sdk_message :: string

definition status_ok :: Status where
  "status_ok = \<lparr>sdk_error = ClientError_None, sdk_message = []\<rparr>"

text \<open>Durations are whole milliseconds.\<close>

record ClientConfig =
  cc_product_id :: string
  cc_endpoint :: string
  cc_trusted_service_keys :: "(string \<times> bytes) list"
  cc_connect_timeout :: int
  cc_io_timeout :: int

definition default_client_config :: ClientConfig where
  "default_client_config =
     \<lparr>cc_product_id = [], cc_endpoint = ''/run/yoauthorize/license-v1.sock'',
      cc_trusted_service_keys = [], cc_connect_timeout = 5000, cc_io_timeout = 5000\<rparr>"

record ClientSnapshot =
  sn_state :: ClientState
  sn_features :: "string list"
  sn_expire_time :: u64

section \<open>Frames\<close>

definition Client_deadlineAfter :: "'w socket_calls \<Rightarrow> int \<Rightarrow> 'w \<Rightarrow> Deadline \<times> 'w" where
  "Client_deadlineAfter so timeout w =
     (case so_now so w of (now, w) \<Rightarrow> (Some (now + timeout * 1000000), w))"

definition Client_wrapPlaintext :: "bytes \<Rightarrow> bytes" where
  "Client_wrapPlaintext payload =
     (let encoded_header = encodeHeader \<lparr>fh_version = kFrameVersion, fh_flags = 0, fh_sequence = 0,
                                          fh_payload_size = of_nat (length payload)\<rparr>
      in encoded_header @ payload)"

definition writeFrame ::
  "'w socket_calls \<Rightarrow> UnixSocketTransport \<Rightarrow> bytes \<Rightarrow> int \<Rightarrow> 'w \<Rightarrow> (Status \<times> 'w) option" where
  "writeFrame so t frame timeout w =
     (case Client_deadlineAfter so timeout w of
        (deadline, w) \<Rightarrow>
          (case UnixSocketTransport_writeAll so frame deadline t w of
             None \<Rightarrow> None
           | Some (status, w) \<Rightarrow>
               Some (if ts_code status = StatusCode_Ok then status_ok
                     else \<lparr>sdk_error = ClientError_Transport,
                           sdk_message = ''failed to write service frame''\<rparr>, w)))"

definition Client_readFrame ::
  "'w socket_calls \<Rightarrow> UnixSocketTransport \<Rightarrow> int \<Rightarrow> 'w \<Rightarrow> ((Status + bytes) \<times> 'w) option" where
  "Client_readFrame so t timeout w =
     (case Client_deadlineAfter so timeout w of
        (deadline, w) \<Rightarrow>
          (case UnixSocketTransport_readExact so kFrameHeaderSize deadline t w of
             None \<Rightarrow> None
           | Some (Inl _, w) \<Rightarrow>
               Some (Inl \<lparr>sdk_error = ClientError_Transport,
                          sdk_message = ''failed to read service frame''\<rparr>, w)
           | Some (Inr header_bytes, w) \<Rightarrow>
               (case decodeHeader header_bytes kDefaultMaxPayloadSize of
                  Inl _ \<Rightarrow> Some (Inl \<lparr>sdk_error = ClientError_Protocol,
                                     sdk_message = ''service sent an invalid frame''\<rparr>, w)
                | Inr (header, _) \<Rightarrow>
                    (case Client_deadlineAfter so timeout w of
                       (deadline, w) \<Rightarrow>
                         (case UnixSocketTransport_readExact so (unat (fh_payload_size header)) deadline t w of
                            None \<Rightarrow> None
                          | Some (Inl _, w) \<Rightarrow>
                              Some (Inl \<lparr>sdk_error = ClientError_Transport,
                                         sdk_message = ''failed to read service payload''\<rparr>, w)
                          | Some (Inr payload, w) \<Rightarrow> Some (Inr (header_bytes @ payload), w))))))"

definition unwrapPlaintext :: "bytes \<Rightarrow> bytes" where
  "unwrapPlaintext frame =
     (case decodeFrame frame kDefaultMaxPayloadSize of
        Inl _ \<Rightarrow> []
      | Inr (header, payload) \<Rightarrow>
          if fh_flags header \<noteq> 0 \<or> fh_sequence header \<noteq> 0 then [] else payload)"

section \<open>The client object\<close>

record Impl =
  im_snapshot :: ClientSnapshot
  im_config :: ClientConfig
  im_session_id :: bytes
  im_heartbeat_interval :: int
  im_next_request_id :: u64
  im_stop_requested :: bool
  im_transport :: "UnixSocketTransport option"
  im_handshake :: "ClientHandshake option"
  im_thread_running :: bool

definition Impl_new :: Impl where
  "Impl_new =
     \<lparr>im_snapshot = \<lparr>sn_state = ClientState_Uninitialized, sn_features = [], sn_expire_time = 0\<rparr>,
      im_config = default_client_config, im_session_id = replicate 16 0, im_heartbeat_interval = 0,
      im_next_request_id = 3, im_stop_requested = False, im_transport = None, im_handshake = None,
      im_thread_running = False\<rparr>"

text \<open>Closing and releasing the transport: \<^verbatim>\<open>transport_->close(); transport_.reset();\<close>.\<close>

definition release_transport :: "'w socket_calls \<Rightarrow> Impl \<Rightarrow> 'w \<Rightarrow> (Impl \<times> 'w) option" where
  "release_transport so im w =
     (case im_transport im of
        None \<Rightarrow> Some (im, w)
      | Some t \<Rightarrow>
          (case UnixSocketTransport_close so t w of
             None \<Rightarrow> None
           | Some (t, w) \<Rightarrow>
               (case UnixSocketTransport_destroy so t w of
                  None \<Rightarrow> None
                | Some w \<Rightarrow> Some (im\<lparr>im_transport := None\<rparr>, w))))"

definition Impl_fail ::
  "'w socket_calls \<Rightarrow> Status \<Rightarrow> Impl \<Rightarrow> 'w \<Rightarrow> (Status \<times> Impl \<times> 'w) option" where
  "Impl_fail so status im w =
     (case release_transport so im w of
        None \<Rightarrow> None
      | Some (im, w) \<Rightarrow>
          Some (status,
                im\<lparr>im_handshake := None,
                   im_snapshot := (im_snapshot im)\<lparr>sn_state := ClientState_Error, sn_features := []\<rparr>\<rparr>, w))"

definition Impl_fail_with ::
  "'w socket_calls \<Rightarrow> ClientError \<Rightarrow> string \<Rightarrow> Impl \<Rightarrow> 'w \<Rightarrow> (Status \<times> Impl \<times> 'w) option" where
  "Impl_fail_with so error message im w =
     Impl_fail so \<lparr>sdk_error = error, sdk_message = message\<rparr> im w"

text \<open>The answer to an authorization request that the client accepts.\<close>

definition accepted_result :: "ClientHandshake \<Rightarrow> AuthResultMessage \<Rightarrow> bool" where
  "accepted_result hs response \<longleftrightarrow>
     \<not> (arm_error response \<noteq> AuthorizationError_None \<or> arm_request_id response \<noteq> 2 \<or>
        arm_protocol_version response \<noteq> cl_selected_version hs \<or> arm_session_id response = None \<or>
        arm_heartbeat_interval_ms response = 0 \<or> arm_heartbeat_timeout_ms response = 0 \<or>
        arm_heartbeat_interval_ms response \<ge> arm_heartbeat_timeout_ms response)"

text \<open>
  \<^verbatim>\<open>initialize\<close> in three parts: the handshake, the authorization and the parts before and after.
  \<open>pid\<close> is the process id.
\<close>

definition Impl_handshake ::
  "('h, 'w) openssl \<Rightarrow> flatbuffers \<Rightarrow> 'w socket_calls \<Rightarrow> ClientConfig \<Rightarrow> UnixSocketTransport \<Rightarrow> 'w \<Rightarrow>
     ((Status + ClientHandshake) \<times> 'w) option" where
  "Impl_handshake ossl fb so config t w =
     (case ClientHandshake_start ossl fb
             (ClientHandshake_new (cc_trusted_service_keys config) ''yoauthorize-cpp/0.1'' 1 1 1) w of
        (Inl _, hs, w) \<Rightarrow>
          Some (Inl \<lparr>sdk_error = ClientError_Protocol, sdk_message = ''failed to start service handshake''\<rparr>, w)
      | (Inr hello, hs, w) \<Rightarrow>
          (case writeFrame so t (Client_wrapPlaintext hello) (cc_io_timeout config) w of
             None \<Rightarrow> None
           | Some (status, w) \<Rightarrow>
               if sdk_error status \<noteq> ClientError_None
               then Some (Inl \<lparr>sdk_error = ClientError_Protocol,
                               sdk_message = ''failed to start service handshake''\<rparr>, w)
               else (case Client_readFrame so t (cc_io_timeout config) w of
                  None \<Rightarrow> None
                | Some (Inl status, w) \<Rightarrow> Some (Inl status, w)
                | Some (Inr server_frame, w) \<Rightarrow>
                    let server_hello = unwrapPlaintext server_frame
                    in if server_hello = []
                       then Some (Inl \<lparr>sdk_error = ClientError_Protocol,
                                       sdk_message = ''service hello frame is invalid''\<rparr>, w)
                       else (case ClientHandshake_handleServerHello ossl fb server_hello hs of
                          None \<Rightarrow> None
                        | Some (Inl _, hs) \<Rightarrow>
                            Some (Inl \<lparr>sdk_error = ClientError_ServiceIdentityInvalid,
                                       sdk_message = ''service identity authentication failed''\<rparr>, w)
                        | Some (Inr finished, hs) \<Rightarrow>
                            (case writeFrame so t finished (cc_io_timeout config) w of
                               None \<Rightarrow> None
                             | Some (status, w) \<Rightarrow>
                                 if sdk_error status \<noteq> ClientError_None
                                 then Some (Inl \<lparr>sdk_error = ClientError_Transport,
                                                 sdk_message = ''failed to finish service handshake''\<rparr>, w)
                                 else Some (Inr hs, w))))))"

text \<open>The two requests of the library.\<close>

definition authorize_request :: "u64 \<Rightarrow> ClientConfig \<Rightarrow> ClientHandshake \<Rightarrow> AuthorizeMessage" where
  "authorize_request pid config hs = \<lparr>azm_request_id = 2, azm_protocol_version = cl_selected_version hs,
     azm_product_id = cc_product_id config, azm_process_id = pid, azm_process_start_time = 0\<rparr>"

definition heartbeat_request :: "u64 \<Rightarrow> bytes \<Rightarrow> ClientHandshake \<Rightarrow> HeartbeatMessage" where
  "heartbeat_request rid sid hs = \<lparr>hbm_request_id = rid, hbm_protocol_version = cl_selected_version hs,
     hbm_session_id = sid\<rparr>"

definition Impl_authorize ::
  "('h, 'w) openssl \<Rightarrow> flatbuffers \<Rightarrow> 'w socket_calls \<Rightarrow> u64 \<Rightarrow> ClientConfig \<Rightarrow> UnixSocketTransport \<Rightarrow>
     ClientHandshake \<Rightarrow> 'w \<Rightarrow> ((Status + AuthResultMessage) \<times> ClientHandshake \<times> 'w) option" where
  "Impl_authorize ossl fb so pid config t hs w =
     (case encodeAuthorize fb (authorize_request pid config hs) of
        Inl _ \<Rightarrow> Some (Inl \<lparr>sdk_error = ClientError_Protocol,
                           sdk_message = ''failed to encode authorization''\<rparr>, hs, w)
      | Inr authorize \<Rightarrow>
          (case ClientHandshake_seal ossl authorize hs of
             (Inl _, hs) \<Rightarrow> Some (Inl \<lparr>sdk_error = ClientError_Transport,
                                      sdk_message = ''failed to send authorization''\<rparr>, hs, w)
           | (Inr sealed, hs) \<Rightarrow>
               (case writeFrame so t sealed (cc_io_timeout config) w of
                  None \<Rightarrow> None
                | Some (status, w) \<Rightarrow>
                    if sdk_error status \<noteq> ClientError_None
                    then Some (Inl \<lparr>sdk_error = ClientError_Transport,
                                    sdk_message = ''failed to send authorization''\<rparr>, hs, w)
                    else (case Client_readFrame so t (cc_io_timeout config) w of
                       None \<Rightarrow> None
                     | Some (Inl status, w) \<Rightarrow> Some (Inl status, hs, w)
                     | Some (Inr response_frame, w) \<Rightarrow>
                         (case ClientHandshake_open ossl response_frame hs of
                            (Inl _, hs) \<Rightarrow> Some (Inl \<lparr>sdk_error = ClientError_Protocol,
                                                     sdk_message = ''authorization response is invalid''\<rparr>, hs, w)
                          | (Inr opened, hs) \<Rightarrow>
                              (case decodeAuthResult fb opened of
                                 None \<Rightarrow> None
                               | Some (Inr response) \<Rightarrow>
                                   if accepted_result hs response then Some (Inr response, hs, w)
                                   else Some (Inl \<lparr>sdk_error = ClientError_AuthorizationDenied,
                                                   sdk_message = ''service denied authorization''\<rparr>, hs, w)
                               | Some (Inl _) \<Rightarrow>
                                   Some (Inl \<lparr>sdk_error = ClientError_AuthorizationDenied,
                                              sdk_message = ''service denied authorization''\<rparr>, hs, w)))))))"

definition incomplete :: "ClientConfig \<Rightarrow> bool" where
  "incomplete config \<longleftrightarrow>
     cc_product_id config = [] \<or> cc_endpoint config = [] \<or> cc_trusted_service_keys config = [] \<or>
     cc_connect_timeout config \<le> 0 \<or> cc_io_timeout config \<le> 0"

definition Impl_initialize ::
  "('h, 'w) openssl \<Rightarrow> flatbuffers \<Rightarrow> 'w socket_calls \<Rightarrow> u64 \<Rightarrow> ClientConfig \<Rightarrow> Impl \<Rightarrow> 'w \<Rightarrow>
     (Status \<times> Impl \<times> 'w) option" where
  "Impl_initialize ossl fb so pid config im w =
     (if sn_state (im_snapshot im) \<noteq> ClientState_Uninitialized
      then Some (\<lparr>sdk_error = ClientError_AlreadyInitialized,
                  sdk_message = ''client is already initialized''\<rparr>, im, w)
      else if incomplete config
      then Some (\<lparr>sdk_error = ClientError_InvalidConfig,
                  sdk_message = ''client configuration is incomplete''\<rparr>,
                 im\<lparr>im_snapshot := (im_snapshot im)\<lparr>sn_state := ClientState_Error\<rparr>\<rparr>, w)
      else let im = im\<lparr>im_snapshot := (im_snapshot im)\<lparr>sn_state := ClientState_Connecting\<rparr>\<rparr>
           in (case UnixSocketTransport_new so (cc_endpoint config) w of
                 (t, w) \<Rightarrow>
                   (case Client_deadlineAfter so (cc_connect_timeout config) w of
                      (deadline, w) \<Rightarrow>
                        (case UnixSocketTransport_connect so deadline t w of
                           None \<Rightarrow> None
                         | Some (status, t, w) \<Rightarrow>
                             let im = im\<lparr>im_transport := Some t\<rparr>
                             in if ts_code status \<noteq> StatusCode_Ok
                                then Impl_fail_with so ClientError_Transport ''failed to connect to service'' im w
                                else (case Impl_handshake ossl fb so config t w of
                                   None \<Rightarrow> None
                                 | Some (Inl status, w) \<Rightarrow> Impl_fail so status im w
                                 | Some (Inr hs, w) \<Rightarrow>
                                     (case Impl_authorize ossl fb so pid config t hs w of
                                        None \<Rightarrow> None
                                      | Some (Inl status, hs, w) \<Rightarrow> Impl_fail so status im w
                                      | Some (Inr response, hs, w) \<Rightarrow>
                                          Some (status_ok,
                                            im\<lparr>im_handshake := Some hs, im_config := config,
                                               im_session_id := the (arm_session_id response),
                                               im_heartbeat_interval := int (unat (arm_heartbeat_interval_ms response)),
                                               im_snapshot := \<lparr>sn_state = ClientState_Valid,
                                                 sn_features = arm_features response,
                                                 sn_expire_time = arm_expire_time response\<rparr>,
                                               im_thread_running := True\<rparr>, w)))))))"

definition Impl_heartbeatFailed :: "Impl \<Rightarrow> Impl" where
  "Impl_heartbeatFailed im =
     im\<lparr>im_snapshot := (im_snapshot im)\<lparr>sn_state := ClientState_Error, sn_features := []\<rparr>,
        im_thread_running := False\<rparr>"

text \<open>The switch on the state an acknowledgement carries; another value leaves the state as it is.\<close>

definition state_of_ack :: "u8 \<Rightarrow> ClientState \<Rightarrow> ClientState" where
  "state_of_ack state current =
     (if state = AuthorizationState_Valid then ClientState_Valid
      else if state = AuthorizationState_Grace then ClientState_Grace
      else if state = AuthorizationState_Expired then ClientState_Expired
      else if state = AuthorizationState_Revoked then ClientState_Revoked
      else if state = AuthorizationState_Unknown then ClientState_Error
      else current)"

definition apply_ack :: "HeartbeatAckMessage \<Rightarrow> Impl \<Rightarrow> Impl" where
  "apply_ack ack im =
     (let state = state_of_ack (ham_state ack) (sn_state (im_snapshot im))
      in im\<lparr>im_snapshot := \<lparr>sn_state = state,
                             sn_features = (if state = ClientState_Valid then ham_features ack else []),
                             sn_expire_time = ham_expire_time ack\<rparr>,
            im_thread_running := (state = ClientState_Valid)\<rparr>)"

text \<open>The exchange of a heartbeat and its acknowledgement; \<open>None\<close> inside is \<^verbatim>\<open>heartbeatFailed\<close>.\<close>

definition exchange_heartbeat ::
  "('h, 'w) openssl \<Rightarrow> flatbuffers \<Rightarrow> 'w socket_calls \<Rightarrow> Impl \<Rightarrow> u64 \<Rightarrow> UnixSocketTransport \<Rightarrow>
     ClientHandshake \<Rightarrow> 'w \<Rightarrow> (HeartbeatAckMessage option \<times> ClientHandshake \<times> 'w) option" where
  "exchange_heartbeat ossl fb so im request_id t hs w =
     (case encodeHeartbeat fb (heartbeat_request request_id (im_session_id im) hs) of
        Inl _ \<Rightarrow> Some (None, hs, w)
      | Inr heartbeat \<Rightarrow>
          (case ClientHandshake_seal ossl heartbeat hs of
             (Inl _, hs) \<Rightarrow> Some (None, hs, w)
           | (Inr sealed, hs) \<Rightarrow>
               (case writeFrame so t sealed (cc_io_timeout (im_config im)) w of
                  None \<Rightarrow> None
                | Some (status, w) \<Rightarrow>
                    if sdk_error status \<noteq> ClientError_None then Some (None, hs, w)
                    else (case Client_readFrame so t (cc_io_timeout (im_config im)) w of
                       None \<Rightarrow> None
                     | Some (Inl _, w) \<Rightarrow> Some (None, hs, w)
                     | Some (Inr frame, w) \<Rightarrow>
                         (case ClientHandshake_open ossl frame hs of
                            (Inl _, hs) \<Rightarrow> Some (None, hs, w)
                          | (Inr opened, hs) \<Rightarrow>
                              (case decodeHeartbeatAck fb opened of
                                 None \<Rightarrow> None
                               | Some (Inl _) \<Rightarrow> Some (None, hs, w)
                               | Some (Inr ack) \<Rightarrow>
                                   if ham_request_id ack \<noteq> request_id
                                      \<or> ham_protocol_version ack \<noteq> cl_selected_version hs
                                   then Some (None, hs, w) else Some (Some ack, hs, w)))))))"

text \<open>
  One round of \<^verbatim>\<open>heartbeatLoop\<close> after its wait: the thread ends when a stop was requested, otherwise
  it exchanges a heartbeat.  The pointers it follows are never null while it runs; \<open>None\<close> if they were.
\<close>

definition Impl_heartbeatRound ::
  "('h, 'w) openssl \<Rightarrow> flatbuffers \<Rightarrow> 'w socket_calls \<Rightarrow> Impl \<Rightarrow> 'w \<Rightarrow> (Impl \<times> 'w) option" where
  "Impl_heartbeatRound ossl fb so im w =
     (if im_stop_requested im then Some (im\<lparr>im_thread_running := False\<rparr>, w)
      else let request_id = im_next_request_id im;
               im = im\<lparr>im_next_request_id := request_id + 1\<rparr>
           in (case (im_transport im, im_handshake im) of
                 (Some t, Some hs) \<Rightarrow>
                   (case exchange_heartbeat ossl fb so im request_id t hs w of
                      None \<Rightarrow> None
                    | Some (ack, hs, w) \<Rightarrow>
                        let im = im\<lparr>im_handshake := Some hs\<rparr>
                        in Some (case ack of None \<Rightarrow> Impl_heartbeatFailed im | Some a \<Rightarrow> apply_ack a im, w))
               | _ \<Rightarrow> None))"

text \<open>
  \<^verbatim>\<open>shutdown\<close>: the thread is asked to stop and joined, an established session is closed with a
  message, and the object is \<open>Closed\<close>.
\<close>

definition send_close ::
  "('h, 'w) openssl \<Rightarrow> flatbuffers \<Rightarrow> 'w socket_calls \<Rightarrow> Impl \<Rightarrow> 'w \<Rightarrow> (Impl \<times> 'w) option" where
  "send_close ossl fb so im w =
     (case (im_transport im, im_handshake im) of
        (Some t, Some hs) \<Rightarrow>
          if cl_state hs = HandshakeState_Established
          then let request_id = im_next_request_id im;
                   im = im\<lparr>im_next_request_id := request_id + 1\<rparr>
               in (case encodeCloseSession fb \<lparr>csm_request_id = request_id,
                                               csm_protocol_version = cl_selected_version hs\<rparr> of
                     Inl _ \<Rightarrow> Some (im, w)
                   | Inr close \<Rightarrow>
                       (case ClientHandshake_seal ossl close hs of
                          (Inl _, hs) \<Rightarrow> Some (im\<lparr>im_handshake := Some hs\<rparr>, w)
                        | (Inr sealed, hs) \<Rightarrow>
                            (case writeFrame so t sealed (cc_io_timeout (im_config im)) w of
                               None \<Rightarrow> None
                             | Some (_, w) \<Rightarrow> Some (im\<lparr>im_handshake := Some hs\<rparr>, w))))
          else Some (im, w)
      | _ \<Rightarrow> Some (im, w))"

definition Impl_shutdown ::
  "('h, 'w) openssl \<Rightarrow> flatbuffers \<Rightarrow> 'w socket_calls \<Rightarrow> Impl \<Rightarrow> 'w \<Rightarrow> (Impl \<times> 'w) option" where
  "Impl_shutdown ossl fb so im w =
     (let im = im\<lparr>im_stop_requested := True, im_thread_running := False\<rparr>
      in (case send_close ossl fb so im w of
            None \<Rightarrow> None
          | Some (im, w) \<Rightarrow>
              (case release_transport so im w of
                 None \<Rightarrow> None
               | Some (im, w) \<Rightarrow>
                   Some (im\<lparr>im_handshake := None,
                            im_snapshot := (im_snapshot im)\<lparr>sn_state := ClientState_Closed,
                                                            sn_features := []\<rparr>\<rparr>, w))))"

definition Impl_snapshot :: "Impl \<Rightarrow> ClientSnapshot" where
  "Impl_snapshot im = im_snapshot im"

definition Impl_hasFeature :: "Impl \<Rightarrow> string \<Rightarrow> bool" where
  "Impl_hasFeature im feature \<longleftrightarrow>
     sn_state (im_snapshot im) = ClientState_Valid \<and> feature \<in> set (sn_features (im_snapshot im))"

section \<open>Reachable clients\<close>

inductive sdk_step ::
  "('h, 'w) openssl \<Rightarrow> flatbuffers \<Rightarrow> 'w socket_calls \<Rightarrow> Impl \<Rightarrow> Impl \<Rightarrow> bool"
  for ossl :: "('h, 'w) openssl" and fb so where
  sdk_initialize: "Impl_initialize ossl fb so pid config im w = Some (status, im', w') \<Longrightarrow>
    sdk_step ossl fb so im im'"
| sdk_heartbeat: "im_thread_running im \<Longrightarrow> Impl_heartbeatRound ossl fb so im w = Some (im', w') \<Longrightarrow>
    sdk_step ossl fb so im im'"
| sdk_shutdown: "Impl_shutdown ossl fb so im w = Some (im', w') \<Longrightarrow> sdk_step ossl fb so im im'"

inductive_cases sdk_stepE: "sdk_step ossl fb so im im'"

inductive sdk_reachable :: "('h, 'w) openssl \<Rightarrow> flatbuffers \<Rightarrow> 'w socket_calls \<Rightarrow> Impl \<Rightarrow> bool"
  for ossl :: "('h, 'w) openssl" and fb so where
  sdk_new: "sdk_reachable ossl fb so Impl_new"
| sdk_next: "sdk_reachable ossl fb so im \<Longrightarrow> sdk_step ossl fb so im im' \<Longrightarrow> sdk_reachable ossl fb so im'"

text \<open>
  A list of features came from the service: from a message that opened under the keys of a reachable
  handshake and that grants them.
\<close>

definition vouched :: "('h, 'w) openssl \<Rightarrow> flatbuffers \<Rightarrow> string list \<Rightarrow> bool" where
  "vouched ossl fb features \<longleftrightarrow>
     (\<exists>hs frame plaintext hs'. client_reachable ossl fb hs \<and>
        ClientHandshake_open ossl frame hs = (Inr plaintext, hs') \<and>
        ((\<exists>r. decodeAuthResult fb plaintext = Some (Inr r) \<and> arm_error r = AuthorizationError_None \<and>
              arm_features r = features) \<or>
         (\<exists>a. decodeHeartbeatAck fb plaintext = Some (Inr a) \<and> ham_state a = AuthorizationState_Valid \<and>
              ham_features a = features)))"

text \<open>A live connection of the client: an authenticated service at the other end.\<close>

definition live :: "('h, 'w) openssl \<Rightarrow> flatbuffers \<Rightarrow> Impl \<Rightarrow> bool" where
  "live ossl fb im \<longleftrightarrow>
     (\<exists>t hs. im_transport im = Some t \<and> im_handshake im = Some hs \<and> client_reachable ossl fb hs \<and>
             cl_state hs = HandshakeState_Established \<and>
             cl_trusted_keys hs = cc_trusted_service_keys (im_config im))"

definition sdk_inv :: "('h, 'w) openssl \<Rightarrow> flatbuffers \<Rightarrow> Impl \<Rightarrow> bool" where
  "sdk_inv ossl fb im \<longleftrightarrow>
     (im_thread_running im \<longrightarrow> sn_state (im_snapshot im) = ClientState_Valid) \<and>
     (if sn_state (im_snapshot im) = ClientState_Valid
      then live ossl fb im \<and> vouched ossl fb (sn_features (im_snapshot im))
      else sn_features (im_snapshot im) = [])"

text \<open>A client whose use is over.\<close>

definition over :: "Impl \<Rightarrow> bool" where
  "over im \<longleftrightarrow> sn_state (im_snapshot im) \<in>
     {ClientState_Error, ClientState_Expired, ClientState_Revoked, ClientState_Grace, ClientState_Closed}"

section \<open>The invariant holds\<close>

definition trusting :: "('h, 'w) openssl \<Rightarrow> flatbuffers \<Rightarrow> (string \<times> bytes) list \<Rightarrow> ClientHandshake \<Rightarrow> bool" where
  "trusting ossl fb keys hs \<longleftrightarrow>
     client_reachable ossl fb hs \<and> cl_state hs = HandshakeState_Established \<and> cl_trusted_keys hs = keys"

lemma client_seal_keeps:
  "ClientHandshake_seal ossl p cl = (r, cl') \<Longrightarrow>
     cl_state cl' = cl_state cl \<and> cl_trusted_keys cl' = cl_trusted_keys cl"
  by (auto simp: ClientHandshake_seal_def split: HandshakeState.splits option.splits prod.splits)

lemma client_open_keeps:
  "ClientHandshake_open ossl f cl = (r, cl') \<Longrightarrow>
     cl_state cl' = cl_state cl \<and> cl_trusted_keys cl' = cl_trusted_keys cl"
  by (auto simp: ClientHandshake_open_def split: HandshakeState.splits option.splits prod.splits)

lemma trusting_seal: "trusting ossl fb ks hs \<Longrightarrow> ClientHandshake_seal ossl p hs = (r, hs') \<Longrightarrow> trusting ossl fb ks hs'"
  using client_seal by (auto simp: trusting_def dest: client_seal_keeps)

lemma trusting_open: "trusting ossl fb ks hs \<Longrightarrow> ClientHandshake_open ossl f hs = (r, hs') \<Longrightarrow> trusting ossl fb ks hs'"
  using client_open by (auto simp: trusting_def dest: client_open_keeps)

lemma start_keeps_trust: "ClientHandshake_start ossl fb cl w = (Inr hello, cl', w') \<Longrightarrow> cl_trusted_keys cl' = cl_trusted_keys cl"
  by (auto simp: ClientHandshake_start_def Let_def split: if_splits prod.splits sum.splits)

lemma complete_established:
  "ClientHandshake_complete ossl fb server h cl = (Inr frame, cl') \<Longrightarrow>
     cl_state cl' = HandshakeState_Established \<and> cl_trusted_keys cl' = cl_trusted_keys cl"
  by (auto simp: ClientHandshake_complete_def cleanse_ephemeral_def Let_def split: prod.splits sum.splits)

lemma handleServerHello_established:
  assumes "ClientHandshake_handleServerHello ossl fb message cl = Some (Inr frame, cl')"
  shows "cl_state cl' = HandshakeState_Established \<and> cl_trusted_keys cl' = cl_trusted_keys cl"
proof -
  from assms obtain server h where "ClientHandshake_complete ossl fb server h cl = (Inr frame, cl')"
    by (auto simp: ClientHandshake_handleServerHello_def Let_def
        split: if_splits option.splits sum.splits prod.splits)
  then show ?thesis by (rule complete_established)
qed

lemma Impl_handshake_trusting:
  assumes "Impl_handshake ossl fb so config t w = Some (Inr hs, w')"
  shows "trusting ossl fb (cc_trusted_service_keys config) hs"
proof -
  let ?new = "ClientHandshake_new (cc_trusted_service_keys config) ''yoauthorize-cpp/0.1'' 1 1 1"
  from assms obtain hello hs1 w1 message finished where
    s: "ClientHandshake_start ossl fb ?new w = (Inr hello, hs1, w1)" and
    h: "ClientHandshake_handleServerHello ossl fb message hs1 = Some (Inr finished, hs)"
    by (auto simp: Impl_handshake_def Let_def split: prod.splits sum.splits option.splits if_splits)
  from client_hello_answer [OF client_start [OF client_new s] h]
    handleServerHello_established [OF h] start_keeps_trust [OF s]
  show ?thesis by (simp add: trusting_def ClientHandshake_new_def)
qed

lemma Impl_authorize_vouched:
  assumes "trusting ossl fb ks hs" "Impl_authorize ossl fb so pid config t hs w = Some (Inr response, hs', w')"
  shows "trusting ossl fb ks hs' \<and> vouched ossl fb (arm_features response)"
proof -
  from assms(2) obtain authorize sealed hs1 frame opened where
    s: "ClientHandshake_seal ossl authorize hs = (Inr sealed, hs1)" and
    o: "ClientHandshake_open ossl frame hs1 = (Inr opened, hs')" and
    d: "decodeAuthResult fb opened = Some (Inr response)" "accepted_result hs' response"
    by (auto simp: Impl_authorize_def split: prod.splits sum.splits option.splits if_splits)
  note hs1 = trusting_seal [OF assms(1) s]
  from d o hs1 have "vouched ossl fb (arm_features response)"
    unfolding vouched_def trusting_def accepted_result_def by blast
  with trusting_open [OF hs1 o] show ?thesis by blast
qed

lemma exchange_trusting:
  assumes "trusting ossl fb ks hs" "exchange_heartbeat ossl fb so im rid t hs w = Some (ack, hs', w')"
  shows "trusting ossl fb ks hs'"
proof -
  from assms(2) consider "hs' = hs"
    | (sealed) p r where "ClientHandshake_seal ossl p hs = (r, hs')"
    | (opened) p r hs1 f q where "ClientHandshake_seal ossl p hs = (r, hs1)" "ClientHandshake_open ossl f hs1 = (q, hs')"
    unfolding exchange_heartbeat_def
    by (simp split: prod.splits sum.splits option.splits if_splits)
  then show ?thesis
    using assms(1) by cases (blast intro: trusting_seal trusting_open)+
qed

lemma exchange_ack:
  assumes "trusting ossl fb ks hs" "exchange_heartbeat ossl fb so im rid t hs w = Some (Some a, hs', w')"
  shows "validAuthorizationState (ham_state a) \<and>
         (ham_state a = AuthorizationState_Valid \<longrightarrow> vouched ossl fb (ham_features a))"
proof -
  from assms(2) obtain p sealed hs1 f opened where
    s: "ClientHandshake_seal ossl p hs = (Inr sealed, hs1)" and
    o: "ClientHandshake_open ossl f hs1 = (Inr opened, hs')" and
    d: "decodeHeartbeatAck fb opened = Some (Inr a)"
    by (auto simp: exchange_heartbeat_def split: prod.splits sum.splits option.splits if_splits)
  from d have "validAuthorizationState (ham_state a)"
    by (auto simp: decodeHeartbeatAck_def Let_def split: option.splits if_splits Message.splits)
  with trusting_seal [OF assms(1) s] o d show ?thesis unfolding vouched_def trusting_def by blast
qed

lemma live_trusting:
  "live ossl fb im \<longleftrightarrow> (\<exists>t hs. im_transport im = Some t \<and> im_handshake im = Some hs \<and>
     trusting ossl fb (cc_trusted_service_keys (im_config im)) hs)"
  by (auto simp: live_def trusting_def)

lemma release_keeps:
  "release_transport so im w = Some (im', w') \<Longrightarrow>
     im_snapshot im' = im_snapshot im \<and> im_thread_running im' = im_thread_running im"
  by (auto simp: release_transport_def split: option.splits prod.splits)

lemma Impl_fail_state:
  assumes "Impl_fail so st im w = Some (status, im', w')"
  shows "status = st \<and> im_thread_running im' = im_thread_running im \<and>
         sn_state (im_snapshot im') = ClientState_Error \<and> sn_features (im_snapshot im') = []"
  using assms by (auto simp: Impl_fail_def split: option.splits prod.splits dest: release_keeps)

text \<open>The outcomes of \<^verbatim>\<open>initialize\<close>: refused, failed, or connected to a service it trusts.\<close>

lemma Impl_initialize_cases:
  assumes "Impl_initialize ossl fb so pid config im w = Some (status, im', w')"
  obtains "im' = im" "sn_state (im_snapshot im) \<noteq> ClientState_Uninitialized"
      "sdk_error status = ClientError_AlreadyInitialized"
    | "sn_state (im_snapshot im) = ClientState_Uninitialized"
      "sn_state (im_snapshot im') = ClientState_Error" "sn_features (im_snapshot im') = sn_features (im_snapshot im) \<or>
         sn_features (im_snapshot im') = []" "im_thread_running im' = im_thread_running im"
    | "sn_state (im_snapshot im) = ClientState_Uninitialized"
      "sn_state (im_snapshot im') = ClientState_Valid" "status = status_ok" "live ossl fb im'"
      "vouched ossl fb (sn_features (im_snapshot im'))"
      "im_config im' = config" "im_thread_running im'"
proof (cases "sn_state (im_snapshot im) \<noteq> ClientState_Uninitialized \<or> incomplete config")
  case True
  with assms that show thesis by (auto simp: Impl_initialize_def split: if_splits)
next
  case False
  let ?im = "im\<lparr>im_snapshot := (im_snapshot im)\<lparr>sn_state := ClientState_Connecting\<rparr>\<rparr>"
  obtain t w1 d w2 where a: "UnixSocketTransport_new so (cc_endpoint config) w = (t, w1)"
    "Client_deadlineAfter so (cc_connect_timeout config) w1 = (d, w2)" by fastforce
  from assms False a obtain st t1 w3 where c: "UnixSocketTransport_connect so d t w2 = Some (st, t1, w3)"
    by (auto simp: Impl_initialize_def Let_def split: option.splits)
  note outcome = that
  have failed: thesis if f: "Impl_fail so x (?im\<lparr>im_transport := Some t1\<rparr>) v = Some (status, im', w')" for x v
    using False Impl_fail_state [OF f] by (intro outcome(2)) auto
  show thesis
  proof (cases "ts_code st = StatusCode_Ok")
    case no: False
    with assms False a c show thesis
      by (intro failed) (simp add: Impl_initialize_def Impl_fail_with_def Let_def)
  next
    case yes: True
    from assms False a c yes obtain r w4 where h: "Impl_handshake ossl fb so config t1 w3 = Some (r, w4)"
      by (auto simp: Impl_initialize_def Let_def split: option.splits)
    show thesis
    proof (cases r)
      case (Inl x)
      with assms False a c yes h show thesis by (intro failed) (simp add: Impl_initialize_def Let_def)
    next
      case (Inr hs)
      from assms False a c yes h Inr obtain q hs1 w5 where
        z: "Impl_authorize ossl fb so pid config t1 hs w4 = Some (q, hs1, w5)"
        by (auto simp: Impl_initialize_def Let_def split: option.splits)
      show thesis
      proof (cases q)
        case (Inl x)
        with assms False a c yes h Inr z show thesis by (intro failed) (simp add: Impl_initialize_def Let_def)
      next
        case q: (Inr response)
        from Impl_authorize_vouched [OF Impl_handshake_trusting [OF h [unfolded Inr]] z [unfolded q]]
          assms False a c yes h Inr z q
        show thesis by (intro outcome(3)) (auto simp: Impl_initialize_def Let_def live_trusting)
      qed
    qed
  qed
qed

lemma heartbeat_round_cases:
  assumes "live ossl fb im" "\<not> im_stop_requested im"
    and "Impl_heartbeatRound ossl fb so im w = Some (im', w')"
  shows "(\<not> im_thread_running im' \<and> sn_state (im_snapshot im') \<noteq> ClientState_Valid \<and>
            sn_features (im_snapshot im') = []) \<or>
         (im_thread_running im' \<and> sn_state (im_snapshot im') = ClientState_Valid \<and> live ossl fb im' \<and>
            vouched ossl fb (sn_features (im_snapshot im')))"
proof -
  let ?im = "im\<lparr>im_next_request_id := im_next_request_id im + 1\<rparr>"
  from assms(1) obtain t hs where
    l: "im_transport im = Some t" "im_handshake im = Some hs" and
    tr: "trusting ossl fb (cc_trusted_service_keys (im_config im)) hs" by (auto simp: live_trusting)
  with assms(2,3) obtain ack hs' w1 where
    x: "exchange_heartbeat ossl fb so ?im (im_next_request_id im) t hs w = Some (ack, hs', w1)"
    by (auto simp: Impl_heartbeatRound_def Let_def split: option.splits)
  note tr' = exchange_trusting [OF tr x]
  let ?im1 = "?im\<lparr>im_handshake := Some hs'\<rparr>"
  from assms(2,3) l x have im': "im' = (case ack of None \<Rightarrow> Impl_heartbeatFailed ?im1 | Some a \<Rightarrow> apply_ack a ?im1)"
    by (simp add: Impl_heartbeatRound_def Let_def)
  show ?thesis
  proof (cases ack)
    case None
    with im' show ?thesis by (simp add: Impl_heartbeatFailed_def)
  next
    case (Some a)
    from exchange_ack [OF tr x [unfolded Some]] im' Some tr' l show ?thesis
      by (auto simp: apply_ack_def Let_def state_of_ack_def validAuthorizationState_def live_trusting)
  qed
qed

lemma send_close_keeps:
  "send_close ossl fb so im w = Some (im', w') \<Longrightarrow>
     im_snapshot im' = im_snapshot im \<and> im_thread_running im' = im_thread_running im \<and>
     im_stop_requested im' = im_stop_requested im"
  by (auto simp: send_close_def Let_def split: option.splits if_splits sum.splits prod.splits)

lemma shutdown_closes:
  assumes "Impl_shutdown ossl fb so im w = Some (im', w')"
  shows "sn_state (im_snapshot im') = ClientState_Closed \<and> sn_features (im_snapshot im') = [] \<and>
         \<not> im_thread_running im' \<and> im_transport im' = None \<and> im_handshake im' = None"
proof -
  from assms obtain im1 w1 im2 w2 where
    s: "send_close ossl fb so (im\<lparr>im_stop_requested := True, im_thread_running := False\<rparr>) w = Some (im1, w1)"
    "release_transport so im1 w1 = Some (im2, w2)" and
    im': "im' = im2\<lparr>im_handshake := None,
        im_snapshot := (im_snapshot im2)\<lparr>sn_state := ClientState_Closed, sn_features := []\<rparr>\<rparr>"
    by (auto simp: Impl_shutdown_def Let_def split: option.splits prod.splits)
  have "im_transport im2 = None"
    using s(2) by (auto simp: release_transport_def split: option.splits prod.splits)
  with send_close_keeps [OF s(1)] release_keeps [OF s(2)] im' show ?thesis by simp
qed

lemma sdk_inv_step:
  assumes "sdk_inv ossl fb im" "sdk_step ossl fb so im im'"
  shows "sdk_inv ossl fb im'"
  using assms(2)
proof cases
  case (sdk_initialize pid config w status w')
  then show ?thesis
    by (cases rule: Impl_initialize_cases) (use assms(1) in \<open>auto simp: sdk_inv_def\<close>)
next
  case (sdk_heartbeat w w')
  show ?thesis
  proof (cases "im_stop_requested im")
    case True
    with sdk_heartbeat(2) have "im' = im\<lparr>im_thread_running := False\<rparr>" by (simp add: Impl_heartbeatRound_def)
    with assms(1) show ?thesis by (auto simp: sdk_inv_def live_def)
  next
    case False
    from assms(1) sdk_heartbeat(1) have "live ossl fb im" by (auto simp: sdk_inv_def)
    from heartbeat_round_cases [OF this False sdk_heartbeat(2)] show ?thesis by (auto simp: sdk_inv_def)
  qed
next
  case (sdk_shutdown w w')
  from shutdown_closes [OF this] show ?thesis by (simp add: sdk_inv_def)
qed

lemma sdk_reachable_inv: "sdk_reachable ossl fb so im \<Longrightarrow> sdk_inv ossl fb im"
proof (induction rule: sdk_reachable.induct)
  case sdk_new
  then show ?case by (simp add: sdk_inv_def Impl_new_def)
next
  case (sdk_next im im')
  then show ?case using sdk_inv_step by blast
qed

section \<open>Properties\<close>

text \<open>
  C5.  A feature is granted only by an authenticated service: whenever the library answers that the
  application has a feature, it is connected to a service whose identity one of the configured keys
  signed for this very handshake, and the feature was granted by a message of a service that opened
  under the keys of such a handshake.
\<close>

theorem feature_granted_by_trusted_service:
  assumes "sdk_reachable ossl fb so im" "Impl_hasFeature im feature"
  shows "\<exists>hs. im_handshake im = Some hs \<and> cl_state hs = HandshakeState_Established \<and>
           client_authentic ossl hs \<and> cl_trusted_keys hs = cc_trusted_service_keys (im_config im) \<and>
           im_transport im \<noteq> None \<and>
           (\<exists>features. feature \<in> set features \<and> vouched ossl fb features)"
proof -
  from sdk_reachable_inv [OF assms(1)] assms(2) have
    "live ossl fb im" "vouched ossl fb (sn_features (im_snapshot im))"
    "feature \<in> set (sn_features (im_snapshot im))"
    by (auto simp: sdk_inv_def Impl_hasFeature_def)
  then show ?thesis using client_reachable_inv unfolding live_def by (fastforce simp: client_inv_def)
qed

text \<open>
  A client that is out of use stays out of it: after an error, an expiry, a revocation, a grace answer or a
  shutdown the state stays as it is until a shutdown closes the client.
\<close>

lemma over_step:
  assumes "sdk_reachable ossl fb so im" "over im" "sdk_step ossl fb so im im'"
  shows "sn_state (im_snapshot im') \<in> {sn_state (im_snapshot im), ClientState_Closed}"
  using assms(3)
proof cases
  case (sdk_initialize pid config w status w')
  then show ?thesis
    by (cases rule: Impl_initialize_cases) (use assms(2) in \<open>auto simp: over_def\<close>)
next
  case (sdk_heartbeat w w')
  with sdk_reachable_inv [OF assms(1)] assms(2) show ?thesis by (auto simp: sdk_inv_def over_def)
next
  case (sdk_shutdown w w')
  from shutdown_closes [OF this] show ?thesis by simp
qed

lemma over_steps:
  assumes "sdk_reachable ossl fb so im" "over im" "(sdk_step ossl fb so)\<^sup>*\<^sup>* im im'"
  shows "sdk_reachable ossl fb so im' \<and> over im' \<and>
    sn_state (im_snapshot im') \<in> {sn_state (im_snapshot im), ClientState_Closed}"
  using assms(3)
proof (induction rule: rtranclp_induct)
  case base
  with assms(1,2) show ?case by simp
next
  case (step im1 im2)
  from over_step [OF _ _ step.hyps(2)] step.IH
  have s: "sn_state (im_snapshot im2) \<in> {sn_state (im_snapshot im), ClientState_Closed}" by auto
  moreover have "over im2" using s assms(2) by (auto simp: over_def)
  moreover have "sdk_reachable ossl fb so im2" using step sdk_next by blast
  ultimately show ?case by blast
qed

text \<open>
  C18.  Only a valid client grants features, and the three ends of a session are final: in every state a
  client can reach that is not valid, the feature set is empty and no feature is granted; and once the
  license has expired or was revoked, or the client was closed, the state stays what it is or becomes
  closed, whatever is called, and the feature set stays empty.
\<close>

theorem ended_client_grants_nothing:
  assumes "sdk_reachable ossl fb so im" "sn_state (im_snapshot im) \<noteq> ClientState_Valid"
  shows "sn_features (im_snapshot im) = [] \<and> \<not> Impl_hasFeature im feature \<and>
    (sn_state (im_snapshot im) \<in> {ClientState_Expired, ClientState_Revoked, ClientState_Closed} \<longrightarrow>
      (\<forall>im'. (sdk_step ossl fb so)\<^sup>*\<^sup>* im im' \<longrightarrow>
         sn_state (im_snapshot im') \<in> {sn_state (im_snapshot im), ClientState_Closed} \<and>
         sn_features (im_snapshot im') = [] \<and> \<not> Impl_hasFeature im' feature))"
proof -
  have empty: "sn_features (im_snapshot i) = [] \<and> \<not> Impl_hasFeature i feature"
    if "sdk_reachable ossl fb so i" "sn_state (im_snapshot i) \<noteq> ClientState_Valid" for i
    using sdk_reachable_inv [OF that(1)] that(2) by (simp add: sdk_inv_def Impl_hasFeature_def)
  have "sn_state (im_snapshot im') \<in> {sn_state (im_snapshot im), ClientState_Closed} \<and>
      sn_features (im_snapshot im') = [] \<and> \<not> Impl_hasFeature im' feature"
    if "sn_state (im_snapshot im) \<in> {ClientState_Expired, ClientState_Revoked, ClientState_Closed}"
      "(sdk_step ossl fb so)\<^sup>*\<^sup>* im im'" for im'
    using over_steps [OF assms(1) _ that(2)] that(1) empty by (auto simp: over_def)
  with empty [OF assms] show ?thesis by blast
qed

end
