(* ===== verification/LocalAuthorizer.thy ===== *)
theory LocalAuthorizer
  imports Client Generator
begin

text \<open>
  Authorization without a service, \<^verbatim>\<open>src/src/ya_license_sdk/src/local_authorizer.cpp\<close>: the license
  is validated in the application's own process.
\<close>

section \<open>Data\<close>

record LocalAuthorizationConfig =
  la_product_id :: string
  la_trusted_license_keys :: "(string \<times> bytes) list"
  la_machine_id_path :: string
  la_product_uuid_path :: string
  la_require_machine_id :: bool
  la_require_product_uuid :: bool

definition default_local_config :: LocalAuthorizationConfig where
  "default_local_config =
     \<lparr>la_product_id = [], la_trusted_license_keys = [], la_machine_id_path = ''/etc/machine-id'',
      la_product_uuid_path = ''/sys/class/dmi/id/product_uuid'', la_require_machine_id = True,
      la_require_product_uuid = False\<rparr>"

type_synonym MachineIdentityResult = "Status + string"
type_synonym LocalAuthorizationResult = "Status + ClientSnapshot"

definition kLocalMaxLicenseSize :: nat where "kLocalMaxLicenseSize = 1024 * 1024"

section \<open>Operations\<close>

definition denied :: "ClientError \<Rightarrow> string \<Rightarrow> Status" where
  "denied error message = \<lparr>sdk_error = error, sdk_message = message\<rparr>"

fun mapLicenseError :: "ErrorCode \<Rightarrow> Status" where
  "mapLicenseError ErrorCode_None = status_ok"
| "mapLicenseError ErrorCode_Expired = denied ClientError_AuthorizationDenied ''license has expired''"
| "mapLicenseError ErrorCode_NotYetValid = denied ClientError_AuthorizationDenied ''license is not yet valid''"
| "mapLicenseError ErrorCode_ProductMismatch =
     denied ClientError_AuthorizationDenied ''license product does not match''"
| "mapLicenseError ErrorCode_MachineMismatch =
     denied ClientError_AuthorizationDenied ''license is bound to another machine''"
| "mapLicenseError ErrorCode_UnknownKey =
     denied ClientError_InvalidLicense ''license signing key is not trusted''"
| "mapLicenseError ErrorCode_InvalidSignature =
     denied ClientError_InvalidLicense ''license signature is invalid''"
| "mapLicenseError _ = denied ClientError_InvalidLicense ''license format or policy is invalid''"

definition Local_readLicense :: "'w posix \<Rightarrow> string \<Rightarrow> 'w \<Rightarrow> ((Status + bytes) \<times> 'w) option" where
  "Local_readLicense px path w =
     (case px_open px path [O_RDONLY, O_CLOEXEC, O_NOFOLLOW] 0 w of
        (Inl _, w) \<Rightarrow> Some (Inl (denied ClientError_LicenseFile ''license file could not be opened''), w)
      | (Inr fd, w) \<Rightarrow>
          (case px_fstat px fd w of
             (Inl _, w) \<Rightarrow> Some (Inl (denied ClientError_LicenseFile ''license file is invalid or too large''),
                                snd (px_close px fd w))
           | (Inr info, w) \<Rightarrow>
               if \<not> st_regular info \<or> st_size info \<le> 0 \<or> st_size info > int kLocalMaxLicenseSize
               then Some (Inl (denied ClientError_LicenseFile ''license file is invalid or too large''),
                          snd (px_close px fd w))
               else (case read_retry px fd (nat (st_size info)) [] w of
                       None \<Rightarrow> None
                     | Some (None, w) \<Rightarrow>
                         Some (Inl (denied ClientError_LicenseFile ''license file could not be read''),
                               snd (px_close px fd w))
                     | Some (Some bytes, w) \<Rightarrow> Some (Inr bytes, snd (px_close px fd w)))))"

definition machineIdentity ::
  "('h, 'w) openssl \<Rightarrow> (string \<Rightarrow> file_view) \<Rightarrow> LocalAuthorizationConfig \<Rightarrow> MachineIdentityResult" where
  "machineIdentity ossl fs config =
     (case collectLinuxMachineIdentity ossl
             \<lparr>mic_machine_id_path = la_machine_id_path config,
              mic_product_uuid_path = la_product_uuid_path config,
              mic_require_machine_id = la_require_machine_id config,
              mic_require_product_uuid = la_require_product_uuid config\<rparr>
             (\<lambda>path. Some (readFile fs path)) of
        (e, identity) \<Rightarrow>
          if e \<noteq> ErrorCode_None
          then Inl (denied ClientError_MachineIdentity ''machine identity is unavailable'')
          else Inr (mi_exact_id identity))"

definition authorizeLicense ::
  "('h, 'w) openssl \<Rightarrow> license_fb \<Rightarrow> (string \<Rightarrow> file_view) \<Rightarrow> 'w posix \<Rightarrow> bytes \<Rightarrow>
     LocalAuthorizationConfig \<Rightarrow> 'w \<Rightarrow> LocalAuthorizationResult \<times> 'w" where
  "authorizeLicense ossl lf fs px package config w =
     (if la_product_id config = [] \<or> la_trusted_license_keys config = []
      then (Inl (denied ClientError_InvalidConfig ''local authorization is not configured''), w)
      else case machineIdentity ossl fs config of
        Inl status \<Rightarrow> (Inl status, w)
      | Inr machine_id \<Rightarrow>
          (case px_time px w of
             (now, w) \<Rightarrow>
               (case LicenseValidator_validate ossl lf
                       \<lparr>lv_trusted_keys = la_trusted_license_keys config\<rparr> package
                       (la_product_id config) machine_id now of
                  Inl e \<Rightarrow> (Inl (mapLicenseError e), w)
                | Inr license \<Rightarrow>
                    (Inr \<lparr>sn_state = ClientState_Valid, sn_features = ls_features license,
                          sn_expire_time = ls_expire_time license\<rparr>, w))))"

definition authorizeLicenseFile ::
  "('h, 'w) openssl \<Rightarrow> license_fb \<Rightarrow> (string \<Rightarrow> file_view) \<Rightarrow> 'w posix \<Rightarrow> string \<Rightarrow>
     LocalAuthorizationConfig \<Rightarrow> 'w \<Rightarrow> (LocalAuthorizationResult \<times> 'w) option" where
  "authorizeLicenseFile ossl lf fs px path config w =
     (case Local_readLicense px path w of
        None \<Rightarrow> None
      | Some (Inl status, w) \<Rightarrow> Some (Inl status, w)
      | Some (Inr bytes, w) \<Rightarrow> Some (authorizeLicense ossl lf fs px bytes config w))"

section \<open>Results\<close>

text \<open>A validator never reports the error \<open>None\<close>, so a refusal is never mapped to success.\<close>

lemma collectFeatures_error: "collectFeatures fs acc = Inl e \<Longrightarrow> e = ErrorCode_InvalidLicense"
  by (auto simp: collectFeatures_eq split: if_splits)

lemma validatePayload_error: "validatePayload data product machine now = Inl e \<Longrightarrow> e \<noteq> ErrorCode_None"
  by (auto simp: validatePayload_def Let_def split: option.splits if_splits sum.splits
      dest: collectFeatures_error)

lemma validate_error:
  "LicenseValidator_validate ossl lf validator package product machine now = Inl e \<Longrightarrow> e \<noteq> ErrorCode_None"
  by (auto simp: LicenseValidator_validate_def Let_def split: option.splits if_splits
      dest: validatePayload_error)

lemma mapLicenseError_none: "sdk_error (mapLicenseError e) = ClientError_None \<longleftrightarrow> e = ErrorCode_None"
  by (cases e) (simp_all add: status_ok_def denied_def)

text \<open>
  C31.  Local authorization is the license check and nothing else: it succeeds exactly when a product
  and keys are configured, the machine's identity is available and the validator accepts the package
  for that product, machine and the current time; the snapshot then holds the features and expiry of
  the license.  A refusal always carries an error.
\<close>

theorem local_authorization_iff:
  "(fst (authorizeLicense ossl lf fs px package config w) = Inr s \<longleftrightarrow>
      (\<exists>machine license. la_product_id config \<noteq> [] \<and> la_trusted_license_keys config \<noteq> [] \<and>
         machineIdentity ossl fs config = Inr machine \<and>
         LicenseValidator_validate ossl lf \<lparr>lv_trusted_keys = la_trusted_license_keys config\<rparr> package
           (la_product_id config) machine (fst (px_time px w)) = Inr license \<and>
         s = \<lparr>sn_state = ClientState_Valid, sn_features = ls_features license,
              sn_expire_time = ls_expire_time license\<rparr>)) \<and>
   (\<forall>status. fst (authorizeLicense ossl lf fs px package config w) = Inl status \<longrightarrow>
      sdk_error status \<noteq> ClientError_None)"
proof -
  obtain now w1 where t: "px_time px w = (now, w1)" by fastforce
  show ?thesis
  proof (cases "LicenseValidator_validate ossl lf \<lparr>lv_trusted_keys = la_trusted_license_keys config\<rparr> package
           (la_product_id config) (case machineIdentity ossl fs config of Inr i \<Rightarrow> i) now")
    case (Inl e)
    with validate_error [OF Inl] t show ?thesis
      by (auto simp: authorizeLicense_def denied_def machineIdentity_def mapLicenseError_none
          split: sum.splits prod.splits if_splits)
  next
    case (Inr license)
    with t show ?thesis
      by (auto simp: authorizeLicense_def denied_def machineIdentity_def
          split: sum.splits prod.splits if_splits)
  qed
qed

end
