(* ===== verification/Service_Witnesses.thy ===== *)
theory Service_Witnesses
  imports Core_Witnesses Connection_Witnesses LocalAuthorizer
begin

text \<open>
  Runs of the transport, of the service and of the client library on a sample of the sockets.  The
  world of the sample is a counter, the bytes that come in and the bytes that were sent.
\<close>

section \<open>Sample sockets\<close>

type_synonym sample_world = "nat \<times> bytes \<times> bytes"

text \<open>
  Every call succeeds, a descriptor is its own duplicate, data is always ready, a receive takes all
  that is asked for, binding a path and accepting a peer advance the counter, and no path exists
  before one is bound.
\<close>

definition sample_sockets :: "sample_world socket_calls" where
  "sample_sockets = \<lparr>
     so_eventfd = (\<lambda>w. (9, w)),
     so_signal = (\<lambda>_ w. (None, w)),
     so_now = (\<lambda>w. (0, w)),
     so_poll = (\<lambda>_ ev _ _ _ w. (Inr (1, ev, 0), w)),
     so_dup = (\<lambda>fd w. (Inr fd, w)),
     so_close = (\<lambda>_ w. w),
     so_shutdown = (\<lambda>_ w. w),
     so_lstat = (\<lambda>_ (k, s). (if k = 0 then Inl 2 else Inr \<lparr>lst_socket = True, lst_dev = 1, lst_ino = 1\<rparr>, (k, s))),
     so_unlink = (\<lambda>_ w. (None, w)),
     so_socket = (\<lambda>w. (Inr 5, w)),
     so_connect = (\<lambda>_ _ w. (None, w)),
     so_error = (\<lambda>_ w. (Inr 0, w)),
     so_peercred = (\<lambda>_ w. (Inr \<lparr>pc_pid = 7, pc_uid = 1000, pc_gid = 1000\<rparr>, w)),
     so_recv = (\<lambda>_ n (k, i, out). (Inr (take n i), (k, drop n i, out))),
     so_send = (\<lambda>_ data (k, i, out). (Inr (length data), (k, i, out @ data))),
     so_umask = (\<lambda>_ w. (0, w)),
     so_bind = (\<lambda>_ _ (k, s). (None, (Suc k, s))),
     so_chmod = (\<lambda>_ _ w. (None, w)),
     so_listen = (\<lambda>_ _ w. (None, w)),
     so_accept = (\<lambda>_ (k, s). (Inr 6, (Suc k, s)))\<rparr>"

lemma sample_calls [simp]:
  "so_eventfd sample_sockets w = (9, w)" "so_signal sample_sockets fd w = (None, w)"
  "so_now sample_sockets w = (0, w)" "so_poll sample_sockets fd ev cfd cev ms w = (Inr (1, ev, 0), w)"
  "so_dup sample_sockets fd w = (Inr fd, w)" "so_close sample_sockets fd w = w"
  "so_shutdown sample_sockets fd w = w" "so_lstat sample_sockets path (0, s) = (Inl 2, (0, s))"
  "0 < k \<Longrightarrow> so_lstat sample_sockets path (k, s) = (Inr \<lparr>lst_socket = True, lst_dev = 1, lst_ino = 1\<rparr>, (k, s))"
  "so_unlink sample_sockets path w = (None, w)" "so_socket sample_sockets w = (Inr 5, w)"
  "so_connect sample_sockets fd address w = (None, w)" "so_error sample_sockets fd w = (Inr 0, w)"
  "so_peercred sample_sockets fd w = (Inr \<lparr>pc_pid = 7, pc_uid = 1000, pc_gid = 1000\<rparr>, w)"
  "so_recv sample_sockets fd n (k, i, out) = (Inr (take n i), (k, drop n i, out))"
  "so_send sample_sockets fd data (k, i, out) = (Inr (length data), (k, i, out @ data))"
  "so_umask sample_sockets um w = (0, w)" "so_bind sample_sockets fd address (k, s) = (None, (Suc k, s))"
  "so_chmod sample_sockets path mode w = (None, w)" "so_listen sample_sockets fd backlog w = (None, w)"
  "so_accept sample_sockets fd (k, i, out) = (Inr 6, (Suc k, i, out))"
  by (simp_all add: sample_sockets_def)

abbreviation incoming_of :: "sample_world \<Rightarrow> bytes" where "incoming_of w \<equiv> fst (snd w)"
abbreviation outgoing_of :: "sample_world \<Rightarrow> bytes" where "outgoing_of w \<equiv> snd (snd w)"

lemma sample_stream: "stream sample_sockets D incoming_of outgoing_of"
  by (auto simp: stream_def sample_sockets_def same_streams_def received_def sent_def split: prod.splits)

lemma sample_timeout: "\<exists>ms. timeoutMilliseconds sample_sockets d w = (ms, w)"
  by (simp add: timeoutMilliseconds_def Let_def split: option.split)

lemma sample_wait [simp]:
  "waitFor sample_sockets fd cfd 1 d w = Some (status_success, w)"
  "waitFor sample_sockets fd cfd 4 d w = Some (status_success, w)"
  using sample_timeout [of d w] by (subst waitFor.simps, force simp: POLL_FAILURE_def)+

lemma sample_signal [simp]: "signalCancel sample_sockets fd w = Some w"
  by (subst signalCancel.simps) simp

lemma sample_closeFd [simp]: "closeFd sample_sockets fd w = w"
  by (simp add: closeFd_def)

lemma sample_operationFd [simp]: "0 \<le> fd \<Longrightarrow> operationFd sample_sockets fd w = Some (Inr fd, w)"
  unfolding operationFd_def by (subst duplicateFd.simps) simp

lemma sample_read:
  assumes "0 \<le> us_fd t" "0 < n" "n \<le> length i"
  shows "UnixSocketTransport_readExact sample_sockets n d t (k, i, out) = Some (Inr (take n i), (k, drop n i, out))"
proof -
  have "recv_loop sample_sockets (us_fd t) (us_cancel_fd t) d n [] (k, i, out)
      = Some (Inr (take n i), (k, drop n i, out))"
    using assms by (subst recv_loop.simps, simp, subst recv_loop.simps) (auto simp: status_success_def)
  with assms show ?thesis by (simp add: UnixSocketTransport_readExact_def)
qed

lemma sample_read_end:
  assumes "0 \<le> us_fd t" "0 < n"
  shows "UnixSocketTransport_readExact sample_sockets n d t (k, [], out)
    = Some (Inl (status_of StatusCode_EndOfFile), (k, [], out))"
proof -
  have "recv_loop sample_sockets (us_fd t) (us_cancel_fd t) d n [] (k, [], out)
      = Some (Inl (status_of StatusCode_EndOfFile), (k, [], out))"
    using assms by (subst recv_loop.simps) (simp add: status_success_def)
  with assms show ?thesis by (simp add: UnixSocketTransport_readExact_def)
qed

lemma sample_write:
  assumes "0 \<le> us_fd t" "data \<noteq> []"
  shows "UnixSocketTransport_writeAll sample_sockets data d t (k, i, out) = Some (status_success, (k, i, out @ data))"
proof -
  have "send_loop sample_sockets (us_fd t) (us_cancel_fd t) d data (k, i, out) = Some (status_success, (k, i, out @ data))"
    using assms by (subst send_loop.simps, simp, subst send_loop.simps) (auto simp: status_success_def)
  with assms show ?thesis by (simp add: UnixSocketTransport_writeAll_def)
qed

definition sample_transport :: UnixSocketTransport where
  "sample_transport = \<lparr>us_path = ''/s'', us_fd = 5, us_cancel_fd = 9, us_canceled = False\<rparr>"

theorem transport_exact_witness:
  "\<exists>bs w'. UnixSocketTransport_readExact sample_sockets 2 noDeadline sample_transport (0, [1, 2, 3], [])
     = Some (Inr bs, w') \<and> length bs = 2 \<and> [1, 2, 3] = bs @ incoming_of w' \<and> outgoing_of w' = []"
proof -
  have r: "UnixSocketTransport_readExact sample_sockets 2 noDeadline sample_transport (0, [1, 2, 3], [])
      = Some (Inr [1, 2], (0, [3], []))"
    by (simp add: sample_read sample_transport_def)
  from transport_exact [OF sample_stream [of "{5}"], of sample_transport 2 "[1]" noDeadline] r
  show ?thesis by (simp add: sample_transport_def)
qed

section \<open>The service\<close>

text \<open>Every file is a private key of 32 bytes but the license, which is the sample package.\<close>

definition sample_files :: "'w posix" where
  "sample_files = \<lparr>
     px_open = (\<lambda>path _ _ w. (Inr (if path = ''/lic'' then 4 else 3), w)),
     px_fstat = (\<lambda>fd w. (Inr \<lparr>st_regular = True, st_mode = 384, st_size = (if fd = 4 then 9 else 32)\<rparr>, w)),
     px_read = (\<lambda>fd n w. (Inr (take n (if fd = 4 then sample_package else replicate 32 5)), w)),
     px_write = (\<lambda>_ bs w. (Inr (length bs), w)),
     px_fsync = (\<lambda>_ w. (True, w)),
     px_close = (\<lambda>_ w. (True, w)),
     px_remove = (\<lambda>_ w. (True, w)),
     px_time = (\<lambda>w. (150, w))\<rparr>"

lemma sample_files_bounded: "posix_bounded sample_files"
  by (auto simp: posix_bounded_def sample_files_def)

definition sample_fs :: "string \<Rightarrow> file_view" where
  "sample_fs path = (if path = ''/etc/machine-id'' then Readable upper_id False else Cannot_open 2)"

abbreviation sample_ossl :: "(handle, sample_world) openssl" where
  "sample_ossl \<equiv> sample_openssl_on fst (\<lambda>(k, s). (Suc k, s))"

definition sample_service :: AuthorizationService where
  "sample_service = \<lparr>as_config = sample_config, as_keys = sample_keys,
     as_license = snapshot_of sample_definition, as_sessions = SessionManager_new,
     as_listener = \<lparr>ul_path = ''/run/yoauthorize/license-v1.sock'', ul_mode = 432, ul_backlog = 64,
       ul_fd = -1, ul_cancel_fd = 9, ul_device = 0, ul_inode = 0, ul_owns_path = False,
       ul_canceled = False\<rparr>\<rparr>"

lemma sample_service_start:
  "AuthorizationService_create sample_ossl sample_lf sample_toml sample_files sample_fs sample_sockets
     ''/etc/ya.toml'' (0, [], []) = (Inr sample_service, (0, [], []))"
  by code_simp

theorem service_starts_only_licensed_witness:
  "config_ok (as_config sample_service) \<and>
   key_file_checked (sample_files :: sample_world posix) ''/id'' True (0, [], []) \<and>
   as_sessions sample_service = SessionManager_new \<and>
   (\<exists>w1 package w2. Service_readLicense (sample_files :: sample_world posix) ''/lic'' w1 = (Inr package, w2))"
proof -
  have "sc_identity_private_key_path (as_config sample_service) = ''/id''" "sc_license_path (as_config sample_service) = ''/lic''"
    by (simp_all add: sample_service_def sample_config_def default_service_config_def)
  with service_starts_only_licensed [OF sample_files_bounded sample_service_start] show ?thesis by metis
qed

text \<open>
  The service with a session in its table: it listens, accepts a peer that sends nothing, and is
  asked to stop.
\<close>

definition busy_service :: AuthorizationService where
  "busy_service = sample_service\<lparr>as_sessions := sample_manager\<rparr>"

definition stop_after_peer :: "sample_world \<Rightarrow> bool" where
  "stop_after_peer w \<longleftrightarrow> fst w \<ge> 2"

definition open_listener :: UnixSocketListener where
  "open_listener = (as_listener sample_service)
     \<lparr>ul_fd := 5, ul_device := 1, ul_inode := 1, ul_owns_path := True\<rparr>"

definition sample_peer :: UnixSocketTransport where
  "sample_peer = \<lparr>us_path = [], us_fd = 6, us_cancel_fd = 9, us_canceled = False\<rparr>"

lemma sample_listen:
  "UnixSocketListener_listen sample_sockets (as_listener sample_service) (0, [], [])
     = Some (status_success, open_listener, (1, [], []))"
  by (simp add: UnixSocketListener_listen_def sample_service_def makeAddress_def removeStaleSocket_def
      bind_private_def publish_def status_success_def open_listener_def)

lemma sample_accept:
  "UnixSocketListener_accept sample_sockets d open_listener (Suc 0, [], []) = Some (Inr sample_peer, (2, [], []))"
  by (simp add: UnixSocketListener_accept_def open_listener_def sample_service_def, subst accept_loop.simps)
     (simp add: status_success_def UnixSocketTransport_accepted_def sample_peer_def)

lemma sample_silent_peer:
  "AuthorizationService_serve sample_ossl fb px sample_sockets (busy_service\<lparr>as_listener := l\<rparr>) sample_peer peer (2, [], [])
     = Some (ServiceError_Transport, busy_service\<lparr>as_listener := l\<rparr>, sample_peer, (2, [], []))"
  unfolding AuthorizationService_serve_def
  by (subst serve_loop.simps)
     (simp add: serve_round_def Connection_closed_def Connection_new_def Connection_established_def
       Service_deadlineAfter_def Service_readFrame_def sample_read_end kFrameHeaderSize_def sample_peer_def
       Connection_destroy_def Connection_closeSession_def)

lemma sample_handle_peer:
  "handle_peer sample_ossl fb px sample_sockets (busy_service\<lparr>as_listener := l\<rparr>) sample_peer (2, [], [])
     = Some (busy_service\<lparr>as_listener := l\<rparr>, (2, [], []))"
proof -
  have "us_fd sample_peer = 6" "us_cancel_fd sample_peer = 9" "sc_allowed_uids (as_config busy_service) = [1000]"
    by (simp_all add: sample_peer_def busy_service_def sample_service_def sample_config_def)
  then show ?thesis
    using sample_silent_peer [of fb px l]
    by (simp add: handle_peer_def UnixSocketTransport_peerCredentials_def peerAllowed_def
        UnixSocketTransport_destroy_def UnixSocketTransport_close_def)
qed

lemma sample_service_run:
  "\<exists>service' w'. AuthorizationService_run stop_after_peer sample_ossl talk_codec sample_files sample_sockets
     busy_service (0, [], []) = Some (ServiceError_None, service', w')"
proof -
  let ?service = "busy_service\<lparr>as_listener := open_listener\<rparr>"
  have stop: "\<not> stop_after_peer (Suc 0, s)" "stop_after_peer (2, s)" for s
    by (simp_all add: stop_after_peer_def)
  have "\<exists>service' w'. run_loop stop_after_peer sample_ossl talk_codec sample_files sample_sockets
      ?service (2, [], []) = Some (ServiceError_None, service', w')"
    by (subst run_loop.simps)
       (simp add: stop close_listener_def UnixSocketListener_close_def open_listener_def Let_def split: prod.split)
  then have "\<exists>service' w'. run_loop stop_after_peer sample_ossl talk_codec sample_files sample_sockets
      ?service (Suc 0, [], []) = Some (ServiceError_None, service', w')"
    by (subst run_loop.simps)
       (simp add: stop Service_deadlineAfter_def sample_accept sample_handle_peer)
  moreover have "as_listener busy_service = as_listener sample_service" by (simp add: busy_service_def)
  ultimately show ?thesis
    using sample_listen by (simp add: AuthorizationService_run_def Let_def status_success_def)
qed

theorem service_run_releases_sessions_witness:
  "\<exists>service' w'. AuthorizationService_run stop_after_peer sample_ossl talk_codec sample_files sample_sockets
     busy_service (0, [], []) = Some (ServiceError_None, service', w') \<and>
     lookup_session (as_sessions service') (replicate 16 3) = Some sample_session"
proof -
  obtain service' w' where r: "AuthorizationService_run stop_after_peer sample_ossl talk_codec sample_files
      sample_sockets busy_service (0, [], []) = Some (ServiceError_None, service', w')"
    using sample_service_run by blast
  have "manager_wf (as_sessions busy_service)"
    using manager_reachable_inv [OF sample_manager_reachable] by (simp add: busy_service_def)
  from service_run_releases_sessions [OF this r]
  have "lookup_session (as_sessions service') = lookup_session sample_manager" by (simp add: busy_service_def)
  moreover have "lookup_session sample_manager (replicate 16 3) = Some sample_session"
    by (simp add: lookup_session_def sample_manager_def)
  ultimately show ?thesis using r by (intro exI [of _ service'] exI [of _ w']) simp
qed

end
