(* ===== verification/SDK_Witnesses.thy ===== *)
theory SDK_Witnesses
  imports Service_Witnesses
begin

text \<open>
  Runs of the client library: a conversation with a service whose frames come from the sample socket,
  and an authorization without a service.
\<close>

section \<open>A client in a conversation\<close>

definition sdk_table :: "Envelope list" where
  "sdk_table =
     [\<lparr>env_protocol_version = 0, env_request_id = 1, env_body = Message_ClientHello (Some
        \<lparr>cht_min_protocol_version = 1, cht_max_protocol_version = 1,
         cht_client_nonce = Some (replicate 32 0), cht_ephemeral_public_key = Some (replicate 32 1),
         cht_sdk_version = Some ''yoauthorize-cpp/0.1''\<rparr>)\<rparr>,
      \<lparr>env_protocol_version = 0, env_request_id = 1, env_body = Message_ServerHello (Some
        \<lparr>sht_selected_protocol_version = 1, sht_server_nonce = Some (replicate 32 3),
         sht_ephemeral_public_key = Some (replicate 32 2), sht_service_key_id = Some ''svc'',
         sht_signature = Some (replicate 32 9 @ replicate 32 171)\<rparr>)\<rparr>,
      \<lparr>env_protocol_version = 1, env_request_id = 1, env_body = Message_ClientFinished (Some
        \<lparr>cft_transcript_hash = Some (replicate 32 171)\<rparr>)\<rparr>,
      \<lparr>env_protocol_version = 1, env_request_id = 2, env_body = Message_Authorize (Some
        \<lparr>azt_product_id = Some ''p'', azt_process_id = 1, azt_process_start_time = 0\<rparr>)\<rparr>,
      \<lparr>env_protocol_version = 1, env_request_id = 2, env_body = Message_AuthResult (Some
        \<lparr>art_error = 0, art_session_id = Some (replicate 16 4), art_features = Some [Some ''f''],
         art_expire_time = 200, art_heartbeat_interval_ms = 5000, art_heartbeat_timeout_ms = 15000\<rparr>)\<rparr>,
      \<lparr>env_protocol_version = 1, env_request_id = 3, env_body = Message_CloseSession (Some ())\<rparr>,
      \<lparr>env_protocol_version = 1, env_request_id = 9, env_body = Message_Heartbeat (Some
        \<lparr>hbt_session_id = Some (replicate 16 4)\<rparr>)\<rparr>,
      \<lparr>env_protocol_version = 1, env_request_id = 9, env_body = Message_HeartbeatAck (Some
        \<lparr>hat_state = 1, hat_features = Some [Some ''f''], hat_expire_time = 200\<rparr>)\<rparr>]"

definition sdk_codec :: flatbuffers where
  "sdk_codec = sample_fb sdk_table"

lemma sdk_codec_ok [simp]: "fb_codec sdk_codec"
  unfolding sdk_codec_def by (rule sample_fb_codec) (simp add: sdk_table_def)

definition sdk_config :: ClientConfig where
  "sdk_config = default_client_config\<lparr>cc_product_id := ''p'', cc_endpoint := ''/s'',
     cc_trusted_service_keys := [(''svc'', replicate 32 9)]\<rparr>"

definition sdk_client :: ClientHandshake where
  "sdk_client = ClientHandshake_new [(''svc'', replicate 32 9)] ''yoauthorize-cpp/0.1'' 1 1 1"

definition sdk_client1 :: ClientHandshake where
  "sdk_client1 = sdk_client\<lparr>cl_nonce := replicate 32 0,
     cl_ephemeral := \<lparr>private_key = replicate 32 1, public_key = replicate 32 1\<rparr>,
     cl_state := HandshakeState_HelloSent\<rparr>"

definition sdk_established :: "u64 \<Rightarrow> u64 \<Rightarrow> ClientHandshake" where
  "sdk_established write read = sdk_client1\<lparr>
     cl_ephemeral := \<lparr>private_key = replicate 32 0, public_key = replicate 32 1\<rparr>,
     cl_writer := Some \<lparr>rw_key = talk_key, rw_next_sequence = write\<rparr>,
     cl_reader := Some \<lparr>rr_key = talk_key, rr_next_sequence = read\<rparr>,
     cl_selected_version := 1, cl_state := HandshakeState_Established\<rparr>"

definition sdk_result :: AuthResultMessage where
  "sdk_result = talk_result\<lparr>arm_request_id := 2\<rparr>"

lemma sdk_pieces:
  "ClientHandshake_start sample_ossl sdk_codec sdk_client (0, s) = (Inr (sample_buffer 0), sdk_client1, (2, s))"
  "ClientHandshake_handleServerHello sample_ossl sdk_codec (sample_buffer 1) sdk_client1
     = Some (Inr (talk_frame 1 2), (sdk_established 2 1))"
  "ClientHandshake_seal sample_ossl (sample_buffer 3) (sdk_established 2 1) = (Inr (talk_frame 2 3), (sdk_established 3 1))"
  "ClientHandshake_open sample_ossl (talk_frame 1 4) (sdk_established 3 1) = (Inr (sample_buffer 4), (sdk_established 3 2))"
  "ClientHandshake_seal sample_ossl (sample_buffer 5) (sdk_established 3 2)
     = (Inr (talk_frame 3 5), sdk_established 4 2)"
  by code_simp+

lemma sdk_messages:
  "encodeAuthorize sdk_codec (authorize_request 1 sdk_config (sdk_established 2 1)) = Inr (sample_buffer 3)"
  "decodeAuthResult sdk_codec (sample_buffer 4) = Some (Inr sdk_result)"
  "encodeCloseSession sdk_codec \<lparr>csm_request_id = 3, csm_protocol_version = 1\<rparr> = Inr (sample_buffer 5)"
  "accepted_result (sdk_established 3 2) sdk_result"
  by code_simp+

lemma sdk_frames:
  "Client_wrapPlaintext (sample_buffer 0) \<noteq> []" "unwrapPlaintext (Client_wrapPlaintext (sample_buffer 1)) = sample_buffer 1"
  "decodeHeader (take 20 (Client_wrapPlaintext (sample_buffer 1))) kDefaultMaxPayloadSize
    = Inr (\<lparr>fh_version = 1, fh_flags = 0, fh_sequence = 0, fh_payload_size = 9\<rparr>, [])"
  "length (Client_wrapPlaintext (sample_buffer 1)) = 29"
  by code_simp+

lemma sdk_talk_frame:
  "decodeHeader (take 20 (talk_frame 1 4)) kDefaultMaxPayloadSize
    = Inr (\<lparr>fh_version = 1, fh_flags = 1, fh_sequence = 1, fh_payload_size = 25\<rparr>, [])"
  "length (talk_frame q i) = 45" "talk_frame q i \<noteq> []"
  by (code_simp, simp_all add: talk_frame_def sample_buffer_def)

lemma sdk_read_frame:
  assumes "0 \<le> us_fd t" "length frame = 20 + unat (fh_payload_size header)" "fh_payload_size header \<noteq> 0"
    and "decodeHeader (take 20 frame) kDefaultMaxPayloadSize = Inr (header, rest)"
  shows "Client_readFrame sample_sockets t timeout (k, frame @ i, out) = Some (Inr frame, (k, i, out))"
proof -
  have "0 < unat (fh_payload_size header)" using assms(3) by (simp add: unat_gt_0)
  then show ?thesis
    using assms by (simp add: Client_readFrame_def Client_deadlineAfter_def sample_read kFrameHeaderSize_def)
qed

lemma sdk_write_frame:
  assumes "0 \<le> us_fd t" "frame \<noteq> []"
  shows "writeFrame sample_sockets t frame timeout (k, i, out) = Some (status_ok, (k, i, out @ frame))"
  using assms by (simp add: writeFrame_def Client_deadlineAfter_def sample_write status_success_def)

lemma sample_buffer_nonempty: "sample_buffer i \<noteq> []"
  by (simp add: sample_buffer_def)

definition sdk_incoming :: bytes where
  "sdk_incoming = Client_wrapPlaintext (sample_buffer 1) @ talk_frame 1 4"

lemma sdk_handshake:
  assumes "0 \<le> us_fd t"
  shows "\<exists>out. Impl_handshake sample_ossl sdk_codec sample_sockets sdk_config t (0, sdk_incoming, [])
    = Some (Inr (sdk_established 2 1), (2, talk_frame 1 4, out))"
  using sdk_pieces sdk_frames sdk_talk_frame
  by (simp add: Impl_handshake_def sdk_config_def sdk_client_def [symmetric] sdk_incoming_def assms
      sdk_write_frame sdk_read_frame [OF assms, of _ "\<lparr>fh_version = 1, fh_flags = 0, fh_sequence = 0, fh_payload_size = 9\<rparr>"]
      status_ok_def Let_def sample_buffer_nonempty)

lemma sdk_authorize:
  assumes "0 \<le> us_fd t"
  shows "\<exists>out'. Impl_authorize sample_ossl sdk_codec sample_sockets 1 sdk_config t (sdk_established 2 1)
      (2, talk_frame 1 4, out) = Some (Inr sdk_result, sdk_established 3 2, (2, [], out'))"
proof -
  have "cl_selected_version (sdk_established 2 1) = 1" "cc_product_id sdk_config = ''p''"
    by (simp_all add: sdk_established_def sdk_config_def)
  then show ?thesis
    using sdk_pieces sdk_messages sdk_talk_frame
      sdk_read_frame [OF assms _ _ sdk_talk_frame(1), where i = "[]"]
    by (simp add: Impl_authorize_def assms sdk_write_frame status_ok_def)
qed

definition sdk_valid :: Impl where
  "sdk_valid = Impl_new\<lparr>
     im_transport := Some \<lparr>us_path = ''/s'', us_fd = 5, us_cancel_fd = 9, us_canceled = False\<rparr>,
     im_handshake := Some (sdk_established 3 2), im_config := sdk_config,
     im_session_id := replicate 16 4, im_heartbeat_interval := 5000,
     im_snapshot := \<lparr>sn_state = ClientState_Valid, sn_features = [''f''], sn_expire_time = 200\<rparr>,
     im_thread_running := True\<rparr>"

lemma sdk_connect:
  "UnixSocketTransport_connect sample_sockets d \<lparr>us_path = ''/s'', us_fd = -1, us_cancel_fd = 9, us_canceled = False\<rparr> w
     = Some (status_success, \<lparr>us_path = ''/s'', us_fd = 5, us_cancel_fd = 9, us_canceled = False\<rparr>, w)"
  by (simp add: UnixSocketTransport_connect_def makeAddress_def Let_def, subst connect_retry.simps)
     (simp add: finish_connect_def canceled_or_success_def)

lemma sdk_initialized:
  "\<exists>w'. Impl_initialize sample_ossl sdk_codec sample_sockets 1 sdk_config Impl_new (0, sdk_incoming, [])
     = Some (status_ok, sdk_valid, w')"
proof -
  let ?t = "\<lparr>us_path = ''/s'', us_fd = 5, us_cancel_fd = 9, us_canceled = False\<rparr>"
  obtain out where h: "Impl_handshake sample_ossl sdk_codec sample_sockets sdk_config ?t (0, sdk_incoming, [])
      = Some (Inr (sdk_established 2 1), (2, talk_frame 1 4, out))"
    using sdk_handshake [of ?t] by auto
  obtain out' where a: "Impl_authorize sample_ossl sdk_codec sample_sockets 1 sdk_config ?t (sdk_established 2 1)
      (2, talk_frame 1 4, out) = Some (Inr sdk_result, sdk_established 3 2, (2, [], out'))"
    using sdk_authorize [of ?t out] by auto
  have c: "\<not> incomplete sdk_config" "cc_endpoint sdk_config = ''/s''"
    by (simp_all add: incomplete_def sdk_config_def default_client_config_def)
  have r: "arm_session_id sdk_result = Some (replicate 16 4)" "arm_heartbeat_interval_ms sdk_result = 5000"
    "arm_features sdk_result = [''f'']" "arm_expire_time sdk_result = 200"
    by (simp_all add: sdk_result_def talk_result_def)
  show ?thesis
    using h a c r
    by (simp add: Impl_initialize_def UnixSocketTransport_new_def Client_deadlineAfter_def sdk_connect
        status_success_def Let_def sdk_valid_def Impl_new_def)
qed

lemma sdk_valid_reachable: "sdk_reachable sample_ossl sdk_codec sample_sockets sdk_valid"
proof -
  obtain w' where "Impl_initialize sample_ossl sdk_codec sample_sockets 1 sdk_config Impl_new (0, sdk_incoming, [])
      = Some (status_ok, sdk_valid, w')" using sdk_initialized by blast
  from sdk_next [OF sdk_new sdk_initialize [OF this]] show ?thesis .
qed

theorem feature_granted_by_trusted_service_witness:
  "Impl_hasFeature sdk_valid ''f'' \<and>
   (\<exists>hs. im_handshake sdk_valid = Some hs \<and> client_authentic sample_ossl hs)"
proof -
  have "Impl_hasFeature sdk_valid ''f''" by (simp add: Impl_hasFeature_def sdk_valid_def)
  with feature_granted_by_trusted_service [OF sdk_valid_reachable this] show ?thesis by blast
qed

lemma sdk_shutdown_ends: "\<exists>im w'. Impl_shutdown sample_ossl sdk_codec sample_sockets sdk_valid (2, [], [])
    = Some (im, w') \<and> sn_state (im_snapshot im) = ClientState_Closed"
proof -
  let ?im = "sdk_valid\<lparr>im_stop_requested := True, im_thread_running := False\<rparr>"
  have "cl_state (sdk_established 3 2) = HandshakeState_Established" "cl_selected_version (sdk_established 3 2) = 1"
    by (simp_all add: sdk_established_def)
  then have "\<exists>im w'. send_close sample_ossl sdk_codec sample_sockets ?im (2, [], []) = Some (im, w') \<and>
      im_transport im = im_transport sdk_valid"
    using sdk_pieces sdk_messages sdk_talk_frame
    by (simp add: send_close_def sdk_valid_def Impl_new_def Let_def sdk_write_frame)
  then obtain im w' where c: "send_close sample_ossl sdk_codec sample_sockets ?im (2, [], []) = Some (im, w')"
    "im_transport im = im_transport sdk_valid" by blast
  then show ?thesis
    by (cases w') (simp add: Impl_shutdown_def release_transport_def sdk_valid_def [THEN arg_cong, of im_transport]
        UnixSocketTransport_close_def UnixSocketTransport_destroy_def)
qed

theorem ended_client_grants_nothing_witness:
  "\<exists>im w'. Impl_shutdown sample_ossl sdk_codec sample_sockets sdk_valid (2, [], []) = Some (im, w') \<and>
     sn_state (im_snapshot im) = ClientState_Closed \<and> \<not> Impl_hasFeature im ''f'' \<and>
     (\<forall>im'. (sdk_step sample_ossl sdk_codec sample_sockets)\<^sup>*\<^sup>* im im' \<longrightarrow>
        sn_state (im_snapshot im') = ClientState_Closed \<and> \<not> Impl_hasFeature im' ''f'')"
proof -
  obtain im w' where s: "Impl_shutdown sample_ossl sdk_codec sample_sockets sdk_valid (2, [], []) = Some (im, w')"
    "sn_state (im_snapshot im) = ClientState_Closed" using sdk_shutdown_ends by blast
  from sdk_next [OF sdk_valid_reachable sdk_shutdown [OF s(1)]]
  have "sdk_reachable sample_ossl sdk_codec sample_sockets im" .
  from ended_client_grants_nothing [OF this, of "''f''"] s(2)
  have "\<not> Impl_hasFeature im ''f'' \<and> (\<forall>im'. (sdk_step sample_ossl sdk_codec sample_sockets)\<^sup>*\<^sup>* im im' \<longrightarrow>
      sn_state (im_snapshot im') = ClientState_Closed \<and> \<not> Impl_hasFeature im' ''f'')" by auto
  with s show ?thesis by blast
qed

section \<open>Authorization without a service\<close>

definition local_config :: LocalAuthorizationConfig where
  "local_config = default_local_config\<lparr>la_product_id := ''p'',
     la_trusted_license_keys := [(''k'', replicate 32 5)]\<rparr>"

lemma sample_local:
  "authorizeLicense sample_openssl sample_lf sample_fs sample_files sample_package local_config 0
     = (Inr \<lparr>sn_state = ClientState_Valid, sn_features = [''f''], sn_expire_time = 200\<rparr>, 0)"
  by code_simp

theorem local_authorization_iff_witness:
  "\<exists>machine license. machineIdentity sample_openssl sample_fs local_config = Inr machine \<and>
     LicenseValidator_validate sample_openssl sample_lf \<lparr>lv_trusted_keys = [(''k'', replicate 32 5)]\<rparr>
       sample_package ''p'' machine 150 = Inr license \<and> ls_expire_time license = 200"
  using local_authorization_iff [of sample_openssl sample_lf sample_fs sample_files sample_package local_config 0
      "\<lparr>sn_state = ClientState_Valid, sn_features = [''f''], sn_expire_time = 200\<rparr>"] sample_local
  by (auto simp: local_config_def sample_files_def)

end
