(* ===== verification/EndToEnd.thy ===== *)
theory EndToEnd
  imports Client
begin

text \<open>
  The client library and the service together: what the client object of
  \<^verbatim>\<open>src/src/ya_license_sdk/src/client.cpp\<close> sends over an established channel, the connection of
  \<^verbatim>\<open>src/src/ya_license_service/src/connection.cpp\<close> answers, and the client accepts the answer.
  Each side is the model of its own source; only the bytes pass between them.
\<close>

section \<open>Messages of the two programs\<close>

text \<open>The answers that a connection gives when it grants a request and when a session is live.\<close>

definition grant :: "Connection \<Rightarrow> Session \<Rightarrow> AuthResultMessage" where
  "grant c s = \<lparr>arm_request_id = 2, arm_protocol_version = sv_selected_version (cn_handshake c),
     arm_error = AuthorizationError_None, arm_session_id = Some (ss_id s), arm_features = ss_features s,
     arm_expire_time = ss_expire_time s, arm_heartbeat_interval_ms = cn_heartbeat_interval_ms c,
     arm_heartbeat_timeout_ms = cn_heartbeat_timeout_ms c\<rparr>"

definition valid_ack :: "u64 \<Rightarrow> Connection \<Rightarrow> Session \<Rightarrow> HeartbeatAckMessage" where
  "valid_ack rid c s = \<lparr>ham_request_id = rid, ham_protocol_version = sv_selected_version (cn_handshake c),
     ham_state = AuthorizationState_Valid, ham_features = ss_features s, ham_expire_time = ss_expire_time s\<rparr>"

lemma together_version: "established_together ossl hs sv \<Longrightarrow> sv_selected_version sv = cl_selected_version hs"
  by (simp add: established_together_def)

section \<open>Authorization\<close>

lemma authorize_grants:
  assumes "azm_product_id request = ls_product_id (cn_license c)" "azm_request_id request = 2"
    and "\<not> license_expired (cn_license c) now"
    and "SessionManager_create ossl (ls_product_id (cn_license c)) (cn_peer_identity c)
           (ls_features (cn_license c)) (ls_expire_time (cn_license c)) ms (ls_max_sessions (cn_license c)) m w
         = Some (Inr s, m1, w1)"
  shows "Connection_authorize ossl request ms now c m w
    = Some (grant c s, ConnectionError_None, c\<lparr>cn_session := Some s, cn_state := State_Active\<rparr>, m1, w1)"
  using assms by (simp add: Connection_authorize_def grant_def Let_def)

lemma grant_accepted:
  assumes "cl_selected_version hs = sv_selected_version (cn_handshake c)"
    and "0 < cn_heartbeat_interval_ms c" "cn_heartbeat_interval_ms c < cn_heartbeat_timeout_ms c"
  shows "accepted_result hs (grant c s)"
  using assms by (auto simp: accepted_result_def grant_def not_le)

lemma request_arrives:
  assumes "fb_codec fb" "established_together ossl hs (cn_handshake c)"
    and "encodeAuthorize fb (authorize_request pid config hs) = Inr request" "length request \<le> kMaxEnvelopeSize"
    and "ClientHandshake_seal ossl request hs = (Inr frame, hs1)"
  obtains h where "ServerHandshake_open ossl frame (cn_handshake c) = (Inr request, h)"
    "established_together ossl hs1 h" "sv_selected_version h = sv_selected_version (cn_handshake c)"
    "decodeAuthorize fb request = Some (Inr (authorize_request pid config hs))"
proof -
  from client_to_server [OF assms(2,5)] obtain h where
    h: "ServerHandshake_open ossl frame (cn_handshake c) = (Inr request, h)" "established_together ossl hs1 h" by blast
  have "fits fb request" using assms(1,4) by (simp add: fits_def)
  from authorize.decode_encode [OF _ assms(3) this] open_keeps_state [OF h(1)] h that show thesis by simp
qed

text \<open>What the connection does with the request, and the client with the answer.\<close>

lemma connection_grants:
  assumes h: "ServerHandshake_open ossl frame (cn_handshake c) = (Inr request, h)"
      "sv_selected_version h = sv_selected_version (cn_handshake c)"
      "sv_selected_version (cn_handshake c) = cl_selected_version hs"
      "decodeAuthorize fb request = Some (Inr (authorize_request pid config hs))"
    and st: "cn_state c = State_AwaitingAuthorize"
    and lic: "cc_product_id config = ls_product_id (cn_license c)" "\<not> license_expired (cn_license c) now"
    and cr: "SessionManager_create ossl (ls_product_id (cn_license c)) (cn_peer_identity c)
           (ls_features (cn_license c)) (ls_expire_time (cn_license c)) ms (ls_max_sessions (cn_license c)) m w
         = Some (Inr s, m1, w1)"
    and ans: "encodeAuthResult fb (grant c s) = Inr answer" "ServerHandshake_seal ossl answer h = (Inr reply, sv)"
  shows "Connection_handle ossl fb frame ms now c m w
    = Some (\<lparr>cr_error = ConnectionError_None, cr_response = Some reply, cr_closed = False\<rparr>,
        c\<lparr>cn_handshake := sv, cn_session := Some s, cn_state := State_Active\<rparr>, m1, w1)"
proof -
  have g: "grant (c\<lparr>cn_handshake := h\<rparr>) s = grant c s" using h(2) by (simp add: grant_def)
  have "Connection_authorize ossl (authorize_request pid config hs) ms now (c\<lparr>cn_handshake := h\<rparr>) m w
      = Some (grant c s, ConnectionError_None, c\<lparr>cn_handshake := h, cn_session := Some s, cn_state := State_Active\<rparr>, m1, w1)"
    using authorize_grants [of "authorize_request pid config hs" "c\<lparr>cn_handshake := h\<rparr>" now ossl ms m w s m1 w1]
      lic cr unfolding g by (simp add: authorize_request_def)
  then show ?thesis
    using h st ans
    by (simp add: Connection_handle_def Connection_handleAuthorize_def Connection_encryptedResponse_def Let_def authorize_request_def)
qed

lemma client_takes_grant:
  assumes "encodeAuthorize fb (authorize_request pid config hs) = Inr request"
    and "ClientHandshake_seal ossl request hs = (Inr frame, hs1)"
    and "writeFrame so t frame (cc_io_timeout config) v = Some (status_ok, v1)"
    and "Client_readFrame so t (cc_io_timeout config) v1 = Some (Inr reply, v2)"
    and "ClientHandshake_open ossl reply hs1 = (Inr answer, hs2)"
    and "decodeAuthResult fb answer = Some (Inr response)" "accepted_result hs2 response"
  shows "Impl_authorize ossl fb so pid config t hs v = Some (Inr response, hs2, v2)"
  using assms by (simp add: Impl_authorize_def status_ok_def)

lemma authorization_agreed:
  assumes laws: "fb_codec fb" and est: "established_together ossl hs (cn_handshake c)"
    and st: "cn_state c = State_AwaitingAuthorize"
    and hb: "0 < cn_heartbeat_interval_ms c" "cn_heartbeat_interval_ms c < cn_heartbeat_timeout_ms c"
    and req: "encodeAuthorize fb (authorize_request pid config hs) = Inr request" "length request \<le> kMaxEnvelopeSize"
    and frame: "ClientHandshake_seal ossl request hs = (Inr frame, hs1)"
    and lic: "cc_product_id config = ls_product_id (cn_license c)" "\<not> license_expired (cn_license c) now"
    and cr: "SessionManager_create ossl (ls_product_id (cn_license c)) (cn_peer_identity c)
           (ls_features (cn_license c)) (ls_expire_time (cn_license c)) ms (ls_max_sessions (cn_license c)) m w
         = Some (Inr s, m1, w1)"
    and ans: "encodeAuthResult fb (grant c s) = Inr answer" "length answer \<le> kMaxEnvelopeSize"
      "ServerHandshake_seal ossl answer (snd (ServerHandshake_open ossl frame (cn_handshake c))) = (Inr reply, sv)"
    and io: "writeFrame so t frame (cc_io_timeout config) v = Some (status_ok, v1)"
      "Client_readFrame so t (cc_io_timeout config) v1 = Some (Inr reply, v2)"
  shows "\<exists>c' hs2. Connection_handle ossl fb frame ms now c m w
      = Some (\<lparr>cr_error = ConnectionError_None, cr_response = Some reply, cr_closed = False\<rparr>, c', m1, w1) \<and>
    cn_state c' = State_Active \<and> cn_session c' = Some s \<and> lookup_session m1 (ss_id s) = Some s \<and>
    Impl_authorize ossl fb so pid config t hs v = Some (Inr (grant c s), hs2, v2) \<and>
    arm_session_id (grant c s) = Some (ss_id s) \<and> arm_features (grant c s) = ls_features (cn_license c) \<and>
    arm_expire_time (grant c s) = ls_expire_time (cn_license c) \<and>
    established_together ossl hs2 (cn_handshake c')"
proof -
  obtain h where h: "ServerHandshake_open ossl frame (cn_handshake c) = (Inr request, h)"
    "established_together ossl hs1 h" "sv_selected_version h = sv_selected_version (cn_handshake c)"
    "decodeAuthorize fb request = Some (Inr (authorize_request pid config hs))"
    by (rule request_arrives [OF laws est req frame])
  have sealed: "ServerHandshake_seal ossl answer h = (Inr reply, sv)" using ans(3) h(1) by simp
  from server_to_client [OF h(2) sealed] obtain hs2 where
    o: "ClientHandshake_open ossl reply hs1 = (Inr answer, hs2)" "established_together ossl hs2 sv" by blast
  have "ar_sized (grant c s)" using create_ok(5) [OF cr] by (simp add: ar_sized_def grant_def)
  moreover have "fits fb answer" using laws ans(2) by (simp add: fits_def)
  ultimately have d: "decodeAuthResult fb answer = Some (Inr (grant c s))"
    using auth_result.decode_encode ans(1) by blast
  have "cl_selected_version hs2 = cl_selected_version hs1"
    using o(1) by (auto simp: ClientHandshake_open_def split: HandshakeState.splits option.splits prod.splits)
  with together_version [OF h(2)] h(3) have "accepted_result hs2 (grant c s)" by (intro grant_accepted [OF _ hb]) simp
  from client_takes_grant [OF req(1) frame io o(1) d this]
  have client: "Impl_authorize ossl fb so pid config t hs v = Some (Inr (grant c s), hs2, v2)" .
  note service = connection_grants [OF h(1,3) together_version [OF est] h(4) st lic cr ans(1) sealed]
  have "lookup_session m1 (ss_id s) = Some s" using create_ok(6) [OF cr] by (simp add: lookup_session_def)
  then show ?thesis
    using client service o(2) create_ok(9,10) [OF cr] by (simp add: grant_def)
qed

section \<open>Heartbeats\<close>

lemma heartbeat_arrives:
  assumes "fb_codec fb" "established_together ossl hs (cn_handshake c)" "length sid = 16"
    and "encodeHeartbeat fb (heartbeat_request rid sid hs) = Inr request" "length request \<le> kMaxEnvelopeSize"
    and "ClientHandshake_seal ossl request hs = (Inr frame, hs1)"
  obtains h where "ServerHandshake_open ossl frame (cn_handshake c) = (Inr request, h)"
    "established_together ossl hs1 h" "sv_selected_version h = sv_selected_version (cn_handshake c)"
    "decodeHeartbeat fb request = Some (Inr (heartbeat_request rid sid hs))"
proof -
  from client_to_server [OF assms(2,6)] obtain h where
    h: "ServerHandshake_open ossl frame (cn_handshake c) = (Inr request, h)" "established_together ossl hs1 h" by blast
  have "fits fb request" "hb_sized (heartbeat_request rid sid hs)"
    using assms(1,3,5) by (simp_all add: fits_def hb_sized_def heartbeat_request_def)
  from heartbeat.decode_encode [OF this(2) assms(4) this(1)] open_keeps_state [OF h(1)] h that show thesis by simp
qed

lemma connection_acknowledges:
  assumes h: "ServerHandshake_open ossl frame (cn_handshake c) = (Inr request, h)"
      "sv_selected_version h = sv_selected_version (cn_handshake c)"
      "sv_selected_version (cn_handshake c) = cl_selected_version hs"
      "decodeHeartbeat fb request = Some (Inr (heartbeat_request rid (ss_id s) hs))"
    and st: "cn_state c = State_Active" "cn_session c = Some s"
    and t: "SessionManager_heartbeat (ss_id s) ms m = (ErrorCode_None, m1)"
    and lic: "\<not> license_expired (cn_license c) now"
    and ans: "encodeHeartbeatAck fb (valid_ack rid c s) = Inr answer" "ServerHandshake_seal ossl answer h = (Inr reply, sv)"
  shows "Connection_handle ossl fb frame ms now c m w
    = Some (\<lparr>cr_error = ConnectionError_None, cr_response = Some reply, cr_closed = False\<rparr>, c\<lparr>cn_handshake := sv\<rparr>, m1, w)"
  using assms
  by (simp add: Connection_handle_def Connection_handleActive_def Connection_handleHeartbeat_def
      Connection_encryptedResponse_def Let_def heartbeat_request_def valid_ack_def)

lemma client_takes_ack:
  assumes "\<not> im_stop_requested im" "im_transport im = Some t" "im_handshake im = Some hs"
    and "encodeHeartbeat fb (heartbeat_request (im_next_request_id im) (im_session_id im) hs) = Inr request"
    and "ClientHandshake_seal ossl request hs = (Inr frame, hs1)"
    and "writeFrame so t frame (cc_io_timeout (im_config im)) v = Some (status_ok, v1)"
    and "Client_readFrame so t (cc_io_timeout (im_config im)) v1 = Some (Inr reply, v2)"
    and "ClientHandshake_open ossl reply hs1 = (Inr answer, hs2)" "decodeHeartbeatAck fb answer = Some (Inr ack)"
    and "ham_request_id ack = im_next_request_id im" "ham_protocol_version ack = cl_selected_version hs2"
  shows "Impl_heartbeatRound ossl fb so im v
    = Some (apply_ack ack (im\<lparr>im_next_request_id := im_next_request_id im + 1, im_handshake := Some hs2\<rparr>), v2)"
  using assms by (simp add: Impl_heartbeatRound_def exchange_heartbeat_def status_ok_def Let_def)

lemma heartbeat_agreed:
  assumes laws: "fb_codec fb" and est: "established_together ossl hs (cn_handshake c)"
    and st: "cn_state c = State_Active" "cn_session c = Some s" "length (ss_id s) = 16"
    and tab: "manager_wf m" "lookup_session m (ss_id s) \<noteq> None"
    and lib: "\<not> im_stop_requested im" "im_transport im = Some t" "im_handshake im = Some hs" "im_session_id im = ss_id s"
    and req: "encodeHeartbeat fb (heartbeat_request (im_next_request_id im) (ss_id s) hs) = Inr request"
      "length request \<le> kMaxEnvelopeSize"
    and frame: "ClientHandshake_seal ossl request hs = (Inr frame, hs1)"
    and lic: "\<not> license_expired (cn_license c) now"
    and ans: "encodeHeartbeatAck fb (valid_ack (im_next_request_id im) c s) = Inr answer" "length answer \<le> kMaxEnvelopeSize"
      "ServerHandshake_seal ossl answer (snd (ServerHandshake_open ossl frame (cn_handshake c))) = (Inr reply, sv)"
    and io: "writeFrame so t frame (cc_io_timeout (im_config im)) v = Some (status_ok, v1)"
      "Client_readFrame so t (cc_io_timeout (im_config im)) v1 = Some (Inr reply, v2)"
  shows "\<exists>c' m' im' hs2. Connection_handle ossl fb frame ms now c m w
      = Some (\<lparr>cr_error = ConnectionError_None, cr_response = Some reply, cr_closed = False\<rparr>, c', m', w) \<and>
    cn_state c' = State_Active \<and> cn_session c' = Some s \<and> lookup_session m' (ss_id s) \<noteq> None \<and>
    Impl_heartbeatRound ossl fb so im v = Some (im', v2) \<and> im_thread_running im' \<and>
    im_snapshot im' = \<lparr>sn_state = ClientState_Valid, sn_features = ss_features s, sn_expire_time = ss_expire_time s\<rparr> \<and>
    im_handshake im' = Some hs2 \<and> established_together ossl hs2 (cn_handshake c')"
proof -
  obtain h where h: "ServerHandshake_open ossl frame (cn_handshake c) = (Inr request, h)"
    "established_together ossl hs1 h" "sv_selected_version h = sv_selected_version (cn_handshake c)"
    "decodeHeartbeat fb request = Some (Inr (heartbeat_request (im_next_request_id im) (ss_id s) hs))"
    by (rule heartbeat_arrives [OF laws est st(3) req frame])
  have sealed: "ServerHandshake_seal ossl answer h = (Inr reply, sv)" using ans(3) h(1) by simp
  from server_to_client [OF h(2) sealed] obtain hs2 where
    o: "ClientHandshake_open ossl reply hs1 = (Inr answer, hs2)" "established_together ossl hs2 sv" by blast
  obtain e m1 where t: "SessionManager_heartbeat (ss_id s) ms m = (e, m1)" by fastforce
  have "e = ErrorCode_None" using manager.touch_result [OF tab(1), of "ss_id s" ms] tab(2) t by simp
  with t have t: "SessionManager_heartbeat (ss_id s) ms m = (ErrorCode_None, m1)" by simp
  have live: "lookup_session m1 (ss_id s) \<noteq> None"
    using manager.lookup_touch [OF tab(1), of "ss_id s" ms "ss_id s"] tab(2) t by simp
  have "fits fb answer" using laws ans(2) by (simp add: fits_def)
  then have d: "decodeHeartbeatAck fb answer = Some (Inr (valid_ack (im_next_request_id im) c s))"
    using heartbeat_ack.decode_encode [OF _ ans(1)] by simp
  have "cl_selected_version hs2 = cl_selected_version hs1"
    using o(1) by (auto simp: ClientHandshake_open_def split: HandshakeState.splits option.splits prod.splits)
  with together_version [OF h(2)] h(3) have v: "ham_protocol_version (valid_ack (im_next_request_id im) c s) = cl_selected_version hs2"
    by (simp add: valid_ack_def)
  note service = connection_acknowledges [OF h(1,3) together_version [OF est] h(4) st(1,2) t lic ans(1) sealed]
  note client = client_takes_ack [OF lib(1-3) req(1) [folded lib(4)] frame io o(1) d _ v]
  show ?thesis
    using service client live o(2) st(1,2) by (simp add: valid_ack_def apply_ack_def state_of_ack_def Let_def)
qed

section \<open>Properties\<close>

text \<open>
  C6.  An entitled client is served.  When the client library and a connection of the service are
  established together, the license covers the product and has not expired, the session table has a place,
  the cipher seals the answer and the transport carries the two frames, then the connection answers the
  authorization request that the library sends, has the new session and keeps it in the table, and the
  library's exchange returns the grant of that answer: with the session's id and the features and expiry
  of the license, and with the channel still in step.
\<close>

theorem entitled_client_is_served:
  assumes "fb_codec fb" "established_together ossl hs (cn_handshake c)"
    and "cn_state c = State_AwaitingAuthorize"
    and "0 < cn_heartbeat_interval_ms c" "cn_heartbeat_interval_ms c < cn_heartbeat_timeout_ms c"
    and "encodeAuthorize fb (authorize_request pid config hs) = Inr request" "length request \<le> kMaxEnvelopeSize"
    and "ClientHandshake_seal ossl request hs = (Inr frame, hs1)"
    and "cc_product_id config = ls_product_id (cn_license c)" "\<not> license_expired (cn_license c) now"
    and "SessionManager_create ossl (ls_product_id (cn_license c)) (cn_peer_identity c)
           (ls_features (cn_license c)) (ls_expire_time (cn_license c)) ms (ls_max_sessions (cn_license c)) m w
         = Some (Inr s, m1, w1)"
    and "encodeAuthResult fb (grant c s) = Inr answer" "length answer \<le> kMaxEnvelopeSize"
    and "ServerHandshake_seal ossl answer (snd (ServerHandshake_open ossl frame (cn_handshake c))) = (Inr reply, sv)"
    and "writeFrame so t frame (cc_io_timeout config) v = Some (status_ok, v1)"
    and "Client_readFrame so t (cc_io_timeout config) v1 = Some (Inr reply, v2)"
  shows "\<exists>c' hs2. Connection_handle ossl fb frame ms now c m w
      = Some (\<lparr>cr_error = ConnectionError_None, cr_response = Some reply, cr_closed = False\<rparr>, c', m1, w1) \<and>
    cn_state c' = State_Active \<and> cn_session c' = Some s \<and> lookup_session m1 (ss_id s) = Some s \<and>
    Impl_authorize ossl fb so pid config t hs v = Some (Inr (grant c s), hs2, v2) \<and>
    arm_session_id (grant c s) = Some (ss_id s) \<and> arm_features (grant c s) = ls_features (cn_license c) \<and>
    arm_expire_time (grant c s) = ls_expire_time (cn_license c) \<and>
    established_together ossl hs2 (cn_handshake c')"
  using assms by (rule authorization_agreed)

text \<open>
  C22.  A live session stays valid: while the license has not expired and the connection's session is in the
  table, and the cipher seals the answer and the transport carries the two frames, the connection answers the
  heartbeat of a round of the library's thread and keeps its session, and the round ends with the thread
  still running, the state valid with the session's features and expiry, and the channel in step.
\<close>

theorem live_session_stays_valid:
  assumes "fb_codec fb" "established_together ossl hs (cn_handshake c)"
    and "cn_state c = State_Active" "cn_session c = Some s" "length (ss_id s) = 16"
    and "manager_wf m" "lookup_session m (ss_id s) \<noteq> None"
    and "\<not> im_stop_requested im" "im_transport im = Some t" "im_handshake im = Some hs" "im_session_id im = ss_id s"
    and "encodeHeartbeat fb (heartbeat_request (im_next_request_id im) (ss_id s) hs) = Inr request"
      "length request \<le> kMaxEnvelopeSize"
    and "ClientHandshake_seal ossl request hs = (Inr frame, hs1)"
    and "\<not> license_expired (cn_license c) now"
    and "encodeHeartbeatAck fb (valid_ack (im_next_request_id im) c s) = Inr answer" "length answer \<le> kMaxEnvelopeSize"
    and "ServerHandshake_seal ossl answer (snd (ServerHandshake_open ossl frame (cn_handshake c))) = (Inr reply, sv)"
    and "writeFrame so t frame (cc_io_timeout (im_config im)) v = Some (status_ok, v1)"
    and "Client_readFrame so t (cc_io_timeout (im_config im)) v1 = Some (Inr reply, v2)"
  shows "\<exists>c' m' im' hs2. Connection_handle ossl fb frame ms now c m w
      = Some (\<lparr>cr_error = ConnectionError_None, cr_response = Some reply, cr_closed = False\<rparr>, c', m', w) \<and>
    cn_state c' = State_Active \<and> cn_session c' = Some s \<and> lookup_session m' (ss_id s) \<noteq> None \<and>
    Impl_heartbeatRound ossl fb so im v = Some (im', v2) \<and> im_thread_running im' \<and>
    im_snapshot im' = \<lparr>sn_state = ClientState_Valid, sn_features = ss_features s, sn_expire_time = ss_expire_time s\<rparr> \<and>
    im_handshake im' = Some hs2 \<and> established_together ossl hs2 (cn_handshake c')"
  using assms by (rule heartbeat_agreed)

end
