(* ===== verification/P2P.thy ===== *)
theory P2P
  imports Digits
begin

text \<open>
  The peer-to-peer node, \<^verbatim>\<open>src/src/ya_communicate/arch/p2p.cpp\<close>.  The sockets of the nng library are
  a parameter \<open>nn\<close> on a state \<open>'w\<close> of the world; a call that returns an error code other than
  zero gives \<open>Inl\<close>.  Each of the four threads repeats a round while the node runs; a round is a
  function on the node, since it holds the mutex of the table whenever it uses it.  An exception that
  nothing catches is \<open>Inl\<close>: it ends the process.  A value that was never written is \<open>None\<close>.  What is
  written to the standard error stream is left out.
\<close>

section \<open>Data\<close>

record NodeStatus =
  ns_id :: string
  ns_address :: string
  ns_uptime :: int
  ns_info :: string

datatype socket_kind = Rep0 | Pub0 | Sub0 | Req0

record 'w nng =
  nn_open :: "socket_kind \<Rightarrow> 'w \<Rightarrow> (nat + nat) \<times> 'w"
  nn_subscribe_all :: "nat \<Rightarrow> 'w \<Rightarrow> nat \<times> 'w"
  nn_tls_alloc :: "'w \<Rightarrow> (nat + nat) \<times> 'w"
  nn_tls_own_cert :: "nat \<Rightarrow> string \<Rightarrow> string \<Rightarrow> 'w \<Rightarrow> nat \<times> 'w"
  nn_set_tls :: "nat \<Rightarrow> nat \<Rightarrow> 'w \<Rightarrow> nat \<times> 'w"
  nn_tls_free :: "nat \<Rightarrow> 'w \<Rightarrow> 'w"
  nn_listen :: "nat \<Rightarrow> string \<Rightarrow> 'w \<Rightarrow> (nat + nat) \<times> 'w"
  nn_dial :: "nat \<Rightarrow> string \<Rightarrow> 'w \<Rightarrow> (nat + nat) \<times> 'w"
  nn_listener_close :: "nat \<Rightarrow> 'w \<Rightarrow> 'w"
  nn_dialer_close :: "nat \<Rightarrow> 'w \<Rightarrow> 'w"
  nn_close :: "nat \<Rightarrow> 'w \<Rightarrow> 'w"
  nn_send :: "nat \<Rightarrow> string \<Rightarrow> 'w \<Rightarrow> nat \<times> 'w"
  nn_recv :: "nat \<Rightarrow> 'w \<Rightarrow> (nat + string) \<times> 'w"
  nn_strerror :: "nat \<Rightarrow> string"
  nn_now :: "'w \<Rightarrow> int \<times> 'w"

record P2P =
  pp_id :: string
  pp_listen_url :: string
  pp_broadcast_url :: string
  pp_server_socket :: nat
  pp_pub_socket :: nat
  pp_sub_socket :: nat
  pp_server_listener :: nat
  pp_pub_listener :: nat
  pp_sub_dialer :: nat
  pp_nodes :: "(string \<times> NodeStatus) list"
  pp_status_callback :: bool
  pp_running :: bool
  pp_start_time :: int

section \<open>The ordered map of nodes\<close>

text \<open>\<^verbatim>\<open>std::map\<close> keeps its keys in the order of \<^verbatim>\<open>std::string\<close>, byte by byte without sign.\<close>

fun key_less :: "string \<Rightarrow> string \<Rightarrow> bool" where
  "key_less s [] = False"
| "key_less [] (d # ds) = True"
| "key_less (c # cs) (d # ds) =
     ((of_char c :: nat) < of_char d \<or> (c = d \<and> key_less cs ds))"

fun nodes_assign :: "string \<Rightarrow> NodeStatus \<Rightarrow> (string \<times> NodeStatus) list \<Rightarrow> (string \<times> NodeStatus) list" where
  "nodes_assign url s [] = [(url, s)]"
| "nodes_assign url s ((u, t) # rest) =
     (if url = u then (url, s) # rest
      else if key_less url u then (url, s) # (u, t) # rest
      else (u, t) # nodes_assign url s rest)"

definition nodes_erase :: "string \<Rightarrow> (string \<times> NodeStatus) list \<Rightarrow> (string \<times> NodeStatus) list" where
  "nodes_erase url nodes = filter (\<lambda>(u, _). u \<noteq> url) nodes"

section \<open>Construction\<close>

definition comm_error :: "'w nng \<Rightarrow> string \<Rightarrow> nat \<Rightarrow> string" where
  "comm_error nn what rv = what @ nn_strerror nn rv"

text \<open>
  The configuration of TLS on the three sockets; the exception that it throws, if any.
\<close>

definition configure_tls ::
  "'w nng \<Rightarrow> nat \<Rightarrow> nat \<Rightarrow> nat \<Rightarrow> string \<Rightarrow> string \<Rightarrow> 'w \<Rightarrow> string option \<times> 'w" where
  "configure_tls nn server pub sub cert_file key_file w =
     (case nn_tls_alloc nn w of
        (Inl rv, w) \<Rightarrow> (Some (comm_error nn ''Failed to allocate TLS config: '' rv), w)
      | (Inr tls, w) \<Rightarrow>
          (case nn_tls_own_cert nn tls cert_file key_file w of
             (rv, w) \<Rightarrow>
               if rv \<noteq> 0 then (Some (comm_error nn ''Failed to load TLS cert: '' rv), nn_tls_free nn tls w)
               else (case nn_set_tls nn server tls w of
                 (rv, w) \<Rightarrow>
                   if rv \<noteq> 0 then (Some (comm_error nn ''Failed to set TLS config: '' rv), nn_tls_free nn tls w)
                   else (case nn_set_tls nn pub tls w of
                     (rv, w) \<Rightarrow>
                       if rv \<noteq> 0 then (Some (comm_error nn ''Failed to set TLS config: '' rv), nn_tls_free nn tls w)
                       else (case nn_set_tls nn sub tls w of
                         (rv, w) \<Rightarrow>
                           if rv \<noteq> 0
                           then (Some (comm_error nn ''Failed to set TLS config: '' rv), nn_tls_free nn tls w)
                           else (None, w))))))"

text \<open>
  The constructor: \<open>Inl\<close> is the exception with the sockets that are then open and that nothing closes,
  since the destructor does not run.
\<close>

definition P2P_new ::
  "'w nng \<Rightarrow> string \<Rightarrow> string \<Rightarrow> string \<Rightarrow> string \<Rightarrow> string \<Rightarrow> 'w \<Rightarrow> ((string \<times> nat list) + P2P) \<times> 'w" where
  "P2P_new nn node_id listen_url broadcast_url cert_file key_file w =
     (case nn_now nn w of
        (start, w) \<Rightarrow>
          (case nn_open nn Rep0 w of
             (Inl rv, w) \<Rightarrow> (Inl (comm_error nn ''Failed to open server socket: '' rv, []), w)
           | (Inr server, w) \<Rightarrow>
               (case nn_open nn Pub0 w of
                  (Inl rv, w) \<Rightarrow> (Inl (comm_error nn ''Failed to open publisher socket: '' rv, [server]), w)
                | (Inr pub, w) \<Rightarrow>
                    (case nn_open nn Sub0 w of
                       (Inl rv, w) \<Rightarrow>
                         (Inl (comm_error nn ''Failed to open subscriber socket: '' rv, [server, pub]), w)
                     | (Inr sub, w) \<Rightarrow>
                         (case nn_subscribe_all nn sub w of
                            (rv, w) \<Rightarrow>
                              if rv \<noteq> 0
                              then (Inl (comm_error nn ''Failed to set subscribe option: '' rv, [server, pub, sub]), w)
                              else (case (if cert_file \<noteq> [] \<and> key_file \<noteq> []
                                          then configure_tls nn server pub sub cert_file key_file w
                                          else (None, w)) of
                                 (Some e, w) \<Rightarrow> (Inl (e, [server, pub, sub]), w)
                               | (None, w) \<Rightarrow>
                                   (Inr \<lparr>pp_id = node_id, pp_listen_url = listen_url,
                                         pp_broadcast_url = broadcast_url, pp_server_socket = server,
                                         pp_pub_socket = pub, pp_sub_socket = sub, pp_server_listener = 0,
                                         pp_pub_listener = 0, pp_sub_dialer = 0, pp_nodes = [],
                                         pp_status_callback = False, pp_running = False,
                                         pp_start_time = start\<rparr>, w)))))))"

section \<open>Starting and stopping\<close>

text \<open>The exception that \<^verbatim>\<open>start\<close> throws, if any.\<close>

definition P2P_start :: "'w nng \<Rightarrow> P2P \<Rightarrow> 'w \<Rightarrow> string option \<times> P2P \<times> 'w" where
  "P2P_start nn p w =
     (if pp_running p then (None, p, w)
      else case nn_listen nn (pp_server_socket p) (pp_listen_url p) w of
        (Inl rv, w) \<Rightarrow>
          (Some (comm_error nn (''Failed to listen on '' @ pp_listen_url p @ '': '') rv), p, w)
      | (Inr listener, w) \<Rightarrow>
          let p = p\<lparr>pp_server_listener := listener\<rparr>
          in (case nn_listen nn (pp_pub_socket p) (pp_broadcast_url p) w of
                (Inl rv, w) \<Rightarrow>
                  (Some (comm_error nn (''Failed to listen on broadcast '' @ pp_broadcast_url p @ '': '') rv), p,
                   nn_listener_close nn (pp_server_listener p) w)
              | (Inr listener, w) \<Rightarrow>
                  let p = p\<lparr>pp_pub_listener := listener\<rparr>
                  in (case nn_dial nn (pp_sub_socket p) (pp_broadcast_url p) w of
                        (Inl rv, w) \<Rightarrow>
                          (Some (comm_error nn (''Failed to dial broadcast '' @ pp_broadcast_url p @ '': '') rv), p,
                           nn_listener_close nn (pp_pub_listener p)
                             (nn_listener_close nn (pp_server_listener p) w))
                      | (Inr dialer, w) \<Rightarrow> (None, p\<lparr>pp_sub_dialer := dialer, pp_running := True\<rparr>, w))))"

definition P2P_stop :: "'w nng \<Rightarrow> P2P \<Rightarrow> 'w \<Rightarrow> P2P \<times> 'w" where
  "P2P_stop nn p w =
     (if \<not> pp_running p then (p, w)
      else (p\<lparr>pp_running := False\<rparr>,
            nn_dialer_close nn (pp_sub_dialer p)
              (nn_listener_close nn (pp_pub_listener p) (nn_listener_close nn (pp_server_listener p) w))))"

definition P2P_destroy :: "'w nng \<Rightarrow> P2P \<Rightarrow> 'w \<Rightarrow> 'w" where
  "P2P_destroy nn p w =
     (case P2P_stop nn p w of
        (p, w) \<Rightarrow> nn_close nn (pp_sub_socket p) (nn_close nn (pp_pub_socket p) (nn_close nn (pp_server_socket p) w)))"

section \<open>Status\<close>

text \<open>Nanoseconds to whole seconds, towards zero.\<close>

definition whole_seconds :: "int \<Rightarrow> int" where
  "whole_seconds d = (if d < 0 then - ((- d) div 1000000000) else d div 1000000000)"

definition get_local_status :: "'w nng \<Rightarrow> P2P \<Rightarrow> 'w \<Rightarrow> NodeStatus \<times> 'w" where
  "get_local_status nn p w =
     (case nn_now nn w of
        (now, w) \<Rightarrow>
          (\<lparr>ns_id = pp_id p, ns_address = pp_listen_url p, ns_uptime = whole_seconds (now - pp_start_time p),
            ns_info = ''healthy''\<rparr>, w))"

definition bar :: char where "bar = CHR 0x7C"

definition newline :: char where "newline = CHR 0x0A"

definition status_text :: "NodeStatus \<Rightarrow> string" where
  "status_text s = ns_id s @ [bar] @ ns_address s @ [bar] @ int_digits (ns_uptime s) @ [bar] @ ns_info s"

text \<open>The text of a message that ends with a zero byte; an empty one makes \<^verbatim>\<open>std::string\<close> throw.\<close>

definition message_text :: "string \<Rightarrow> string option" where
  "message_text msg = (if msg = [] then None else Some (butlast msg))"

definition with_zero :: "string \<Rightarrow> string" where
  "with_zero s = s @ [CHR 0x00]"

text \<open>The last fields of a status: the uptime and the information; \<open>None\<close> for an uptime never written.\<close>

definition read_tail :: "string \<Rightarrow> string \<Rightarrow> istream \<Rightarrow> NodeStatus option" where
  "read_tail node_id address ss =
     (case extract_long ss None of
        (uptime, ss) \<Rightarrow>
          (case getline newline (ignore_one ss) [] of
             (info, _) \<Rightarrow>
               map_option (\<lambda>u. \<lparr>ns_id = node_id, ns_address = address, ns_uptime = u, ns_info = info\<rparr>) uptime))"

definition parse_status :: "string \<Rightarrow> NodeStatus option" where
  "parse_status reply =
     (case getline bar (istream_of reply) [] of
        (node_id, ss) \<Rightarrow>
          (case getline bar ss [] of (address, ss) \<Rightarrow> read_tail node_id address ss))"

text \<open>
  The question to one node: \<open>Some None\<close> where the node is skipped, \<open>None\<close> for an uptime never written.
\<close>

definition query_node :: "'w nng \<Rightarrow> string \<Rightarrow> 'w \<Rightarrow> NodeStatus option option \<times> 'w" where
  "query_node nn url w =
     (case nn_open nn Req0 w of
        (Inl _, w) \<Rightarrow> (Some None, w)
      | (Inr client, w) \<Rightarrow>
          (case nn_dial nn client url w of
             (Inl _, w) \<Rightarrow> (Some None, nn_close nn client w)
           | (Inr _, w) \<Rightarrow>
               (case nn_send nn client (with_zero ''STATUS'') w of
                  (rv, w) \<Rightarrow>
                    if rv \<noteq> 0 then (Some None, nn_close nn client w)
                    else (case nn_recv nn client w of
                       (Inl _, w) \<Rightarrow> (Some None, nn_close nn client w)
                     | (Inr buf, w) \<Rightarrow>
                         (case message_text buf of
                            None \<Rightarrow> (Some None, w)
                          | Some reply \<Rightarrow> (map_option Some (parse_status reply), nn_close nn client w))))))"

fun query_nodes :: "'w nng \<Rightarrow> (string \<times> NodeStatus) list \<Rightarrow> 'w \<Rightarrow> NodeStatus list option \<times> 'w" where
  "query_nodes nn [] w = (Some [], w)"
| "query_nodes nn ((url, _) # rest) w =
     (case query_node nn url w of
        (None, w) \<Rightarrow> (None, w)
      | (Some reply, w) \<Rightarrow>
          (case query_nodes nn rest w of
             (statuses, w) \<Rightarrow>
               (map_option (\<lambda>ss. case reply of None \<Rightarrow> ss | Some s \<Rightarrow> s # ss) statuses, w)))"

definition query_all_status :: "'w nng \<Rightarrow> P2P \<Rightarrow> 'w \<Rightarrow> NodeStatus list option \<times> 'w" where
  "query_all_status nn p w =
     (case get_local_status nn p w of
        (s, w) \<Rightarrow> (case query_nodes nn (pp_nodes p) w of (ss, w) \<Rightarrow> (map_option (Cons s) ss, w)))"

definition subscribe_status :: "bool \<Rightarrow> P2P \<Rightarrow> P2P" where
  "subscribe_status callback p = p\<lparr>pp_status_callback := callback\<rparr>"

definition get_known_nodes :: "P2P \<Rightarrow> string list" where
  "get_known_nodes p = map fst (pp_nodes p)"

section \<open>The threads\<close>

definition length_error :: string where "length_error = ''basic_string: length exceeds max_size''"

definition server_round :: "'w nng \<Rightarrow> P2P \<Rightarrow> 'w \<Rightarrow> (string + unit) \<times> 'w" where
  "server_round nn p w =
     (case nn_recv nn (pp_server_socket p) w of
        (Inl _, w) \<Rightarrow> (Inr (), w)
      | (Inr buf, w) \<Rightarrow>
          (case message_text buf of
             None \<Rightarrow> (Inl length_error, w)
           | Some req \<Rightarrow>
               if req = ''STATUS''
               then (case get_local_status nn p w of
                       (s, w) \<Rightarrow>
                         (case nn_send nn (pp_server_socket p) (with_zero (status_text s)) w of
                            (_, w) \<Rightarrow> (Inr (), w)))
               else (Inr (), w)))"



text \<open>
  What the subscriber does with the text of a message: the node after it and the status passed to the
  callback, if it is called.
\<close>

definition handle_text :: "string \<Rightarrow> P2P \<Rightarrow> (P2P \<times> NodeStatus option) option" where
  "handle_text msg p =
     (case getline bar (istream_of msg) [] of
        (type, ss) \<Rightarrow>
          (case getline bar ss [] of
             (node_id, ss) \<Rightarrow>
               (case getline bar ss [] of
                  (address, ss) \<Rightarrow>
                    if type = ''NODE''
                    then Some (if node_id \<noteq> pp_id p \<and> address \<noteq> pp_listen_url p
                               then p\<lparr>pp_nodes := nodes_assign address
                                       \<lparr>ns_id = node_id, ns_address = address, ns_uptime = 0,
                                        ns_info = ''discovered''\<rparr> (pp_nodes p)\<rparr>
                               else p, None)
                    else if type = ''STATUS''
                    then map_option (\<lambda>s. (p\<lparr>pp_nodes := nodes_assign address s (pp_nodes p)\<rparr>,
                                          if pp_status_callback p then Some s else None))
                           (read_tail node_id address ss)
                    else Some (p, None))))"

definition subscriber_round :: "'w nng \<Rightarrow> P2P \<Rightarrow> 'w \<Rightarrow> (string + P2P \<times> NodeStatus option) option \<times> 'w" where
  "subscriber_round nn p w =
     (case nn_recv nn (pp_sub_socket p) w of
        (Inl _, w) \<Rightarrow> (Some (Inr (p, None)), w)
      | (Inr buf, w) \<Rightarrow>
          (case message_text buf of
             None \<Rightarrow> (Some (Inl length_error), w)
           | Some msg \<Rightarrow> (map_option Inr (handle_text msg p), w)))"

text \<open>The manager asks a node of its copy of the table, and erases one that cannot be reached.\<close>

definition check_node ::
  "'w nng \<Rightarrow> string \<Rightarrow> (string \<times> NodeStatus) list \<times> 'w \<Rightarrow> (string \<times> NodeStatus) list \<times> 'w" where
  "check_node nn url = (\<lambda>(nodes, w).
     case nn_open nn Req0 w of
       (Inl _, w) \<Rightarrow> (nodes, w)
     | (Inr client, w) \<Rightarrow>
         (case nn_dial nn client url w of
            (Inl _, w) \<Rightarrow> (nodes_erase url nodes, nn_close nn client w)
          | (Inr _, w) \<Rightarrow>
              (case nn_send nn client (with_zero ''STATUS'') w of
                 (rv, w) \<Rightarrow>
                   if rv \<noteq> 0 then (nodes_erase url nodes, nn_close nn client w)
                   else (case nn_recv nn client w of
                      (Inl _, w) \<Rightarrow> (nodes_erase url nodes, nn_close nn client w)
                    | (Inr _, w) \<Rightarrow> (nodes, nn_close nn client w)))))"

definition manager_round :: "'w nng \<Rightarrow> P2P \<Rightarrow> 'w \<Rightarrow> P2P \<times> 'w" where
  "manager_round nn p w =
     (case fold (\<lambda>(url, _). check_node nn url) (pp_nodes p) (pp_nodes p, w) of
        (nodes, w) \<Rightarrow> (p\<lparr>pp_nodes := nodes\<rparr>, w))"

section \<open>The map is ordered\<close>

lemma key_less_irrefl [simp]: "\<not> key_less s s"
  by (induction s) auto

lemma key_less_trans: "key_less a b \<Longrightarrow> key_less b c \<Longrightarrow> key_less a c"
proof (induction a c arbitrary: b rule: key_less.induct)
  case (1 s)
  then show ?case by (cases b) auto
next
  case (2 d ds)
  then show ?case by simp
next
  case (3 x xs z zs)
  then show ?case by (cases b) auto
qed

lemma key_less_total: "a \<noteq> b \<Longrightarrow> key_less a b \<or> key_less b a"
proof (induction a b rule: key_less.induct)
  case (1 s)
  then show ?case by (cases s) auto
next
  case (3 c cs d ds)
  have "c \<noteq> d \<Longrightarrow> (of_char c :: nat) < of_char d \<or> (of_char d :: nat) < of_char c"
    using linorder_neq_iff [of "of_char c :: nat" "of_char d"] by simp
  with 3 show ?case by (cases "c = d") auto
qed auto

definition nodes_sorted :: "(string \<times> NodeStatus) list \<Rightarrow> bool" where
  "nodes_sorted nodes \<longleftrightarrow> sorted_wrt key_less (map fst nodes)"

lemma nodes_sorted_Cons:
  "nodes_sorted ((u, s) # nodes) \<longleftrightarrow> (\<forall>v\<in>fst ` set nodes. key_less u v) \<and> nodes_sorted nodes"
  by (auto simp: nodes_sorted_def)

lemma nodes_assign_keys: "fst ` set (nodes_assign url s nodes) = insert url (fst ` set nodes)"
  by (induction url s nodes rule: nodes_assign.induct) auto

lemma nodes_assign_sorted: "nodes_sorted nodes \<Longrightarrow> nodes_sorted (nodes_assign url s nodes)"
proof (induction url s nodes rule: nodes_assign.induct)
  case (1 url s)
  then show ?case by (simp add: nodes_sorted_def)
next
  case (2 url s u t rest)
  then show ?case
    using key_less_total [of url u] key_less_trans [of url u]
    by (auto simp: nodes_sorted_Cons nodes_assign_keys)
qed


lemma nodes_erase_sorted: "nodes_sorted nodes \<Longrightarrow> nodes_sorted (nodes_erase url nodes)"
  by (auto simp: nodes_sorted_def nodes_erase_def sorted_wrt_map intro: sorted_wrt_filter)

lemma set_nodes_assign: "set (nodes_assign url s nodes) \<subseteq> insert (url, s) (set nodes)"
  by (induction url s nodes rule: nodes_assign.induct) auto

section \<open>Reachable nodes\<close>

text \<open>A node after any sequence of its operations and of rounds of its threads.\<close>

inductive p2p_reachable :: "'w nng \<Rightarrow> P2P \<Rightarrow> bool" for nn :: "'w nng" where
  p2p_new: "P2P_new nn node_id listen broadcast cert key w = (Inr p, w') \<Longrightarrow> p2p_reachable nn p"
| p2p_start: "p2p_reachable nn p \<Longrightarrow> P2P_start nn p w = (e, p', w') \<Longrightarrow> p2p_reachable nn p'"
| p2p_stop: "p2p_reachable nn p \<Longrightarrow> P2P_stop nn p w = (p', w') \<Longrightarrow> p2p_reachable nn p'"
| p2p_subscribe: "p2p_reachable nn p \<Longrightarrow> p2p_reachable nn (subscribe_status callback p)"
| p2p_receive: "p2p_reachable nn p \<Longrightarrow> subscriber_round nn p w = (Some (Inr (p', called)), w') \<Longrightarrow>
    p2p_reachable nn p'"
| p2p_manage: "p2p_reachable nn p \<Longrightarrow> manager_round nn p w = (p', w') \<Longrightarrow> p2p_reachable nn p'"

definition nodes_wf :: "(string \<times> NodeStatus) list \<Rightarrow> bool" where
  "nodes_wf nodes \<longleftrightarrow> nodes_sorted nodes \<and> (\<forall>(url, s) \<in> set nodes. ns_address s = url)"

lemma nodes_wf_assign: "nodes_wf nodes \<Longrightarrow> ns_address s = url \<Longrightarrow> nodes_wf (nodes_assign url s nodes)"
  using set_nodes_assign [of url s nodes] nodes_assign_sorted [of nodes url s]
  unfolding nodes_wf_def by blast

lemma nodes_wf_erase: "nodes_wf nodes \<Longrightarrow> nodes_wf (nodes_erase url nodes)"
  using nodes_erase_sorted [of nodes url] by (auto simp: nodes_wf_def nodes_erase_def)

lemma check_node_nodes: "fst (check_node nn url (nodes, w)) \<in> {nodes, nodes_erase url nodes}"
  by (auto simp: check_node_def split: prod.splits sum.splits)

lemma fold_check_wf: "nodes_wf (fst st) \<Longrightarrow> nodes_wf (fst (fold (\<lambda>(url, _). check_node nn url) xs st))"
proof (induction xs arbitrary: st)
  case (Cons x xs)
  obtain url s where x: "x = (url, s)" by fastforce
  have "nodes_wf (fst (check_node nn url (fst st, snd st)))"
    using check_node_nodes [of nn url "fst st" "snd st"] Cons.prems nodes_wf_erase by (elim insertE) auto
  with Cons.IH x show ?case by simp
qed simp

lemma read_tail_address: "read_tail node_id address ss = Some s \<Longrightarrow> ns_address s = address"
  by (auto simp: read_tail_def split: prod.splits)

lemma handle_text_wf:
  assumes "nodes_wf (pp_nodes p)" "handle_text msg p = Some (p', called)"
  shows "nodes_wf (pp_nodes p')"
  using assms by (auto simp: handle_text_def split: prod.splits if_splits intro!: nodes_wf_assign dest: read_tail_address)

lemma p2p_reachable_wf: "p2p_reachable nn p \<Longrightarrow> nodes_wf (pp_nodes p)"
proof (induction rule: p2p_reachable.induct)
  case (p2p_new node_id listen broadcast cert key w p w')
  then have "pp_nodes p = []"
    by (auto simp: P2P_new_def split: prod.splits sum.splits if_splits option.splits)
  then show ?case by (simp add: nodes_wf_def nodes_sorted_def)
next
  case (p2p_start p w e p' w')
  then have "pp_nodes p' = pp_nodes p"
    by (auto simp: P2P_start_def Let_def split: prod.splits sum.splits if_splits)
  with p2p_start.IH show ?case by simp
next
  case (p2p_stop p w p' w')
  then show ?case by (auto simp: P2P_stop_def split: if_splits)
next
  case (p2p_subscribe p callback)
  then show ?case by (simp add: subscribe_status_def)
next
  case (p2p_receive p w p' called w')
  then show ?case
    by (auto simp: subscriber_round_def split: prod.splits sum.splits option.splits intro: handle_text_wf)
next
  case (p2p_manage p w p' w')
  then show ?case using fold_check_wf [of "(pp_nodes p, w)" nn "pp_nodes p"]
    by (auto simp: manager_round_def split: prod.splits)
qed

section \<open>Messages between nodes\<close>




lemma message_text_zero [simp]: "message_text (with_zero s) = Some s"
  by (simp add: message_text_def with_zero_def)


section \<open>Properties\<close>

text \<open>
  The table of known nodes is consistent in every reachable state: its keys are in strictly
  increasing order, so that no node is listed twice, and every status is stored under its own
  address.
\<close>

lemma node_table_invariant:
  assumes "p2p_reachable nn p"
  shows "distinct (get_known_nodes p) \<and> sorted_wrt key_less (get_known_nodes p) \<and>
         (\<forall>url s. map_of (pp_nodes p) url = Some s \<longrightarrow> ns_address s = url)"
proof -
  from p2p_reachable_wf [OF assms] have wf: "sorted_wrt key_less (map fst (pp_nodes p))"
    "\<forall>(url, s) \<in> set (pp_nodes p). ns_address s = url" by (auto simp: nodes_wf_def nodes_sorted_def)
  have "distinct (map fst (pp_nodes p))"
    using wf(1) by (auto simp: sorted_wrt_iff_nth_less distinct_conv_nth neq_iff) (metis key_less_irrefl)+
  with wf show ?thesis by (auto simp: get_known_nodes_def dest!: map_of_SomeD)
qed







text \<open>
  An empty message ends the process: the threads of the server and of the subscriber take one
  byte less than they received, which wraps around to the largest length, and the exception of the
  string constructor leaves the thread.  The question to all nodes survives such an answer, since it
  catches the exception, but leaves the socket open.
\<close>

lemma empty_message_ends_process:
  "(nn_recv nn (pp_server_socket p) w = (Inr [], w') \<longrightarrow> server_round nn p w = (Inl length_error, w')) \<and>
   (nn_recv nn (pp_sub_socket p) w = (Inr [], w') \<longrightarrow> subscriber_round nn p w = (Some (Inl length_error), w')) \<and>
   (nn_recv nn (pp_server_socket p) w = (Inr (c # cs), w') \<longrightarrow> (\<exists>v. server_round nn p w = (Inr (), v)))"
  by (auto simp: server_round_def subscriber_round_def message_text_def split: prod.split)

end
