(* ===== verification/EndToEnd_Witnesses.thy ===== *)
theory EndToEnd_Witnesses
  imports SDK_Witnesses EndToEnd P2P
begin

text \<open>
  Runs of the client library and the service together, and of peer-to-peer nodes.
\<close>

section \<open>A client and a connection in step\<close>

definition met_connection :: Connection where
  "met_connection = talk_connection\<lparr>cn_state := State_AwaitingAuthorize,
     cn_handshake := (talk_server 1 2 HandshakeState_Established)\<lparr>sv_request_id := 1\<rparr>\<rparr>"

definition met_active :: Connection where
  "met_active = met_connection\<lparr>cn_state := State_Active, cn_session := Some talk_session\<rparr>"

definition met_transport :: UnixSocketTransport where
  "met_transport = \<lparr>us_path = ''/s'', us_fd = 5, us_cancel_fd = 9, us_canceled = False\<rparr>"

definition met_client :: Impl where
  "met_client = sdk_valid\<lparr>im_handshake := Some (sdk_established 2 1), im_next_request_id := 9\<rparr>"

lemma sample_ossl_aead [simp]: "aead_correct sample_ossl"
  unfolding aead_correct_def encryptSteps_def decryptSteps_def
  by (simp add: sample_openssl_on_def kTagSize_def)

lemma met_together: "established_together sample_ossl (sdk_established 2 1) (cn_handshake met_connection)"
  by (simp add: established_together_def channels_agree_def met_connection_def talk_server_def
      sdk_established_def sdk_client1_def sdk_client_def ClientHandshake_new_def records_insync_def)

lemma met_fields:
  "cn_state met_connection = State_AwaitingAuthorize" "0 < cn_heartbeat_interval_ms met_connection"
  "cn_heartbeat_interval_ms met_connection < cn_heartbeat_timeout_ms met_connection"
  "cc_product_id sdk_config = ls_product_id (cn_license met_connection)"
  "\<not> license_expired (cn_license met_connection) 150"
  by (simp_all add: met_connection_def talk_connection_def Connection_new_def sdk_config_def talk_license_def
      license_expired_def)

lemma met_answer:
  "encodeAuthResult sdk_codec (grant met_connection talk_session) = Inr (sample_buffer 4)"
  "fst (ServerHandshake_seal sample_ossl (sample_buffer 4)
     (snd (ServerHandshake_open sample_ossl (talk_frame 2 3) (cn_handshake met_connection)))) = Inr (talk_frame 1 4)"
  by code_simp+

lemma met_create:
  "SessionManager_create sample_ossl (ls_product_id (cn_license met_connection)) (cn_peer_identity met_connection)
     (ls_features (cn_license met_connection)) (ls_expire_time (cn_license met_connection)) 10
     (ls_max_sessions (cn_license met_connection)) SessionManager_new (4, [], []) = Some (Inr talk_session, talk_manager, (5, [], []))"
  by (subst SessionManager_create_def, subst drawSessionId.simps)
     (simp add: SessionManager_new_def active_sessions_def randomBytes_def validSize_def INT_MAX_def
       sample_openssl_on_def talk_session_def talk_manager_def Let_def
       met_connection_def talk_connection_def Connection_new_def talk_license_def)

lemma sample_buffer_fits: "length (sample_buffer i) \<le> kMaxEnvelopeSize"
  by (simp add: sample_buffer_def kMaxEnvelopeSize_def)

lemma met_io:
  "writeFrame sample_sockets met_transport (talk_frame q i) timeout (k, inp, out) = Some (status_ok, (k, inp, out @ talk_frame q i))"
  "Client_readFrame sample_sockets met_transport timeout (k, talk_frame 1 4, out) = Some (Inr (talk_frame 1 4), (k, [], out))"
  "Client_readFrame sample_sockets met_transport timeout (k, talk_frame 1 7, out) = Some (Inr (talk_frame 1 7), (k, [], out))"
proof -
  have t: "0 \<le> us_fd met_transport" by (simp add: met_transport_def)
  show "writeFrame sample_sockets met_transport (talk_frame q i) timeout (k, inp, out) = Some (status_ok, (k, inp, out @ talk_frame q i))"
    by (rule sdk_write_frame [OF t sdk_talk_frame(3)])
  show "Client_readFrame sample_sockets met_transport timeout (k, talk_frame 1 4, out) = Some (Inr (talk_frame 1 4), (k, [], out))"
    using sdk_read_frame [OF t _ _ sdk_talk_frame(1), where i = "[]"] by (simp add: sdk_talk_frame(2))
  have "decodeHeader (take 20 (talk_frame 1 7)) kDefaultMaxPayloadSize
      = Inr (\<lparr>fh_version = 1, fh_flags = 1, fh_sequence = 1, fh_payload_size = 25\<rparr>, [])" by code_simp
  from sdk_read_frame [OF t _ _ this, where i = "[]"]
  show "Client_readFrame sample_sockets met_transport timeout (k, talk_frame 1 7, out) = Some (Inr (talk_frame 1 7), (k, [], out))"
    by (simp add: sdk_talk_frame(2))
qed

theorem entitled_client_is_served_witness:
  "\<exists>c' hs2 v2. Connection_handle sample_ossl sdk_codec (talk_frame 2 3) 10 150 met_connection SessionManager_new (4, [], [])
      = Some (\<lparr>cr_error = ConnectionError_None, cr_response = Some (talk_frame 1 4), cr_closed = False\<rparr>, c', talk_manager, (5, [], [])) \<and>
    cn_state c' = State_Active \<and>
    Impl_authorize sample_ossl sdk_codec sample_sockets 1 sdk_config met_transport (sdk_established 2 1) (2, talk_frame 1 4, [])
      = Some (Inr (grant met_connection talk_session), hs2, v2) \<and>
    arm_features (grant met_connection talk_session) = [''f'']"
proof -
  obtain sv where sv: "ServerHandshake_seal sample_ossl (sample_buffer 4)
     (snd (ServerHandshake_open sample_ossl (talk_frame 2 3) (cn_handshake met_connection))) = (Inr (talk_frame 1 4), sv)"
    using met_answer(2) by (metis prod.collapse)
  have "ls_features (cn_license met_connection) = [''f'']"
    by (simp add: met_connection_def talk_connection_def Connection_new_def talk_license_def)
  with entitled_client_is_served [OF sdk_codec_ok met_together met_fields(1-3) sdk_messages(1) sample_buffer_fits
      sdk_pieces(3) met_fields(4,5) met_create met_answer(1) sample_buffer_fits sv met_io(1) met_io(2), of 2 "[]"]
  show ?thesis by auto
qed

lemma met_heartbeat:
  "encodeHeartbeat sdk_codec (heartbeat_request (im_next_request_id met_client) (ss_id talk_session) (sdk_established 2 1)) = Inr (sample_buffer 6)"
  "ClientHandshake_seal sample_ossl (sample_buffer 6) (sdk_established 2 1)
     = (Inr (talk_frame 2 6), sdk_established 3 1)"
  "encodeHeartbeatAck sdk_codec (valid_ack (im_next_request_id met_client) met_active talk_session) = Inr (sample_buffer 7)"
  "fst (ServerHandshake_seal sample_ossl (sample_buffer 7)
     (snd (ServerHandshake_open sample_ossl (talk_frame 2 6) (cn_handshake met_active)))) = Inr (talk_frame 1 7)"
  by code_simp+

lemma met_active_fields:
  "established_together sample_ossl (sdk_established 2 1) (cn_handshake met_active)"
  "cn_state met_active = State_Active" "cn_session met_active = Some talk_session" "length (ss_id talk_session) = 16"
  "lookup_session talk_manager (ss_id talk_session) \<noteq> None" "\<not> license_expired (cn_license met_active) 150"
  using met_together met_fields(5)
  by (simp_all add: met_active_def talk_session_def lookup_session_def talk_manager_def)

lemma met_client_fields:
  "\<not> im_stop_requested met_client" "im_transport met_client = Some met_transport"
  "im_handshake met_client = Some (sdk_established 2 1)" "im_session_id met_client = ss_id talk_session"
  by (simp_all add: met_client_def sdk_valid_def Impl_new_def met_transport_def talk_session_def)

lemma talk_manager_wf: "manager_wf talk_manager"
  using conn_reachable_inv [OF talk_reachable(2)] by simp

theorem live_session_stays_valid_witness:
  "\<exists>c' m' im' v2. Connection_handle sample_ossl sdk_codec (talk_frame 2 6) 20 150 met_active talk_manager (5, [], [])
      = Some (\<lparr>cr_error = ConnectionError_None, cr_response = Some (talk_frame 1 7), cr_closed = False\<rparr>, c', m', (5, [], [])) \<and>
    Impl_heartbeatRound sample_ossl sdk_codec sample_sockets met_client (2, talk_frame 1 7, []) = Some (im', v2) \<and>
    im_thread_running im' \<and>
    im_snapshot im' = \<lparr>sn_state = ClientState_Valid, sn_features = [''f''], sn_expire_time = 200\<rparr>"
proof -
  obtain sv where sv: "ServerHandshake_seal sample_ossl (sample_buffer 7)
     (snd (ServerHandshake_open sample_ossl (talk_frame 2 6) (cn_handshake met_active))) = (Inr (talk_frame 1 7), sv)"
    using met_heartbeat(4) by (metis prod.collapse)
  have "ss_features talk_session = [''f'']" "ss_expire_time talk_session = 200" by (simp_all add: talk_session_def)
  with live_session_stays_valid [OF sdk_codec_ok met_active_fields(1-4) talk_manager_wf met_active_fields(5)
      met_client_fields met_heartbeat(1) sample_buffer_fits met_heartbeat(2) met_active_fields(6) met_heartbeat(3)
      sample_buffer_fits sv met_io(1) met_io(3), of 20 "(5, [], [])" 2 "[]"]
  show ?thesis by auto
qed

section \<open>Peer-to-peer nodes\<close>

text \<open>Sample sockets on which every call succeeds and every message received is \<open>msg\<close>.\<close>

definition sample_nng :: "string \<Rightarrow> nat nng" where
  "sample_nng msg = \<lparr>
     nn_open = (\<lambda>k w. (Inr (case k of Rep0 \<Rightarrow> 1 | Pub0 \<Rightarrow> 2 | Sub0 \<Rightarrow> 3 | Req0 \<Rightarrow> 4), w)),
     nn_subscribe_all = (\<lambda>_ w. (0, w)),
     nn_tls_alloc = (\<lambda>w. (Inr 5, w)), nn_tls_own_cert = (\<lambda>_ _ _ w. (0, w)),
     nn_set_tls = (\<lambda>_ _ w. (0, w)), nn_tls_free = (\<lambda>_ w. w),
     nn_listen = (\<lambda>_ _ w. (Inr 6, w)), nn_dial = (\<lambda>_ _ w. (Inr 7, w)),
     nn_listener_close = (\<lambda>_ w. w), nn_dialer_close = (\<lambda>_ w. w), nn_close = (\<lambda>_ w. w),
     nn_send = (\<lambda>_ _ w. (0, w)), nn_recv = (\<lambda>_ w. (Inr msg, w)),
     nn_strerror = (\<lambda>_. ''error''), nn_now = (\<lambda>w. (int w * 1000000000, w))\<rparr>"


definition sample_p2p :: P2P where
  "sample_p2p = \<lparr>pp_id = ''a'', pp_listen_url = ''u1'', pp_broadcast_url = ''u0'', pp_server_socket = 1,
     pp_pub_socket = 2, pp_sub_socket = 3, pp_server_listener = 0, pp_pub_listener = 0, pp_sub_dialer = 0,
     pp_nodes = [], pp_status_callback = False, pp_running = False, pp_start_time = 0\<rparr>"

lemma sample_p2p_reachable: "p2p_reachable (sample_nng msg) sample_p2p"
proof -
  have "P2P_new (sample_nng msg) ''a'' ''u1'' ''u0'' [] [] 0 = (Inr sample_p2p, 0)"
    by (simp add: P2P_new_def sample_nng_def sample_p2p_def)
  then show ?thesis by (rule p2p_new)
qed









lemma empty_message_ends_process_instance:
  "server_round (sample_nng []) sample_p2p 0 = (Inl length_error, 0) \<and>
   subscriber_round (sample_nng []) sample_p2p 0 = (Some (Inl length_error), 0)"
proof -
  have "nn_recv (sample_nng []) s 0 = (Inr [], 0)" for s by (simp add: sample_nng_def)
  with empty_message_ends_process [of "sample_nng []" sample_p2p 0 0] show ?thesis by simp
qed

end
