(* ===== verification/DemoWindow.thy ===== *)
theory DemoWindow
  imports LocalAuthorizer
begin

text \<open>
  The sample application \<^verbatim>\<open>src/samples/TestYoQt\<close>: a window whose two protected actions are enabled by
  a license read from a file or fetched from an activation server.  The window object of
  \<^verbatim>\<open>mainwindow.cpp\<close> is a record; the texts of its line edits and labels and the enabled flags of its
  buttons are fields.  Its slots are functions on that record and the world, and the window in
  operation is a step relation whose steps are the signals Qt delivers.

  Qt is a parameter.  A \<^verbatim>\<open>QString\<close> is represented by its UTF-8 octets, so \<^verbatim>\<open>toStdString\<close> and
  \<^verbatim>\<open>fromStdString\<close> are identities, and \<^verbatim>\<open>tr\<close> returns its argument.
\<close>

section \<open>Qt\<close>

datatype qjson =
    QJson_Null
  | QJson_Bool bool
  | QJson_Number int
  | QJson_String string
  | QJson_Array "qjson list"
  | QJson_Object "(string \<times> qjson) list"

record qurl =
  qu_valid :: bool
  qu_scheme :: string
  qu_host :: string

datatype RedirectPolicy = ManualRedirectPolicy | NoLessSafeRedirectPolicy | SameOriginRedirectPolicy
  | UserVerifiedRedirectPolicy

text \<open>
  A request: its URL, the headers and attributes the window sets, and the certificates added to the
  authorities of the default configuration.
\<close>

record QNetworkRequest =
  rq_url :: qurl
  rq_content_type :: string
  rq_redirect_policy :: RedirectPolicy
  rq_extra_authorities :: "bytes list"

text \<open>
  Of a reply, \<open>'r\<close> is the object's address.  \<open>qt_abort\<close> tells whether the signal \<^verbatim>\<open>finished\<close> is emitted
  before the call returns.  \<open>qt_readFile\<close> is \<^verbatim>\<open>QFile::open\<close> followed by \<^verbatim>\<open>readAll\<close>, \<open>None\<close> when the file
  cannot be opened; \<open>qt_fromBase64\<close> decodes with \<^verbatim>\<open>AbortOnBase64DecodingErrors\<close>; \<open>qt_fromJson\<close> is \<open>None\<close>
  on a parse error; \<open>qt_replyError\<close> is \<open>0\<close> for \<^verbatim>\<open>QNetworkReply::NoError\<close>.
\<close>

record ('r, 'w) qt =
  qt_trimmed :: "string \<Rightarrow> string"
  qt_isSymLink :: "string \<Rightarrow> 'w \<Rightarrow> bool"
  qt_isFile :: "string \<Rightarrow> 'w \<Rightarrow> bool"
  qt_readFile :: "string \<Rightarrow> 'w \<Rightarrow> bytes option"
  qt_url :: "string \<Rightarrow> qurl"
  qt_certificates :: "string \<Rightarrow> 'w \<Rightarrow> bytes list"
  qt_toJson :: "qjson \<Rightarrow> bytes"
  qt_fromJson :: "bytes \<Rightarrow> qjson option"
  qt_toLatin1 :: "string \<Rightarrow> bytes"
  qt_fromBase64 :: "bytes \<Rightarrow> bytes"
  qt_localIsoDate :: "int \<Rightarrow> string"
  qt_post :: "QNetworkRequest \<Rightarrow> bytes \<Rightarrow> 'w \<Rightarrow> 'r \<times> 'w"
  qt_readAll :: "'r \<Rightarrow> 'w \<Rightarrow> bytes \<times> 'w"
  qt_replyError :: "'r \<Rightarrow> 'w \<Rightarrow> int"
  qt_httpStatus :: "'r \<Rightarrow> 'w \<Rightarrow> int"
  qt_isRunning :: "'r \<Rightarrow> 'w \<Rightarrow> bool"
  qt_abort :: "'r \<Rightarrow> 'w \<Rightarrow> bool \<times> 'w"

text \<open>
  \<^verbatim>\<open>document.object().value("license").toString()\<close>: an absent key and a value that is no string give the
  empty string.
\<close>

definition json_string_at :: "string \<Rightarrow> (string \<times> qjson) list \<Rightarrow> string" where
  "json_string_at key members = (case map_of members key of Some (QJson_String s) \<Rightarrow> s | _ \<Rightarrow> [])"

section \<open>The window\<close>

record StartupOptions =
  opt_productId :: string
  opt_issuerKeyId :: string
  opt_issuerPublicKey :: string
  opt_licenseFile :: string
  opt_activationUrl :: string
  opt_activationCode :: string
  opt_caCertificate :: string
  opt_machineIdFile :: string
  opt_autoExit :: bool

text \<open>The slots that \<^verbatim>\<open>QTimer::singleShot(0, ...)\<close> queues.\<close>

datatype startup_slot = Slot_AuthorizeFromFile | Slot_ActivateOnline

text \<open>
  \<open>mw_finished_connections\<close> are the replies whose signal \<^verbatim>\<open>finished\<close> is connected to the window's slot and
  has not been emitted; \<open>mw_emitted\<close> the arguments of the window's own signal
  \<^verbatim>\<open>authorizationFinished\<close> in the order of emission; \<open>mw_dialogs\<close> the message boxes shown.
\<close>

record 'r MainWindow =
  mw_options :: StartupOptions
  mw_snapshot :: ClientSnapshot
  mw_activationReply :: "'r option"
  mw_activationResponse :: bytes
  mw_sourceTab :: nat
  mw_productEdit :: string
  mw_keyIdEdit :: string
  mw_keyPathEdit :: string
  mw_licensePathEdit :: string
  mw_activationUrlEdit :: string
  mw_activationCodeEdit :: string
  mw_caPathEdit :: string
  mw_stateLabel :: string
  mw_expiryLabel :: string
  mw_detailLabel :: string
  mw_featureList :: "string list"
  mw_localAuthorizeButton :: bool
  mw_onlineActivateButton :: bool
  mw_captureButton :: bool
  mw_exportButton :: bool
  mw_statusBar :: string
  mw_dialogs :: "string list"
  mw_emitted :: "bool list"
  mw_finished_connections :: "'r list"
  mw_queued :: "startup_slot list"

definition kMaxActivationResponseSize :: nat where
  "kMaxActivationResponseSize = 2 * 1024 * 1024"

definition makeAuthorizationConfig ::
  "('r, 'w) qt \<Rightarrow> string \<Rightarrow> string \<Rightarrow> string \<Rightarrow> string \<Rightarrow> 'w \<Rightarrow> Status + LocalAuthorizationConfig" where
  "makeAuthorizationConfig qt product keyId keyPath machineIdPath w =
     (if qt_trimmed qt product = [] \<or> qt_trimmed qt keyId = [] \<or> qt_trimmed qt keyPath = []
      then Inl (denied ClientError_InvalidConfig ''Product, issuer key ID, and public key are required.'')
      else if qt_isSymLink qt keyPath w \<or> \<not> qt_isFile qt keyPath w
      then Inl (denied ClientError_InvalidConfig ''Issuer public key must be a regular file.'')
      else case qt_readFile qt keyPath w of
        None \<Rightarrow> Inl (denied ClientError_InvalidConfig ''Issuer public key could not be opened.'')
      | Some bytes \<Rightarrow>
          if length bytes \<noteq> kKeySize
          then Inl (denied ClientError_InvalidConfig ''Issuer public key must contain exactly 32 bytes.'')
          else
            let config = default_local_config
                  \<lparr>la_product_id := qt_trimmed qt product,
                   la_trusted_license_keys := [(qt_trimmed qt keyId, bytes)]\<rparr>
            in Inr (if qt_trimmed qt machineIdPath = [] then config
                    else config
                      \<lparr>la_machine_id_path := qt_trimmed qt machineIdPath,
                       la_product_uuid_path := qt_trimmed qt machineIdPath @ ''.product-uuid''\<rparr>))"

fun stateText :: "ClientState \<Rightarrow> string" where
  "stateText ClientState_Valid = ''VALID''"
| "stateText ClientState_Expired = ''EXPIRED''"
| "stateText ClientState_Revoked = ''REVOKED''"
| "stateText ClientState_Grace = ''GRACE''"
| "stateText ClientState_Error = ''DISABLED''"
| "stateText _ = ''NOT AUTHORIZED''"

section \<open>The protected actions\<close>

definition hasFeature :: "'r MainWindow \<Rightarrow> string \<Rightarrow> bool" where
  "hasFeature mw feature \<longleftrightarrow>
     sn_state (mw_snapshot mw) = ClientState_Valid \<and> feature \<in> set (sn_features (mw_snapshot mw))"

definition updateProtectedActions :: "'r MainWindow \<Rightarrow> 'r MainWindow" where
  "updateProtectedActions mw =
     mw\<lparr>mw_captureButton := hasFeature mw ''capture'', mw_exportButton := hasFeature mw ''export''\<rparr>"

definition denyAuthorization :: "string \<Rightarrow> 'r MainWindow \<Rightarrow> 'r MainWindow" where
  "denyAuthorization message mw =
     (let mw = mw\<lparr>mw_snapshot := \<lparr>sn_state = ClientState_Error, sn_features = [], sn_expire_time = 0\<rparr>\<rparr>;
          mw = mw\<lparr>mw_stateLabel := stateText (sn_state (mw_snapshot mw)),
                  mw_expiryLabel := ''Expiration: --'', mw_detailLabel := message, mw_featureList := []\<rparr>;
          mw = updateProtectedActions mw;
          mw = (if opt_autoExit (mw_options mw) then mw
                else mw\<lparr>mw_dialogs := mw_dialogs mw @
                          [''Protected features are disabled.'' @ [CHR 0x0A, CHR 0x0A] @ message]\<rparr>)
      in mw\<lparr>mw_emitted := mw_emitted mw @ [False]\<rparr>)"

definition applyAuthorization ::
  "('r, 'w) qt \<Rightarrow> LocalAuthorizationResult \<Rightarrow> 'r MainWindow \<Rightarrow> 'r MainWindow" where
  "applyAuthorization qt result mw =
     (case result of
        Inl status \<Rightarrow> denyAuthorization (sdk_message status) mw
      | Inr snapshot \<Rightarrow>
          (let mw = mw\<lparr>mw_snapshot := snapshot\<rparr>;
               mw = mw\<lparr>mw_stateLabel := stateText (sn_state snapshot),
                       mw_detailLabel := ''The signed license was verified successfully.'',
                       mw_featureList := sn_features snapshot,
                       mw_expiryLabel :=
                         (if sn_expire_time snapshot = 0 then ''Expiration: Permanent''
                          else ''Expiration: '' @ qt_localIsoDate qt (sint (sn_expire_time snapshot)))\<rparr>;
               mw = updateProtectedActions mw;
               mw = mw\<lparr>mw_statusBar := ''Authorization is valid.''\<rparr>
           in mw\<lparr>mw_emitted := mw_emitted mw @ [True]\<rparr>))"

definition onCapture :: "'r MainWindow \<Rightarrow> 'r MainWindow" where
  "onCapture mw =
     (if \<not> hasFeature mw ''capture'' then denyAuthorization ''The capture feature is not authorized.'' mw
      else mw\<lparr>mw_statusBar := ''Capture operation authorized.''\<rparr>)"

definition onExport :: "'r MainWindow \<Rightarrow> 'r MainWindow" where
  "onExport mw =
     (if \<not> hasFeature mw ''export'' then denyAuthorization ''The export feature is not authorized.'' mw
      else mw\<lparr>mw_statusBar := ''Export operation authorized.''\<rparr>)"

text \<open>The path returned by a file dialog, empty when it was cancelled.\<close>

definition chooseLicenseFile :: "string \<Rightarrow> 'r MainWindow \<Rightarrow> 'r MainWindow" where
  "chooseLicenseFile path mw = (if path = [] then mw else mw\<lparr>mw_licensePathEdit := path\<rparr>)"

definition chooseIssuerKey :: "string \<Rightarrow> 'r MainWindow \<Rightarrow> 'r MainWindow" where
  "chooseIssuerKey path mw = (if path = [] then mw else mw\<lparr>mw_keyPathEdit := path\<rparr>)"

definition chooseCaCertificate :: "string \<Rightarrow> 'r MainWindow \<Rightarrow> 'r MainWindow" where
  "chooseCaCertificate path mw = (if path = [] then mw else mw\<lparr>mw_caPathEdit := path\<rparr>)"

section \<open>Construction\<close>

definition buildInterface :: "StartupOptions \<Rightarrow> 'r MainWindow" where
  "buildInterface options =
     updateProtectedActions
       \<lparr>mw_options = options,
        mw_snapshot = \<lparr>sn_state = ClientState_Uninitialized, sn_features = [], sn_expire_time = 0\<rparr>,
        mw_activationReply = None, mw_activationResponse = [], mw_sourceTab = 0, mw_productEdit = [],
        mw_keyIdEdit = [], mw_keyPathEdit = [], mw_licensePathEdit = [], mw_activationUrlEdit = [],
        mw_activationCodeEdit = [], mw_caPathEdit = [], mw_stateLabel = ''NOT AUTHORIZED'',
        mw_expiryLabel = ''Expiration: --'', mw_detailLabel = ''Protected features are disabled.'',
        mw_featureList = [], mw_localAuthorizeButton = True, mw_onlineActivateButton = True,
        mw_captureButton = True, mw_exportButton = True, mw_statusBar = [], mw_dialogs = [],
        mw_emitted = [], mw_finished_connections = [], mw_queued = []\<rparr>"

definition applyStartupOptions :: "'r MainWindow \<Rightarrow> 'r MainWindow" where
  "applyStartupOptions mw =
     (let options = mw_options mw;
          mw = mw\<lparr>mw_productEdit := opt_productId options, mw_keyIdEdit := opt_issuerKeyId options,
                  mw_keyPathEdit := opt_issuerPublicKey options,
                  mw_licensePathEdit := opt_licenseFile options,
                  mw_activationUrlEdit := opt_activationUrl options,
                  mw_activationCodeEdit := opt_activationCode options,
                  mw_caPathEdit := opt_caCertificate options\<rparr>;
          mw = (if opt_activationUrl options \<noteq> [] then mw\<lparr>mw_sourceTab := 1\<rparr> else mw)
      in if opt_licenseFile options \<noteq> []
         then mw\<lparr>mw_queued := mw_queued mw @ [Slot_AuthorizeFromFile]\<rparr>
         else if opt_activationUrl options \<noteq> []
         then mw\<lparr>mw_queued := mw_queued mw @ [Slot_ActivateOnline]\<rparr>
         else mw)"

definition MainWindow_new :: "StartupOptions \<Rightarrow> 'r MainWindow" where
  "MainWindow_new options = applyStartupOptions (buildInterface options)"

section \<open>Authorizing from a file\<close>

definition current_config :: "('r, 'w) qt \<Rightarrow> 'r MainWindow \<Rightarrow> 'w \<Rightarrow> Status + LocalAuthorizationConfig" where
  "current_config qt mw w =
     makeAuthorizationConfig qt (mw_productEdit mw) (mw_keyIdEdit mw) (mw_keyPathEdit mw)
       (opt_machineIdFile (mw_options mw)) w"

definition authorizeFromFile ::
  "('h, 'w) openssl \<Rightarrow> license_fb \<Rightarrow> (string \<Rightarrow> file_view) \<Rightarrow> 'w posix \<Rightarrow> ('r, 'w) qt \<Rightarrow>
     'r MainWindow \<Rightarrow> 'w \<Rightarrow> ('r MainWindow \<times> 'w) option" where
  "authorizeFromFile ossl lf fs px qt mw w =
     (case current_config qt mw w of
        Inl status \<Rightarrow> Some (denyAuthorization (sdk_message status) mw, w)
      | Inr config \<Rightarrow>
          if qt_trimmed qt (mw_licensePathEdit mw) = []
          then Some (denyAuthorization ''Select a signed license file.'' mw, w)
          else (case authorizeLicenseFile ossl lf fs px (qt_trimmed qt (mw_licensePathEdit mw)) config w of
                  None \<Rightarrow> None
                | Some (result, w) \<Rightarrow> Some (applyAuthorization qt result mw, w)))"

section \<open>Activating online\<close>

definition activationPayload :: "string \<Rightarrow> string \<Rightarrow> string \<Rightarrow> qjson" where
  "activationPayload product code machine =
     QJson_Object [(''protocol_version'', QJson_Number 1), (''product_id'', QJson_String product),
                   (''activation_code'', QJson_String code), (''machine_id'', QJson_String machine)]"

definition activateOnline ::
  "('h, 'w) openssl \<Rightarrow> (string \<Rightarrow> file_view) \<Rightarrow> ('r, 'w) qt \<Rightarrow> 'r MainWindow \<Rightarrow> 'w \<Rightarrow>
     'r MainWindow \<times> 'w" where
  "activateOnline ossl fs qt mw w =
     (if mw_activationReply mw \<noteq> None then (mw, w)
      else case current_config qt mw w of
        Inl status \<Rightarrow> (denyAuthorization (sdk_message status) mw, w)
      | Inr config \<Rightarrow>
          let url = qt_url qt (qt_trimmed qt (mw_activationUrlEdit mw)) in
          if \<not> qu_valid url \<or> qu_scheme url \<noteq> ''https'' \<or> qu_host url = []
          then (denyAuthorization ''Activation URL must be a valid HTTPS URL.'' mw, w)
          else if mw_activationCodeEdit mw = []
          then (denyAuthorization ''Activation code is required.'' mw, w)
          else case machineIdentity ossl fs config of
            Inl status \<Rightarrow> (denyAuthorization (sdk_message status) mw, w)
          | Inr machine_id \<Rightarrow>
              let request = \<lparr>rq_url = url, rq_content_type = ''application/json'',
                             rq_redirect_policy = NoLessSafeRedirectPolicy, rq_extra_authorities = []\<rparr>;
                  ca = qt_trimmed qt (mw_caPathEdit mw);
                  certificates = qt_certificates qt ca w in
              if ca \<noteq> [] \<and> certificates = []
              then (denyAuthorization ''The additional CA certificate is invalid.'' mw, w)
              else
                let request = (if ca = [] then request else request\<lparr>rq_extra_authorities := certificates\<rparr>);
                    payload = activationPayload (qt_trimmed qt (mw_productEdit mw))
                                (mw_activationCodeEdit mw) machine_id;
                    mw = mw\<lparr>mw_activationResponse := []\<rparr> in
                (case qt_post qt request (qt_toJson qt payload) w of
                   (reply, w) \<Rightarrow>
                     (mw\<lparr>mw_activationReply := Some reply, mw_localAuthorizeButton := False,
                         mw_onlineActivateButton := False,
                         mw_detailLabel := ''Contacting activation server...'',
                         mw_finished_connections := mw_finished_connections mw @ [reply]\<rparr>, w)))"

text \<open>The slot of \<^verbatim>\<open>finished\<close>; reading from the null reply is \<open>None\<close>.\<close>

definition handleActivationFinished ::
  "('h, 'w) openssl \<Rightarrow> license_fb \<Rightarrow> (string \<Rightarrow> file_view) \<Rightarrow> 'w posix \<Rightarrow> ('r, 'w) qt \<Rightarrow>
     'r MainWindow \<Rightarrow> 'w \<Rightarrow> ('r MainWindow \<times> 'w) option" where
  "handleActivationFinished ossl lf fs px qt mw w =
     (case mw_activationReply mw of
        None \<Rightarrow> None
      | Some reply \<Rightarrow>
          (case qt_readAll qt reply w of
             (rest, w) \<Rightarrow>
               let response = mw_activationResponse mw @ rest;
                   networkError = qt_replyError qt reply w;
                   httpStatus = qt_httpStatus qt reply w;
                   mw = mw\<lparr>mw_activationReply := None, mw_activationResponse := response,
                           mw_activationCodeEdit := [], mw_localAuthorizeButton := True,
                           mw_onlineActivateButton := True\<rparr> in
               if networkError \<noteq> 0 \<or> httpStatus < 200 \<or> httpStatus \<ge> 300 \<or>
                  length response > kMaxActivationResponseSize
               then Some (denyAuthorization ''Activation server request failed.'' mw, w)
               else (case qt_fromJson qt response of
                       Some (QJson_Object members) \<Rightarrow>
                         let license = qt_fromBase64 qt (qt_toLatin1 qt (json_string_at ''license'' members)) in
                         if license = [] \<or> length license > 1024 * 1024
                         then Some (denyAuthorization ''Activation server returned an invalid license.'' mw, w)
                         else (case current_config qt mw w of
                                 Inl status \<Rightarrow> Some (denyAuthorization (sdk_message status) mw, w)
                               | Inr config \<Rightarrow>
                                   (case authorizeLicense ossl lf fs px license config w of
                                      (result, w) \<Rightarrow> Some (applyAuthorization qt result mw, w)))
                     | _ \<Rightarrow> Some (denyAuthorization ''Activation server returned invalid JSON.'' mw, w))))"

text \<open>A reply emits \<^verbatim>\<open>finished\<close> once; \<^verbatim>\<open>abort\<close> may emit it before it returns.\<close>

definition emit_finished ::
  "('h, 'w) openssl \<Rightarrow> license_fb \<Rightarrow> (string \<Rightarrow> file_view) \<Rightarrow> 'w posix \<Rightarrow> ('r, 'w) qt \<Rightarrow> 'r \<Rightarrow>
     'r MainWindow \<Rightarrow> 'w \<Rightarrow> ('r MainWindow \<times> 'w) option" where
  "emit_finished ossl lf fs px qt reply mw w =
     (if reply \<in> set (mw_finished_connections mw)
      then handleActivationFinished ossl lf fs px qt
             (mw\<lparr>mw_finished_connections := remove1 reply (mw_finished_connections mw)\<rparr>) w
      else Some (mw, w))"

definition abort_reply ::
  "('h, 'w) openssl \<Rightarrow> license_fb \<Rightarrow> (string \<Rightarrow> file_view) \<Rightarrow> 'w posix \<Rightarrow> ('r, 'w) qt \<Rightarrow> 'r \<Rightarrow>
     'r MainWindow \<Rightarrow> 'w \<Rightarrow> ('r MainWindow \<times> 'w) option" where
  "abort_reply ossl lf fs px qt reply mw w =
     (case qt_abort qt reply w of
        (emitted, w) \<Rightarrow> if emitted then emit_finished ossl lf fs px qt reply mw w else Some (mw, w))"

definition onReadyRead ::
  "('h, 'w) openssl \<Rightarrow> license_fb \<Rightarrow> (string \<Rightarrow> file_view) \<Rightarrow> 'w posix \<Rightarrow> ('r, 'w) qt \<Rightarrow>
     'r MainWindow \<Rightarrow> 'w \<Rightarrow> ('r MainWindow \<times> 'w) option" where
  "onReadyRead ossl lf fs px qt mw w =
     (case mw_activationReply mw of
        None \<Rightarrow> None
      | Some reply \<Rightarrow>
          (case qt_readAll qt reply w of
             (bytes, w) \<Rightarrow>
               let mw = mw\<lparr>mw_activationResponse := mw_activationResponse mw @ bytes\<rparr> in
               if length (mw_activationResponse mw) > kMaxActivationResponseSize
               then abort_reply ossl lf fs px qt reply mw w
               else Some (mw, w)))"

definition onActivationTimeout ::
  "('h, 'w) openssl \<Rightarrow> license_fb \<Rightarrow> (string \<Rightarrow> file_view) \<Rightarrow> 'w posix \<Rightarrow> ('r, 'w) qt \<Rightarrow> 'r \<Rightarrow>
     'r MainWindow \<Rightarrow> 'w \<Rightarrow> ('r MainWindow \<times> 'w) option" where
  "onActivationTimeout ossl lf fs px qt reply mw w =
     (if qt_isRunning qt reply w then abort_reply ossl lf fs px qt reply mw w else Some (mw, w))"

definition MainWindow_destroy ::
  "('h, 'w) openssl \<Rightarrow> license_fb \<Rightarrow> (string \<Rightarrow> file_view) \<Rightarrow> 'w posix \<Rightarrow> ('r, 'w) qt \<Rightarrow>
     'r MainWindow \<Rightarrow> 'w \<Rightarrow> ('r MainWindow \<times> 'w) option" where
  "MainWindow_destroy ossl lf fs px qt mw w =
     (case mw_activationReply mw of
        None \<Rightarrow> Some (mw, w)
      | Some reply \<Rightarrow> abort_reply ossl lf fs px qt reply mw w)"

section \<open>The program\<close>

text \<open>
  \<^verbatim>\<open>main.cpp\<close>: the options of the command line, and the exit status of a run with \<^verbatim>\<open>--auto-exit\<close>, which
  the first signal decides and, where there is none, the timer of 15 seconds.
\<close>

definition startup_options :: "(string \<Rightarrow> string) \<Rightarrow> (string \<Rightarrow> bool) \<Rightarrow> StartupOptions" where
  "startup_options option_value isSet =
     \<lparr>opt_productId = option_value ''product'', opt_issuerKeyId = option_value ''issuer-key-id'',
      opt_issuerPublicKey = option_value ''issuer-public-key'', opt_licenseFile = option_value ''license'',
      opt_activationUrl = option_value ''activation-url'', opt_activationCode = option_value ''activation-code'',
      opt_caCertificate = option_value ''ca-certificate'', opt_machineIdFile = option_value ''machine-id-file'',
      opt_autoExit = isSet ''auto-exit''\<rparr>"

definition auto_exit_status :: "bool list \<Rightarrow> int" where
  "auto_exit_status emitted =
     (case emitted of [] \<Rightarrow> 1 | authorized # _ \<Rightarrow> if authorized then 0 else 1)"

section \<open>The window in operation\<close>

text \<open>The slot that a queued single-shot timer runs.\<close>

definition run_startup_slot ::
  "('h, 'w) openssl \<Rightarrow> license_fb \<Rightarrow> (string \<Rightarrow> file_view) \<Rightarrow> 'w posix \<Rightarrow> ('r, 'w) qt \<Rightarrow> startup_slot \<Rightarrow>
     'r MainWindow \<Rightarrow> 'w \<Rightarrow> ('r MainWindow \<times> 'w) option" where
  "run_startup_slot ossl lf fs px qt slot mw w =
     (case slot of
        Slot_AuthorizeFromFile \<Rightarrow> authorizeFromFile ossl lf fs px qt mw w
      | Slot_ActivateOnline \<Rightarrow> Some (activateOnline ossl fs qt mw w))"

text \<open>
  The signals.  A button is clicked only while it is enabled; \<^verbatim>\<open>readyRead\<close>, \<^verbatim>\<open>finished\<close> and the timer
  belong to a reply that has not finished.  The user edits any line; between two signals the outside
  world changes at will.  The message box of a denial runs an event loop of its own as the last action
  of its slot but the emission of \<^verbatim>\<open>authorizationFinished\<close>, so the signals it delivers come after the
  slot.
\<close>

inductive window_step ::
  "('h, 'w) openssl \<Rightarrow> license_fb \<Rightarrow> (string \<Rightarrow> file_view) \<Rightarrow> 'w posix \<Rightarrow> ('r, 'w) qt \<Rightarrow>
     'r MainWindow \<times> 'w \<Rightarrow> 'r MainWindow \<times> 'w \<Rightarrow> bool"
  for ossl lf fs px qt where
  world: "window_step ossl lf fs px qt (mw, w) (mw, w')"
| edit: "window_step ossl lf fs px qt (mw, w)
     (mw\<lparr>mw_productEdit := a, mw_keyIdEdit := b, mw_keyPathEdit := c, mw_licensePathEdit := d,
         mw_activationUrlEdit := e, mw_activationCodeEdit := f, mw_caPathEdit := g, mw_sourceTab := t\<rparr>, w)"
| choose_license: "window_step ossl lf fs px qt (mw, w) (chooseLicenseFile path mw, w)"
| choose_key: "window_step ossl lf fs px qt (mw, w) (chooseIssuerKey path mw, w)"
| choose_ca: "window_step ossl lf fs px qt (mw, w) (chooseCaCertificate path mw, w)"
| local_clicked: "mw_localAuthorizeButton mw \<Longrightarrow> authorizeFromFile ossl lf fs px qt mw w = Some (mw', w') \<Longrightarrow>
     window_step ossl lf fs px qt (mw, w) (mw', w')"
| online_clicked: "mw_onlineActivateButton mw \<Longrightarrow> activateOnline ossl fs qt mw w = (mw', w') \<Longrightarrow>
     window_step ossl lf fs px qt (mw, w) (mw', w')"
| startup: "mw_queued mw = slot # rest \<Longrightarrow>
     run_startup_slot ossl lf fs px qt slot (mw\<lparr>mw_queued := rest\<rparr>) w = Some (mw', w') \<Longrightarrow>
     window_step ossl lf fs px qt (mw, w) (mw', w')"
| capture_clicked: "mw_captureButton mw \<Longrightarrow> window_step ossl lf fs px qt (mw, w) (onCapture mw, w)"
| export_clicked: "mw_exportButton mw \<Longrightarrow> window_step ossl lf fs px qt (mw, w) (onExport mw, w)"
| ready_read: "reply \<in> set (mw_finished_connections mw) \<Longrightarrow>
     onReadyRead ossl lf fs px qt mw w = Some (mw', w') \<Longrightarrow> window_step ossl lf fs px qt (mw, w) (mw', w')"
| finished: "reply \<in> set (mw_finished_connections mw) \<Longrightarrow>
     emit_finished ossl lf fs px qt reply mw w = Some (mw', w') \<Longrightarrow> window_step ossl lf fs px qt (mw, w) (mw', w')"
| timed_out: "reply \<in> set (mw_finished_connections mw) \<Longrightarrow>
     onActivationTimeout ossl lf fs px qt reply mw w = Some (mw', w') \<Longrightarrow>
     window_step ossl lf fs px qt (mw, w) (mw', w')"

inductive window_reachable ::
  "('h, 'w) openssl \<Rightarrow> license_fb \<Rightarrow> (string \<Rightarrow> file_view) \<Rightarrow> 'w posix \<Rightarrow> ('r, 'w) qt \<Rightarrow> StartupOptions \<Rightarrow>
     'r MainWindow \<times> 'w \<Rightarrow> bool"
  for ossl lf fs px qt options where
  start: "window_reachable ossl lf fs px qt options (MainWindow_new options, w)"
| step: "window_reachable ossl lf fs px qt options s \<Longrightarrow> window_step ossl lf fs px qt s s' \<Longrightarrow>
     window_reachable ossl lf fs px qt options s'"

text \<open>
  The invariant: the protected actions and the labels show the snapshot; a snapshot that is not valid
  has no features; the window's reply is the one whose signal is connected, and the two authorization
  buttons are enabled exactly when there is none.
\<close>

definition window_inv :: "'r MainWindow \<Rightarrow> bool" where
  "window_inv mw \<longleftrightarrow>
     mw_captureButton mw = hasFeature mw ''capture'' \<and> mw_exportButton mw = hasFeature mw ''export'' \<and>
     mw_stateLabel mw = stateText (sn_state (mw_snapshot mw)) \<and>
     mw_featureList mw = sn_features (mw_snapshot mw) \<and>
     (sn_state (mw_snapshot mw) = ClientState_Valid \<or> sn_features (mw_snapshot mw) = []) \<and>
     mw_finished_connections mw = (case mw_activationReply mw of None \<Rightarrow> [] | Some reply \<Rightarrow> [reply]) \<and>
     (mw_localAuthorizeButton mw \<longleftrightarrow> mw_activationReply mw = None) \<and>
     (mw_onlineActivateButton mw \<longleftrightarrow> mw_activationReply mw = None)"

lemmas window_ops = denyAuthorization_def applyAuthorization_def updateProtectedActions_def hasFeature_def
  Let_def

lemma authorizeLicense_snapshot:
  "authorizeLicense ossl lf fs px package config w = (Inr s, w') \<Longrightarrow>
     \<exists>machine license. machineIdentity ossl fs config = Inr machine \<and>
       LicenseValidator_validate ossl lf \<lparr>lv_trusted_keys = la_trusted_license_keys config\<rparr> package
         (la_product_id config) machine (fst (px_time px w)) = Inr license \<and>
       s = \<lparr>sn_state = ClientState_Valid, sn_features = ls_features license,
            sn_expire_time = ls_expire_time license\<rparr>"
  by (auto simp: authorizeLicense_def split: sum.splits prod.splits if_splits)

lemma window_inv_deny [simp]:
  "window_inv mw \<Longrightarrow> window_inv (denyAuthorization message mw)"
  by (simp add: window_inv_def window_ops)

lemma authorizeLicense_valid:
  "authorizeLicense ossl lf fs px package config w = (Inr s, w') \<Longrightarrow> sn_state s = ClientState_Valid"
  by (drule authorizeLicense_snapshot) auto

lemma authorizeLicenseFile_package:
  "authorizeLicenseFile ossl lf fs px path config w = Some (Inr s, w') \<Longrightarrow>
     \<exists>package wd. Local_readLicense px path w = Some (Inr package, wd) \<and>
       authorizeLicense ossl lf fs px package config wd = (Inr s, w')"
  by (auto simp: authorizeLicenseFile_def split: option.splits sum.splits)

text \<open>
  How a result of the authorizer comes about: the configuration that the window shows is read, the license
  is taken from the file shown or was received before, and it is authorized at once; \<open>w'\<close> is the world
  that the authorization leaves.
\<close>

definition licensed ::
  "('h, 'w) openssl \<Rightarrow> license_fb \<Rightarrow> (string \<Rightarrow> file_view) \<Rightarrow> 'w posix \<Rightarrow> ('r, 'w) qt \<Rightarrow>
     'r MainWindow \<Rightarrow> ClientSnapshot \<Rightarrow> 'w \<Rightarrow> bool" where
  "licensed ossl lf fs px qt mw s w' \<longleftrightarrow>
     (\<exists>wc config package wd. current_config qt mw wc = Inr config \<and>
       (wd = wc \<or> Local_readLicense px (qt_trimmed qt (mw_licensePathEdit mw)) wc = Some (Inr package, wd)) \<and>
       authorizeLicense ossl lf fs px package config wd = (Inr s, w'))"

lemma licensed_valid: "licensed ossl lf fs px qt mw s w' \<Longrightarrow> sn_state s = ClientState_Valid"
  by (auto simp: licensed_def dest: authorizeLicense_valid)

text \<open>
  Every slot that decides ends in one of two ways: a denial, or the snapshot of a license that was
  validated under the configuration the window shows.
\<close>

definition decided ::
  "('h, 'w) openssl \<Rightarrow> license_fb \<Rightarrow> (string \<Rightarrow> file_view) \<Rightarrow> 'w posix \<Rightarrow> ('r, 'w) qt \<Rightarrow>
     'r MainWindow \<Rightarrow> 'r MainWindow \<Rightarrow> 'w \<Rightarrow> bool" where
  "decided ossl lf fs px qt mw mw' w' \<longleftrightarrow>
     (\<exists>message. mw' = denyAuthorization message mw) \<or>
     (\<exists>s. licensed ossl lf fs px qt mw s w' \<and> mw' = applyAuthorization qt (Inr s) mw)"

lemma decided_deny [intro]: "decided ossl lf fs px qt mw (denyAuthorization message mw) w'"
  by (auto simp: decided_def)

lemma decided_apply:
  assumes "\<And>s. result = Inr s \<Longrightarrow> licensed ossl lf fs px qt mw s w'"
  shows "decided ossl lf fs px qt mw (applyAuthorization qt result mw) w'"
proof (cases result)
  case (Inl status)
  then show ?thesis by (auto simp: decided_def applyAuthorization_def)
next
  case (Inr s)
  with assms show ?thesis unfolding decided_def by blast
qed

lemma authorizeFromFile_decided:
  assumes "authorizeFromFile ossl lf fs px qt mw w = Some (mw', w')"
  shows "decided ossl lf fs px qt mw mw' w'"
proof (cases "current_config qt mw w")
  case (Inr config)
  let ?path = "qt_trimmed qt (mw_licensePathEdit mw)"
  have "licensed ossl lf fs px qt mw s w''"
    if "authorizeLicenseFile ossl lf fs px ?path config w = Some (Inr s, w'')" for s w''
    using authorizeLicenseFile_package [OF that] Inr unfolding licensed_def by blast
  with assms Inr show ?thesis
    by (auto simp: authorizeFromFile_def split: if_splits option.splits intro: decided_apply)
qed (use assms in \<open>auto simp: authorizeFromFile_def\<close>)

lemma received_licensed:
  "current_config qt mw w = Inr config \<Longrightarrow> authorizeLicense ossl lf fs px package config w = (Inr s, w') \<Longrightarrow>
     licensed ossl lf fs px qt mw s w'"
  unfolding licensed_def by blast

lemma handleActivationFinished_decided:
  assumes "handleActivationFinished ossl lf fs px qt mw w = Some (mw', w')"
  shows "\<exists>response. decided ossl lf fs px qt
           (mw\<lparr>mw_activationReply := None, mw_activationResponse := response, mw_activationCodeEdit := [],
               mw_localAuthorizeButton := True, mw_onlineActivateButton := True\<rparr>) mw' w'"
  using assms
  by (auto simp: handleActivationFinished_def Let_def split: option.splits prod.splits if_splits sum.splits qjson.splits
      intro!: exI decided_deny intro: decided_apply dest: received_licensed)

lemma window_inv_decided:
  "decided ossl lf fs px qt mw mw' w' \<Longrightarrow> window_inv mw \<Longrightarrow> window_inv mw'"
  by (auto simp: decided_def) (auto simp: window_inv_def window_ops dest: licensed_valid)

lemma decided_keeps:
  "decided ossl lf fs px qt mw mw' w' \<Longrightarrow> mw_activationReply mw' = mw_activationReply mw \<and>
     mw_finished_connections mw' = mw_finished_connections mw \<and> mw_options mw' = mw_options mw \<and>
     mw_queued mw' = mw_queued mw"
  by (auto simp: decided_def window_ops)

text \<open>What a request looks like.\<close>

definition posts_activation ::
  "('h, 'w) openssl \<Rightarrow> (string \<Rightarrow> file_view) \<Rightarrow> ('r, 'w) qt \<Rightarrow> 'r MainWindow \<Rightarrow> 'w \<Rightarrow>
     'r MainWindow \<Rightarrow> 'w \<Rightarrow> bool" where
  "posts_activation ossl fs qt mw w mw' w' \<longleftrightarrow>
     (let url = qt_url qt (qt_trimmed qt (mw_activationUrlEdit mw));
          ca = qt_trimmed qt (mw_caPathEdit mw)
      in \<exists>config machine reply.
        current_config qt mw w = Inr config \<and> machineIdentity ossl fs config = Inr machine \<and>
        mw_activationCodeEdit mw \<noteq> [] \<and> qu_valid url \<and> qu_scheme url = ''https'' \<and> qu_host url \<noteq> [] \<and>
        qt_post qt
          \<lparr>rq_url = url, rq_content_type = ''application/json'', rq_redirect_policy = NoLessSafeRedirectPolicy,
           rq_extra_authorities = (if ca = [] then [] else qt_certificates qt ca w)\<rparr>
          (qt_toJson qt (activationPayload (la_product_id config) (mw_activationCodeEdit mw) machine)) w
          = (reply, w') \<and>
        mw' = mw\<lparr>mw_activationResponse := [], mw_activationReply := Some reply,
                 mw_localAuthorizeButton := False, mw_onlineActivateButton := False,
                 mw_detailLabel := ''Contacting activation server...'',
                 mw_finished_connections := mw_finished_connections mw @ [reply]\<rparr>)"

lemma current_config_product:
  "current_config qt mw w = Inr config \<Longrightarrow> la_product_id config = qt_trimmed qt (mw_productEdit mw)"
  by (auto simp: current_config_def makeAuthorizationConfig_def Let_def split: if_splits option.splits)

lemma activateOnline_cases:
  assumes "activateOnline ossl fs qt mw w = (mw', w')"
  shows "(mw' = mw \<and> w' = w \<and> mw_activationReply mw \<noteq> None) \<or>
    (mw_activationReply mw = None \<and> ((\<exists>message. mw' = denyAuthorization message mw \<and> w' = w) \<or>
       posts_activation ossl fs qt mw w mw' w'))"
proof (cases "mw_activationReply mw")
  case (Some reply)
  with assms show ?thesis by (simp add: activateOnline_def)
next
  case None
  show ?thesis
  proof (cases "\<exists>message. mw' = denyAuthorization message mw \<and> w' = w")
    case True
    with None show ?thesis by blast
  next
    case False
    with assms None show ?thesis
      by (auto simp: activateOnline_def posts_activation_def Let_def current_config_product
          split: sum.splits if_splits prod.splits)
  qed
qed

lemma window_inv_activateOnline:
  assumes "window_inv mw" "activateOnline ossl fs qt mw w = (mw', w')"
  shows "window_inv mw'"
proof -
  from activateOnline_cases [OF assms(2)] consider "mw' = mw"
    | "\<exists>message. mw' = denyAuthorization message mw"
    | "mw_activationReply mw = None \<and> posts_activation ossl fs qt mw w mw' w'"
    by (elim disjE conjE exE) auto
  then show ?thesis
  proof cases
    case 3
    with assms(1) show ?thesis
      by (auto simp: posts_activation_def window_inv_def hasFeature_def Let_def)
  qed (use assms(1) in auto)
qed

lemma emit_finished_decided:
  assumes inv: "window_inv mw" and r: "reply \<in> set (mw_finished_connections mw)"
    and e: "emit_finished ossl lf fs px qt reply mw w = Some (mw', w')"
  shows "\<exists>response. decided ossl lf fs px qt
           (mw\<lparr>mw_finished_connections := [], mw_activationReply := None, mw_activationResponse := response,
               mw_activationCodeEdit := [], mw_localAuthorizeButton := True,
               mw_onlineActivateButton := True\<rparr>) mw' w'"
proof -
  from inv r have "remove1 reply (mw_finished_connections mw) = []"
    by (auto simp: window_inv_def split: option.splits)
  with e r have "handleActivationFinished ossl lf fs px qt (mw\<lparr>mw_finished_connections := []\<rparr>) w = Some (mw', w')"
    by (simp add: emit_finished_def)
  from handleActivationFinished_decided [OF this] show ?thesis by simp
qed

text \<open>
  The two ways a reply's signal leaves the window: untouched but for the bytes received, or decided
  with no reply left.
\<close>

definition reply_handled ::
  "('h, 'w) openssl \<Rightarrow> license_fb \<Rightarrow> (string \<Rightarrow> file_view) \<Rightarrow> 'w posix \<Rightarrow> ('r, 'w) qt \<Rightarrow>
     'r MainWindow \<Rightarrow> 'r MainWindow \<Rightarrow> 'w \<Rightarrow> bool" where
  "reply_handled ossl lf fs px qt mw mw' w' \<longleftrightarrow>
     (\<exists>response. mw' = mw\<lparr>mw_activationResponse := response\<rparr>) \<or>
     (\<exists>response. decided ossl lf fs px qt
        (mw\<lparr>mw_finished_connections := [], mw_activationReply := None, mw_activationResponse := response,
            mw_activationCodeEdit := [], mw_localAuthorizeButton := True, mw_onlineActivateButton := True\<rparr>) mw' w')"

lemma reply_handled_refl [simp, intro]: "reply_handled ossl lf fs px qt mw mw w'"
  unfolding reply_handled_def by (rule disjI1) (rule exI [of _ "mw_activationResponse mw"], simp)

lemma reply_handled_received [simp, intro]:
  "reply_handled ossl lf fs px qt mw (mw\<lparr>mw_activationResponse := response\<rparr>) w'"
  unfolding reply_handled_def by blast

lemma window_inv_response [simp]:
  "window_inv (mw\<lparr>mw_activationResponse := response\<rparr>) = window_inv mw"
  by (simp add: window_inv_def hasFeature_def)

lemma abort_reply_handled:
  assumes "window_inv mw" "reply \<in> set (mw_finished_connections mw)"
    and "abort_reply ossl lf fs px qt reply (mw\<lparr>mw_activationResponse := response\<rparr>) w = Some (mw', w')"
  shows "reply_handled ossl lf fs px qt mw mw' w'"
proof (cases "qt_abort qt reply w")
  case (Pair emitted w1)
  show ?thesis
  proof (cases emitted)
    case True
    with assms Pair have e: "emit_finished ossl lf fs px qt reply (mw\<lparr>mw_activationResponse := response\<rparr>) w1 = Some (mw', w')"
      by (simp add: abort_reply_def)
    show ?thesis
      using emit_finished_decided [OF _ _ e] assms(1,2) by (auto simp: reply_handled_def)
  qed (use assms Pair in \<open>auto simp: abort_reply_def\<close>)
qed

lemma window_inv_reply_handled:
  assumes "window_inv mw" "reply_handled ossl lf fs px qt mw mw' w'"
  shows "window_inv mw'"
  using assms(2) unfolding reply_handled_def
proof (elim disjE exE)
  fix response
  assume d: "decided ossl lf fs px qt
      (mw\<lparr>mw_finished_connections := [], mw_activationReply := None, mw_activationResponse := response,
          mw_activationCodeEdit := [], mw_localAuthorizeButton := True, mw_onlineActivateButton := True\<rparr>) mw' w'"
  from assms(1) show ?thesis
    by (intro window_inv_decided [OF d]) (simp add: window_inv_def hasFeature_def)
qed (use assms(1) in simp)

section \<open>Steps\<close>

lemma current_config_fields [simp]:
  "current_config qt (mw\<lparr>mw_activationReply := r\<rparr>) w = current_config qt mw w"
  "current_config qt (mw\<lparr>mw_activationResponse := b\<rparr>) w = current_config qt mw w"
  "current_config qt (mw\<lparr>mw_activationCodeEdit := c\<rparr>) w = current_config qt mw w"
  "current_config qt (mw\<lparr>mw_localAuthorizeButton := e\<rparr>) w = current_config qt mw w"
  "current_config qt (mw\<lparr>mw_onlineActivateButton := e\<rparr>) w = current_config qt mw w"
  "current_config qt (mw\<lparr>mw_finished_connections := rs\<rparr>) w = current_config qt mw w"
  "current_config qt (mw\<lparr>mw_queued := slots\<rparr>) w = current_config qt mw w"
  by (simp_all add: current_config_def)

lemma licensed_fields [simp]:
  "licensed ossl lf fs px qt (mw\<lparr>mw_activationReply := r\<rparr>) s w' = licensed ossl lf fs px qt mw s w'"
  "licensed ossl lf fs px qt (mw\<lparr>mw_activationResponse := b\<rparr>) s w' = licensed ossl lf fs px qt mw s w'"
  "licensed ossl lf fs px qt (mw\<lparr>mw_activationCodeEdit := c\<rparr>) s w' = licensed ossl lf fs px qt mw s w'"
  "licensed ossl lf fs px qt (mw\<lparr>mw_localAuthorizeButton := e\<rparr>) s w' = licensed ossl lf fs px qt mw s w'"
  "licensed ossl lf fs px qt (mw\<lparr>mw_onlineActivateButton := e\<rparr>) s w' = licensed ossl lf fs px qt mw s w'"
  "licensed ossl lf fs px qt (mw\<lparr>mw_finished_connections := rs\<rparr>) s w' = licensed ossl lf fs px qt mw s w'"
  "licensed ossl lf fs px qt (mw\<lparr>mw_queued := slots\<rparr>) s w' = licensed ossl lf fs px qt mw s w'"
  by (simp_all add: licensed_def)

text \<open>
  What one step does to the decision: nothing, a denial, or a license validated under the
  configuration the window shows.
\<close>

definition step_decision ::
  "('h, 'w) openssl \<Rightarrow> license_fb \<Rightarrow> (string \<Rightarrow> file_view) \<Rightarrow> 'w posix \<Rightarrow> ('r, 'w) qt \<Rightarrow>
     'r MainWindow \<Rightarrow> 'r MainWindow \<Rightarrow> 'w \<Rightarrow> bool" where
  "step_decision ossl lf fs px qt mw mw' w' \<longleftrightarrow>
     mw_snapshot mw' = mw_snapshot mw \<and> mw_emitted mw' = mw_emitted mw \<or>
     sn_state (mw_snapshot mw') = ClientState_Error \<and> mw_emitted mw' = mw_emitted mw @ [False] \<or>
     licensed ossl lf fs px qt mw (mw_snapshot mw') w' \<and> mw_emitted mw' = mw_emitted mw @ [True]"

lemma step_decision_decided:
  "decided ossl lf fs px qt mw mw' w' \<Longrightarrow> step_decision ossl lf fs px qt mw mw' w'"
  by (auto simp: decided_def step_decision_def window_ops)

lemma step_decision_deny [simp]: "step_decision ossl lf fs px qt mw (denyAuthorization message mw) w'"
  by (simp add: step_decision_decided decided_deny)

lemma step_decision_activateOnline:
  assumes "activateOnline ossl fs qt mw w = (mw', w')"
  shows "step_decision ossl lf fs px qt mw mw' w'"
  using activateOnline_cases [OF assms]
  by (elim disjE conjE exE) (auto simp: posts_activation_def step_decision_def Let_def window_ops)

lemma step_decision_reply_handled:
  assumes "reply_handled ossl lf fs px qt mw mw' w'"
  shows "step_decision ossl lf fs px qt mw mw' w'"
  using assms unfolding reply_handled_def
proof (elim disjE exE)
  fix response
  assume d: "decided ossl lf fs px qt
      (mw\<lparr>mw_finished_connections := [], mw_activationReply := None, mw_activationResponse := response,
          mw_activationCodeEdit := [], mw_localAuthorizeButton := True, mw_onlineActivateButton := True\<rparr>) mw' w'"
  from step_decision_decided [OF d] show ?thesis by (simp add: step_decision_def)
qed (simp add: step_decision_def)

lemma emit_finished_handled:
  assumes "window_inv mw" "reply \<in> set (mw_finished_connections mw)"
    and "emit_finished ossl lf fs px qt reply mw w = Some (mw', w')"
  shows "reply_handled ossl lf fs px qt mw mw' w'"
  using emit_finished_decided [OF assms] by (auto simp: reply_handled_def)

lemma the_reply:
  "window_inv mw \<Longrightarrow> reply \<in> set (mw_finished_connections mw) \<longleftrightarrow> mw_activationReply mw = Some reply"
  by (auto simp: window_inv_def split: option.splits)

lemma onReadyRead_handled:
  assumes "window_inv mw" "onReadyRead ossl lf fs px qt mw w = Some (mw', w')"
  shows "reply_handled ossl lf fs px qt mw mw' w'"
  using assms(2)
  by (auto simp: onReadyRead_def Let_def the_reply [OF assms(1)] split: option.splits prod.splits if_splits
      intro: abort_reply_handled [OF assms(1)])

lemma onActivationTimeout_handled:
  assumes "window_inv mw" "reply \<in> set (mw_finished_connections mw)"
    and "onActivationTimeout ossl lf fs px qt reply mw w = Some (mw', w')"
  shows "reply_handled ossl lf fs px qt mw mw' w'"
  using assms(3) abort_reply_handled [OF assms(1,2), of ossl lf fs px qt "mw_activationResponse mw"]
  by (auto simp: onActivationTimeout_def split: if_splits)

text \<open>A slot is sound when it keeps the invariant and decides only as above.\<close>

definition sound_change ::
  "('h, 'w) openssl \<Rightarrow> license_fb \<Rightarrow> (string \<Rightarrow> file_view) \<Rightarrow> 'w posix \<Rightarrow> ('r, 'w) qt \<Rightarrow>
     'r MainWindow \<Rightarrow> 'r MainWindow \<Rightarrow> 'w \<Rightarrow> bool" where
  "sound_change ossl lf fs px qt mw mw' w' \<longleftrightarrow>
     (window_inv mw \<longrightarrow> window_inv mw' \<and> step_decision ossl lf fs px qt mw mw' w')"

lemma sound_decided: "decided ossl lf fs px qt mw mw' w' \<Longrightarrow> sound_change ossl lf fs px qt mw mw' w'"
  by (simp add: sound_change_def window_inv_decided step_decision_decided)

lemma sound_handled: "(window_inv mw \<Longrightarrow> reply_handled ossl lf fs px qt mw mw' w') \<Longrightarrow> sound_change ossl lf fs px qt mw mw' w'"
  by (auto simp: sound_change_def intro: window_inv_reply_handled step_decision_reply_handled)

lemma sound_deny: "sound_change ossl lf fs px qt mw (denyAuthorization message mw) w'"
  by (rule sound_decided) (rule decided_deny)

lemma sound_quiet:
  assumes "mw_snapshot mw' = mw_snapshot mw" "mw_emitted mw' = mw_emitted mw"
    and "window_inv mw' = window_inv mw"
  shows "sound_change ossl lf fs px qt mw mw' w'"
  using assms by (simp add: sound_change_def step_decision_def)

lemma sound_startup:
  assumes "run_startup_slot ossl lf fs px qt slot (mw\<lparr>mw_queued := rest\<rparr>) w = Some (mw', w')"
  shows "sound_change ossl lf fs px qt mw mw' w'"
proof -
  let ?q = "mw\<lparr>mw_queued := rest\<rparr>"
  have "sound_change ossl lf fs px qt ?q mw' w'"
    using assms
  proof (cases slot)
    case Slot_AuthorizeFromFile
    with assms show ?thesis by (simp add: run_startup_slot_def sound_decided authorizeFromFile_decided)
  next
    case Slot_ActivateOnline
    with assms show ?thesis
      using window_inv_activateOnline step_decision_activateOnline
      by (fastforce simp: run_startup_slot_def sound_change_def)
  qed
  then show ?thesis by (simp add: sound_change_def step_decision_def window_inv_def hasFeature_def)
qed

lemma sound_step:
  assumes "window_step ossl lf fs px qt s s'"
  shows "sound_change ossl lf fs px qt (fst s) (fst s') (snd s')"
  using assms
proof cases
  case (local_clicked mw w mw' w')
  then show ?thesis by (simp add: sound_decided authorizeFromFile_decided)
next
  case (online_clicked mw w mw' w')
  then show ?thesis
    using window_inv_activateOnline step_decision_activateOnline by (fastforce simp: sound_change_def)
next
  case (startup mw slot rest w mw' w')
  then show ?thesis by (simp add: sound_startup)
next
  case (ready_read reply mw w mw' w')
  then show ?thesis by (auto intro: sound_handled onReadyRead_handled)
next
  case (finished reply mw w mw' w')
  then show ?thesis by (auto intro: sound_handled emit_finished_handled)
next
  case (timed_out reply mw w mw' w')
  then show ?thesis by (auto intro: sound_handled onActivationTimeout_handled)
qed (auto simp: onCapture_def onExport_def chooseLicenseFile_def chooseIssuerKey_def chooseCaCertificate_def
      sound_deny, (auto simp: window_inv_def hasFeature_def intro!: sound_quiet)?)

lemma window_inv_new: "window_inv (MainWindow_new options)"
  by (simp add: MainWindow_new_def applyStartupOptions_def buildInterface_def window_inv_def window_ops)

lemma reachable_inv: "window_reachable ossl lf fs px qt options s \<Longrightarrow> window_inv (fst s)"
proof (induction rule: window_reachable.induct)
  case (step s s')
  from sound_step [OF step.hyps(2)] step.IH show ?case by (simp add: sound_change_def)
qed (simp add: window_inv_new)

text \<open>
  Where a valid snapshot comes from: a step decided it, under the configuration shown right before that
  step, and every step since has kept it.
\<close>

definition kept_step ::
  "('h, 'w) openssl \<Rightarrow> license_fb \<Rightarrow> (string \<Rightarrow> file_view) \<Rightarrow> 'w posix \<Rightarrow> ('r, 'w) qt \<Rightarrow>
     'r MainWindow \<times> 'w \<Rightarrow> 'r MainWindow \<times> 'w \<Rightarrow> bool" where
  "kept_step ossl lf fs px qt s s' \<longleftrightarrow>
     window_step ossl lf fs px qt s s' \<and> mw_snapshot (fst s') = mw_snapshot (fst s)"

definition granted ::
  "('h, 'w) openssl \<Rightarrow> license_fb \<Rightarrow> (string \<Rightarrow> file_view) \<Rightarrow> 'w posix \<Rightarrow> ('r, 'w) qt \<Rightarrow> StartupOptions \<Rightarrow>
     'r MainWindow \<times> 'w \<Rightarrow> bool" where
  "granted ossl lf fs px qt options s \<longleftrightarrow>
     (\<exists>s0 s1. window_reachable ossl lf fs px qt options s0 \<and> window_step ossl lf fs px qt s0 s1 \<and>
        (kept_step ossl lf fs px qt)\<^sup>*\<^sup>* s1 s \<and>
        licensed ossl lf fs px qt (fst s0) (mw_snapshot (fst s)) (snd s1))"

lemma granted_kept:
  "granted ossl lf fs px qt options s \<Longrightarrow> kept_step ossl lf fs px qt s s' \<Longrightarrow> granted ossl lf fs px qt options s'"
  unfolding granted_def by (metis kept_step_def rtranclp.rtrancl_into_rtrancl)

lemma reachable_granted:
  assumes "window_reachable ossl lf fs px qt options s"
  shows "(sn_state (mw_snapshot (fst s)) = ClientState_Valid \<longrightarrow> granted ossl lf fs px qt options s) \<and>
         (mw_emitted (fst s) \<noteq> [] \<longrightarrow>
            last (mw_emitted (fst s)) = (sn_state (mw_snapshot (fst s)) = ClientState_Valid)) \<and>
         (mw_emitted (fst s) = [] \<longrightarrow> sn_state (mw_snapshot (fst s)) = ClientState_Uninitialized)"
  using assms
proof (induction rule: window_reachable.induct)
  case (start w)
  show ?case
    by (simp add: MainWindow_new_def applyStartupOptions_def buildInterface_def window_ops)
next
  case (step s s')
  have "step_decision ossl lf fs px qt (fst s) (fst s') (snd s')"
    using sound_step [OF step.hyps(2)] reachable_inv [OF step.hyps(1)] by (simp add: sound_change_def)
  then consider
      (quiet) "mw_snapshot (fst s') = mw_snapshot (fst s)" "mw_emitted (fst s') = mw_emitted (fst s)"
    | (denial) "sn_state (mw_snapshot (fst s')) = ClientState_Error"
        "mw_emitted (fst s') = mw_emitted (fst s) @ [False]"
    | (grant) "licensed ossl lf fs px qt (fst s) (mw_snapshot (fst s')) (snd s')"
        "mw_emitted (fst s') = mw_emitted (fst s) @ [True]"
    unfolding step_decision_def by blast
  then show ?case
  proof cases
    case quiet
    with step.hyps(2) have "kept_step ossl lf fs px qt s s'" by (simp add: kept_step_def)
    with step.IH quiet granted_kept show ?thesis by metis
  next
    case grant
    with step.hyps have "granted ossl lf fs px qt options s'" unfolding granted_def by blast
    with grant licensed_valid [OF grant(1)] show ?thesis by auto
  qed (use step.IH in auto)
qed

lemma current_config_trust:
  "current_config qt mw w = Inr config \<Longrightarrow>
     \<exists>key. la_trusted_license_keys config = [(qt_trimmed qt (mw_keyIdEdit mw), key)] \<and> length key = 32 \<and>
       qt_readFile qt (mw_keyPathEdit mw) w = Some key \<and> qt_isFile qt (mw_keyPathEdit mw) w \<and>
       \<not> qt_isSymLink qt (mw_keyPathEdit mw) w"
  by (auto simp: current_config_def makeAuthorizationConfig_def Let_def kKeySize_def
      split: if_splits option.splits)

text \<open>The files that identify the machine: those of the system, or the ones a startup option names.\<close>

definition window_identity_config :: "('r, 'w) qt \<Rightarrow> StartupOptions \<Rightarrow> LinuxMachineIdentityConfig" where
  "window_identity_config qt options =
     (let path = qt_trimmed qt (opt_machineIdFile options) in
      \<lparr>mic_machine_id_path = (if path = [] then ''/etc/machine-id'' else path),
       mic_product_uuid_path = (if path = [] then ''/sys/class/dmi/id/product_uuid'' else path @ ''.product-uuid''),
       mic_require_machine_id = True, mic_require_product_uuid = False\<rparr>)"

lemma current_config_machine:
  assumes "current_config qt mw w = Inr config"
  shows "machineIdentity ossl fs config = Inr machine \<longleftrightarrow>
    (\<exists>identity. collectLinuxMachineIdentity ossl (window_identity_config qt (mw_options mw)) (\<lambda>path. Some (readFile fs path))
       = (ErrorCode_None, identity) \<and> machine = mi_exact_id identity)"
proof -
  have "\<lparr>mic_machine_id_path = la_machine_id_path config, mic_product_uuid_path = la_product_uuid_path config,
      mic_require_machine_id = la_require_machine_id config, mic_require_product_uuid = la_require_product_uuid config\<rparr>
      = window_identity_config qt (mw_options mw)"
    using assms
    by (auto simp: current_config_def makeAuthorizationConfig_def window_identity_config_def default_local_config_def Let_def
        split: if_splits option.splits)
  then show ?thesis by (auto simp: machineIdentity_def split: prod.splits)
qed

lemma decided_options: "decided ossl lf fs px qt mw mw' w' \<Longrightarrow> mw_options mw' = mw_options mw"
  by (drule decided_keeps) simp

lemma reply_handled_options: "reply_handled ossl lf fs px qt mw mw' w' \<Longrightarrow> mw_options mw' = mw_options mw"
  by (auto simp: reply_handled_def dest!: decided_options)

lemma activateOnline_options: "activateOnline ossl fs qt mw w = (mw', w') \<Longrightarrow> mw_options mw' = mw_options mw"
  by (auto simp: activateOnline_def Let_def window_ops split: sum.splits if_splits prod.splits)

lemma options_step:
  assumes "window_step ossl lf fs px qt s s'" "window_inv (fst s)"
  shows "mw_options (fst s') = mw_options (fst s)"
  using assms(1)
proof cases
  case (local_clicked mw w mw' w')
  then show ?thesis using decided_options [OF authorizeFromFile_decided] by simp
next
  case (online_clicked mw w mw' w')
  then show ?thesis using activateOnline_options by simp
next
  case (startup mw slot rest w mw' w')
  then show ?thesis
    by (cases slot) (auto simp: run_startup_slot_def dest!: decided_options [OF authorizeFromFile_decided] activateOnline_options)
next
  case (ready_read reply mw w mw' w')
  with assms(2) show ?thesis using reply_handled_options [OF onReadyRead_handled] by simp
next
  case (finished reply mw w mw' w')
  with assms(2) show ?thesis using reply_handled_options [OF emit_finished_handled] by simp
next
  case (timed_out reply mw w mw' w')
  with assms(2) show ?thesis using reply_handled_options [OF onActivationTimeout_handled] by simp
qed (auto simp: onCapture_def onExport_def chooseLicenseFile_def chooseIssuerKey_def chooseCaCertificate_def window_ops)

lemma reachable_options: "window_reachable ossl lf fs px qt options s \<Longrightarrow> mw_options (fst s) = options"
proof (induction rule: window_reachable.induct)
  case (step s s')
  with options_step [OF step.hyps(2) reachable_inv [OF step.hyps(1)]] show ?case by simp
qed (simp add: MainWindow_new_def applyStartupOptions_def buildInterface_def window_ops)

text \<open>
  C19.  The protected actions of the window are enabled only by a license: in every state the window can
  reach, through whatever sequence of edits, clicks, timers and replies of an activation server, an enabled
  action is a feature of a license on which an earlier step decided and whose result every step since has
  kept.  In that step the window had read the key, 32 bytes, from the regular file it then showed; the
  package was received, or read right after the key from the license file it then showed; and the validator
  accepted it under that one key with the key id then shown, for the product then shown, for the identity of
  the machine from the system's files or those a startup option names, and at the time the clock showed at
  the end of the step.
\<close>

theorem protected_actions_need_license:
  assumes "window_reachable ossl lf fs px qt options (mw, w)"
    and "mw_captureButton mw \<and> feature = ''capture'' \<or> mw_exportButton mw \<and> feature = ''export''"
  shows "\<exists>mw0 w0 mw1 w1 wc wd key package identity now license.
    window_reachable ossl lf fs px qt options (mw0, w0) \<and>
    window_step ossl lf fs px qt (mw0, w0) (mw1, w1) \<and> (kept_step ossl lf fs px qt)\<^sup>*\<^sup>* (mw1, w1) (mw, w) \<and>
    qt_readFile qt (mw_keyPathEdit mw0) wc = Some key \<and> length key = 32 \<and>
    qt_isFile qt (mw_keyPathEdit mw0) wc \<and> \<not> qt_isSymLink qt (mw_keyPathEdit mw0) wc \<and>
    (wd = wc \<or> Local_readLicense px (qt_trimmed qt (mw_licensePathEdit mw0)) wc = Some (Inr package, wd)) \<and>
    collectLinuxMachineIdentity ossl
      (let path = qt_trimmed qt (opt_machineIdFile options) in
       \<lparr>mic_machine_id_path = (if path = [] then ''/etc/machine-id'' else path),
        mic_product_uuid_path = (if path = [] then ''/sys/class/dmi/id/product_uuid'' else path @ ''.product-uuid''),
        mic_require_machine_id = True, mic_require_product_uuid = False\<rparr>)
      (\<lambda>path. Some (readFile fs path)) = (ErrorCode_None, identity) \<and>
    px_time px wd = (now, w1) \<and>
    LicenseValidator_validate ossl lf \<lparr>lv_trusted_keys = [(qt_trimmed qt (mw_keyIdEdit mw0), key)]\<rparr> package
      (qt_trimmed qt (mw_productEdit mw0)) (mi_exact_id identity) now = Inr license \<and>
    feature \<in> set (ls_features license) \<and>
    mw_snapshot mw = \<lparr>sn_state = ClientState_Valid, sn_features = ls_features license, sn_expire_time = ls_expire_time license\<rparr>"
proof -
  have f: "sn_state (mw_snapshot mw) = ClientState_Valid" "feature \<in> set (sn_features (mw_snapshot mw))"
    using reachable_inv [OF assms(1)] assms(2) by (auto simp: window_inv_def hasFeature_def)
  with reachable_granted [OF assms(1)] obtain mw0 w0 mw1 w1 where
    g: "window_reachable ossl lf fs px qt options (mw0, w0)" "window_step ossl lf fs px qt (mw0, w0) (mw1, w1)"
       "(kept_step ossl lf fs px qt)\<^sup>*\<^sup>* (mw1, w1) (mw, w)" "licensed ossl lf fs px qt mw0 (mw_snapshot mw) w1"
    by (auto simp: granted_def)
  from g(4) obtain wc config package wd where
    c: "current_config qt mw0 wc = Inr config" and
    p: "wd = wc \<or> Local_readLicense px (qt_trimmed qt (mw_licensePathEdit mw0)) wc = Some (Inr package, wd)" and
    a: "authorizeLicense ossl lf fs px package config wd = (Inr (mw_snapshot mw), w1)"
    unfolding licensed_def by blast
  from current_config_trust [OF c] obtain key where
    k: "la_trusted_license_keys config = [(qt_trimmed qt (mw_keyIdEdit mw0), key)]" "length key = 32"
       "qt_readFile qt (mw_keyPathEdit mw0) wc = Some key" "qt_isFile qt (mw_keyPathEdit mw0) wc"
       "\<not> qt_isSymLink qt (mw_keyPathEdit mw0) wc" by blast
  from authorizeLicense_snapshot [OF a] current_config_product [OF c] k(1) obtain machine license where
    l: "machineIdentity ossl fs config = Inr machine"
       "LicenseValidator_validate ossl lf \<lparr>lv_trusted_keys = [(qt_trimmed qt (mw_keyIdEdit mw0), key)]\<rparr> package
          (qt_trimmed qt (mw_productEdit mw0)) machine (fst (px_time px wd)) = Inr license"
       "mw_snapshot mw = \<lparr>sn_state = ClientState_Valid, sn_features = ls_features license, sn_expire_time = ls_expire_time license\<rparr>"
    by auto
  have t: "px_time px wd = (fst (px_time px wd), w1)"
    using a by (auto simp: authorizeLicense_def split: if_splits sum.splits prod.splits)
  from l(1) reachable_options [OF g(1)] obtain identity where
    i: "collectLinuxMachineIdentity ossl (window_identity_config qt options) (\<lambda>path. Some (readFile fs path))
          = (ErrorCode_None, identity)" "machine = mi_exact_id identity"
    unfolding current_config_machine [OF c] by auto
  show ?thesis
    using g(1-3) k(2-5) p i(1) [unfolded window_identity_config_def] t l(2) [unfolded i(2)] l(3) f(2)
    by (intro exI conjI) (assumption | simp add: l(3))+
qed

text \<open>
  In every state the window can reach, the protected actions and the labels show the snapshot, a
  snapshot that is not valid holds no feature, the two authorization buttons are enabled exactly when
  no activation is in progress, and the last signal emitted says whether the snapshot is valid.
\<close>

lemma window_shows_its_snapshot:
  assumes "window_reachable ossl lf fs px qt options (mw, w)"
  shows "window_inv mw \<and>
    (if mw_emitted mw = [] then sn_state (mw_snapshot mw) = ClientState_Uninitialized
     else last (mw_emitted mw) = (sn_state (mw_snapshot mw) = ClientState_Valid))"
  using reachable_inv [OF assms] reachable_granted [OF assms] by simp

lemma handleActivationFinished_returns:
  "mw_activationReply mw = Some reply \<Longrightarrow> handleActivationFinished ossl lf fs px qt mw w \<noteq> None"
  by (auto simp: handleActivationFinished_def Let_def split: prod.splits option.splits qjson.splits sum.splits)

lemma abort_reply_returns:
  assumes "mw_activationReply mw = Some reply"
  shows "abort_reply ossl lf fs px qt reply mw w \<noteq> None"
proof (cases "qt_abort qt reply w")
  case (Pair emitted w1)
  from assms have "handleActivationFinished ossl lf fs px qt
      (mw\<lparr>mw_finished_connections := remove1 reply (mw_finished_connections mw)\<rparr>) w1 \<noteq> None"
    by (intro handleActivationFinished_returns) simp
  with Pair show ?thesis by (simp add: abort_reply_def emit_finished_def)
qed

text \<open>
  C28.  The signals of a network reply never reach a window without one: in every state the window can
  reach, a reply whose signal is still connected is the window's reply, so neither the data, nor the
  end, nor the timeout of a request, nor closing the window reads from a null reply.
\<close>

theorem activation_signals_find_reply:
  assumes "window_reachable ossl lf fs px qt options (mw, w)"
    and "reply \<in> set (mw_finished_connections mw)"
  shows "mw_activationReply mw = Some reply \<and>
    onReadyRead ossl lf fs px qt mw w \<noteq> None \<and> emit_finished ossl lf fs px qt reply mw w \<noteq> None \<and>
    onActivationTimeout ossl lf fs px qt reply mw w \<noteq> None \<and> MainWindow_destroy ossl lf fs px qt mw w \<noteq> None"
proof -
  have r: "mw_activationReply mw = Some reply"
    using reachable_inv [OF assms(1)] assms(2) by (simp add: the_reply)
  have abort: "abort_reply ossl lf fs px qt reply (mw\<lparr>mw_activationResponse := b\<rparr>) w' \<noteq> None"
    "abort_reply ossl lf fs px qt reply mw w' \<noteq> None" for b w'
    using r by (simp_all add: abort_reply_returns)
  have "emit_finished ossl lf fs px qt reply mw w \<noteq> None"
    using r assms(2) by (simp add: emit_finished_def handleActivationFinished_returns)
  with r abort show ?thesis
    by (simp add: onReadyRead_def onActivationTimeout_def MainWindow_destroy_def Let_def split: prod.split)
qed

text \<open>
  An activation request leaves the window only over HTTPS: with no activation in progress the
  button either denies, which disables the protected actions and leaves no reply, or posts one request
  to a valid \<^verbatim>\<open>https\<close> URL with a host, with redirects restricted to no less safe ones, the certificates
  of the named file added, and the product, the activation code and the machine's identity as its
  payload.  While a request is in progress it does nothing.
\<close>

lemma activation_posts_https_only:
  assumes "activateOnline ossl fs qt mw w = (mw', w')"
  shows "if mw_activationReply mw \<noteq> None then mw' = mw \<and> w' = w
    else if mw_activationReply mw' = None
    then w' = w \<and> \<not> mw_captureButton mw' \<and> \<not> mw_exportButton mw' \<and> sn_state (mw_snapshot mw') = ClientState_Error
    else posts_activation ossl fs qt mw w mw' w'"
  using activateOnline_cases [OF assms]
  by (elim disjE conjE exE) (auto simp: window_ops posts_activation_def Let_def)

lemma authorizeLicenseFile_returns:
  assumes "interrupts_end px"
  shows "authorizeLicenseFile ossl lf fs px path config w \<noteq> None"
proof -
  have "Local_readLicense px path w \<noteq> None"
    by (auto simp: Local_readLicense_def split: prod.splits sum.splits option.splits
        dest: retries_end(2) [OF assms, THEN notE])
  then show ?thesis by (auto simp: authorizeLicenseFile_def split: option.splits sum.splits)
qed

lemma MainWindow_new_file:
  "opt_licenseFile options \<noteq> [] \<Longrightarrow> mw_queued (MainWindow_new options) = [Slot_AuthorizeFromFile]"
  "mw_emitted (MainWindow_new options) = []"
  "mw_licensePathEdit (MainWindow_new options) = opt_licenseFile options"
  by (simp_all add: MainWindow_new_def applyStartupOptions_def buildInterface_def window_ops)

lemma authorizeFromFile_emits:
  assumes "authorizeLicenseFile ossl lf fs px (qt_trimmed qt (mw_licensePathEdit mw)) config w \<noteq> None"
    and "current_config qt mw w = Inr config"
  shows "\<exists>mw' w'. authorizeFromFile ossl lf fs px qt mw w = Some (mw', w') \<and>
    mw_emitted mw' = mw_emitted mw @ [sn_state (mw_snapshot mw') = ClientState_Valid] \<and>
    (sn_state (mw_snapshot mw') = ClientState_Valid \<longleftrightarrow> qt_trimmed qt (mw_licensePathEdit mw) \<noteq> [] \<and>
      (\<exists>s w''. authorizeLicenseFile ossl lf fs px (qt_trimmed qt (mw_licensePathEdit mw)) config w = Some (Inr s, w'')))"
  using assms
  by (auto simp: authorizeFromFile_def window_ops split: sum.splits dest!: authorizeLicenseFile_package authorizeLicense_valid)

text \<open>
  Started with a license file, the program decides: the queued slot returns, emits its signal
  once, and that signal reports whether authorizing that file succeeded; the exit status of an
  automatic run is \<open>0\<close> exactly then.
\<close>

lemma startup_file_decides:
  assumes "opt_licenseFile options \<noteq> []" "interrupts_end px"
  shows "\<exists>mw' w'. run_startup_slot ossl lf fs px qt (hd (mw_queued (MainWindow_new options)))
        ((MainWindow_new options)\<lparr>mw_queued := []\<rparr>) w = Some (mw', w') \<and>
      mw_emitted mw' = [sn_state (mw_snapshot mw') = ClientState_Valid] \<and>
      (auto_exit_status (mw_emitted mw') = 0 \<longleftrightarrow>
         (\<exists>config s w''. current_config qt (MainWindow_new options) w = Inr config \<and>
            qt_trimmed qt (opt_licenseFile options) \<noteq> [] \<and>
            authorizeLicenseFile ossl lf fs px (qt_trimmed qt (opt_licenseFile options)) config w
              = Some (Inr s, w'')))"
proof -
  let ?m = "MainWindow_new options"
  note new = MainWindow_new_file [of options]
  show ?thesis
  proof (cases "current_config qt ?m w")
    case (Inl status)
    then show ?thesis
      using assms(1) by (simp add: run_startup_slot_def authorizeFromFile_def window_ops new auto_exit_status_def)
  next
    case (Inr config)
    with authorizeFromFile_emits [of ossl lf fs px qt "?m\<lparr>mw_queued := []\<rparr>" config w]
      authorizeLicenseFile_returns [OF assms(2), of ossl lf fs _ config w]
    show ?thesis
      using assms(1) by (auto simp: run_startup_slot_def new auto_exit_status_def)
  qed
qed

end
