(* ===== verification/VendorToWindow.thy ===== *)
theory VendorToWindow
  imports Issuer DemoWindow
begin

text \<open>
  From the vendor to the protected action: a license that the generator's issuer signed, in the file that
  the demonstration window is given.
\<close>

lemma issued_authorizes:
  assumes issued: "license_codec lf" "ed25519_pair ossl private public"
      "issueLicense ossl lf d private = Inr package" "length package \<le> kMaxLicenseSize"
    and keys: "la_trusted_license_keys config = [(ld_key_id d, public)]" "la_product_id config \<noteq> []"
    and machine: "machineIdentity ossl fs config = Inr machine"
  shows "\<exists>result. authorizeLicense ossl lf fs px package config w = (result, snd (px_time px w)) \<and>
    (case result of
       Inr s \<Rightarrow> la_product_id config = ld_product_id d \<and> usable d machine (fst (px_time px w)) \<and>
         s = \<lparr>sn_state = ClientState_Valid, sn_features = ld_features d, sn_expire_time = ld_expire_time d\<rparr>
     | Inl _ \<Rightarrow> \<not> (la_product_id config = ld_product_id d \<and> usable d machine (fst (px_time px w))))"
proof -
  obtain now w1 where t: "px_time px w = (now, w1)" by fastforce
  let ?v = "LicenseValidator_validate ossl lf \<lparr>lv_trusted_keys = la_trusted_license_keys config\<rparr> package
    (la_product_id config) machine now"
  have iff: "?v = Inr s \<longleftrightarrow> la_product_id config = ld_product_id d \<and> usable d machine now \<and> s = snapshot_of d" for s
    by (rule issued_license_iff [OF issued]) (simp add: keys)
  show ?thesis
  proof (cases ?v)
    case (Inl e)
    with iff [of "snapshot_of d"] show ?thesis by (simp add: authorizeLicense_def keys machine t)
  next
    case (Inr s)
    with iff [of s] keys(2) show ?thesis by (auto simp: authorizeLicense_def keys(1) machine t snapshot_of_def)
  qed
qed

text \<open>
  C20.  A license the vendor issued works in the customer's window, and only as issued: when the window shows
  the signing key's name and file and the license file holds the package, the button returns, and the
  window is valid with exactly the features and the expiry of the license's definition if its product is the
  definition's, the definition admits this machine and the time lies in its interval; each protected
  action is then enabled exactly if its feature was issued.  Otherwise both are disabled.
\<close>

theorem issued_license_opens_window:
  assumes issued: "license_codec lf" "ed25519_pair ossl private public"
      "issueLicense ossl lf d private = Inr package" "length package \<le> kMaxLicenseSize"
    and window: "current_config qt mw w = Inr config" "qt_trimmed qt (mw_keyIdEdit mw) = ld_key_id d"
      "qt_readFile qt (mw_keyPathEdit mw) w = Some public" "qt_trimmed qt (mw_licensePathEdit mw) \<noteq> []"
    and content: "Local_readLicense px (qt_trimmed qt (mw_licensePathEdit mw)) w = Some (Inr package, w1)"
    and machine: "machineIdentity ossl fs config = Inr machine"
  shows "\<exists>mw' w'. authorizeFromFile ossl lf fs px qt mw w = Some (mw', w') \<and>
    (if qt_trimmed qt (mw_productEdit mw) = ld_product_id d \<and> usable d machine (fst (px_time px w1))
     then mw_snapshot mw' = \<lparr>sn_state = ClientState_Valid, sn_features = ld_features d,
                             sn_expire_time = ld_expire_time d\<rparr> \<and>
       (mw_captureButton mw' \<longleftrightarrow> ''capture'' \<in> set (ld_features d)) \<and>
       (mw_exportButton mw' \<longleftrightarrow> ''export'' \<in> set (ld_features d))
     else sn_state (mw_snapshot mw') = ClientState_Error \<and> \<not> mw_captureButton mw' \<and> \<not> mw_exportButton mw')"
proof -
  have p: "la_product_id config = qt_trimmed qt (mw_productEdit mw)" "la_product_id config \<noteq> []"
    using window(1) current_config_product [OF window(1)]
    by (auto simp: current_config_def makeAuthorizationConfig_def Let_def split: if_splits option.splits)
  have k: "la_trusted_license_keys config = [(ld_key_id d, public)]"
    using current_config_trust [OF window(1)] window(2,3) by auto
  from issued_authorizes [OF issued k p(2) machine, of px w1] obtain result where
    r: "authorizeLicense ossl lf fs px package config w1 = (result, snd (px_time px w1))"
    and c: "case result of
       Inr s \<Rightarrow> la_product_id config = ld_product_id d \<and> usable d machine (fst (px_time px w1)) \<and>
         s = \<lparr>sn_state = ClientState_Valid, sn_features = ld_features d, sn_expire_time = ld_expire_time d\<rparr>
     | Inl _ \<Rightarrow> \<not> (la_product_id config = ld_product_id d \<and> usable d machine (fst (px_time px w1)))"
    by blast
  have "authorizeFromFile ossl lf fs px qt mw w = Some (applyAuthorization qt result mw, snd (px_time px w1))"
    using window(1,4) content r by (simp add: authorizeFromFile_def authorizeLicenseFile_def)
  with c p(1) show ?thesis
    by (cases result) (auto simp: window_ops)
qed

end
