(* ===== verification/Demo_Witnesses.thy ===== *)
theory Demo_Witnesses
  imports SDK_Witnesses VendorToWindow
begin

text \<open>
  Runs of the sample window: an activation whose server returns the sample license, and a start with a
  license file.
\<close>

definition demo_lf :: license_fb where
  "demo_lf = sample_license_fb [payload_of (sample_definition\<lparr>ld_features := [''capture'']\<rparr>)] sample_packages"

definition demo_qt :: "(nat, nat) qt" where
  "demo_qt = \<lparr>qt_trimmed = (\<lambda>s. s), qt_isSymLink = (\<lambda>_ _. False), qt_isFile = (\<lambda>_ _. True),
     qt_readFile = (\<lambda>_ _. Some (replicate 32 5)),
     qt_url = (\<lambda>s. \<lparr>qu_valid = True, qu_scheme = s, qu_host = ''h''\<rparr>), qt_certificates = (\<lambda>_ _. []),
     qt_toJson = (\<lambda>_. [1]), qt_fromJson = (\<lambda>_. Some (QJson_Object [(''license'', QJson_String ''L'')])),
     qt_toLatin1 = octets, qt_fromBase64 = (\<lambda>_. sample_package), qt_localIsoDate = (\<lambda>_. ''date''),
     qt_post = (\<lambda>_ _ w. (7, w)), qt_readAll = (\<lambda>_ w. ([1], w)), qt_replyError = (\<lambda>_ _. 0),
     qt_httpStatus = (\<lambda>_ _. 200), qt_isRunning = (\<lambda>_ _. True), qt_abort = (\<lambda>_ w. (True, w))\<rparr>"

definition demo_options :: StartupOptions where
  "demo_options = startup_options
     (\<lambda>name. if name = ''product'' then ''p'' else if name = ''issuer-key-id'' then ''k''
             else if name = ''issuer-public-key'' then ''/pub'' else if name = ''activation-url'' then ''https''
             else if name = ''activation-code'' then ''code'' else []) (\<lambda>_. True)"

lemma demo_authorize:
  "authorizeLicense sample_openssl demo_lf sample_fs sample_files sample_package local_config 0
     = (Inr \<lparr>sn_state = ClientState_Valid, sn_features = [''capture''], sn_expire_time = 200\<rparr>, 0)"
  by code_simp

lemma demo_machine: "\<exists>machine. machineIdentity sample_openssl sample_fs local_config = Inr machine"
  using authorizeLicense_snapshot [OF demo_authorize] by blast

lemma demo_new:
  "mw_queued (MainWindow_new demo_options) = [Slot_ActivateOnline]"
  "mw_activationReply (MainWindow_new demo_options) = None"
  "mw_finished_connections (MainWindow_new demo_options) = []"
  "mw_productEdit (MainWindow_new demo_options) = ''p''"
  "mw_keyIdEdit (MainWindow_new demo_options) = ''k''"
  "mw_keyPathEdit (MainWindow_new demo_options) = ''/pub''"
  "mw_activationUrlEdit (MainWindow_new demo_options) = ''https''"
  "mw_activationCodeEdit (MainWindow_new demo_options) = ''code''"
  "mw_caPathEdit (MainWindow_new demo_options) = []"
  "mw_options (MainWindow_new demo_options) = demo_options"
  "opt_machineIdFile demo_options = []"
  by (simp_all add: MainWindow_new_def applyStartupOptions_def buildInterface_def window_ops demo_options_def
      startup_options_def)

lemma demo_config:
  "mw_productEdit mw = ''p'' \<Longrightarrow> mw_keyIdEdit mw = ''k'' \<Longrightarrow> mw_keyPathEdit mw = ''/pub'' \<Longrightarrow>
     mw_options mw = demo_options \<Longrightarrow> current_config demo_qt mw w = Inr local_config"
  by (simp add: current_config_def makeAuthorizationConfig_def demo_qt_def kKeySize_def local_config_def
      demo_new default_local_config_def)

definition demo_pending :: "nat MainWindow" where
  "demo_pending = (MainWindow_new demo_options)\<lparr>mw_queued := [], mw_activationResponse := [],
     mw_activationReply := Some 7, mw_localAuthorizeButton := False, mw_onlineActivateButton := False,
     mw_detailLabel := ''Contacting activation server...'', mw_finished_connections := [7]\<rparr>"

lemma demo_post: "activateOnline sample_openssl sample_fs demo_qt
     ((MainWindow_new demo_options)\<lparr>mw_queued := []\<rparr>) 0 = (demo_pending, 0)"
  using demo_machine
  by (auto simp: activateOnline_def demo_config demo_new demo_pending_def Let_def)
    (simp_all add: demo_qt_def)

lemma demo_finish:
  "\<exists>mw. emit_finished sample_openssl demo_lf sample_fs sample_files demo_qt 7 demo_pending 0 = Some (mw, 0) \<and>
     mw_captureButton mw \<and> \<not> mw_exportButton mw"
proof -
  have q: "qt_readAll demo_qt 7 0 = ([1], 0)" "qt_replyError demo_qt 7 0 = 0" "qt_httpStatus demo_qt 7 0 = 200"
    "qt_fromJson demo_qt bs = Some (QJson_Object [(''license'', QJson_String ''L'')])"
    "qt_fromBase64 demo_qt bs = sample_package" for bs by (simp_all add: demo_qt_def)
  have p: "sample_package \<noteq> []" "length sample_package = 9" by (simp_all add: sample_package_def)
  show ?thesis
    by (simp add: emit_finished_def handleActivationFinished_def demo_pending_def q p Let_def
        kMaxActivationResponseSize_def demo_config demo_new demo_authorize applyAuthorization_def
        updateProtectedActions_def hasFeature_def)
qed

lemma demo_reaches_pending:
  "window_reachable sample_openssl demo_lf sample_fs sample_files demo_qt demo_options (demo_pending, 0)"
  by (rule window_reachable.step [OF window_reachable.start [where w = 0]],
      rule window_step.startup [OF demo_new(1)]) (simp add: run_startup_slot_def demo_post)

lemma demo_connection: "7 \<in> set (mw_finished_connections demo_pending)"
  by (simp add: demo_pending_def)

lemma demo_reaches_activated:
  "\<exists>mw. window_reachable sample_openssl demo_lf sample_fs sample_files demo_qt demo_options (mw, 0) \<and>
     mw_captureButton mw \<and> \<not> mw_exportButton mw"
  using demo_finish window_reachable.step [OF demo_reaches_pending window_step.finished [OF demo_connection]]
  by blast

theorem protected_actions_need_license_witness:
  "\<exists>mw mw0 w0 mw1 w1 wd key package identity now license.
     window_reachable sample_openssl demo_lf sample_fs sample_files demo_qt demo_options (mw, 0) \<and> mw_captureButton mw \<and>
     window_step sample_openssl demo_lf sample_fs sample_files demo_qt (mw0, w0) (mw1, w1) \<and>
     px_time sample_files wd = (now, w1 :: nat) \<and> length key = 32 \<and>
     LicenseValidator_validate sample_openssl demo_lf \<lparr>lv_trusted_keys = [(qt_trimmed demo_qt (mw_keyIdEdit mw0), key)]\<rparr> package
       (qt_trimmed demo_qt (mw_productEdit mw0)) (mi_exact_id (identity :: MachineIdentity)) now = Inr license \<and>
     ''capture'' \<in> set (ls_features license)"
proof -
  obtain mw where m: "window_reachable sample_openssl demo_lf sample_fs sample_files demo_qt demo_options (mw, 0)"
    "mw_captureButton mw" using demo_reaches_activated by blast
  then have "mw_captureButton mw \<and> ''capture'' = ''capture'' \<or> mw_exportButton mw \<and> ''capture'' = ''export''" by simp
  from protected_actions_need_license [OF m(1) this] obtain mw0 w0 mw1 w1 wd key package identity now license where
    "window_step sample_openssl demo_lf sample_fs sample_files demo_qt (mw0, w0) (mw1, w1)"
    "px_time sample_files wd = (now, w1)" "length key = 32"
    "LicenseValidator_validate sample_openssl demo_lf \<lparr>lv_trusted_keys = [(qt_trimmed demo_qt (mw_keyIdEdit mw0), key)]\<rparr> package
       (qt_trimmed demo_qt (mw_productEdit mw0)) (mi_exact_id (identity :: MachineIdentity)) now = Inr license"
    "''capture'' \<in> set (ls_features license)"
    by (elim exE conjE) (rule that, assumption+)
  with m show ?thesis by blast
qed

lemma window_shows_its_snapshot_instance:
  "window_inv demo_pending \<and> mw_emitted demo_pending = [] \<and>
     sn_state (mw_snapshot demo_pending) = ClientState_Uninitialized"
proof -
  have e: "mw_emitted demo_pending = []" by (simp add: demo_pending_def MainWindow_new_file)
  with window_shows_its_snapshot [OF demo_reaches_pending] show ?thesis by simp
qed

theorem activation_signals_find_reply_witness:
  "mw_activationReply demo_pending = Some 7 \<and>
     onReadyRead sample_openssl demo_lf sample_fs sample_files demo_qt demo_pending 0 \<noteq> None \<and>
     MainWindow_destroy sample_openssl demo_lf sample_fs sample_files demo_qt demo_pending 0 \<noteq> None"
  using activation_signals_find_reply [OF demo_reaches_pending demo_connection] by blast

lemma activation_posts_https_only_instance:
  "posts_activation sample_openssl sample_fs demo_qt ((MainWindow_new demo_options)\<lparr>mw_queued := []\<rparr>) 0
     demo_pending 0"
proof -
  have "mw_activationReply ((MainWindow_new demo_options :: nat MainWindow)\<lparr>mw_queued := []\<rparr>) = None"
    "mw_activationReply demo_pending = Some 7" by (simp_all add: demo_new demo_pending_def)
  with activation_posts_https_only [OF demo_post] show ?thesis by simp
qed

section \<open>A start with a license file\<close>

definition demo_file_options :: StartupOptions where
  "demo_file_options = demo_options\<lparr>opt_licenseFile := ''/lic''\<rparr>"

lemma startup_file_decides_instance:
  "\<exists>mw' w'. run_startup_slot sample_openssl demo_lf sample_fs (sample_posix 100) demo_qt
        (hd (mw_queued (MainWindow_new demo_file_options :: nat MainWindow)))
        ((MainWindow_new demo_file_options)\<lparr>mw_queued := []\<rparr>) 1 = Some (mw', w') \<and>
      mw_emitted mw' = [sn_state (mw_snapshot mw') = ClientState_Valid]"
proof -
  have "opt_licenseFile demo_file_options \<noteq> []" by (simp add: demo_file_options_def)
  from startup_file_decides [OF this sample_interrupts_end [of 100], of sample_openssl demo_lf sample_fs demo_qt 1]
  show ?thesis by blast
qed

section \<open>An issued license\<close>

abbreviation (input) demo_definition :: LicenseDefinition where
  "demo_definition \<equiv> sample_definition\<lparr>ld_features := [''capture'']\<rparr>"

lemma demo_codec: "license_codec demo_lf"
  unfolding demo_lf_def by (rule sample_license_codec) (auto simp: sample_packages_def)

lemma demo_issue: "issueLicense sample_openssl demo_lf demo_definition (replicate 32 5) = Inr sample_package"
  by code_simp

lemma demo_read: "Local_readLicense sample_files ''/lic'' w = Some (Inr sample_package, w)"
proof -
  have "read_retry sample_files 4 9 [] w = Some (Some sample_package, w)"
    by (subst read_retry.simps, subst read_retry.simps)
      (simp add: sample_files_def sample_package_def)
  then show ?thesis
    by (simp add: Local_readLicense_def sample_files_def kLocalMaxLicenseSize_def)
qed

lemma demo_file_new:
  "mw_productEdit (MainWindow_new demo_file_options) = ''p''"
  "mw_keyIdEdit (MainWindow_new demo_file_options) = ''k''"
  "mw_keyPathEdit (MainWindow_new demo_file_options) = ''/pub''"
  "mw_licensePathEdit (MainWindow_new demo_file_options) = ''/lic''"
  "mw_options (MainWindow_new demo_file_options) = demo_file_options"
  "opt_machineIdFile demo_file_options = []"
  by (simp_all add: MainWindow_new_def applyStartupOptions_def buildInterface_def window_ops demo_options_def
      startup_options_def demo_file_options_def)

lemma demo_file_config: "current_config demo_qt (MainWindow_new demo_file_options) w = Inr local_config"
  by (simp add: current_config_def makeAuthorizationConfig_def demo_file_new)
    (simp add: demo_qt_def kKeySize_def local_config_def default_local_config_def)

theorem issued_license_opens_window_witness:
  "\<exists>mw' w'. authorizeFromFile sample_openssl demo_lf sample_fs sample_files demo_qt
       (MainWindow_new demo_file_options) 0 = Some (mw', w') \<and> mw_captureButton mw' \<and> \<not> mw_exportButton mw'"
proof -
  obtain machine where m: "machineIdentity sample_openssl sample_fs local_config = Inr machine"
    using demo_machine by blast
  have "length sample_package \<le> kMaxLicenseSize"
    "qt_trimmed demo_qt (mw_keyIdEdit (MainWindow_new demo_file_options)) = ld_key_id demo_definition"
    "qt_readFile demo_qt (mw_keyPathEdit (MainWindow_new demo_file_options)) 0 = Some (replicate 32 5)"
    "qt_trimmed demo_qt (mw_licensePathEdit (MainWindow_new demo_file_options)) \<noteq> []"
    "Local_readLicense sample_files (qt_trimmed demo_qt (mw_licensePathEdit (MainWindow_new demo_file_options))) 0
       = Some (Inr sample_package, 0)"
    by (simp_all add: demo_file_new demo_qt_def demo_read sample_definition_def)
      (simp add: sample_package_def kMaxLicenseSize_def)
  note here = this
  from issued_license_opens_window [OF demo_codec sample_ed25519_pair demo_issue here(1) demo_file_config
      here(2-5) m]
  show ?thesis
    by (auto simp: demo_file_new usable_def sample_definition_def) (simp_all add: demo_qt_def sample_files_def)
qed

end
