(* ===== verification/Resources.thy ===== *)
theory Resources
  imports Prelude
begin

text \<open>
  Accounts of the objects that a piece of code allocates through a C library: per kind of object, how
  many more were allocated than freed.  A leak and a second free both change the account.
\<close>

type_synonym ('o, 'w) counted = "('o \<Rightarrow> int) \<times> 'w"

definition acquire :: "'o \<Rightarrow> ('o, 'w) counted \<Rightarrow> ('o, 'w) counted" where
  "acquire obj st = ((fst st)(obj := fst st obj + 1), snd st)"

definition release :: "'o \<Rightarrow> ('o, 'w) counted \<Rightarrow> ('o, 'w) counted" where
  "release obj st = ((fst st)(obj := fst st obj - 1), snd st)"

text \<open>A null pointer may be freed.\<close>

definition release_if :: "bool \<Rightarrow> 'o \<Rightarrow> ('o, 'w) counted \<Rightarrow> ('o, 'w) counted" where
  "release_if allocated obj st = (if allocated then release obj st else st)"

lemma counted_simps [simp]:
  "fst (acquire obj st) = (fst st)(obj := fst st obj + 1)"
  "fst (release obj st) = (fst st)(obj := fst st obj - 1)"
  "fst (release_if b obj st) = (if b then (fst st)(obj := fst st obj - 1) else fst st)"
  by (simp_all add: acquire_def release_def release_if_def)

text \<open>A call that tells by its result whether it allocated an object.\<close>

definition acquire_by :: "('w \<Rightarrow> bool \<times> 'w) \<Rightarrow> 'o \<Rightarrow> ('o, 'w) counted \<Rightarrow> bool \<times> ('o, 'w) counted" where
  "acquire_by alloc obj st =
     (case alloc (snd st) of (ok, w) \<Rightarrow> (ok, if ok then acquire obj (fst st, w) else (fst st, w)))"

lemma acquire_by_live: "acquire_by alloc obj st = (ok, st') \<Longrightarrow>
    fst st' = (if ok then (fst st)(obj := fst st obj + 1) else fst st)"
  by (auto simp: acquire_by_def split: prod.splits if_splits)

text \<open>A call that changes the library's state only.\<close>

definition call_on :: "('w \<Rightarrow> 'a \<times> 'w) \<Rightarrow> ('o, 'w) counted \<Rightarrow> 'a \<times> ('o, 'w) counted" where
  "call_on f st = (case f (snd st) of (r, w) \<Rightarrow> (r, (fst st, w)))"

lemma call_on_live: "call_on f st = (r, st') \<Longrightarrow> fst st' = fst st"
  by (auto simp: call_on_def split: prod.splits)

section \<open>C strings\<close>

text \<open>What a C function sees of a \<^verbatim>\<open>std::string\<close> passed as \<^verbatim>\<open>c_str()\<close>.\<close>

definition c_string :: "string \<Rightarrow> string" where
  "c_string s = takeWhile (\<lambda>c. c \<noteq> CHR 0x00) s"

lemma c_string_free [simp]: "CHR 0x00 \<notin> set s \<Longrightarrow> c_string s = s"
  by (auto simp: c_string_def takeWhile_eq_all_conv)

lemma c_string_cut: "CHR 0x00 \<notin> set a \<Longrightarrow> c_string (a @ CHR 0x00 # b) = a"
  by (subst c_string_def, subst takeWhile_append2) auto

end
