(* ===== verification/Utils.thy ===== *)
theory Utils
  imports Resources "HOL-Library.AList" "HOL-Library.Signed_Division"
begin

text \<open>
  The general utilities, \<^verbatim>\<open>src/src/ya_utils/yautils.cpp\<close>: the program's name and directory, named
  timers, and the wrappers around OpenSSL's ciphers, digests and keys.

  OpenSSL is a parameter.  The objects the wrappers allocate and free are counted: \<open>live\<close> holds, per
  kind of object, how many more were allocated than freed, so a leak and a second free are both
  visible.  Reading past the end of a key, or writing past the end of a buffer, is \<open>None\<close>.
\<close>

section \<open>Program name and directory\<close>

text \<open>\<^verbatim>\<open>std::filesystem::path::filename\<close> of a generic path: what follows the last slash.\<close>

definition path_filename :: "string \<Rightarrow> string" where
  "path_filename p = rev (takeWhile (\<lambda>c. c \<noteq> CHR ''/'') (rev p))"

definition Exe_GetExeDir :: "string \<Rightarrow> string" where
  "Exe_GetExeDir current_path = map (\<lambda>c. if c = CHR 0x5C then CHR ''/'' else c) current_path"

text \<open>The new value of \<^verbatim>\<open>m_exe_name\<close>; with no argument the path is built from a null pointer.\<close>

definition Exe_ProcessArgs :: "string list \<Rightarrow> string option" where
  "Exe_ProcessArgs argv = (case argv of [] \<Rightarrow> None | arg # _ \<Rightarrow> Some (path_filename arg))"

definition Exe_GetExePath :: "string \<Rightarrow> string \<Rightarrow> string" where
  "Exe_GetExePath current_path exe_name = Exe_GetExeDir current_path @ ''/'' @ exe_name"

section \<open>Timers\<close>

text \<open>Time points of the steady clock are whole nanoseconds.\<close>

type_synonym timers = "(string \<times> int) list"

definition Timer_StartTimer :: "string \<Rightarrow> int \<Rightarrow> timers \<Rightarrow> timers" where
  "Timer_StartTimer timer_id now timers = AList.update timer_id now timers"

text \<open>\<^verbatim>\<open>duration_cast\<close> truncates towards zero.\<close>

definition Timer_GetElapsedTime_us :: "string \<Rightarrow> int \<Rightarrow> timers \<Rightarrow> int" where
  "Timer_GetElapsedTime_us timer_id now timers =
     (case map_of timers timer_id of
        None \<Rightarrow> 0
      | Some started \<Rightarrow> (now - started) sdiv 1000)"

section \<open>OpenSSL\<close>

datatype evp_object = Cipher_Ctx | Md_Ctx | Pkey_Ctx | Pkey | Bio

datatype EVP_CIPHER = EVP_aes_256_cbc | EVP_des_cbc
datatype EVP_MD = EVP_md5 | EVP_sha256
datatype EVP_ALG = EVP_PKEY_RSA | EVP_PKEY_DSA

text \<open>
  The calls, over the state \<open>'h\<close> of a context, keys \<open>'k\<close>, \<^verbatim>\<open>BIO\<close>s \<open>'b\<close> and the state \<open>'w\<close> of the library.
  \<open>evp_alloc\<close> says whether an allocation succeeds.  A call that reports failure by zero or a null
  pointer is \<open>None\<close>; where the code distinguishes zero from a negative result the result is an integer.
  The length argument of the cipher calls is the \<^verbatim>\<open>int\<close> the code passes.
\<close>

record ('h, 'k, 'b, 'w) evp =
  evp_alloc :: "evp_object \<Rightarrow> 'w \<Rightarrow> bool \<times> 'w"
  evp_key_length :: "EVP_CIPHER \<Rightarrow> nat"
  evp_iv_length :: "EVP_CIPHER \<Rightarrow> nat"
  evp_block_size :: "EVP_CIPHER \<Rightarrow> nat"
  evp_EncryptInit :: "EVP_CIPHER \<Rightarrow> bytes \<Rightarrow> bytes \<Rightarrow> 'h option"
  evp_EncryptUpdate :: "'h \<Rightarrow> bytes \<Rightarrow> int \<Rightarrow> ('h \<times> bytes) option"
  evp_EncryptFinal :: "'h \<Rightarrow> bytes option"
  evp_DecryptInit :: "EVP_CIPHER \<Rightarrow> bytes \<Rightarrow> bytes \<Rightarrow> 'h option"
  evp_DecryptUpdate :: "'h \<Rightarrow> bytes \<Rightarrow> int \<Rightarrow> ('h \<times> bytes) option"
  evp_DecryptFinal :: "'h \<Rightarrow> bytes option"
  evp_MD_size :: "EVP_MD \<Rightarrow> nat"
  evp_DigestInit :: "EVP_MD \<Rightarrow> 'h option"
  evp_DigestUpdate :: "'h \<Rightarrow> bytes \<Rightarrow> 'h option"
  evp_DigestFinal :: "'h \<Rightarrow> bytes option"
  evp_keygen_init :: "EVP_ALG \<Rightarrow> int"
  evp_set_bits :: "EVP_ALG \<Rightarrow> nat \<Rightarrow> int"
  evp_keygen :: "EVP_ALG \<Rightarrow> 'w \<Rightarrow> 'k option \<times> 'w"
  evp_mem_bio :: "'b"
  evp_mem_buf :: "bytes \<Rightarrow> 'b"
  evp_BIO_read :: "'b \<Rightarrow> nat \<Rightarrow> bytes \<times> 'b"
  evp_write_PUBKEY :: "'b \<Rightarrow> 'k \<Rightarrow> 'b option"
  evp_write_PrivateKey :: "'b \<Rightarrow> 'k \<Rightarrow> 'b option"
  evp_read_PUBKEY :: "'b \<Rightarrow> 'k option"
  evp_read_PrivateKey :: "'b \<Rightarrow> 'k option"
  evp_encrypt_init :: "'k \<Rightarrow> int"
  evp_encrypt :: "'k \<Rightarrow> bytes \<Rightarrow> 'w \<Rightarrow> bytes option \<times> 'w"
  evp_encrypt_length :: "'k \<Rightarrow> bytes \<Rightarrow> nat option"
  evp_decrypt_init :: "'k \<Rightarrow> int"
  evp_decrypt :: "'k \<Rightarrow> bytes \<Rightarrow> bytes option"
  evp_decrypt_length :: "'k \<Rightarrow> bytes \<Rightarrow> nat option"
  evp_SignInit :: "'k \<Rightarrow> int \<times> 'h"
  evp_SignUpdate :: "'h \<Rightarrow> bytes \<Rightarrow> int \<times> 'h"
  evp_SignFinal_length :: "'h \<Rightarrow> int \<times> nat"
  evp_SignFinal :: "'h \<Rightarrow> 'w \<Rightarrow> (int \<times> bytes) \<times> 'w"
  evp_VerifyInit :: "'k \<Rightarrow> int \<times> 'h"
  evp_VerifyUpdate :: "'h \<Rightarrow> bytes \<Rightarrow> int \<times> 'h"
  evp_VerifyFinal :: "'h \<Rightarrow> bytes \<Rightarrow> int"

definition evp_new ::
  "('h, 'k, 'b, 'w) evp \<Rightarrow> evp_object \<Rightarrow> (evp_object, 'w) counted \<Rightarrow> bool \<times> (evp_object, 'w) counted" where
  "evp_new evp obj st = acquire_by (evp_alloc evp obj) obj st"

text \<open>A \<^verbatim>\<open>size_t\<close> passed where an \<^verbatim>\<open>int\<close> is expected.\<close>

definition narrow :: "nat \<Rightarrow> int" where
  "narrow n = sint (of_nat n :: 32 word)"

section \<open>Ciphers and digests\<close>

text \<open>
  The result is the returned flag and the output parameter afterwards.  The output of the two calls
  goes to a buffer of \<open>room\<close> bytes, the second behind the first.
\<close>

definition Cipher_Encrypt ::
  "('h, 'k, 'b, 'w) evp \<Rightarrow> bytes \<Rightarrow> bytes \<Rightarrow> bytes \<Rightarrow> bytes \<Rightarrow> EVP_CIPHER \<Rightarrow> (evp_object, 'w) counted \<Rightarrow>
     ((bool \<times> bytes) \<times> (evp_object, 'w) counted) option" where
  "Cipher_Encrypt evp plaintext ciphertext key iv cipher st =
     (case evp_new evp Cipher_Ctx st of
        (False, st) \<Rightarrow> Some ((False, ciphertext), st)
      | (True, st) \<Rightarrow>
          if length key < evp_key_length evp cipher \<or> length iv < evp_iv_length evp cipher then None
          else (case evp_EncryptInit evp cipher (take (evp_key_length evp cipher) key)
                       (take (evp_iv_length evp cipher) iv) of
                  None \<Rightarrow> Some ((False, ciphertext), release Cipher_Ctx st)
                | Some ctx \<Rightarrow>
                    let room = length plaintext + evp_block_size evp cipher in
                    (case evp_EncryptUpdate evp ctx plaintext (narrow (length plaintext)) of
                       None \<Rightarrow> Some ((False, ciphertext), release Cipher_Ctx st)
                     | Some (ctx, out) \<Rightarrow>
                         if length out > room then None
                         else (case evp_EncryptFinal evp ctx of
                                 None \<Rightarrow> Some ((False, ciphertext), release Cipher_Ctx st)
                               | Some rest \<Rightarrow>
                                   if length out + length rest > room then None
                                   else Some ((True, out @ rest), release Cipher_Ctx st)))))"

definition Cipher_Decrypt ::
  "('h, 'k, 'b, 'w) evp \<Rightarrow> bytes \<Rightarrow> bytes \<Rightarrow> bytes \<Rightarrow> bytes \<Rightarrow> EVP_CIPHER \<Rightarrow> (evp_object, 'w) counted \<Rightarrow>
     ((bool \<times> bytes) \<times> (evp_object, 'w) counted) option" where
  "Cipher_Decrypt evp ciphertext plaintext key iv cipher st =
     (case evp_new evp Cipher_Ctx st of
        (False, st) \<Rightarrow> Some ((False, plaintext), st)
      | (True, st) \<Rightarrow>
          if length key < evp_key_length evp cipher \<or> length iv < evp_iv_length evp cipher then None
          else (case evp_DecryptInit evp cipher (take (evp_key_length evp cipher) key)
                       (take (evp_iv_length evp cipher) iv) of
                  None \<Rightarrow> Some ((False, plaintext), release Cipher_Ctx st)
                | Some ctx \<Rightarrow>
                    let room = length ciphertext in
                    (case evp_DecryptUpdate evp ctx ciphertext (narrow (length ciphertext)) of
                       None \<Rightarrow> Some ((False, plaintext), release Cipher_Ctx st)
                     | Some (ctx, out) \<Rightarrow>
                         if length out > room then None
                         else (case evp_DecryptFinal evp ctx of
                                 None \<Rightarrow> Some ((False, plaintext), release Cipher_Ctx st)
                               | Some rest \<Rightarrow>
                                   if length out + length rest > room then None
                                   else Some ((True, out @ rest), release Cipher_Ctx st)))))"

text \<open>The digest parameter is resized before the last call and again after it.\<close>

definition Digest_Hash ::
  "('h, 'k, 'b, 'w) evp \<Rightarrow> bytes \<Rightarrow> bytes \<Rightarrow> EVP_MD \<Rightarrow> (evp_object, 'w) counted \<Rightarrow>
     ((bool \<times> bytes) \<times> (evp_object, 'w) counted) option" where
  "Digest_Hash evp data digest md st =
     (case evp_new evp Md_Ctx st of
        (False, st) \<Rightarrow> Some ((False, digest), st)
      | (True, st) \<Rightarrow>
          (case evp_DigestInit evp md of
             None \<Rightarrow> Some ((False, digest), release Md_Ctx st)
           | Some ctx \<Rightarrow>
               (case evp_DigestUpdate evp ctx data of
                  None \<Rightarrow> Some ((False, digest), release Md_Ctx st)
                | Some ctx \<Rightarrow>
                    let digest = take (evp_MD_size evp md) digest @
                          replicate (evp_MD_size evp md - length digest) 0 in
                    (case evp_DigestFinal evp ctx of
                       None \<Rightarrow> Some ((False, digest), release Md_Ctx st)
                     | Some out \<Rightarrow>
                         if length out > length digest then None
                         else Some ((True, out), release Md_Ctx st)))))"


section \<open>Key pairs\<close>

text \<open>
  \<^verbatim>\<open>while ((len = BIO_read(bio, tmp, sizeof(tmp))) > 0)\<close>: an empty read stands for a result that is not
  positive.
\<close>

partial_function (option) Read_BIO :: "('h, 'k, 'b, 'w) evp \<Rightarrow> 'b \<Rightarrow> bytes \<Rightarrow> bytes option" where
  "Read_BIO evp bio buf =
     (case evp_BIO_read evp bio 256 of
        (tmp, bio) \<Rightarrow> if tmp = [] then Some buf else Read_BIO evp bio (buf @ tmp))"

text \<open>
  The two generators differ in the algorithm only.  The output parameters are unchanged on failure; a
  failed key generation leaves no key.
\<close>

definition Generate_KeyPair ::
  "('h, 'k, 'b, 'w) evp \<Rightarrow> EVP_ALG \<Rightarrow> bytes \<Rightarrow> bytes \<Rightarrow> (evp_object, 'w) counted \<Rightarrow>
     ((bool \<times> bytes \<times> bytes) \<times> (evp_object, 'w) counted) option" where
  "Generate_KeyPair evp alg pub pri st =
     (case evp_new evp Pkey_Ctx st of
        (False, st) \<Rightarrow> Some ((False, pub, pri), st)
      | (True, st) \<Rightarrow>
          if evp_keygen_init evp alg \<le> 0 \<or> evp_set_bits evp alg 2048 \<le> 0
          then Some ((False, pub, pri), release Pkey_Ctx st)
          else (case evp_keygen evp alg (snd st) of
                  (None, w) \<Rightarrow> Some ((False, pub, pri), release Pkey_Ctx (fst st, w))
                | (Some pkey, w) \<Rightarrow>
                    let st = acquire Pkey (fst st, w) in
                    (case evp_new evp Bio st of
                       (pub_ok, st) \<Rightarrow>
                         (case evp_new evp Bio st of
                            (pri_ok, st) \<Rightarrow>
                              let cleanup = (\<lambda>st. release_if pri_ok Bio (release_if pub_ok Bio
                                               (release Pkey_Ctx (release Pkey st)))) in
                              if \<not> pub_ok \<or> \<not> pri_ok then Some ((False, pub, pri), cleanup st)
                              else (case evp_write_PUBKEY evp (evp_mem_bio evp) pkey of
                                      None \<Rightarrow> Some ((False, pub, pri), cleanup st)
                                    | Some pub_bio \<Rightarrow>
                                        (case evp_write_PrivateKey evp (evp_mem_bio evp) pkey of
                                           None \<Rightarrow> Some ((False, pub, pri), cleanup st)
                                         | Some pri_bio \<Rightarrow>
                                             (case (Read_BIO evp pub_bio [], Read_BIO evp pri_bio []) of
                                                (Some pub, Some pri) \<Rightarrow> Some ((True, pub, pri), cleanup st)
                                              | _ \<Rightarrow> None)))))))"

section \<open>Encryption and signatures under a key\<close>

text \<open>
  A key in memory: the \<^verbatim>\<open>BIO\<close> over the buffer and the key read from it.  Reading a key from a null
  \<^verbatim>\<open>BIO\<close> gives none.
\<close>

definition load_key ::
  "('h, 'k, 'b, 'w) evp \<Rightarrow> ('b \<Rightarrow> 'k option) \<Rightarrow> bytes \<Rightarrow> (evp_object, 'w) counted \<Rightarrow> bool \<times> 'k option \<times> (evp_object, 'w) counted" where
  "load_key evp read_key pem st =
     (case evp_new evp Bio st of
        (bio_ok, st) \<Rightarrow>
          (case (if bio_ok then read_key (evp_mem_buf evp pem) else None) of
             None \<Rightarrow> (bio_ok, None, st)
           | Some key \<Rightarrow> (bio_ok, Some key, acquire Pkey st)))"

definition RSA_Encrypt ::
  "('h, 'k, 'b, 'w) evp \<Rightarrow> bytes \<Rightarrow> bytes \<Rightarrow> (evp_object, 'w) counted \<Rightarrow> (bytes option \<times> (evp_object, 'w) counted) option" where
  "RSA_Encrypt evp pub plaintext st =
     (case load_key evp (evp_read_PUBKEY evp) pub st of
        (bio_ok, None, st) \<Rightarrow> Some (None, release_if bio_ok Bio st)
      | (bio_ok, Some key, st) \<Rightarrow>
          (case evp_new evp Pkey_Ctx st of
             (ctx_ok, st) \<Rightarrow>
               if \<not> ctx_ok \<or> evp_encrypt_init evp key \<le> 0
               then Some (None, release_if bio_ok Bio (release Pkey st))
               else
                 let cleanup = (\<lambda>st. release_if bio_ok Bio (release Pkey (release Pkey_Ctx st))) in
                 (case evp_encrypt_length evp key plaintext of
                    None \<Rightarrow> Some (None, cleanup st)
                  | Some outlen \<Rightarrow>
                      (case evp_encrypt evp key plaintext (snd st) of
                         (None, w) \<Rightarrow> Some (None, cleanup (fst st, w))
                       | (Some ciphertext, w) \<Rightarrow>
                           if length ciphertext > outlen then None
                           else Some (Some ciphertext, cleanup (fst st, w))))))"

definition RSA_Decrypt ::
  "('h, 'k, 'b, 'w) evp \<Rightarrow> bytes \<Rightarrow> bytes \<Rightarrow> (evp_object, 'w) counted \<Rightarrow> (bytes option \<times> (evp_object, 'w) counted) option" where
  "RSA_Decrypt evp pri ciphertext st =
     (case load_key evp (evp_read_PrivateKey evp) pri st of
        (bio_ok, None, st) \<Rightarrow> Some (None, release_if bio_ok Bio st)
      | (bio_ok, Some key, st) \<Rightarrow>
          (case evp_new evp Pkey_Ctx st of
             (ctx_ok, st) \<Rightarrow>
               if \<not> ctx_ok \<or> evp_decrypt_init evp key \<le> 0
               then Some (None, release_if bio_ok Bio (release Pkey st))
               else
                 let cleanup = (\<lambda>st. release_if bio_ok Bio (release Pkey (release Pkey_Ctx st))) in
                 (case evp_decrypt_length evp key ciphertext of
                    None \<Rightarrow> Some (None, cleanup st)
                  | Some outlen \<Rightarrow>
                      (case evp_decrypt evp key ciphertext of
                         None \<Rightarrow> Some (None, cleanup st)
                       | Some plaintext \<Rightarrow>
                           if length plaintext > outlen then None
                           else Some (Some plaintext, cleanup st)))))"

text \<open>A result of a signing call counts as a failure only when it is zero.\<close>

definition DSA_Sign ::
  "('h, 'k, 'b, 'w) evp \<Rightarrow> bytes \<Rightarrow> bytes \<Rightarrow> (evp_object, 'w) counted \<Rightarrow> (bytes option \<times> (evp_object, 'w) counted) option" where
  "DSA_Sign evp pri data st =
     (case load_key evp (evp_read_PrivateKey evp) pri st of
        (bio_ok, None, st) \<Rightarrow> Some (None, release_if bio_ok Bio st)
      | (bio_ok, Some key, st) \<Rightarrow>
          (case evp_new evp Md_Ctx st of
             (ctx_ok, st) \<Rightarrow>
               let cleanup = (\<lambda>st. release_if bio_ok Bio (release Pkey (release_if ctx_ok Md_Ctx st))) in
               (case evp_SignInit evp key of
                  (init, ctx) \<Rightarrow>
                    if \<not> ctx_ok \<or> init = 0 then Some (None, cleanup st)
                    else (case evp_SignUpdate evp ctx data of
                            (update, ctx) \<Rightarrow>
                              if update = 0 then Some (None, cleanup st)
                              else (case evp_SignFinal_length evp ctx of
                                      (sized, sig_len) \<Rightarrow>
                                        if sized = 0 then Some (None, cleanup st)
                                        else (case evp_SignFinal evp ctx (snd st) of
                                                ((final, signature), w) \<Rightarrow>
                                                  if final = 0 then Some (None, cleanup (fst st, w))
                                                  else if length signature > sig_len then None
                                                  else Some (Some signature, cleanup (fst st, w))))))))"

definition DSA_Verify ::
  "('h, 'k, 'b, 'w) evp \<Rightarrow> bytes \<Rightarrow> bytes \<Rightarrow> bytes \<Rightarrow> (evp_object, 'w) counted \<Rightarrow> bool \<times> (evp_object, 'w) counted" where
  "DSA_Verify evp pub data signature st =
     (case load_key evp (evp_read_PUBKEY evp) pub st of
        (bio_ok, None, st) \<Rightarrow> (False, release_if bio_ok Bio st)
      | (bio_ok, Some key, st) \<Rightarrow>
          (case evp_new evp Md_Ctx st of
             (ctx_ok, st) \<Rightarrow>
               let cleanup = (\<lambda>st. release_if bio_ok Bio (release Pkey (release_if ctx_ok Md_Ctx st))) in
               (case evp_VerifyInit evp key of
                  (init, ctx) \<Rightarrow>
                    if \<not> ctx_ok \<or> init = 0 then (False, cleanup st)
                    else (case evp_VerifyUpdate evp ctx data of
                            (update, ctx) \<Rightarrow>
                              if update = 0 then (False, cleanup st)
                              else (evp_VerifyFinal evp ctx signature = 1, cleanup st)))))"

section \<open>The operations of the class\<close>

definition Crypto_AES_Encrypt where
  "Crypto_AES_Encrypt evp plaintext key iv ciphertext =
     Cipher_Encrypt evp plaintext ciphertext key iv EVP_aes_256_cbc"

definition Crypto_AES_Decrypt where
  "Crypto_AES_Decrypt evp ciphertext key iv plaintext =
     Cipher_Decrypt evp ciphertext plaintext key iv EVP_aes_256_cbc"

definition Crypto_DES_Encrypt where
  "Crypto_DES_Encrypt evp plaintext key iv ciphertext =
     Cipher_Encrypt evp plaintext ciphertext key iv EVP_des_cbc"

definition Crypto_DES_Decrypt where
  "Crypto_DES_Decrypt evp ciphertext key iv plaintext =
     Cipher_Decrypt evp ciphertext plaintext key iv EVP_des_cbc"

definition Crypto_MD5_Hash where
  "Crypto_MD5_Hash evp data digest = Digest_Hash evp data digest EVP_md5"

definition Crypto_SHA256_Hash where
  "Crypto_SHA256_Hash evp data digest = Digest_Hash evp data digest EVP_sha256"

definition Crypto_Generate_RSA_Key where
  "Crypto_Generate_RSA_Key evp = Generate_KeyPair evp EVP_PKEY_RSA"

definition Crypto_Generate_DSA_Key where
  "Crypto_Generate_DSA_Key evp = Generate_KeyPair evp EVP_PKEY_DSA"

section \<open>Names and timers\<close>

lemma path_filename_join: "CHR ''/'' \<notin> set name \<Longrightarrow> path_filename (dir @ ''/'' @ name) = name"
  by (subst path_filename_def, simp, subst takeWhile_append2) auto

lemma elapsed_after_start:
  assumes "0 \<le> d"
  shows "Timer_GetElapsedTime_us t (started + d) (Timer_StartTimer t started timers) = d div 1000"
    "t' \<noteq> t \<Longrightarrow> Timer_GetElapsedTime_us t' now (Timer_StartTimer t started timers)
       = Timer_GetElapsedTime_us t' now timers"
  using assms
  by (simp_all add: Timer_GetElapsedTime_us_def Timer_StartTimer_def update_conv' signed_divide_int_def
      sgn_if)

section \<open>Released objects\<close>

lemma evp_new_live: "evp_new evp obj st = (ok, st') \<Longrightarrow>
    fst st' = (if ok then (fst st)(obj := fst st obj + 1) else fst st)"
  by (simp add: evp_new_def acquire_by_live)

lemma load_key_live: "load_key evp read_key pem st = (bio_ok, key, st') \<Longrightarrow>
    fst st' = (let l = (if bio_ok then (fst st)(Bio := fst st Bio + 1) else fst st)
               in if key = None then l else l(Pkey := l Pkey + 1))"
  by (auto simp: load_key_def Let_def split: prod.splits option.splits dest!: evp_new_live)

lemmas live_rules = evp_new_live load_key_live

lemma Cipher_Encrypt_live: "Cipher_Encrypt evp a b key iv cipher st = Some (r, st') \<Longrightarrow> fst st' = fst st"
  by (auto simp: Cipher_Encrypt_def Let_def split: prod.splits bool.splits option.splits if_splits dest!: live_rules)

lemma Cipher_Decrypt_live: "Cipher_Decrypt evp a b key iv cipher st = Some (r, st') \<Longrightarrow> fst st' = fst st"
  by (auto simp: Cipher_Decrypt_def Let_def split: prod.splits bool.splits option.splits if_splits dest!: live_rules)

lemma Digest_Hash_live: "Digest_Hash evp a b md st = Some (r, st') \<Longrightarrow> fst st' = fst st"
  by (auto simp: Digest_Hash_def Let_def split: prod.splits bool.splits option.splits if_splits dest!: live_rules)

lemma Generate_KeyPair_live: "Generate_KeyPair evp alg pub pri st = Some (r, st') \<Longrightarrow> fst st' = fst st"
  by (auto simp: Generate_KeyPair_def Let_def split: prod.splits bool.splits option.splits if_splits
      dest!: live_rules)

lemma DSA_Sign_live: "DSA_Sign evp pri data st = Some (r, st') \<Longrightarrow> fst st' = fst st"
  by (auto simp: DSA_Sign_def Let_def fun_upd_twist split: prod.splits bool.splits option.splits if_splits dest!: live_rules)

lemma DSA_Verify_live: "DSA_Verify evp pub data sig st = (r, st') \<Longrightarrow> fst st' = fst st"
  by (auto simp: DSA_Verify_def Let_def fun_upd_twist split: prod.splits bool.splits option.splits if_splits dest!: live_rules)

lemma RSA_Encrypt_live:
  "RSA_Encrypt evp pub plaintext st = Some (r, st') \<Longrightarrow>
     fst st' = fst st \<or> r = None \<and> fst st' = (fst st)(Pkey_Ctx := fst st Pkey_Ctx + 1) \<and>
       (\<exists>key. evp_read_PUBKEY evp (evp_mem_buf evp pub) = Some key \<and> evp_encrypt_init evp key \<le> 0)"
  by (auto simp: RSA_Encrypt_def Let_def load_key_def fun_upd_twist split: prod.splits bool.splits option.splits if_splits dest!: live_rules)

lemma RSA_Decrypt_live:
  "RSA_Decrypt evp pri ciphertext st = Some (r, st') \<Longrightarrow>
     fst st' = fst st \<or> r = None \<and> fst st' = (fst st)(Pkey_Ctx := fst st Pkey_Ctx + 1) \<and>
       (\<exists>key. evp_read_PrivateKey evp (evp_mem_buf evp pri) = Some key \<and> evp_decrypt_init evp key \<le> 0)"
  by (auto simp: RSA_Decrypt_def Let_def load_key_def fun_upd_twist split: prod.splits bool.splits option.splits if_splits dest!: live_rules)

text \<open>
  The wrappers release what they allocate: whatever OpenSSL answers, a call that returns leaves the
  number of live contexts, keys and \<^verbatim>\<open>BIO\<close>s as it was, with one exception: encrypting or decrypting
  under an RSA key whose context OpenSSL refuses to initialise keeps that context.
\<close>

lemma wrappers_release_objects:
  "(\<forall>r st'. Cipher_Encrypt evp a b key iv cipher st = Some (r, st') \<longrightarrow> fst st' = fst st) \<and>
   (\<forall>r st'. Cipher_Decrypt evp a b key iv cipher st = Some (r, st') \<longrightarrow> fst st' = fst st) \<and>
   (\<forall>r st'. Digest_Hash evp a b md st = Some (r, st') \<longrightarrow> fst st' = fst st) \<and>
   (\<forall>r st'. Generate_KeyPair evp alg a b st = Some (r, st') \<longrightarrow> fst st' = fst st) \<and>
   (\<forall>r st'. DSA_Sign evp key a st = Some (r, st') \<longrightarrow> fst st' = fst st) \<and>
   fst (snd (DSA_Verify evp key a b st)) = fst st \<and>
   (\<forall>r st'. RSA_Encrypt evp key a st = Some (r, st') \<longrightarrow>
      fst st' = fst st \<or> r = None \<and> fst st' = (fst st)(Pkey_Ctx := fst st Pkey_Ctx + 1) \<and>
        (\<exists>k. evp_read_PUBKEY evp (evp_mem_buf evp key) = Some k \<and> evp_encrypt_init evp k \<le> 0)) \<and>
   (\<forall>r st'. RSA_Decrypt evp key a st = Some (r, st') \<longrightarrow>
      fst st' = fst st \<or> r = None \<and> fst st' = (fst st)(Pkey_Ctx := fst st Pkey_Ctx + 1) \<and>
        (\<exists>k. evp_read_PrivateKey evp (evp_mem_buf evp key) = Some k \<and> evp_decrypt_init evp k \<le> 0))"
  by (intro conjI allI impI)
    (erule Cipher_Encrypt_live Cipher_Decrypt_live Digest_Hash_live Generate_KeyPair_live DSA_Sign_live
        RSA_Encrypt_live RSA_Decrypt_live | rule DSA_Verify_live [OF prod.collapse [symmetric]])+

text \<open>The context that stays behind.\<close>

lemma RSA_Encrypt_leaks:
  assumes "evp_alloc evp Bio w = (True, w1)" "evp_read_PUBKEY evp (evp_mem_buf evp pub) = Some key"
    and "evp_alloc evp Pkey_Ctx w1 = (True, w2)" "evp_encrypt_init evp key \<le> 0"
  shows "\<exists>st'. RSA_Encrypt evp pub plaintext (live, w) = Some (None, st') \<and>
    fst st' Pkey_Ctx = live Pkey_Ctx + 1"
  using assms by (simp add: RSA_Encrypt_def load_key_def evp_new_def acquire_by_def acquire_def release_def release_if_def)

section \<open>Ciphers\<close>

text \<open>
  What OpenSSL documents of a cipher in CBC mode with padding: with a key and an initialisation vector
  of its sizes, at most \<^verbatim>\<open>INT_MAX\<close> octets are encrypted into at most a block more, and decrypting the
  result with the same key and vector gives them back; decrypting writes no more than it reads.
\<close>

definition cipher_correct :: "('h, 'k, 'b, 'w) evp \<Rightarrow> EVP_CIPHER \<Rightarrow> bool" where
  "cipher_correct evp cipher \<longleftrightarrow>
     (\<forall>key iv data. length key = evp_key_length evp cipher \<longrightarrow> length iv = evp_iv_length evp cipher \<longrightarrow>
        length data + evp_block_size evp cipher < 2 ^ 31 \<longrightarrow>
        (\<exists>h h' c c' g g' p p'.
           evp_EncryptInit evp cipher key iv = Some h \<and>
           evp_EncryptUpdate evp h data (int (length data)) = Some (h', c) \<and>
           evp_EncryptFinal evp h' = Some c' \<and>
           length c + length c' \<le> length data + evp_block_size evp cipher \<and>
           evp_DecryptInit evp cipher key iv = Some g \<and>
           evp_DecryptUpdate evp g (c @ c') (int (length c + length c')) = Some (g', p) \<and>
           evp_DecryptFinal evp g' = Some p' \<and> p @ p' = data \<and>
           length data \<le> length c + length c'))"

lemma narrow_small: "n < 2 ^ 31 \<Longrightarrow> narrow n = int n"
  by (simp add: narrow_def sint_uint uint_nat unat_of_nat signed_take_bit_int_eq_self take_bit_nat_eq_self)

text \<open>
  C29.  What is encrypted is decrypted: with a key and a vector of at least the cipher's sizes, a
  plaintext below 2 GiB and contexts to be had, encryption succeeds, writes inside its buffer, and
  decryption with the same key and vector returns exactly the plaintext.
\<close>

theorem cipher_round_trip:
  assumes law: "cipher_correct evp cipher"
    and lengths: "evp_key_length evp cipher \<le> length key" "evp_iv_length evp cipher \<le> length iv"
      "length plaintext + evp_block_size evp cipher < 2 ^ 31"
    and alloc: "\<And>w. fst (evp_alloc evp Cipher_Ctx w)"
  shows "\<exists>ciphertext st' st''.
    Cipher_Encrypt evp plaintext old key iv cipher st = Some ((True, ciphertext), st') \<and>
    length ciphertext \<le> length plaintext + evp_block_size evp cipher \<and>
    Cipher_Decrypt evp ciphertext old' key iv cipher st' = Some ((True, plaintext), st'') \<and>
    fst st'' = fst st"
proof -
  let ?k = "take (evp_key_length evp cipher) key" and ?v = "take (evp_iv_length evp cipher) iv"
  from law [unfolded cipher_correct_def, rule_format, of ?k ?v plaintext] lengths
  obtain h h' c c' g g' p p' where
    e: "evp_EncryptInit evp cipher ?k ?v = Some h"
       "evp_EncryptUpdate evp h plaintext (int (length plaintext)) = Some (h', c)"
       "evp_EncryptFinal evp h' = Some c'" "length c + length c' \<le> length plaintext + evp_block_size evp cipher"
    and d: "evp_DecryptInit evp cipher ?k ?v = Some g"
       "evp_DecryptUpdate evp g (c @ c') (int (length c + length c')) = Some (g', p)"
       "evp_DecryptFinal evp g' = Some p'" "p @ p' = plaintext" "length plaintext \<le> length c + length c'"
    by auto
  have new: "\<exists>s'. evp_new evp Cipher_Ctx s = (True, s')" for s
    using alloc [of "snd s"] by (auto simp: evp_new_def acquire_by_def split: prod.split)
  obtain st1 where s1: "evp_new evp Cipher_Ctx st = (True, st1)" using new by blast
  obtain st2 where s2: "evp_new evp Cipher_Ctx (release Cipher_Ctx st1) = (True, st2)" using new by blast
  have n: "narrow (length plaintext) = int (length plaintext)"
      "narrow (length (c @ c')) = int (length c + length c')"
    using lengths(3) e(4) by (simp_all add: narrow_small)
  have E: "Cipher_Encrypt evp plaintext old key iv cipher st = Some ((True, c @ c'), release Cipher_Ctx st1)"
    using s1 e n(1) lengths(1,2) by (simp add: Cipher_Encrypt_def)
  have "length p + length p' = length plaintext" using d(4) by auto
  then have D: "Cipher_Decrypt evp (c @ c') old' key iv cipher (release Cipher_Ctx st1)
      = Some ((True, plaintext), release Cipher_Ctx st2)"
    using s2 d n(2) lengths(1,2) by (simp add: Cipher_Decrypt_def)
  show ?thesis
    by (rule exI [of _ "c @ c'"], rule exI [of _ "release Cipher_Ctx st1"],
        rule exI [of _ "release Cipher_Ctx st2"])
      (use E D e(4) Cipher_Encrypt_live [OF E] Cipher_Decrypt_live [OF D] in simp)
qed

text \<open>
  The length is passed as an \<^verbatim>\<open>int\<close>: of a plaintext of 4 GiB and \<open>n\<close> octets only \<open>n\<close> are announced.
\<close>

lemma narrow_wraps: "n < 2 ^ 31 \<Longrightarrow> narrow (2 ^ 32 + n) = int n"
proof -
  assume n: "n < 2 ^ 31"
  have "(of_nat (2 ^ 32 + n) :: 32 word) = of_nat n"
    by (simp only: word_unat_eq_iff unat_of_nat take_bit_eq_mod) simp
  with narrow_small [OF n] show ?thesis by (simp only: narrow_def)
qed

text \<open>A key that is too short is read past its end.\<close>

lemma short_key_overreads:
  "evp_alloc evp Cipher_Ctx w = (True, w') \<Longrightarrow> length key < evp_key_length evp cipher \<Longrightarrow>
     Cipher_Encrypt evp plaintext out key iv cipher (live, w) = None"
  by (simp add: Cipher_Encrypt_def evp_new_def acquire_by_def)

section \<open>Reading back a key\<close>

text \<open>A memory \<^verbatim>\<open>BIO\<close> returns what was written to it, in order, and then nothing.\<close>

definition memory_bio :: "('h, 'k, 'b, 'w) evp \<Rightarrow> ('b \<Rightarrow> bytes) \<Rightarrow> bool" where
  "memory_bio evp content \<longleftrightarrow>
     (\<forall>b n. fst (evp_BIO_read evp b n) = take n (content b) \<and>
            content (snd (evp_BIO_read evp b n)) = drop n (content b))"

lemma Read_BIO_content:
  assumes "memory_bio evp content"
  shows "Read_BIO evp bio buf = Some (buf @ content bio)"
proof (induction "length (content bio)" arbitrary: bio buf rule: less_induct)
  case less
  obtain tmp bio' where r: "evp_BIO_read evp bio 256 = (tmp, bio')" by fastforce
  with assms have c: "tmp = take 256 (content bio)" "content bio' = drop 256 (content bio)"
    by (auto simp: memory_bio_def dest!: spec [of _ bio] spec [of _ 256])
  show ?case
  proof (cases "content bio = []")
    case True
    with c r show ?thesis by (subst Read_BIO.simps) simp
  next
    case False
    with c have "length (content bio') < length (content bio)" by simp
    from less [OF this, of "buf @ tmp"] False c r show ?thesis by (subst Read_BIO.simps) simp
  qed
qed

end
