(* ===== verification/Messaging.thy ===== *)
theory Messaging
  imports Resources Digits
begin

text \<open>
  The message-passing modules of \<^verbatim>\<open>src/src/ya_communicate/module\<close>: bus, pipeline, publisher and
  subscriber, survey, requester and responder.  The nng library is a parameter; a call returns its
  code, zero for success.  The model keeps beside the library's state which sockets are open and how
  many messages were allocated and neither freed nor handed to the library.  A thrown exception is
  \<open>Inl\<close> with its text.  What is printed is left out.
\<close>

section \<open>The library\<close>

datatype nng_protocol = Proto_Bus0 | Proto_Push0 | Proto_Pull0 | Proto_Pub0 | Proto_Sub0 | Proto_Surveyor0
  | Proto_Respondent0 | Proto_Req0 | Proto_Rep0

datatype nng_option = NNG_OPT_RECVTIMEO | NNG_OPT_SURVEYOR_SURVEYTIME

abbreviation (input) NNG_ETIMEDOUT :: int where "NNG_ETIMEDOUT \<equiv> 5"

text \<open>
  \<open>ng_dialer_of\<close> and \<open>ng_listener_of\<close> are the dialer and listener that the last \<^verbatim>\<open>nng_dial\<close> and
  \<^verbatim>\<open>nng_listen\<close> on a socket wrote to their out parameter; \<open>ng_send\<close> and \<open>ng_recv\<close> are the calls on raw
  buffers with \<^verbatim>\<open>NNG_FLAG_ALLOC\<close>.
\<close>

record 'w nng_lib =
  ng_open :: "nng_protocol \<Rightarrow> 'w \<Rightarrow> (int \<times> nat) \<times> 'w"
  ng_set_ms :: "nat \<Rightarrow> nng_option \<Rightarrow> int \<Rightarrow> 'w \<Rightarrow> int \<times> 'w"
  ng_subscribe :: "nat \<Rightarrow> string \<Rightarrow> 'w \<Rightarrow> int \<times> 'w"
  ng_listen :: "nat \<Rightarrow> string \<Rightarrow> 'w \<Rightarrow> int \<times> 'w"
  ng_dial :: "nat \<Rightarrow> string \<Rightarrow> 'w \<Rightarrow> int \<times> 'w"
  ng_dialer_of :: "nat \<Rightarrow> 'w \<Rightarrow> nat"
  ng_listener_of :: "nat \<Rightarrow> 'w \<Rightarrow> nat"
  ng_dialer_close :: "nat \<Rightarrow> 'w \<Rightarrow> 'w"
  ng_listener_close :: "nat \<Rightarrow> 'w \<Rightarrow> 'w"
  ng_close :: "nat \<Rightarrow> 'w \<Rightarrow> 'w"
  ng_msg_alloc :: "nat \<Rightarrow> 'w \<Rightarrow> int \<times> 'w"
  ng_sendmsg :: "nat \<Rightarrow> string \<Rightarrow> 'w \<Rightarrow> int \<times> 'w"
  ng_recvmsg :: "nat \<Rightarrow> 'w \<Rightarrow> (int \<times> string) \<times> 'w"
  ng_send :: "nat \<Rightarrow> string \<Rightarrow> 'w \<Rightarrow> int \<times> 'w"
  ng_recv :: "nat \<Rightarrow> 'w \<Rightarrow> (int \<times> string) \<times> 'w"
  ng_strerror :: "int \<Rightarrow> string"

record 'w net =
  nt_sockets :: "nat list"
  nt_messages :: int
  nt_world :: 'w

definition net_open :: "'w nng_lib \<Rightarrow> nng_protocol \<Rightarrow> 'w net \<Rightarrow> (int \<times> nat) \<times> 'w net" where
  "net_open ng proto st =
     (case ng_open ng proto (nt_world st) of
        ((rv, s), w) \<Rightarrow>
          ((rv, s), if rv = 0 then st\<lparr>nt_sockets := nt_sockets st @ [s], nt_world := w\<rparr> else st\<lparr>nt_world := w\<rparr>))"

definition net_close :: "'w nng_lib \<Rightarrow> nat \<Rightarrow> 'w net \<Rightarrow> 'w net" where
  "net_close ng s st = st\<lparr>nt_sockets := remove1 s (nt_sockets st), nt_world := ng_close ng s (nt_world st)\<rparr>"

definition net_call :: "('w \<Rightarrow> int \<times> 'w) \<Rightarrow> 'w net \<Rightarrow> int \<times> 'w net" where
  "net_call f st = (case f (nt_world st) of (rv, w) \<Rightarrow> (rv, st\<lparr>nt_world := w\<rparr>))"

section \<open>Addresses\<close>

text \<open>
  \<^verbatim>\<open>std::regex\<close>, as far as the five expressions of the modules go: a class is a list of items in square
  brackets, \<^verbatim>\<open>\w\<close> a letter, a digit or the underscore, \<^verbatim>\<open>\d\<close> a digit; a character outside of brackets is a
  class of its own.  The last two forms are what an expression becomes while it is matched.
\<close>

definition is_word_char :: "char \<Rightarrow> bool" where
  "is_word_char c \<longleftrightarrow>
     (let n = (of_char c :: nat) in 48 \<le> n \<and> n \<le> 57 \<or> 65 \<le> n \<and> n \<le> 90 \<or> 97 \<le> n \<and> n \<le> 122 \<or> n = 95)"

datatype class_item = Item_w | Item_d | Item_char char

datatype regex =
    Re_class "class_item list"
  | Re_seq regex regex
  | Re_alt regex regex
  | Re_plus regex
  | Re_empty
  | Re_fail

fun item_matches :: "char \<Rightarrow> class_item \<Rightarrow> bool" where
  "item_matches c Item_w = is_word_char c"
| "item_matches c Item_d = is_digit c"
| "item_matches c (Item_char d) = (c = d)"

definition Re_text :: "string \<Rightarrow> regex" where
  "Re_text s = foldr (\<lambda>c r. Re_seq (Re_class [Item_char c]) r) s Re_empty"

text \<open>
  \<^verbatim>\<open>std::regex_match\<close> asks whether the whole text matches.  It is computed character by character: what is
  left of an expression after its first character, and whether nothing more is needed.
\<close>

fun nullable :: "regex \<Rightarrow> bool" where
  "nullable (Re_class items) = False"
| "nullable (Re_seq r s) = (nullable r \<and> nullable s)"
| "nullable (Re_alt r s) = (nullable r \<or> nullable s)"
| "nullable (Re_plus r) = nullable r"
| "nullable Re_empty = True"
| "nullable Re_fail = False"

fun regex_after :: "char \<Rightarrow> regex \<Rightarrow> regex" where
  "regex_after c (Re_class items) = (if \<exists>i \<in> set items. item_matches c i then Re_empty else Re_fail)"
| "regex_after c (Re_seq r s) =
     (if nullable r then Re_alt (Re_seq (regex_after c r) s) (regex_after c s) else Re_seq (regex_after c r) s)"
| "regex_after c (Re_alt r s) = Re_alt (regex_after c r) (regex_after c s)"
| "regex_after c (Re_plus r) = Re_seq (regex_after c r) (Re_alt Re_empty (Re_plus r))"
| "regex_after c Re_empty = Re_fail"
| "regex_after c Re_fail = Re_fail"

fun regex_match :: "string \<Rightarrow> regex \<Rightarrow> bool" where
  "regex_match [] r = nullable r"
| "regex_match (c # cs) r = regex_match cs (regex_after c r)"

text \<open>
  The expressions: \<^verbatim>\<open>tcp://[\w\d\.:]+:\d+\<close> of the pipeline and the survey, with \<^verbatim>\<open>|inproc://[\w\d]+\<close> of the
  bus, and with \<^verbatim>\<open>|inproc://[\w\d\.:]+\<close> of the publisher and the subscriber.
\<close>

definition tcp_regex :: regex where
  "tcp_regex = Re_seq (Re_text ''tcp://'')
     (Re_seq (Re_plus (Re_class [Item_w, Item_d, Item_char (CHR ''.''), Item_char (CHR '':'')]))
       (Re_seq (Re_text '':'') (Re_plus (Re_class [Item_d]))))"

definition bus_regex :: regex where
  "bus_regex = Re_alt tcp_regex (Re_seq (Re_text ''inproc://'') (Re_plus (Re_class [Item_w, Item_d])))"

definition pubsub_regex :: regex where
  "pubsub_regex = Re_alt tcp_regex
     (Re_seq (Re_text ''inproc://'')
       (Re_plus (Re_class [Item_w, Item_d, Item_char (CHR ''.''), Item_char (CHR '':'')])))"

section \<open>Sending and receiving a message\<close>

text \<open>
  \<^verbatim>\<open>nng_msg_alloc\<close>, \<^verbatim>\<open>memcpy\<close>, \<^verbatim>\<open>nng_sendmsg\<close>: a message that was sent belongs to the library, one that
  could not be sent is freed.
\<close>

definition send_message ::
  "'w nng_lib \<Rightarrow> string \<Rightarrow> string \<Rightarrow> nat \<Rightarrow> string \<Rightarrow> 'w net \<Rightarrow> (string + unit) \<times> 'w net" where
  "send_message ng alloc_failed send_failed socket text st =
     (case net_call (ng_msg_alloc ng (length text)) st of
        (rv, st) \<Rightarrow>
          if rv \<noteq> 0 then (Inl (alloc_failed @ ng_strerror ng rv), st)
          else
            let st = st\<lparr>nt_messages := nt_messages st + 1\<rparr> in
            (case net_call (ng_sendmsg ng socket text) st of
               (rv, st) \<Rightarrow>
                 let st = st\<lparr>nt_messages := nt_messages st - 1\<rparr> in
                 if rv \<noteq> 0 then (Inl (send_failed @ ng_strerror ng rv), st) else (Inr (), st)))"

text \<open>\<^verbatim>\<open>nng_recvmsg\<close>, and on success the copy of its body and \<^verbatim>\<open>nng_msg_free\<close>.\<close>

definition recv_message :: "'w nng_lib \<Rightarrow> nat \<Rightarrow> 'w net \<Rightarrow> (int + string) \<times> 'w net" where
  "recv_message ng socket st =
     (case ng_recvmsg ng socket (nt_world st) of
        ((rv, body), w) \<Rightarrow>
          let st = st\<lparr>nt_world := w\<rparr> in
          if rv \<noteq> 0 then (Inl rv, st)
          else
            let st = st\<lparr>nt_messages := nt_messages st + 1\<rparr> in
            (Inr body, st\<lparr>nt_messages := nt_messages st - 1\<rparr>))"

text \<open>The loop of \<^verbatim>\<open>receive\<close> in the bus and the subscriber: \<open>n\<close> attempts are left of \<open>max_retries\<close>.\<close>

fun receive_retrying :: "'w nng_lib \<Rightarrow> nat \<Rightarrow> nat \<Rightarrow> 'w net \<Rightarrow> (string + string) \<times> 'w net" where
  "receive_retrying ng socket 0 st = (Inl ''Receive timed out after 5 retries'', st)"
| "receive_retrying ng socket (Suc n) st =
     (case recv_message ng socket st of
        (Inr result, st) \<Rightarrow> (Inr result, st)
      | (Inl rv, st) \<Rightarrow>
          if rv = NNG_ETIMEDOUT then receive_retrying ng socket n st
          else (Inl (''Failed to receive message: '' @ ng_strerror ng rv), st))"

section \<open>Bus\<close>

definition Bus_new :: "'w nng_lib \<Rightarrow> string \<Rightarrow> 'w net \<Rightarrow> (string + nat) \<times> 'w net" where
  "Bus_new ng address st =
     (if \<not> regex_match address bus_regex
      then (Inl (''Invalid address format: '' @ address), st)
      else case net_open ng Proto_Bus0 st of
        ((rv, socket), st) \<Rightarrow>
          if rv \<noteq> 0 then (Inl (''Failed to open bus socket: '' @ ng_strerror ng rv), st)
          else (case net_call (ng_set_ms ng socket NNG_OPT_RECVTIMEO 3000) st of
                  (rv, st) \<Rightarrow>
                    if rv \<noteq> 0 then (Inl (''Failed to set receive timeout: '' @ ng_strerror ng rv),
                                    net_close ng socket st)
                    else (case net_call (ng_listen ng socket address) st of
                            (rv, st) \<Rightarrow>
                              if rv \<noteq> 0
                              then (Inl (''Failed to listen on '' @ address @ '': '' @ ng_strerror ng rv),
                                    net_close ng socket st)
                              else (Inr socket, st))))"

text \<open>\<^verbatim>\<open>~Impl\<close> of every module that keeps a socket.\<close>

definition socket_destroy :: "'w nng_lib \<Rightarrow> nat \<Rightarrow> 'w net \<Rightarrow> 'w net" where
  "socket_destroy ng socket st = (if socket \<noteq> 0 then net_close ng socket st else st)"

definition Bus_send :: "'w nng_lib \<Rightarrow> nat \<Rightarrow> string \<Rightarrow> 'w net \<Rightarrow> (string + unit) \<times> 'w net" where
  "Bus_send ng = send_message ng ''Failed to allocate message: '' ''Failed to send message: ''"

definition Bus_receive :: "'w nng_lib \<Rightarrow> nat \<Rightarrow> 'w net \<Rightarrow> (string + string) \<times> 'w net" where
  "Bus_receive ng socket st = receive_retrying ng socket 5 st"

section \<open>Pipeline\<close>

datatype Pipeline_ROLE = Role_PUSHER | Role_PULLER

definition Pipeline_new ::
  "'w nng_lib \<Rightarrow> Pipeline_ROLE \<Rightarrow> string \<Rightarrow> 'w net \<Rightarrow> (string + Pipeline_ROLE \<times> nat) \<times> 'w net" where
  "Pipeline_new ng role address st =
     (if \<not> regex_match address tcp_regex then (Inl (''Invalid address format: '' @ address), st)
      else if role = Role_PUSHER
      then (case net_open ng Proto_Push0 st of
              ((rv, socket), st) \<Rightarrow>
                if rv \<noteq> 0 then (Inl (''Failed to open push socket: '' @ ng_strerror ng rv), st)
                else (case net_call (ng_dial ng socket address) st of
                        (rv, st) \<Rightarrow>
                          if rv \<noteq> 0 then (Inl (''Failed to dial '' @ address @ '': '' @ ng_strerror ng rv),
                                          net_close ng socket st)
                          else (Inr (role, socket), st)))
      else (case net_open ng Proto_Pull0 st of
              ((rv, socket), st) \<Rightarrow>
                if rv \<noteq> 0 then (Inl (''Failed to open pull socket: '' @ ng_strerror ng rv), st)
                else (case net_call (ng_listen ng socket address) st of
                        (rv, st) \<Rightarrow>
                          if rv \<noteq> 0 then (Inl (''Failed to listen on '' @ address @ '': '' @ ng_strerror ng rv),
                                          net_close ng socket st)
                          else (Inr (role, socket), st))))"

definition Pipeline_send ::
  "'w nng_lib \<Rightarrow> Pipeline_ROLE \<times> nat \<Rightarrow> string \<Rightarrow> 'w net \<Rightarrow> (string + unit) \<times> 'w net" where
  "Pipeline_send ng pipeline message st =
     (if fst pipeline \<noteq> Role_PUSHER then (Inl ''Send operation only allowed for PUSHER role'', st)
      else send_message ng ''Failed to allocate message: '' ''Failed to send message: '' (snd pipeline) message st)"

definition Pipeline_receive ::
  "'w nng_lib \<Rightarrow> Pipeline_ROLE \<times> nat \<Rightarrow> 'w net \<Rightarrow> (string + string) \<times> 'w net" where
  "Pipeline_receive ng pipeline st =
     (if fst pipeline \<noteq> Role_PULLER then (Inl ''Receive operation only allowed for PULLER role'', st)
      else case recv_message ng (snd pipeline) st of
        (Inl rv, st) \<Rightarrow> (Inl (''Failed to receive message: '' @ ng_strerror ng rv), st)
      | (Inr result, st) \<Rightarrow> (Inr result, st))"

section \<open>Publisher and subscriber\<close>

definition Publisher_new :: "'w nng_lib \<Rightarrow> string \<Rightarrow> 'w net \<Rightarrow> (string + nat) \<times> 'w net" where
  "Publisher_new ng address st =
     (if \<not> regex_match address pubsub_regex
      then (Inl (''Invalid address format: '' @ address), st)
      else case net_open ng Proto_Pub0 st of
        ((rv, socket), st) \<Rightarrow>
          if rv \<noteq> 0 then (Inl (''Failed to open publisher socket: '' @ ng_strerror ng rv), st)
          else (case net_call (ng_listen ng socket address) st of
                  (rv, st) \<Rightarrow>
                    if rv \<noteq> 0 then (Inl (''Failed to listen on '' @ address @ '': '' @ ng_strerror ng rv),
                                    net_close ng socket st)
                    else (Inr socket, st)))"

definition full_message :: "string \<Rightarrow> string \<Rightarrow> string" where
  "full_message topic message = (if topic = [] then message else topic @ '':'' @ message)"

definition Publisher_publish ::
  "'w nng_lib \<Rightarrow> nat \<Rightarrow> string \<Rightarrow> string \<Rightarrow> 'w net \<Rightarrow> (string + unit) \<times> 'w net" where
  "Publisher_publish ng socket topic message st =
     send_message ng ''Failed to allocate message: '' ''Failed to publish message: '' socket
       (full_message topic message) st"

definition Subscriber_new :: "'w nng_lib \<Rightarrow> string \<Rightarrow> 'w net \<Rightarrow> (string + nat) \<times> 'w net" where
  "Subscriber_new ng address st =
     (if \<not> regex_match address pubsub_regex
      then (Inl (''Invalid address format: '' @ address), st)
      else case net_open ng Proto_Sub0 st of
        ((rv, socket), st) \<Rightarrow>
          if rv \<noteq> 0 then (Inl (''Failed to open subscriber socket: '' @ ng_strerror ng rv), st)
          else (case net_call (ng_set_ms ng socket NNG_OPT_RECVTIMEO 3000) st of
                  (rv, st) \<Rightarrow>
                    if rv \<noteq> 0 then (Inl (''Failed to set receive timeout: '' @ ng_strerror ng rv),
                                    net_close ng socket st)
                    else (case net_call (ng_dial ng socket address) st of
                            (rv, st) \<Rightarrow>
                              if rv \<noteq> 0
                              then (Inl (''Failed to dial '' @ address @ '': '' @ ng_strerror ng rv),
                                    net_close ng socket st)
                              else (Inr socket, st))))"

text \<open>The topic is passed as a C string.\<close>

definition Subscriber_subscribe :: "'w nng_lib \<Rightarrow> nat \<Rightarrow> string \<Rightarrow> 'w net \<Rightarrow> (string + unit) \<times> 'w net" where
  "Subscriber_subscribe ng socket topic st =
     (case net_call (ng_subscribe ng socket (c_string topic)) st of
        (rv, st) \<Rightarrow>
          if rv \<noteq> 0
          then (Inl (''Failed to subscribe to topic '' @ [CHR 0x27] @ topic @ [CHR 0x27] @ '': '' @ ng_strerror ng rv), st)
          else (Inr (), st))"

definition Subscriber_receive :: "'w nng_lib \<Rightarrow> nat \<Rightarrow> 'w net \<Rightarrow> (string + string) \<times> 'w net" where
  "Subscriber_receive ng socket st = receive_retrying ng socket 5 st"

section \<open>Survey\<close>

datatype Survey_ROLE = Role_INITIATOR | Role_VOTER

definition Survey_new ::
  "'w nng_lib \<Rightarrow> Survey_ROLE \<Rightarrow> string \<Rightarrow> 'w net \<Rightarrow> (string + Survey_ROLE \<times> nat) \<times> 'w net" where
  "Survey_new ng role address st =
     (if \<not> regex_match address tcp_regex then (Inl (''Invalid address format: '' @ address), st)
      else if role = Role_INITIATOR
      then (case net_open ng Proto_Surveyor0 st of
              ((rv, socket), st) \<Rightarrow>
                if rv \<noteq> 0 then (Inl (''Failed to open surveyor socket: '' @ ng_strerror ng rv), st)
                else (case net_call (ng_set_ms ng socket NNG_OPT_SURVEYOR_SURVEYTIME 1000) st of
                        (rv, st) \<Rightarrow>
                          if rv \<noteq> 0 then (Inl (''Failed to set survey deadline: '' @ ng_strerror ng rv),
                                          net_close ng socket st)
                          else (case net_call (ng_listen ng socket address) st of
                                  (rv, st) \<Rightarrow>
                                    if rv \<noteq> 0
                                    then (Inl (''Failed to listen on '' @ address @ '': '' @ ng_strerror ng rv),
                                          net_close ng socket st)
                                    else (Inr (role, socket), st))))
      else (case net_open ng Proto_Respondent0 st of
              ((rv, socket), st) \<Rightarrow>
                if rv \<noteq> 0 then (Inl (''Failed to open respondent socket: '' @ ng_strerror ng rv), st)
                else (case net_call (ng_dial ng socket address) st of
                        (rv, st) \<Rightarrow>
                          if rv \<noteq> 0 then (Inl (''Failed to dial '' @ address @ '': '' @ ng_strerror ng rv),
                                          net_close ng socket st)
                          else (Inr (role, socket), st))))"

definition Survey_send_survey ::
  "'w nng_lib \<Rightarrow> Survey_ROLE \<times> nat \<Rightarrow> string \<Rightarrow> 'w net \<Rightarrow> (string + unit) \<times> 'w net" where
  "Survey_send_survey ng survey text st =
     (if fst survey \<noteq> Role_INITIATOR then (Inl ''Send survey only allowed for INITIATOR role'', st)
      else send_message ng ''Failed to allocate survey message: '' ''Failed to send survey: '' (snd survey) text st)"

text \<open>\<^verbatim>\<open>while (true)\<close>: it ends with the survey's deadline or an error.\<close>

partial_function (option) collect_loop ::
  "'w nng_lib \<Rightarrow> nat \<Rightarrow> string list \<Rightarrow> 'w net \<Rightarrow> ((string + string list) \<times> 'w net) option" where
  "collect_loop ng socket responses st =
     (case recv_message ng socket st of
        (Inr response, st) \<Rightarrow> collect_loop ng socket (responses @ [response]) st
      | (Inl rv, st) \<Rightarrow>
          if rv = NNG_ETIMEDOUT then Some (Inr responses, st)
          else Some (Inl (''Failed to receive response: '' @ ng_strerror ng rv), st))"

definition Survey_collect_responses ::
  "'w nng_lib \<Rightarrow> Survey_ROLE \<times> nat \<Rightarrow> 'w net \<Rightarrow> ((string + string list) \<times> 'w net) option" where
  "Survey_collect_responses ng survey st =
     (if fst survey \<noteq> Role_INITIATOR
      then Some (Inl ''Collect responses only allowed for INITIATOR role'', st)
      else collect_loop ng (snd survey) [] st)"

definition Survey_receive_survey ::
  "'w nng_lib \<Rightarrow> Survey_ROLE \<times> nat \<Rightarrow> 'w net \<Rightarrow> (string + string) \<times> 'w net" where
  "Survey_receive_survey ng survey st =
     (if fst survey \<noteq> Role_VOTER then (Inl ''Receive survey only allowed for VOTER role'', st)
      else case recv_message ng (snd survey) st of
        (Inl rv, st) \<Rightarrow> (Inl (''Failed to receive survey: '' @ ng_strerror ng rv), st)
      | (Inr result, st) \<Rightarrow> (Inr result, st))"

definition Survey_respond ::
  "'w nng_lib \<Rightarrow> Survey_ROLE \<times> nat \<Rightarrow> string \<Rightarrow> 'w net \<Rightarrow> (string + unit) \<times> 'w net" where
  "Survey_respond ng survey response st =
     (if fst survey \<noteq> Role_VOTER then (Inl ''Respond only allowed for VOTER role'', st)
      else send_message ng ''Failed to allocate response message: '' ''Failed to send response: '' (snd survey) response st)"

section \<open>Requester and responder\<close>

text \<open>
  These two send raw buffers that hold the text and its terminator.  \<open>fresh\<close> is what the memory of
  \<^verbatim>\<open>new char[size + 1]\<close> held; \<^verbatim>\<open>strcpy\<close> stops at the first null character.
\<close>

datatype comm_exception = CommException string | length_error

definition strcpy_into :: "string \<Rightarrow> string \<Rightarrow> string" where
  "strcpy_into fresh s = (let copied = c_string s @ [CHR 0x00] in copied @ drop (length copied) fresh)"

text \<open>\<^verbatim>\<open>std::string(buf, sz - 1)\<close>: with \<open>sz = 0\<close> the count wraps and the constructor throws.\<close>

definition string_from_buffer :: "string \<Rightarrow> comm_exception + string" where
  "string_from_buffer buf = (if buf = [] then Inl length_error else Inr (take (length buf - 1) buf))"

record Requester =
  re_socket :: nat
  re_dialer :: nat

definition Requester_new ::
  "'w nng_lib \<Rightarrow> string \<Rightarrow> 'w net \<Rightarrow> (comm_exception + Requester) \<times> 'w net" where
  "Requester_new ng url st =
     (case net_open ng Proto_Req0 st of
        ((rv, s), st) \<Rightarrow>
          if rv \<noteq> 0 then (Inl (CommException (''Failed to open client socket: '' @ ng_strerror ng rv)), st)
          else (case net_call (ng_dial ng s (c_string url)) st of
                  (rv, st) \<Rightarrow>
                    if rv \<noteq> 0
                    then (Inl (CommException (''Failed to dial '' @ url @ '': '' @ ng_strerror ng rv)),
                          net_close ng s st)
                    else (Inr \<lparr>re_socket = s, re_dialer = ng_dialer_of ng s (nt_world st)\<rparr>, st)))"

definition Requester_destroy :: "'w nng_lib \<Rightarrow> Requester \<Rightarrow> 'w net \<Rightarrow> 'w net" where
  "Requester_destroy ng r st =
     net_close ng (re_socket r) (st\<lparr>nt_world := ng_dialer_close ng (re_dialer r) (nt_world st)\<rparr>)"

definition Requester_request ::
  "'w nng_lib \<Rightarrow> Requester \<Rightarrow> string \<Rightarrow> string \<Rightarrow> 'w net \<Rightarrow> (comm_exception + string) \<times> 'w net" where
  "Requester_request ng r fresh msg st =
     (case net_call (ng_send ng (re_socket r) (strcpy_into fresh msg)) st of
        (rv, st) \<Rightarrow>
          if rv \<noteq> 0 then (Inl (CommException (''Failed to send request: '' @ ng_strerror ng rv)), st)
          else (case ng_recv ng (re_socket r) (nt_world st) of
                  ((rv, buf), w) \<Rightarrow>
                    if rv \<noteq> 0 then (Inl (CommException (''Failed to receive reply: '' @ ng_strerror ng rv)),
                                    st\<lparr>nt_world := w\<rparr>)
                    else (string_from_buffer buf, st\<lparr>nt_world := w\<rparr>)))"

record Reponder =
  rp_socket :: nat
  rp_listener :: nat

definition Reponder_new ::
  "'w nng_lib \<Rightarrow> string \<Rightarrow> 'w net \<Rightarrow> (comm_exception + Reponder) \<times> 'w net" where
  "Reponder_new ng url st =
     (case net_open ng Proto_Rep0 st of
        ((rv, s), st) \<Rightarrow>
          if rv \<noteq> 0 then (Inl (CommException (''Failed to open server socket: '' @ ng_strerror ng rv)), st)
          else (case net_call (ng_listen ng s (c_string url)) st of
                  (rv, st) \<Rightarrow>
                    if rv \<noteq> 0
                    then (Inl (CommException (''Failed to listen on '' @ url @ '': '' @ ng_strerror ng rv)),
                          net_close ng s st)
                    else (Inr \<lparr>rp_socket = s, rp_listener = ng_listener_of ng s (nt_world st)\<rparr>, st)))"

definition Reponder_destroy :: "'w nng_lib \<Rightarrow> Reponder \<Rightarrow> 'w net \<Rightarrow> 'w net" where
  "Reponder_destroy ng r st =
     net_close ng (rp_socket r) (st\<lparr>nt_world := ng_listener_close ng (rp_listener r) (nt_world st)\<rparr>)"

definition Reponder_receive ::
  "'w nng_lib \<Rightarrow> Reponder \<Rightarrow> 'w net \<Rightarrow> (comm_exception + string) \<times> 'w net" where
  "Reponder_receive ng r st =
     (case ng_recv ng (rp_socket r) (nt_world st) of
        ((rv, buf), w) \<Rightarrow>
          if rv \<noteq> 0 then (Inl (CommException (''Failed to receive: '' @ ng_strerror ng rv)), st\<lparr>nt_world := w\<rparr>)
          else (string_from_buffer buf, st\<lparr>nt_world := w\<rparr>))"

definition Reponder_send ::
  "'w nng_lib \<Rightarrow> Reponder \<Rightarrow> string \<Rightarrow> string \<Rightarrow> 'w net \<Rightarrow> (comm_exception + unit) \<times> 'w net" where
  "Reponder_send ng r fresh msg st =
     (case net_call (ng_send ng (rp_socket r) (strcpy_into fresh msg)) st of
        (rv, st) \<Rightarrow>
          if rv \<noteq> 0 then (Inl (CommException (''Failed to send: '' @ ng_strerror ng rv)), st) else (Inr (), st))"

section \<open>The language of an expression\<close>

inductive in_plus :: "(string \<Rightarrow> bool) \<Rightarrow> string \<Rightarrow> bool" for P where
  plus_one: "P s \<Longrightarrow> in_plus P s"
| plus_more: "P s \<Longrightarrow> in_plus P t \<Longrightarrow> in_plus P (s @ t)"

fun in_lang :: "regex \<Rightarrow> string \<Rightarrow> bool" where
  "in_lang (Re_class items) s = (\<exists>c. s = [c] \<and> (\<exists>i \<in> set items. item_matches c i))"
| "in_lang (Re_seq r q) s = (\<exists>u v. s = u @ v \<and> in_lang r u \<and> in_lang q v)"
| "in_lang (Re_alt r q) s = (in_lang r s \<or> in_lang q s)"
| "in_lang (Re_plus r) s = in_plus (in_lang r) s"
| "in_lang Re_empty s = (s = [])"
| "in_lang Re_fail s = False"

lemma in_plus_Nil: "in_plus P [] \<longleftrightarrow> P []"
proof
  have "s = [] \<Longrightarrow> P []" if "in_plus P s" for s using that by induction auto
  then show "in_plus P [] \<Longrightarrow> P []" by blast
qed (rule plus_one)

lemma nullable_iff: "nullable r \<longleftrightarrow> in_lang r []"
  by (induction r) (auto simp: in_plus_Nil)

lemma in_plus_Cons:
  "in_plus P (c # cs) \<longleftrightarrow> (\<exists>u v. cs = u @ v \<and> P (c # u) \<and> (v = [] \<or> in_plus P v))"
proof
  have "s = c # cs \<Longrightarrow> \<exists>u v. cs = u @ v \<and> P (c # u) \<and> (v = [] \<or> in_plus P v)" if "in_plus P s" for s
    using that
  proof (induction arbitrary: cs)
    case (plus_one s)
    then show ?case by (intro exI [of _ cs] exI [of _ "[]"]) simp
  next
    case (plus_more s t)
    show ?case
    proof (cases s)
      case Nil
      with plus_more show ?thesis by auto
    next
      case (Cons d u)
      with plus_more show ?thesis by (intro exI [of _ u] exI [of _ t]) auto
    qed
  qed
  then show "in_plus P (c # cs) \<Longrightarrow> \<exists>u v. cs = u @ v \<and> P (c # u) \<and> (v = [] \<or> in_plus P v)" by blast
next
  assume "\<exists>u v. cs = u @ v \<and> P (c # u) \<and> (v = [] \<or> in_plus P v)"
  then show "in_plus P (c # cs)" using plus_one plus_more [of P "c # _"] by fastforce
qed

lemma seq_Cons:
  "(\<exists>u v. c # cs = u @ v \<and> P u \<and> Q v) \<longleftrightarrow> (\<exists>u v. cs = u @ v \<and> P (c # u) \<and> Q v) \<or> P [] \<and> Q (c # cs)"
  by (auto simp: Cons_eq_append_conv)

lemma after_iff: "in_lang (regex_after c r) cs \<longleftrightarrow> in_lang r (c # cs)"
proof (induction r arbitrary: cs)
  case (Re_seq r q)
  then show ?case by (auto simp: nullable_iff seq_Cons)
next
  case (Re_plus r)
  then show ?case by (simp add: in_plus_Cons)
qed auto

lemma regex_match_iff: "regex_match s r \<longleftrightarrow> in_lang r s"
  by (induction s arbitrary: r) (simp_all add: nullable_iff after_iff)

lemma in_lang_text [simp]: "in_lang (Re_text p) s \<longleftrightarrow> s = p"
  by (induction p arbitrary: s) (auto simp: Re_text_def)

lemma in_plus_class:
  "in_plus (in_lang (Re_class items)) s \<longleftrightarrow> s \<noteq> [] \<and> (\<forall>c \<in> set s. \<exists>i \<in> set items. item_matches c i)"
proof (induction s)
  case (Cons c cs)
  then show ?case by (auto simp: in_plus_Cons)
qed (simp add: in_plus_Nil)

text \<open>
  The addresses in words: \<^verbatim>\<open>tcp://\<close>, a host, a colon and a port, or \<^verbatim>\<open>inproc://\<close> and a name, none of them
  empty.
\<close>

definition tcp_address :: "string \<Rightarrow> bool" where
  "tcp_address address \<longleftrightarrow>
     (\<exists>host port. address = ''tcp://'' @ host @ '':'' @ port \<and> host \<noteq> [] \<and> port \<noteq> [] \<and>
        (\<forall>c \<in> set host. is_word_char c \<or> c = CHR ''.'' \<or> c = CHR '':'') \<and> (\<forall>c \<in> set port. is_digit c))"

definition inproc_address :: "(char \<Rightarrow> bool) \<Rightarrow> string \<Rightarrow> bool" where
  "inproc_address name_char address \<longleftrightarrow>
     (\<exists>name. address = ''inproc://'' @ name \<and> name \<noteq> [] \<and> (\<forall>c \<in> set name. name_char c))"

lemma word_or_digit [simp]:
  "is_word_char c \<or> is_digit c \<longleftrightarrow> is_word_char c"
  "is_word_char c \<or> is_digit c \<or> P \<longleftrightarrow> is_word_char c \<or> P"
  by (auto simp: is_digit_def is_word_char_def Let_def)

lemma tcp_match: "regex_match address tcp_regex \<longleftrightarrow> tcp_address address"
  unfolding regex_match_iff tcp_regex_def tcp_address_def by (auto simp: in_plus_class)

lemma inproc_match:
  "in_lang (Re_seq (Re_text ''inproc://'') (Re_plus (Re_class items))) address \<longleftrightarrow>
     inproc_address (\<lambda>c. \<exists>i \<in> set items. item_matches c i) address"
  unfolding inproc_address_def by (auto simp: in_plus_class)

lemma bus_match: "regex_match address bus_regex \<longleftrightarrow> tcp_address address \<or> inproc_address is_word_char address"
  using tcp_match [of address] inproc_match [of "[Item_w, Item_d]" address]
  unfolding regex_match_iff bus_regex_def by simp

lemma pubsub_match:
  "regex_match address pubsub_regex \<longleftrightarrow>
     tcp_address address \<or> inproc_address (\<lambda>c. is_word_char c \<or> c = CHR ''.'' \<or> c = CHR '':'') address"
  using tcp_match [of address] inproc_match [of "[Item_w, Item_d, Item_char (CHR ''.''), Item_char (CHR '':'')]" address]
  unfolding regex_match_iff pubsub_regex_def by simp

text \<open>No other exception of a constructor reads like the one of the check.\<close>

lemma invalid_iff:
  "Bus_new ng address st = (Inl (''Invalid address format: '' @ address), st) \<longleftrightarrow> \<not> regex_match address bus_regex"
  "Pipeline_new ng role address st = (Inl (''Invalid address format: '' @ address), st) \<longleftrightarrow> \<not> regex_match address tcp_regex"
  "Publisher_new ng address st = (Inl (''Invalid address format: '' @ address), st) \<longleftrightarrow> \<not> regex_match address pubsub_regex"
  "Subscriber_new ng address st = (Inl (''Invalid address format: '' @ address), st) \<longleftrightarrow> \<not> regex_match address pubsub_regex"
  "Survey_new ng srole address st = (Inl (''Invalid address format: '' @ address), st) \<longleftrightarrow> \<not> regex_match address tcp_regex"
  by (simp_all add: Bus_new_def Pipeline_new_def Publisher_new_def Subscriber_new_def Survey_new_def split: prod.split)

text \<open>
  C38.  The constructors check their addresses: the bus, the pipeline, the publisher, the subscriber and the
  survey throw "Invalid address format", without a call of the library, exactly for the addresses outside of
  the language their regular expression describes.  All five take \<^verbatim>\<open>tcp://host:port\<close>; the bus takes also
  \<^verbatim>\<open>inproc://name\<close> with a name of letters, digits and underscores, the publisher and the subscriber with
  dots and colons in it too.
\<close>

theorem constructors_check_addresses:
  "(Bus_new ng address st = (Inl (''Invalid address format: '' @ address), st) \<longleftrightarrow> \<not> (tcp_address address \<or> inproc_address is_word_char address)) \<and>
    (Pipeline_new ng role address st = (Inl (''Invalid address format: '' @ address), st) \<longleftrightarrow> \<not> tcp_address address) \<and>
    (Publisher_new ng address st = (Inl (''Invalid address format: '' @ address), st) \<longleftrightarrow>
       \<not> (tcp_address address \<or> inproc_address (\<lambda>c. is_word_char c \<or> c = CHR ''.'' \<or> c = CHR '':'') address)) \<and>
    (Subscriber_new ng address st = (Inl (''Invalid address format: '' @ address), st) \<longleftrightarrow>
       \<not> (tcp_address address \<or> inproc_address (\<lambda>c. is_word_char c \<or> c = CHR ''.'' \<or> c = CHR '':'') address)) \<and>
    (Survey_new ng srole address st = (Inl (''Invalid address format: '' @ address), st) \<longleftrightarrow> \<not> tcp_address address)"
  unfolding invalid_iff tcp_match bus_match pubsub_match by blast

section \<open>Sockets and messages\<close>

lemma send_message_keeps:
  "send_message ng a b socket text st = (r, st') \<Longrightarrow>
     nt_sockets st' = nt_sockets st \<and> nt_messages st' = nt_messages st"
  by (auto simp: send_message_def net_call_def Let_def split: prod.splits if_splits)

lemma recv_message_keeps:
  "recv_message ng socket st = (r, st') \<Longrightarrow>
     nt_sockets st' = nt_sockets st \<and> nt_messages st' = nt_messages st"
  by (auto simp: recv_message_def Let_def split: prod.splits if_splits)

lemma receive_retrying_keeps:
  "receive_retrying ng socket n st = (r, st') \<Longrightarrow>
     nt_sockets st' = nt_sockets st \<and> nt_messages st' = nt_messages st"
  by (induction n arbitrary: st) (auto split: prod.splits sum.splits if_splits dest!: recv_message_keeps)

text \<open>
  What a constructor leaves behind: on failure the sockets that were open before, on success one more,
  which the destructor takes away again, whatever sockets were opened since.
\<close>

definition balanced ::
  "('a \<Rightarrow> 'w net \<Rightarrow> 'w net) \<Rightarrow> ('a \<Rightarrow> nat) \<Rightarrow> 'w net \<Rightarrow> ('e + 'a) \<times> 'w net \<Rightarrow> bool" where
  "balanced destroy socket_of st result \<longleftrightarrow>
     (case result of
        (Inl _, st') \<Rightarrow> nt_sockets st' = nt_sockets st \<and> nt_messages st' = nt_messages st
      | (Inr obj, st') \<Rightarrow>
          nt_sockets st' = nt_sockets st @ [socket_of obj] \<and> nt_messages st' = nt_messages st \<and>
          (\<forall>later opened_since. nt_sockets later = nt_sockets st' @ opened_since \<longrightarrow>
             nt_sockets (destroy obj later) = nt_sockets st @ opened_since \<and>
             nt_messages (destroy obj later) = nt_messages later))"

definition fresh_sockets :: "'w nng_lib \<Rightarrow> 'w net \<Rightarrow> bool" where
  "fresh_sockets ng st \<longleftrightarrow>
     (\<forall>proto s w'. ng_open ng proto (nt_world st) = ((0, s), w') \<longrightarrow> s \<noteq> 0 \<and> s \<notin> set (nt_sockets st))"

lemma net_call_keeps: "net_call f st = (rv, st') \<Longrightarrow>
    nt_sockets st' = nt_sockets st \<and> nt_messages st' = nt_messages st"
  by (auto simp: net_call_def split: prod.splits)

text \<open>
  The constructors.  Each is a guard on the address, an \<^verbatim>\<open>open\<close>, and calls that only move the library's
  state, a failed one followed by closing the socket.
\<close>

lemma opened:
  assumes "fresh_sockets ng st" "net_open ng proto st = ((0, s), st1)"
  shows "nt_sockets st1 = nt_sockets st @ [s] \<and> s \<noteq> 0 \<and> s \<notin> set (nt_sockets st) \<and>
    nt_messages st1 = nt_messages st"
  using assms by (auto simp: net_open_def fresh_sockets_def split: prod.splits if_splits)

lemma not_opened:
  "net_open ng proto st = ((rv, s), st1) \<Longrightarrow> rv \<noteq> 0 \<Longrightarrow>
     nt_sockets st1 = nt_sockets st \<and> nt_messages st1 = nt_messages st"
  by (auto simp: net_open_def split: prod.splits if_splits)

lemma net_close_simps [simp]:
  "nt_sockets (net_close ng s st) = remove1 s (nt_sockets st)"
  "nt_messages (net_close ng s st) = nt_messages st"
  by (simp_all add: net_close_def)

text \<open>
  The contract of a module that owns a socket: construction with some arguments adds one fresh socket or
  fails and adds none, and the destructor closes the socket of its object.
\<close>

locale socket_module =
  fixes construct :: "'w nng_lib \<Rightarrow> 'c \<Rightarrow> 'w net \<Rightarrow> ('e + 'a) \<times> 'w net"
    and destroy :: "'w nng_lib \<Rightarrow> 'a \<Rightarrow> 'w net \<Rightarrow> 'w net"
    and socket_of :: "'a \<Rightarrow> nat"
  assumes construct_opens: "fresh_sockets ng st \<Longrightarrow> construct ng args st = (Inr obj, st') \<Longrightarrow>
      nt_sockets st' = nt_sockets st @ [socket_of obj] \<and> socket_of obj \<noteq> 0 \<and>
      socket_of obj \<notin> set (nt_sockets st) \<and> nt_messages st' = nt_messages st"
    and construct_fails: "fresh_sockets ng st \<Longrightarrow> construct ng args st = (Inl e, st') \<Longrightarrow>
      nt_sockets st' = nt_sockets st \<and> nt_messages st' = nt_messages st"
    and destroy_closes: "socket_of obj \<noteq> 0 \<Longrightarrow>
      nt_sockets (destroy ng obj st) = remove1 (socket_of obj) (nt_sockets st) \<and>
      nt_messages (destroy ng obj st) = nt_messages st"
begin

lemma lifetime:
  assumes "fresh_sockets ng st"
  shows "balanced (destroy ng) socket_of st (construct ng args st)"
proof (cases "construct ng args st")
  case (Pair r st')
  show ?thesis
  proof (cases r)
    case (Inl e)
    with Pair construct_fails [OF assms, of args e st'] show ?thesis by (simp add: balanced_def)
  next
    case (Inr obj)
    with Pair construct_opens [OF assms, of args obj st'] show ?thesis
      by (simp add: balanced_def destroy_closes remove1_append)
  qed
qed

end

lemmas constructor_splits = prod.splits if_splits

lemma open_result:
  "net_open ng proto st = ((rv, s), st1) \<Longrightarrow> fresh_sockets ng st \<Longrightarrow> nt_messages st1 = nt_messages st \<and>
     (if rv = 0 then nt_sockets st1 = nt_sockets st @ [s] \<and> s \<noteq> 0 \<and> s \<notin> set (nt_sockets st)
      else nt_sockets st1 = nt_sockets st)"
  using opened [of ng st proto s st1] not_opened [of ng proto st rv s st1] by auto

lemmas constructor_dests = net_call_keeps open_result

lemma socket_destroy_closes:
  "s \<noteq> 0 \<Longrightarrow> nt_sockets (socket_destroy ng s st) = remove1 s (nt_sockets st) \<and>
     nt_messages (socket_destroy ng s st) = nt_messages st"
  by (simp add: socket_destroy_def)

interpretation bus: socket_module Bus_new socket_destroy "\<lambda>s. s"
  by unfold_locales
    (auto simp: Bus_new_def remove1_append socket_destroy_closes split: constructor_splits dest!: constructor_dests)

interpretation publisher: socket_module Publisher_new socket_destroy "\<lambda>s. s"
  by unfold_locales
    (auto simp: Publisher_new_def remove1_append socket_destroy_closes split: constructor_splits
      dest!: constructor_dests)

interpretation subscriber: socket_module Subscriber_new socket_destroy "\<lambda>s. s"
  by unfold_locales
    (auto simp: Subscriber_new_def remove1_append socket_destroy_closes split: constructor_splits
      dest!: constructor_dests)

interpretation pipeline: socket_module
  "\<lambda>ng (role, address). Pipeline_new ng role address" "\<lambda>ng p. socket_destroy ng (snd p)" snd
  by unfold_locales
    (auto simp: Pipeline_new_def remove1_append socket_destroy_closes split: constructor_splits
      dest!: constructor_dests)

interpretation survey: socket_module
  "\<lambda>ng (role, address). Survey_new ng role address" "\<lambda>ng p. socket_destroy ng (snd p)" snd
  by unfold_locales
    (auto simp: Survey_new_def remove1_append socket_destroy_closes split: constructor_splits
      dest!: constructor_dests)

interpretation requester: socket_module Requester_new Requester_destroy re_socket
  by unfold_locales
    (auto simp: Requester_new_def Requester_destroy_def remove1_append split: constructor_splits
      dest!: constructor_dests)

interpretation responder: socket_module Reponder_new Reponder_destroy rp_socket
  by unfold_locales
    (auto simp: Reponder_new_def Reponder_destroy_def remove1_append split: constructor_splits
      dest!: constructor_dests)

text \<open>
  C37.  The modules close what they open: where the library hands out socket numbers that are not in
  use, a constructor that throws leaves the open sockets as they were, one that returns adds exactly
  its own, and destroying the object, whatever was opened since, removes exactly that one; no message
  allocated on the way stays unreleased.
\<close>

theorem modules_close_what_they_open:
  assumes "fresh_sockets ng st"
  shows "balanced (socket_destroy ng) (\<lambda>s. s) st (Bus_new ng address st) \<and>
    balanced (\<lambda>p. socket_destroy ng (snd p)) snd st (Pipeline_new ng prole address st) \<and>
    balanced (socket_destroy ng) (\<lambda>s. s) st (Publisher_new ng address st) \<and>
    balanced (socket_destroy ng) (\<lambda>s. s) st (Subscriber_new ng address st) \<and>
    balanced (\<lambda>p. socket_destroy ng (snd p)) snd st (Survey_new ng srole address st) \<and>
    balanced (Requester_destroy ng) re_socket st (Requester_new ng address st) \<and>
    balanced (Reponder_destroy ng) rp_socket st (Reponder_new ng address st)"
  using bus.lifetime [OF assms] publisher.lifetime [OF assms] subscriber.lifetime [OF assms]
    pipeline.lifetime [OF assms, of "(prole, address)"] survey.lifetime [OF assms, of "(srole, address)"]
    requester.lifetime [OF assms] responder.lifetime [OF assms]
  by simp

section \<open>What is delivered\<close>

text \<open>
  A text sent with \<^verbatim>\<open>request\<close> or as a reply is received as it was sent, if it holds no null
  character.  Otherwise only what precedes the first one is the text: the rest of what is received is
  what the fresh buffer held before.
\<close>

lemma request_text_delivered:
  assumes "length fresh = length msg + 1"
  shows "(CHR 0x00 \<notin> set msg \<longrightarrow> string_from_buffer (strcpy_into fresh msg) = Inr msg) \<and>
    (\<forall>a b. msg = a @ CHR 0x00 # b \<longrightarrow> CHR 0x00 \<notin> set a \<longrightarrow>
       string_from_buffer (strcpy_into fresh msg)
         = Inr (a @ CHR 0x00 # take (length b) (drop (length a + 1) fresh)))"
  using assms by (auto simp: strcpy_into_def string_from_buffer_def Let_def c_string_cut)

text \<open>The peer reads what the wire carries; an empty buffer ends in an exception of another type.\<close>

lemma empty_reply_throws_length_error:
  "ng_recv ng (rp_socket r) (nt_world st) = ((0, []), w) \<Longrightarrow> fst (Reponder_receive ng r st) = Inl length_error"
  by (simp add: Reponder_receive_def string_from_buffer_def)

text \<open>A published text starts with its topic, so the prefix filter of a subscription to it passes it.\<close>

lemma full_message_topic: "take (length topic) (full_message topic message) = topic"
  by (simp add: full_message_def)

text \<open>The responses a socket yields before the survey's deadline.\<close>

primrec yields :: "'w nng_lib \<Rightarrow> nat \<Rightarrow> string list \<Rightarrow> 'w net \<Rightarrow> 'w net \<Rightarrow> bool" where
  "yields ng socket [] st st' \<longleftrightarrow> recv_message ng socket st = (Inl NNG_ETIMEDOUT, st')"
| "yields ng socket (r # rs) st st' \<longleftrightarrow>
     (\<exists>st1. recv_message ng socket st = (Inr r, st1) \<and> yields ng socket rs st1 st')"

lemma collect_loop_yields:
  "yields ng socket rs st st' \<Longrightarrow> collect_loop ng socket acc st = Some (Inr (acc @ rs), st')"
proof (induction rs arbitrary: acc st)
  case Nil
  then show ?case by (subst collect_loop.simps) simp
next
  case (Cons r rs)
  then obtain st1 where "recv_message ng socket st = (Inr r, st1)" "yields ng socket rs st1 st'" by auto
  with Cons.IH [of st1 "acc @ [r]"] show ?case by (subst collect_loop.simps) simp
qed

lemma survey_collects:
  "fst survey = Role_INITIATOR \<Longrightarrow> yields ng (snd survey) rs st st' \<Longrightarrow>
     Survey_collect_responses ng survey st = Some (Inr rs, st')"
  by (simp add: Survey_collect_responses_def collect_loop_yields)

text \<open>
  A receiver that waits makes at most five attempts: a message that arrives within them is returned,
  and five timeouts are an exception.
\<close>

primrec times_out :: "'w nng_lib \<Rightarrow> nat \<Rightarrow> nat \<Rightarrow> 'w net \<Rightarrow> 'w net \<Rightarrow> bool" where
  "times_out ng socket 0 st st' \<longleftrightarrow> st' = st"
| "times_out ng socket (Suc n) st st' \<longleftrightarrow>
     (\<exists>st1. recv_message ng socket st = (Inl NNG_ETIMEDOUT, st1) \<and> times_out ng socket n st1 st')"

lemma receive_after_timeouts:
  "times_out ng socket k st st' \<Longrightarrow> receive_retrying ng socket (k + n) st = receive_retrying ng socket n st'"
  by (induction k arbitrary: st) auto

lemma bus_receives_within_five:
  "times_out ng socket k st st1 \<Longrightarrow> k < 5 \<Longrightarrow> recv_message ng socket st1 = (Inr m, st2) \<Longrightarrow>
     Bus_receive ng socket st = (Inr m, st2)"
  "times_out ng socket 5 st st1 \<Longrightarrow>
     Bus_receive ng socket st = (Inl ''Receive timed out after 5 retries'', st1)"
  using receive_after_timeouts [of ng socket k st st1 "Suc (4 - k)"]
    receive_after_timeouts [of ng socket 5 st st1 0]
  by (auto simp: Bus_receive_def)

text \<open>
  A bus only listens, so where an address cannot be listened on twice there is never a second node at
  the address of a first one.
\<close>

lemma second_bus_refused:
  assumes "\<And>s w. fst (ng_listen ng s address w) \<noteq> 0"
  shows "\<exists>e st'. Bus_new ng address st = (Inl e, st')"
  using assms by (auto simp: Bus_new_def net_call_def split: prod.splits) (metis fst_conv)+

end
