(* ===== verification/Http.thy ===== *)
theory Http
  imports Resources Digits
begin

text \<open>
  The HTTP module, \<^verbatim>\<open>src/src/ya_communicate/module/http.cpp\<close>, and \<^verbatim>\<open>arch/single.cpp\<close>, which forwards to it.
  The nng library is a parameter; the objects the module allocates are counted.  The constructor leaves
  the pointers without a value, which is \<open>None\<close> here; \<^verbatim>\<open>std::atomic<bool>\<close> is false from the start and the
  two file names are empty.
\<close>

datatype http_object = Http_Url | Http_Server | Http_Handler | Http_Tls

datatype http_path = Path_Status | Path_Nodes

record 'w nng_http =
  nh_url_parse :: "string \<Rightarrow> 'w \<Rightarrow> bool \<times> 'w"
  nh_server_hold :: "'w \<Rightarrow> bool \<times> 'w"
  nh_tls_alloc :: "'w \<Rightarrow> bool \<times> 'w"
  nh_tls_own_cert :: "string \<Rightarrow> string \<Rightarrow> 'w \<Rightarrow> bool \<times> 'w"
  nh_set_tls :: "'w \<Rightarrow> bool \<times> 'w"
  nh_handler_alloc :: "http_path \<Rightarrow> 'w \<Rightarrow> bool \<times> 'w"
  nh_add_handler :: "http_path \<Rightarrow> 'w \<Rightarrow> bool \<times> 'w"
  nh_server_start :: "'w \<Rightarrow> bool \<times> 'w"
  nh_server_stop :: "'w \<Rightarrow> unit \<times> 'w"

record Http =
  ht_server :: "bool option"
  ht_handler_status :: "bool option"
  ht_handler_nodes :: "bool option"
  ht_running :: bool
  ht_cert_file :: string
  ht_key_file :: string

definition Http_new :: Http where
  "Http_new = \<lparr>ht_server = None, ht_handler_status = None, ht_handler_nodes = None, ht_running = False,
     ht_cert_file = [], ht_key_file = []\<rparr>"

section \<open>Requests\<close>

text \<open>What finishing the request hands to the library: an error, or a response.\<close>

datatype http_outcome = Finish_ENOMEM | Finish_Response nat string string

definition handle_nodes_request :: "bool \<Rightarrow> http_outcome" where
  "handle_nodes_request res_alloc =
     (if \<not> res_alloc then Finish_ENOMEM else Finish_Response 200 ''application/json'' ''{}'')"

definition handle_status_request :: "bool \<Rightarrow> http_outcome" where
  "handle_status_request res_alloc =
     (if \<not> res_alloc then Finish_ENOMEM
      else Finish_Response 200 ''application/json''
        (''{'' @ [CHR 0x22] @ ''status'' @ [CHR 0x22] @ '': '' @ [CHR 0x22] @ ''ok'' @ [CHR 0x22] @ ''}''))"

section \<open>Starting and stopping\<close>

text \<open>The block that is entered when both file names are set.\<close>

definition http_configure_tls ::
  "'w nng_http \<Rightarrow> Http \<Rightarrow> (http_object, 'w) counted \<Rightarrow> (string + unit) \<times> (http_object, 'w) counted" where
  "http_configure_tls nh h st =
     (let cleanup = (\<lambda>st. release Http_Url (release Http_Server st)) in
      if ht_cert_file h = [] \<or> ht_key_file h = [] then (Inr (), st)
      else case acquire_by (nh_tls_alloc nh) Http_Tls st of
        (False, st) \<Rightarrow> (Inl ''Failed to allocate TLS config for HTTP'', cleanup st)
      | (True, st) \<Rightarrow>
          (case call_on (nh_tls_own_cert nh (ht_cert_file h) (ht_key_file h)) st of
             (False, st) \<Rightarrow> (Inl ''Failed to load TLS cert for HTTP'', cleanup (release Http_Tls st))
           | (True, st) \<Rightarrow>
               (case call_on (nh_set_tls nh) st of
                  (False, st) \<Rightarrow> (Inl ''Failed to set TLS config for HTTP'', cleanup (release Http_Tls st))
                | (True, st) \<Rightarrow> (Inr (), st))))"

text \<open>
  The exception of a start that fails comes with the object as it is left: each pointer is assigned as soon
  as its object is there, and a failure that frees the object leaves the pointer.
\<close>

definition Http_start ::
  "'w nng_http \<Rightarrow> int \<Rightarrow> Http \<Rightarrow> (http_object, 'w) counted \<Rightarrow>
     (string \<times> Http + Http) \<times> (http_object, 'w) counted" where
  "Http_start nh port h st =
     (if ht_running h then (Inl (''HTTP server is already running'', h), st)
      else
        let addr = ''http://0.0.0.0:'' @ int_digits port in
        case acquire_by (nh_url_parse nh addr) Http_Url st of
          (False, st) \<Rightarrow> (Inl (''Failed to parse HTTP URL: '' @ addr, h), st)
        | (True, st) \<Rightarrow>
            (case acquire_by (nh_server_hold nh) Http_Server st of
               (False, st) \<Rightarrow> (Inl (''Failed to create HTTP server'', h), release Http_Url st)
             | (True, st) \<Rightarrow>
                 let h = h\<lparr>ht_server := Some True\<rparr>;
                     cleanup = (\<lambda>st. release Http_Url (release Http_Server st)) in
                 (case http_configure_tls nh h st of
                    (Inl e, st) \<Rightarrow> (Inl (e, h), st)
                  | (Inr _, st) \<Rightarrow>
                 (case acquire_by (nh_handler_alloc nh Path_Status) Http_Handler st of
                    (False, st) \<Rightarrow> (Inl (''Failed to create HTTP status handler'', h), cleanup st)
                  | (True, st) \<Rightarrow>
                 let h = h\<lparr>ht_handler_status := Some True\<rparr> in
                 (case call_on (nh_add_handler nh Path_Status) st of
                    (False, st) \<Rightarrow> (Inl (''Failed to add HTTP status handler'', h), cleanup (release Http_Handler st))
                  | (True, st) \<Rightarrow>
                 (case acquire_by (nh_handler_alloc nh Path_Nodes) Http_Handler st of
                    (False, st) \<Rightarrow> (Inl (''Failed to create HTTP nodes handler'', h), cleanup (release Http_Handler st))
                  | (True, st) \<Rightarrow>
                 let h = h\<lparr>ht_handler_nodes := Some True\<rparr> in
                 (case call_on (nh_add_handler nh Path_Nodes) st of
                    (False, st) \<Rightarrow> (Inl (''Failed to add HTTP nodes handler'', h),
                                    cleanup (release Http_Handler (release Http_Handler st)))
                  | (True, st) \<Rightarrow>
                 (case call_on (nh_server_start nh) st of
                    (False, st) \<Rightarrow> (Inl (''Failed to start HTTP server'', h),
                                    cleanup (release Http_Handler (release Http_Handler st)))
                  | (True, st) \<Rightarrow> (Inr h, release Http_Url st)))))))))"

text \<open>A pointer is \<open>Some True\<close> when it is not null and \<open>Some False\<close> when it is null.\<close>

definition Http_stop ::
  "'w nng_http \<Rightarrow> Http \<Rightarrow> (http_object, 'w) counted \<Rightarrow> Http \<times> (http_object, 'w) counted" where
  "Http_stop nh h st =
     (if \<not> ht_running h then (h, st)
      else
        let h = h\<lparr>ht_running := False\<rparr>;
            st = (if ht_server h = Some True then release Http_Server (snd (call_on (nh_server_stop nh) st)) else st);
            st = release_if (ht_handler_status h = Some True) Http_Handler st;
            st = release_if (ht_handler_nodes h = Some True) Http_Handler st
        in (h\<lparr>ht_server := Some False, ht_handler_status := Some False, ht_handler_nodes := Some False\<rparr>, st))"

section \<open>What the server keeps\<close>

lemma configure_tls_live:
  "http_configure_tls nh h st = (r, st') \<Longrightarrow>
     (r = Inr () \<longrightarrow> fst st' = (if ht_cert_file h = [] \<or> ht_key_file h = [] then fst st
                                else (fst st)(Http_Tls := fst st Http_Tls + 1))) \<and>
     ((\<exists>e. r = Inl e) \<longrightarrow>
        fst st' = (fst st)(Http_Server := fst st Http_Server - 1, Http_Url := fst st Http_Url - 1))"
  by (auto simp: http_configure_tls_def Let_def fun_upd_twist split: prod.splits bool.splits if_splits
      dest!: acquire_by_live call_on_live)

text \<open>An object between its construction and its destruction, with any calls of the two operations.\<close>

inductive http_reachable :: "'w nng_http \<Rightarrow> Http \<times> (http_object, 'w) counted \<Rightarrow> bool" for nh where
  http_new: "http_reachable nh (Http_new, st)"
| http_start: "http_reachable nh (h, st) \<Longrightarrow> Http_start nh port h st = (Inr h', st') \<Longrightarrow> http_reachable nh (h', st')"
| http_start_failed: "http_reachable nh (h, st) \<Longrightarrow> Http_start nh port h st = (Inl (e, h'), st') \<Longrightarrow> http_reachable nh (h', st')"
| http_stop: "http_reachable nh (h, st) \<Longrightarrow> Http_stop nh h st = (h', st') \<Longrightarrow> http_reachable nh (h', st')"

lemma Http_start_object:
  "Http_start nh port h st = (Inr h', st') \<Longrightarrow>
     ht_running h' = ht_running h \<and> ht_cert_file h' = ht_cert_file h \<and> ht_key_file h' = ht_key_file h"
  "Http_start nh port h st = (Inl (e, h'), st') \<Longrightarrow>
     ht_running h' = ht_running h \<and> ht_cert_file h' = ht_cert_file h \<and> ht_key_file h' = ht_key_file h"
  by (auto simp: Http_start_def Let_def split: prod.splits bool.splits if_splits sum.splits)

lemma http_never_running:
  "http_reachable nh s \<Longrightarrow> \<not> ht_running (fst s) \<and> ht_cert_file (fst s) = []"
  by (induction rule: http_reachable.induct)
    (auto simp: Http_new_def Http_stop_def dest!: Http_start_object split: if_splits)

lemma Http_start_live:
  assumes "\<not> ht_running h" "ht_cert_file h = []"
  shows "Http_start nh port h st = (Inr h', st') \<Longrightarrow>
      fst st' = (fst st)(Http_Server := fst st Http_Server + 1, Http_Handler := fst st Http_Handler + 2)"
    and "Http_start nh port h st = (Inl (e, h'), st') \<Longrightarrow> fst st' = fst st \<and> e \<noteq> ''HTTP server is already running''"
proof -
  have "http_configure_tls nh (h\<lparr>ht_server := p\<rparr>) st = (Inr (), st)" for p st
    using assms by (simp add: http_configure_tls_def)
  then show "Http_start nh port h st = (Inr h', st') \<Longrightarrow>
      fst st' = (fst st)(Http_Server := fst st Http_Server + 1, Http_Handler := fst st Http_Handler + 2)"
    and "Http_start nh port h st = (Inl (e, h'), st') \<Longrightarrow> fst st' = fst st \<and> e \<noteq> ''HTTP server is already running''"
    using assms
    by (auto simp: Http_start_def Let_def fun_upd_twist split: prod.splits bool.splits if_splits
        dest!: acquire_by_live call_on_live)
qed

text \<open>
  C39.  The HTTP server cannot be stopped: whatever starts and stops came before, \<^verbatim>\<open>stop\<close> changes nothing
  and releases nothing, since no operation records that the server runs.  So a start never meets
  "already running": it fails and leaves nothing behind, or adds one more server and two handlers that
  stay.
\<close>

theorem http_server_never_stops:
  assumes "http_reachable nh (h, st)"
  shows "Http_stop nh h st = (h, st) \<and>
    (\<forall>port h' st'. Http_start nh port h st = (Inr h', st') \<longrightarrow>
       fst st' = (fst st)(Http_Server := fst st Http_Server + 1, Http_Handler := fst st Http_Handler + 2)) \<and>
    (\<forall>port e h' st'. Http_start nh port h st = (Inl (e, h'), st') \<longrightarrow>
       fst st' = fst st \<and> e \<noteq> ''HTTP server is already running'')"
proof -
  have n: "\<not> ht_running h" "ht_cert_file h = []" using http_never_running [OF assms] by simp_all
  then have "Http_stop nh h st = (h, st)" by (simp add: Http_stop_def)
  then show ?thesis
    by (intro conjI allI impI) (erule Http_start_live [OF n] Http_start_live(2) [OF n, THEN conjunct1]
        Http_start_live(2) [OF n, THEN conjunct2] | assumption)+
qed

end
