(* ===== verification/Json.thy ===== *)
theory Json
  imports Resources
begin

text \<open>
  The JSON wrapper, \<^verbatim>\<open>src/src/ya_json/yajson.cpp\<close>.  The nlohmann library is a parameter: documents \<open>'j\<close>,
  doubles \<open>'d\<close> and the calls the wrapper makes, with the library's exceptions as values.  The object of
  the wrapper is its document; a 64-bit integer is an \<open>int\<close>.  A getter or setter returns the exception it
  lets out.
\<close>

section \<open>The library\<close>

datatype nj_exception = nj_out_of_range | nj_type_error | nj_parse_error | nj_other_error

record ('j, 'd) nlohmann =
  nj_object :: 'j
  nj_parse :: "string \<Rightarrow> nj_exception + 'j"
  nj_extract :: "string \<Rightarrow> 'j \<Rightarrow> nj_exception option \<times> 'j"
  nj_dump :: "'j \<Rightarrow> nj_exception + string"
  nj_at :: "'j \<Rightarrow> string \<Rightarrow> nj_exception + 'j"
  nj_assign :: "'j \<Rightarrow> string \<Rightarrow> 'j \<Rightarrow> nj_exception + 'j"
  nj_items :: "'j \<Rightarrow> 'j list"
  nj_is_integer :: "'j \<Rightarrow> bool"
  nj_is_object :: "'j \<Rightarrow> bool"
  nj_get_string :: "'j \<Rightarrow> nj_exception + string"
  nj_get_int :: "'j \<Rightarrow> nj_exception + int"
  nj_get_bool :: "'j \<Rightarrow> nj_exception + bool"
  nj_get_double :: "'j \<Rightarrow> nj_exception + 'd"
  nj_of_string :: "string \<Rightarrow> 'j"
  nj_of_int :: "int \<Rightarrow> 'j"
  nj_of_bool :: "bool \<Rightarrow> 'j"
  nj_of_double :: "'d \<Rightarrow> 'j"
  nj_of_ints :: "int list \<Rightarrow> 'j"
  nj_what :: "nj_exception \<Rightarrow> string"

datatype ya_exception = runtime_error string | library_error nj_exception

section \<open>Loading\<close>

definition Json_loadFromString :: "('j, 'd) nlohmann \<Rightarrow> string \<Rightarrow> 'j \<Rightarrow> ya_exception option \<times> 'j" where
  "Json_loadFromString nj str doc =
     (case nj_parse nj str of
        Inl e \<Rightarrow> (Some (runtime_error (''JSON parse error: '' @ nj_what nj e)), doc)
      | Inr doc \<Rightarrow> (None, doc))"

text \<open>\<open>files\<close> gives the content of a file that can be opened.\<close>

definition Json_loadFromFile ::
  "('j, 'd) nlohmann \<Rightarrow> (string \<Rightarrow> string option) \<Rightarrow> string \<Rightarrow> 'j \<Rightarrow> ya_exception option \<times> 'j" where
  "Json_loadFromFile nj files file doc =
     (case files file of
        None \<Rightarrow> (Some (runtime_error (''Failed to open file: '' @ file)), doc)
      | Some content \<Rightarrow>
          (case nj_extract nj content doc of
             (Some e, doc) \<Rightarrow>
               (Some (runtime_error (''JSON parse error in file '' @ file @ '': '' @ nj_what nj e)), doc)
           | (None, doc) \<Rightarrow> (None, doc)))"

definition Json_new ::
  "('j, 'd) nlohmann \<Rightarrow> (string \<Rightarrow> string option) \<Rightarrow> string \<Rightarrow> ya_exception + 'j" where
  "Json_new nj files json =
     (case (if length json > 5 \<and> drop (length json - 5) json = ''.json''
            then Json_loadFromFile nj files json (nj_object nj)
            else Json_loadFromString nj json (nj_object nj)) of
        (Some e, _) \<Rightarrow> Inl e
      | (None, doc) \<Rightarrow> Inr doc)"

section \<open>Getters\<close>

text \<open>The handlers of the getters: an absent key, a value of another type, anything else.\<close>

definition key_or_type :: "string \<Rightarrow> string \<Rightarrow> nj_exception \<Rightarrow> ya_exception" where
  "key_or_type key expected e =
     (case e of
        nj_out_of_range \<Rightarrow> runtime_error (''Key not found: '' @ key)
      | nj_type_error \<Rightarrow> runtime_error (''Type mismatch for key '' @ key @ '': expected '' @ expected)
      | _ \<Rightarrow> library_error e)"

definition get_value ::
  "('j, 'd) nlohmann \<Rightarrow> ('j \<Rightarrow> nj_exception + 'a) \<Rightarrow> string \<Rightarrow> 'j \<Rightarrow> string \<Rightarrow> ya_exception + 'a" where
  "get_value nj convert expected doc key =
     (case nj_at nj doc key of
        Inl e \<Rightarrow> Inl (key_or_type key expected e)
      | Inr item \<Rightarrow> (case convert item of Inl e \<Rightarrow> Inl (key_or_type key expected e) | Inr v \<Rightarrow> Inr v))"

definition Json_getString :: "('j, 'd) nlohmann \<Rightarrow> 'j \<Rightarrow> string \<Rightarrow> ya_exception + string" where
  "Json_getString nj = get_value nj (nj_get_string nj) ''string''"

definition Json_getInt :: "('j, 'd) nlohmann \<Rightarrow> 'j \<Rightarrow> string \<Rightarrow> ya_exception + int" where
  "Json_getInt nj = get_value nj (nj_get_int nj) ''integer''"

definition Json_getBool :: "('j, 'd) nlohmann \<Rightarrow> 'j \<Rightarrow> string \<Rightarrow> ya_exception + bool" where
  "Json_getBool nj = get_value nj (nj_get_bool nj) ''boolean''"

definition Json_getDouble :: "('j, 'd) nlohmann \<Rightarrow> 'j \<Rightarrow> string \<Rightarrow> ya_exception + 'd" where
  "Json_getDouble nj = get_value nj (nj_get_double nj) ''double''"

text \<open>The loops over the elements; the first element that does not fit ends them.\<close>

fun integer_elements ::
  "('j, 'd) nlohmann \<Rightarrow> string \<Rightarrow> 'j list \<Rightarrow> int list \<Rightarrow> ya_exception + int list" where
  "integer_elements nj key [] result = Inr result"
| "integer_elements nj key (item # items) result =
     (if \<not> nj_is_integer nj item
      then Inl (runtime_error (''Array element for key '' @ key @ '' is not an integer''))
      else case nj_get_int nj item of
        Inl e \<Rightarrow> Inl (key_or_type key ''array'' e)
      | Inr v \<Rightarrow> integer_elements nj key items (result @ [v]))"

definition Json_getArray :: "('j, 'd) nlohmann \<Rightarrow> 'j \<Rightarrow> string \<Rightarrow> ya_exception + int list" where
  "Json_getArray nj doc key =
     (case nj_at nj doc key of
        Inl e \<Rightarrow> Inl (key_or_type key ''array'' e)
      | Inr item \<Rightarrow> integer_elements nj key (nj_items nj item) [])"

text \<open>\<^verbatim>\<open>getObject\<close> has a handler for an absent key only.\<close>

definition Json_getObject :: "('j, 'd) nlohmann \<Rightarrow> 'j \<Rightarrow> string \<Rightarrow> ya_exception + 'j" where
  "Json_getObject nj doc key =
     (case nj_at nj doc key of
        Inl e \<Rightarrow> Inl (if e = nj_out_of_range then runtime_error (''Key not found: '' @ key) else library_error e)
      | Inr item \<Rightarrow>
          if \<not> nj_is_object nj item
          then Inl (runtime_error (''Value for key '' @ key @ '' is not an object''))
          else Inr item)"

fun object_elements ::
  "('j, 'd) nlohmann \<Rightarrow> string \<Rightarrow> 'j list \<Rightarrow> 'j list \<Rightarrow> ya_exception + 'j list" where
  "object_elements nj key [] result = Inr result"
| "object_elements nj key (elem # elems) result =
     (if \<not> nj_is_object nj elem
      then Inl (runtime_error (''Array element for key '' @ key @ '' is not an object''))
      else object_elements nj key elems (result @ [elem]))"

definition Json_getArrayObject :: "('j, 'd) nlohmann \<Rightarrow> 'j \<Rightarrow> string \<Rightarrow> ya_exception + 'j list" where
  "Json_getArrayObject nj doc key =
     (case nj_at nj doc key of
        Inl e \<Rightarrow> Inl (key_or_type key ''array of objects'' e)
      | Inr item \<Rightarrow> object_elements nj key (nj_items nj item) [])"

section \<open>Setters\<close>

text \<open>\<^verbatim>\<open>m_document[key] = value\<close>, with no handler.\<close>

definition set_value :: "('j, 'd) nlohmann \<Rightarrow> 'j \<Rightarrow> string \<Rightarrow> 'j \<Rightarrow> ya_exception + 'j" where
  "set_value nj doc key v =
     (case nj_assign nj doc key v of Inl e \<Rightarrow> Inl (library_error e) | Inr doc \<Rightarrow> Inr doc)"

definition Json_setString where "Json_setString nj doc key v = set_value nj doc key (nj_of_string nj v)"
definition Json_setInt where "Json_setInt nj doc key v = set_value nj doc key (nj_of_int nj v)"
definition Json_setBool where "Json_setBool nj doc key v = set_value nj doc key (nj_of_bool nj v)"
definition Json_setDouble where "Json_setDouble nj doc key v = set_value nj doc key (nj_of_double nj v)"
definition Json_setArray where "Json_setArray nj doc key v = set_value nj doc key (nj_of_ints nj v)"

definition Json_toString :: "('j, 'd) nlohmann \<Rightarrow> 'j \<Rightarrow> ya_exception + string" where
  "Json_toString nj doc =
     (case nj_dump nj doc of
        Inl e \<Rightarrow> Inl (runtime_error (''Failed to serialize JSON: '' @ nj_what nj e))
      | Inr s \<Rightarrow> Inr s)"

text \<open>
  The object is copied through its text; the handler covers the parser and the assignment, and what
  \<^verbatim>\<open>toString\<close> throws passes it.
\<close>

definition Json_setObject :: "('j, 'd) nlohmann \<Rightarrow> 'j \<Rightarrow> string \<Rightarrow> 'j \<Rightarrow> ya_exception + 'j" where
  "Json_setObject nj doc key v =
     (let failed = (\<lambda>e. Inl (runtime_error (''Failed to set object for key '' @ key @ '': '' @ nj_what nj e))) in
      case Json_toString nj v of
        Inl e \<Rightarrow> Inl e
      | Inr text \<Rightarrow>
          (case nj_parse nj text of
             Inl e \<Rightarrow> failed e
           | Inr item \<Rightarrow> (case nj_assign nj doc key item of Inl e \<Rightarrow> failed e | Inr doc \<Rightarrow> Inr doc)))"

section \<open>The proxy of an element\<close>

text \<open>
  What can be assigned to \<^verbatim>\<open>json[key]\<close>: an \<^verbatim>\<open>int\<close> is widened to 64 bits, and a C string, unless it is null, is
  read up to its null character.  Printing the proxy prints the string under its key.
\<close>

datatype ('j, 'd) proxy_value =
    Val_string string
  | Val_cstring "string option"
  | Val_int "32 word"
  | Val_int64 int
  | Val_bool bool
  | Val_double 'd
  | Val_array "int list"
  | Val_object 'j

fun YaJsonProxy_assign ::
  "('j, 'd) nlohmann \<Rightarrow> 'j \<Rightarrow> string \<Rightarrow> ('j, 'd) proxy_value \<Rightarrow> (ya_exception + 'j) option" where
  "YaJsonProxy_assign nj doc key (Val_string s) = Some (Json_setString nj doc key s)"
| "YaJsonProxy_assign nj doc key (Val_cstring None) = None"
| "YaJsonProxy_assign nj doc key (Val_cstring (Some s)) = Some (Json_setString nj doc key (c_string s))"
| "YaJsonProxy_assign nj doc key (Val_int n) = Some (Json_setInt nj doc key (sint n))"
| "YaJsonProxy_assign nj doc key (Val_int64 i) = Some (Json_setInt nj doc key i)"
| "YaJsonProxy_assign nj doc key (Val_bool b) = Some (Json_setBool nj doc key b)"
| "YaJsonProxy_assign nj doc key (Val_double r) = Some (Json_setDouble nj doc key r)"
| "YaJsonProxy_assign nj doc key (Val_array is) = Some (Json_setArray nj doc key is)"
| "YaJsonProxy_assign nj doc key (Val_object obj) = Some (Json_setObject nj doc key obj)"

definition YaJsonProxy_print :: "('j, 'd) nlohmann \<Rightarrow> 'j \<Rightarrow> string \<Rightarrow> ya_exception + string" where
  "YaJsonProxy_print nj doc key = Json_getString nj doc key"

section \<open>Sets and gets\<close>

text \<open>
  What the library documents: assigning to a key of an object keeps it an object in which that key has
  the value and the others are as before; a value converts back to what it was made from; the elements
  of an array of integers are those integers.
\<close>

definition nlohmann_laws :: "('j, 'd) nlohmann \<Rightarrow> bool" where
  "nlohmann_laws nj \<longleftrightarrow>
     (\<forall>doc k v. nj_is_object nj doc \<longrightarrow>
        (\<exists>doc'. nj_assign nj doc k v = Inr doc' \<and> nj_is_object nj doc' \<and> nj_at nj doc' k = Inr v \<and>
           (\<forall>k'. k' \<noteq> k \<longrightarrow> nj_at nj doc' k' = nj_at nj doc k'))) \<and>
     (\<forall>s. nj_get_string nj (nj_of_string nj s) = Inr s) \<and>
     (\<forall>i. nj_get_int nj (nj_of_int nj i) = Inr i \<and> nj_is_integer nj (nj_of_int nj i)) \<and>
     (\<forall>b. nj_get_bool nj (nj_of_bool nj b) = Inr b) \<and>
     (\<forall>d. nj_get_double nj (nj_of_double nj d) = Inr d) \<and>
     (\<forall>is. nj_items nj (nj_of_ints nj is) = map (nj_of_int nj) is)"

lemma nlohmann_assign:
  assumes "nlohmann_laws nj" "nj_is_object nj doc"
  obtains doc' where "nj_assign nj doc k v = Inr doc'" "nj_is_object nj doc'" "nj_at nj doc' k = Inr v"
    "\<And>k'. k' \<noteq> k \<Longrightarrow> nj_at nj doc' k' = nj_at nj doc k'"
  using assms unfolding nlohmann_laws_def by blast

lemma integer_elements_of_ints:
  assumes "nlohmann_laws nj"
  shows "integer_elements nj key (map (nj_of_int nj) is) acc = Inr (acc @ is)"
  using assms by (induction "is" arbitrary: acc) (auto simp: nlohmann_laws_def)

lemma set_value_get:
  assumes "nlohmann_laws nj" "nj_is_object nj doc"
  shows "\<exists>d. set_value nj doc k v = Inr d \<and> nj_at nj d k = Inr v \<and>
    (\<forall>k'. k' \<noteq> k \<longrightarrow> nj_at nj d k' = nj_at nj doc k')"
proof -
  obtain d where "nj_assign nj doc k v = Inr d" "nj_at nj d k = Inr v"
    "\<And>k'. k' \<noteq> k \<Longrightarrow> nj_at nj d k' = nj_at nj doc k'"
    using nlohmann_assign [OF assms, of k v] by blast
  then show ?thesis by (simp add: set_value_def)
qed

text \<open>
  What was set is read back: in an object, setting a string, an integer, a boolean, a double, an
  array of integers or an object that its text reads back to succeeds, the matching getter returns
  exactly that value, and every other key reads as before.
\<close>

lemma json_set_get:
  assumes "nlohmann_laws nj" "nj_is_object nj doc" "nj_is_object nj obj" "nj_dump nj obj = Inr text"
    and "nj_parse nj text = Inr obj"
  shows "(\<exists>d. Json_setString nj doc k s = Inr d \<and> Json_getString nj d k = Inr s \<and>
            (\<forall>k'. k' \<noteq> k \<longrightarrow> nj_at nj d k' = nj_at nj doc k')) \<and>
         (\<exists>d. Json_setInt nj doc k i = Inr d \<and> Json_getInt nj d k = Inr i \<and>
            (\<forall>k'. k' \<noteq> k \<longrightarrow> nj_at nj d k' = nj_at nj doc k')) \<and>
         (\<exists>d. Json_setBool nj doc k b = Inr d \<and> Json_getBool nj d k = Inr b \<and>
            (\<forall>k'. k' \<noteq> k \<longrightarrow> nj_at nj d k' = nj_at nj doc k')) \<and>
         (\<exists>d. Json_setDouble nj doc k r = Inr d \<and> Json_getDouble nj d k = Inr r \<and>
            (\<forall>k'. k' \<noteq> k \<longrightarrow> nj_at nj d k' = nj_at nj doc k')) \<and>
         (\<exists>d. Json_setArray nj doc k is = Inr d \<and> Json_getArray nj d k = Inr is \<and>
            (\<forall>k'. k' \<noteq> k \<longrightarrow> nj_at nj d k' = nj_at nj doc k')) \<and>
         (\<exists>d. Json_setObject nj doc k obj = Inr d \<and> Json_getObject nj d k = Inr obj \<and>
            (\<forall>k'. k' \<noteq> k \<longrightarrow> nj_at nj d k' = nj_at nj doc k'))"
proof -
  note L = assms(1) [unfolded nlohmann_laws_def]
  note set = set_value_get [OF assms(1,2), of k]
  have obj: "Json_setObject nj doc k obj = Inr d \<longleftrightarrow> set_value nj doc k obj = Inr d" for d
    using assms(4,5) by (auto simp: Json_setObject_def Json_toString_def set_value_def split: sum.splits)
  show ?thesis
    using set [of "nj_of_string nj s"] set [of "nj_of_int nj i"] set [of "nj_of_bool nj b"]
      set [of "nj_of_double nj r"] set [of "nj_of_ints nj is"] set [of obj] L assms(3)
      integer_elements_of_ints [OF assms(1), of k "is" "[]"]
    by (intro conjI) (auto simp: Json_setString_def Json_getString_def Json_setInt_def Json_getInt_def
        Json_setBool_def Json_getBool_def Json_setDouble_def Json_getDouble_def Json_setArray_def
        Json_getArray_def Json_getObject_def get_value_def obj)
qed

text \<open>A string assigned to an element is what printing the element prints.\<close>

lemma proxy_assign_print:
  assumes "nlohmann_laws nj" "nj_is_object nj doc" "CHR 0x00 \<notin> set s"
  shows "\<exists>d. YaJsonProxy_assign nj doc k (Val_cstring (Some s)) = Some (Inr d) \<and> YaJsonProxy_print nj d k = Inr s"
  using set_value_get [OF assms(1,2), of k "nj_of_string nj s"] assms(1,3)
  by (auto simp: Json_setString_def YaJsonProxy_print_def Json_getString_def get_value_def nlohmann_laws_def)

section \<open>Errors\<close>

text \<open>A failed parse of a string keeps the document.\<close>

lemma loadFromString_failure: "fst (Json_loadFromString nj str doc) \<noteq> None \<Longrightarrow> snd (Json_loadFromString nj str doc) = doc"
  by (auto simp: Json_loadFromString_def split: sum.splits)

text \<open>
  The exceptions of the typed getters are the wrapper's own wherever the library throws one of the two
  they handle; \<^verbatim>\<open>getObject\<close> and the setters let a type error of the library through.
\<close>

lemma getters_own_errors:
  assumes "\<And>k e. nj_at nj doc k = Inl e \<Longrightarrow> e = nj_out_of_range \<or> e = nj_type_error"
    and "\<And>item e. convert item = Inl e \<Longrightarrow> e = nj_type_error"
    and "get_value nj convert expected doc key = Inl e"
  shows "\<exists>text. e = runtime_error text"
  using assms(3) by (auto simp: get_value_def key_or_type_def split: sum.splits nj_exception.splits
      dest!: assms(1,2))

lemma getObject_lets_type_error_out:
  "nj_at nj doc key = Inl nj_type_error \<Longrightarrow> Json_getObject nj doc key = Inl (library_error nj_type_error)"
  by (simp add: Json_getObject_def)

lemma setters_let_type_error_out:
  "nj_assign nj doc key (nj_of_string nj v) = Inl nj_type_error \<Longrightarrow>
     Json_setString nj doc key v = Inl (library_error nj_type_error)"
  by (simp add: Json_setString_def set_value_def)

text \<open>The message "expected array" is not raised for a value that is no array: it is iterated over.\<close>

lemma getArray_of_scalar:
  "nj_at nj doc key = Inr item \<Longrightarrow> nj_items nj item = [item] \<Longrightarrow> nj_is_integer nj item \<Longrightarrow>
     nj_get_int nj item = Inr i \<Longrightarrow> Json_getArray nj doc key = Inr [i]"
  by (simp add: Json_getArray_def)

end
