(* ===== verification/Config.thy ===== *)
theory Config
  imports Prelude
begin

text \<open>
  The configuration, \<^verbatim>\<open>src/src/ya_config/yaconfig.cpp\<close>.  The toml++ library is a parameter: nodes \<open>'n\<close> (a
  table is one), doubles \<open>'d\<close>, and the calls the code makes.  The object is its table.  The member
  templates are functions of the conversion of their type; a conversion gives \<open>None\<close> when the node does
  not hold a value of the type or the value does not fit into it.  What is printed is left out.
\<close>

datatype toml_kind = Toml_Integer | Toml_Float | Toml_String | Toml_Boolean | Toml_Other

datatype 'd YaVariant = Variant_int int | Variant_double 'd | Variant_string string | Variant_bool bool

record ('n, 'd) toml_lib =
  tm_parse :: "string \<Rightarrow> 'n option"
  tm_print :: "'n \<Rightarrow> string"
  tm_at_path :: "'n \<Rightarrow> string \<Rightarrow> 'n option"
  tm_as_array :: "'n \<Rightarrow> 'n list option"
  tm_kind :: "'n \<Rightarrow> toml_kind"
  tm_int :: "'n \<Rightarrow> int option"
  tm_double :: "'n \<Rightarrow> 'd option"
  tm_string :: "'n \<Rightarrow> string option"
  tm_bool :: "'n \<Rightarrow> bool option"
  tm_insert :: "'n \<Rightarrow> string \<Rightarrow> 'n \<Rightarrow> 'n"
  tm_of_array :: "'n list \<Rightarrow> 'n"
  tm_to_json :: "'n \<Rightarrow> string"
  tm_to_yaml :: "'n \<Rightarrow> string"

section \<open>Files\<close>

text \<open>\<open>files\<close> gives the content of a readable file; a file that cannot be opened is a parse error too.\<close>

definition Config_load ::
  "('n, 'd) toml_lib \<Rightarrow> (string \<Rightarrow> string option) \<Rightarrow> string \<Rightarrow> 'n \<Rightarrow> bool \<times> 'n" where
  "Config_load tm files path config =
     (case Option.bind (files path) (tm_parse tm) of
        None \<Rightarrow> (False, config)
      | Some config \<Rightarrow> (True, config))"

text \<open>
  \<open>writable\<close> says whether the file can be opened for writing.  The stream is not asked whether the text
  was written: \<open>written\<close> is what the file system keeps of it.
\<close>

definition Config_save ::
  "('n, 'd) toml_lib \<Rightarrow> (string \<Rightarrow> bool) \<Rightarrow> (string \<Rightarrow> string) \<Rightarrow> string \<Rightarrow> 'n \<Rightarrow> (string \<Rightarrow> string option) \<Rightarrow>
     bool \<times> (string \<Rightarrow> string option)" where
  "Config_save tm writable written path config files =
     (if \<not> writable path then (False, files)
      else (True, files(path := Some (written (tm_print tm config)))))"

section \<open>Values\<close>

definition Config_get :: "('n, 'd) toml_lib \<Rightarrow> ('n \<Rightarrow> 'a option) \<Rightarrow> string \<Rightarrow> 'a \<Rightarrow> 'n \<Rightarrow> 'a" where
  "Config_get tm as_value key defaultValue config =
     (case Option.bind (tm_at_path tm config key) as_value of
        Some val \<Rightarrow> val
      | None \<Rightarrow> defaultValue)"

fun collect_values :: "('n \<Rightarrow> 'a option) \<Rightarrow> 'n list \<Rightarrow> 'a list \<Rightarrow> 'a list" where
  "collect_values as_value [] result = result"
| "collect_values as_value (item # items) result =
     (case as_value item of
        Some val \<Rightarrow> collect_values as_value items (result @ [val])
      | None \<Rightarrow> collect_values as_value items result)"

definition Config_getArray :: "('n, 'd) toml_lib \<Rightarrow> ('n \<Rightarrow> 'a option) \<Rightarrow> string \<Rightarrow> 'n \<Rightarrow> 'a list" where
  "Config_getArray tm as_value key config =
     (case Option.bind (tm_at_path tm config key) (tm_as_array tm) of
        Some arr \<Rightarrow> collect_values as_value arr []
      | None \<Rightarrow> [])"

definition Config_set :: "('n, 'd) toml_lib \<Rightarrow> ('a \<Rightarrow> 'n) \<Rightarrow> string \<Rightarrow> 'a \<Rightarrow> 'n \<Rightarrow> 'n" where
  "Config_set tm to_node key v config = tm_insert tm config key (to_node v)"

definition Config_setArray :: "('n, 'd) toml_lib \<Rightarrow> ('a \<Rightarrow> 'n) \<Rightarrow> string \<Rightarrow> 'a list \<Rightarrow> 'n \<Rightarrow> 'n" where
  "Config_setArray tm to_node key values config = tm_insert tm config key (tm_of_array tm (map to_node values))"

definition variant_of :: "('n, 'd) toml_lib \<Rightarrow> 'n \<Rightarrow> 'd YaVariant option" where
  "variant_of tm item =
     (case tm_kind tm item of
        Toml_Integer \<Rightarrow> map_option Variant_int (tm_int tm item)
      | Toml_Float \<Rightarrow> map_option Variant_double (tm_double tm item)
      | Toml_String \<Rightarrow> map_option Variant_string (tm_string tm item)
      | Toml_Boolean \<Rightarrow> map_option Variant_bool (tm_bool tm item)
      | Toml_Other \<Rightarrow> None)"

definition Config_getArrayVariant :: "('n, 'd) toml_lib \<Rightarrow> string \<Rightarrow> 'n \<Rightarrow> 'd YaVariant list" where
  "Config_getArrayVariant tm key config =
     (case Option.bind (tm_at_path tm config key) (tm_as_array tm) of
        Some arr \<Rightarrow> collect_values (variant_of tm) arr []
      | None \<Rightarrow> [])"

definition Config_toJson :: "('n, 'd) toml_lib \<Rightarrow> 'n \<Rightarrow> string" where
  "Config_toJson tm config = tm_to_json tm config"

definition Config_toYaml :: "('n, 'd) toml_lib \<Rightarrow> 'n \<Rightarrow> string" where
  "Config_toYaml tm config = tm_to_yaml tm config"

section \<open>Sets and gets\<close>

text \<open>A key that \<^verbatim>\<open>at_path\<close> takes as one component.\<close>

definition simple_key :: "string \<Rightarrow> bool" where
  "simple_key k \<longleftrightarrow> k \<noteq> [] \<and> CHR ''.'' \<notin> set k \<and> CHR ''['' \<notin> set k \<and> CHR '']'' \<notin> set k"

text \<open>
  What the library documents: \<^verbatim>\<open>insert_or_assign\<close> stores a value under the key as it is written;
  \<^verbatim>\<open>at_path\<close> takes its argument apart at the dots and starts with the first component; the elements of an
  array are those it was built from.
\<close>

definition toml_laws :: "('n, 'd) toml_lib \<Rightarrow> bool" where
  "toml_laws tm \<longleftrightarrow>
     (\<forall>t k v. simple_key k \<longrightarrow> tm_at_path tm (tm_insert tm t k v) k = Some v) \<and>
     (\<forall>t k v k'. simple_key k' \<longrightarrow> k' \<noteq> k \<longrightarrow> tm_at_path tm (tm_insert tm t k v) k' = tm_at_path tm t k') \<and>
     (\<forall>t k v k' rest. simple_key k' \<longrightarrow> k' \<noteq> k \<longrightarrow>
        tm_at_path tm (tm_insert tm t k v) (k' @ ''.'' @ rest) = tm_at_path tm t (k' @ ''.'' @ rest)) \<and>
     (\<forall>ns. tm_as_array tm (tm_of_array tm ns) = Some ns)"

lemma collect_values_eq: "collect_values f items acc = acc @ List.map_filter f items"
  by (induction items arbitrary: acc) (auto simp: List.map_filter_simps split: option.splits)

lemma collect_values_all:
  "(\<And>v. as_value (to_node v) = Some v) \<Longrightarrow> collect_values as_value (map to_node vs) acc = acc @ vs"
  by (induction vs arbitrary: acc) auto

lemma dotted_key: "simple_key k' \<Longrightarrow> k' \<noteq> k' @ ''.'' @ rest"
  by simp

text \<open>
  A setting is read back under the key it was written with, as a value and as an array, and
  leaves every other key as it was, if the key has one component.  A key with a dot is stored as it
  stands but looked up component by component: setting it changes nothing that a getter returns for it.
\<close>

lemma config_set_get:
  assumes "toml_laws tm" "simple_key k" "\<And>v. as_value (to_node v) = Some v"
  shows "Config_get tm as_value k dflt (Config_set tm to_node k v config) = v \<and>
    Config_getArray tm as_value k (Config_setArray tm to_node k vs config) = vs \<and>
    (\<forall>k'. simple_key k' \<longrightarrow> k' \<noteq> k \<longrightarrow>
       Config_get tm as_value k' dflt (Config_set tm to_node k v config) = Config_get tm as_value k' dflt config) \<and>
    (\<forall>rest. Config_get tm as_value (k @ ''.'' @ rest) dflt (Config_set tm to_node (k @ ''.'' @ rest) v config)
       = Config_get tm as_value (k @ ''.'' @ rest) dflt config)"
proof -
  note L = assms(1) [unfolded toml_laws_def]
  have "tm_at_path tm (tm_insert tm config (k @ ''.'' @ rest) n) (k @ ''.'' @ rest)
      = tm_at_path tm config (k @ ''.'' @ rest)" for rest n
    using L assms(2) dotted_key [OF assms(2)] by blast
  moreover have "tm_at_path tm (tm_insert tm config k n) k = Some n" for n using L assms(2) by blast
  moreover have "simple_key k' \<Longrightarrow> k' \<noteq> k \<Longrightarrow>
      tm_at_path tm (tm_insert tm config k n) k' = tm_at_path tm config k'" for n k' using L by blast
  ultimately show ?thesis
    using L assms(3) collect_values_all [of as_value to_node vs "[]"]
    by (simp add: Config_get_def Config_set_def Config_getArray_def Config_setArray_def)
qed

text \<open>A failed load keeps the configuration.\<close>

lemma load_failure_keeps: "\<not> fst (Config_load tm files path config) \<Longrightarrow> snd (Config_load tm files path config) = config"
  by (auto simp: Config_load_def split: option.splits)

text \<open>An array holds the elements that convert; the others are left out without an error.\<close>

lemma getArray_drops:
  "Option.bind (tm_at_path tm config key) (tm_as_array tm) = Some arr \<Longrightarrow>
     Config_getArray tm as_value key config = List.map_filter as_value arr"
  by (simp add: Config_getArray_def collect_values_eq)

end
