(* ===== verification/Sql.thy ===== *)
theory Sql
  imports Resources "HOL-Library.AList"
begin

text \<open>
  The database access of \<^verbatim>\<open>src/src/ya_sql\<close>: the SQLite and MySQL drivers, the two drivers that are not
  written yet, and the facade that owns one of them.  The database libraries are parameters; the
  connections, statements and sessions are counted.  A \<^verbatim>\<open>std::map\<close> of column values is an association
  list in the order of its keys.
\<close>

datatype sql_object = Sqlite_Connection | Sqlite_Statement | Mysql_Session

type_synonym row = "(string \<times> string) list"

section \<open>SQLite\<close>

text \<open>
  \<open>sq_open\<close> tells whether the call succeeded and whether it wrote a connection, which it may do on
  failure too.  A prepared statement has its column names; \<open>sq_step\<close> gives the texts of the next row,
  \<open>None\<close> for a null value, or \<open>None\<close> when the result is anything but a row.
\<close>

record 'w sqlite =
  sq_open :: "string \<Rightarrow> 'w \<Rightarrow> (bool \<times> bool) \<times> 'w"
  sq_close :: "'w \<Rightarrow> 'w"
  sq_exec :: "string \<Rightarrow> 'w \<Rightarrow> bool \<times> 'w"
  sq_prepare :: "string \<Rightarrow> 'w \<Rightarrow> string list option \<times> 'w"
  sq_step :: "'w \<Rightarrow> string option list option \<times> 'w"

text \<open>The driver is the member \<^verbatim>\<open>db\<close>: true when it is a connection.\<close>

definition sqlite_close :: "'w sqlite \<Rightarrow> bool \<Rightarrow> (sql_object, 'w) counted \<Rightarrow> (sql_object, 'w) counted" where
  "sqlite_close sq db st =
     (if db then release Sqlite_Connection (fst st, sq_close sq (snd st)) else st)"

definition SQLiteDriver_destroy :: "'w sqlite \<Rightarrow> bool \<Rightarrow> (sql_object, 'w) counted \<Rightarrow> (sql_object, 'w) counted" where
  "SQLiteDriver_destroy sq db st = sqlite_close sq db st"

definition SQLiteDriver_connect ::
  "'w sqlite \<Rightarrow> string \<Rightarrow> bool \<Rightarrow> (sql_object, 'w) counted \<Rightarrow> (bool \<times> bool) \<times> (sql_object, 'w) counted" where
  "SQLiteDriver_connect sq uri db st =
     (case call_on (sq_open sq (c_string uri)) (sqlite_close sq db st) of
        ((ok, allocated), st) \<Rightarrow>
          let st = (if allocated then acquire Sqlite_Connection st else st) in
          if \<not> ok then ((False, False), sqlite_close sq allocated st)
          else ((True, allocated), st))"

text \<open>The parts of a statement, each followed by a comma, and the last comma removed.\<close>

definition comma_separated :: "string list \<Rightarrow> string" where
  "comma_separated parts = butlast (concat (map (\<lambda>p. p @ '','') parts))"

definition quoted :: "string \<Rightarrow> string" where
  "quoted s = [CHR 0x27] @ s @ [CHR 0x27]"

definition insert_statement :: "string \<Rightarrow> row \<Rightarrow> string" where
  "insert_statement table data =
     ''INSERT INTO '' @ table @ '' ('' @ comma_separated (map fst data) @ '') VALUES ('' @
       comma_separated (map (quoted \<circ> snd) data) @ '')''"

definition where_clause :: "string \<Rightarrow> string" where
  "where_clause condition = (if condition = [] then [] else '' WHERE '' @ condition)"

definition update_statement :: "string \<Rightarrow> row \<Rightarrow> string \<Rightarrow> string" where
  "update_statement table data condition =
     ''UPDATE '' @ table @ '' SET '' @ comma_separated (map (\<lambda>(c, v). c @ ''='' @ quoted v) data) @
       where_clause condition"

definition delete_statement :: "string \<Rightarrow> string \<Rightarrow> string" where
  "delete_statement table condition = ''DELETE FROM '' @ table @ where_clause condition"

definition SQLiteDriver_insert ::
  "'w sqlite \<Rightarrow> string \<Rightarrow> row \<Rightarrow> bool \<Rightarrow> (sql_object, 'w) counted \<Rightarrow> bool \<times> (sql_object, 'w) counted" where
  "SQLiteDriver_insert sq table data db st =
     (if \<not> db \<or> data = [] then (False, st)
      else call_on (sq_exec sq (c_string (insert_statement table data))) st)"

definition SQLiteDriver_update ::
  "'w sqlite \<Rightarrow> string \<Rightarrow> row \<Rightarrow> string \<Rightarrow> bool \<Rightarrow> (sql_object, 'w) counted \<Rightarrow>
     bool \<times> (sql_object, 'w) counted" where
  "SQLiteDriver_update sq table data condition db st =
     (if \<not> db \<or> data = [] then (False, st)
      else call_on (sq_exec sq (c_string (update_statement table data condition))) st)"

definition SQLiteDriver_remove ::
  "'w sqlite \<Rightarrow> string \<Rightarrow> string \<Rightarrow> bool \<Rightarrow> (sql_object, 'w) counted \<Rightarrow> bool \<times> (sql_object, 'w) counted" where
  "SQLiteDriver_remove sq table condition db st =
     (if \<not> db then (False, st)
      else call_on (sq_exec sq (c_string (delete_statement table condition))) st)"

text \<open>\<^verbatim>\<open>row[col_names[i]] = value ? value : ""\<close> for each column.\<close>

fun fill_row :: "string list \<Rightarrow> string option list \<Rightarrow> row \<Rightarrow> row" where
  "fill_row (name # names) (value # values) row =
     fill_row names values (AList.update name (case value of Some s \<Rightarrow> s | None \<Rightarrow> []) row)"
| "fill_row _ _ row = row"

partial_function (option) fetch_rows ::
  "'w sqlite \<Rightarrow> string list \<Rightarrow> row list \<Rightarrow> 'w \<Rightarrow> (row list \<times> 'w) option" where
  "fetch_rows sq names results w =
     (case sq_step sq w of
        (None, w) \<Rightarrow> Some (results, w)
      | (Some values, w) \<Rightarrow> fetch_rows sq names (results @ [fill_row names values []]) w)"

definition SQLiteDriver_query ::
  "'w sqlite \<Rightarrow> string \<Rightarrow> bool \<Rightarrow> (sql_object, 'w) counted \<Rightarrow>
     (row list \<times> (sql_object, 'w) counted) option" where
  "SQLiteDriver_query sq sql db st =
     (if \<not> db then Some ([], st)
      else case call_on (sq_prepare sq (c_string sql)) st of
        (None, st) \<Rightarrow> Some ([], st)
      | (Some names, st) \<Rightarrow>
          let st = acquire Sqlite_Statement st in
          (case fetch_rows sq names [] (snd st) of
             None \<Rightarrow> None
           | Some (results, w) \<Rightarrow> Some (results, release Sqlite_Statement (fst st, w))))"

section \<open>MySQL\<close>

text \<open>
  A call gives the text of the connector's error, or its result: of a query the labels of the columns, the
  rows that could be fetched, and the error that ended the fetching, if one did.
\<close>

record ('v, 'w) mysqlx =
  my_session :: "string \<Rightarrow> 'w \<Rightarrow> (string + unit) \<times> 'w"
  my_insert :: "string \<Rightarrow> string list \<Rightarrow> string list \<Rightarrow> 'w \<Rightarrow> (string + unit) \<times> 'w"
  my_update :: "string \<Rightarrow> row \<Rightarrow> string \<Rightarrow> 'w \<Rightarrow> (string + unit) \<times> 'w"
  my_remove :: "string \<Rightarrow> string \<Rightarrow> 'w \<Rightarrow> (string + unit) \<times> 'w"
  my_sql :: "string \<Rightarrow> 'w \<Rightarrow> (string + string list \<times> 'v list list \<times> string option) \<times> 'w"
  my_is_null :: "'v \<Rightarrow> bool"
  my_get_string :: "'v \<Rightarrow> string option"
  my_close :: "'w \<Rightarrow> 'w"

record MysqlDriver =
  md_session :: bool
  md_last_error :: string

definition MysqlDriver_new :: MysqlDriver where
  "MysqlDriver_new = \<lparr>md_session = False, md_last_error = []\<rparr>"

definition MysqlDriver_destroy ::
  "('v, 'w) mysqlx \<Rightarrow> MysqlDriver \<Rightarrow> (sql_object, 'w) counted \<Rightarrow> (sql_object, 'w) counted" where
  "MysqlDriver_destroy my d st =
     (if md_session d then release Mysql_Session (fst st, my_close my (snd st)) else st)"

text \<open>The new session replaces the pointer to an earlier one.\<close>

definition MysqlDriver_connect ::
  "('v, 'w) mysqlx \<Rightarrow> string \<Rightarrow> MysqlDriver \<Rightarrow> (sql_object, 'w) counted \<Rightarrow>
     (bool \<times> MysqlDriver) \<times> (sql_object, 'w) counted" where
  "MysqlDriver_connect my uri d st =
     (case call_on (my_session my uri) st of
        (Inl e, st) \<Rightarrow> ((False, d\<lparr>md_last_error := e\<rparr>), st)
      | (Inr _, st) \<Rightarrow> ((True, d\<lparr>md_session := True\<rparr>), acquire Mysql_Session st))"

definition mysql_result :: "MysqlDriver \<Rightarrow> (string + unit) \<times> (sql_object, 'w) counted \<Rightarrow>
     (bool \<times> MysqlDriver) \<times> (sql_object, 'w) counted" where
  "mysql_result d r =
     (case r of (Inl e, st) \<Rightarrow> ((False, d\<lparr>md_last_error := e\<rparr>), st) | (Inr _, st) \<Rightarrow> ((True, d), st))"

definition MysqlDriver_insert ::
  "('v, 'w) mysqlx \<Rightarrow> string \<Rightarrow> row \<Rightarrow> MysqlDriver \<Rightarrow> (sql_object, 'w) counted \<Rightarrow>
     (bool \<times> MysqlDriver) \<times> (sql_object, 'w) counted" where
  "MysqlDriver_insert my table data d st =
     (if \<not> md_session d \<or> data = [] then ((False, d), st)
      else mysql_result d (call_on (my_insert my table (map fst data) (map snd data)) st))"

definition MysqlDriver_update ::
  "('v, 'w) mysqlx \<Rightarrow> string \<Rightarrow> row \<Rightarrow> string \<Rightarrow> MysqlDriver \<Rightarrow> (sql_object, 'w) counted \<Rightarrow>
     (bool \<times> MysqlDriver) \<times> (sql_object, 'w) counted" where
  "MysqlDriver_update my table data condition d st =
     (if \<not> md_session d \<or> data = [] then ((False, d), st)
      else mysql_result d (call_on (my_update my table data condition) st))"

definition MysqlDriver_remove ::
  "('v, 'w) mysqlx \<Rightarrow> string \<Rightarrow> string \<Rightarrow> MysqlDriver \<Rightarrow> (sql_object, 'w) counted \<Rightarrow>
     (bool \<times> MysqlDriver) \<times> (sql_object, 'w) counted" where
  "MysqlDriver_remove my table condition d st =
     (if \<not> md_session d then ((False, d), st)
      else mysql_result d (call_on (my_remove my table condition) st))"

text \<open>A null value and a value that does not convert to a string are the empty string.\<close>

definition mysql_text :: "('v, 'w) mysqlx \<Rightarrow> 'v \<Rightarrow> string" where
  "mysql_text my v = (if my_is_null my v then [] else case my_get_string my v of Some s \<Rightarrow> s | None \<Rightarrow> [])"

definition MysqlDriver_query ::
  "('v, 'w) mysqlx \<Rightarrow> string \<Rightarrow> MysqlDriver \<Rightarrow> (sql_object, 'w) counted \<Rightarrow>
     (row list \<times> MysqlDriver) \<times> (sql_object, 'w) counted" where
  "MysqlDriver_query my sql d st =
     (if \<not> md_session d then (([], d), st)
      else case call_on (my_sql my sql) st of
        (Inl e, st) \<Rightarrow> (([], d\<lparr>md_last_error := e\<rparr>), st)
      | (Inr (columns, rows, failure), st) \<Rightarrow>
          ((map (\<lambda>r. fill_row columns (map (\<lambda>v. Some (mysql_text my v)) r) []) rows,
            case failure of None \<Rightarrow> d | Some e \<Rightarrow> d\<lparr>md_last_error := e\<rparr>), st))"

section \<open>The facade\<close>

datatype SqlDriver = Driver_Sqlite bool | Driver_Mysql MysqlDriver | Driver_Mongodb | Driver_Postgresql

text \<open>Assigning to \<^verbatim>\<open>m_driver\<close> destroys the driver it held.\<close>

definition driver_destroy ::
  "'w sqlite \<Rightarrow> ('v, 'w) mysqlx \<Rightarrow> SqlDriver option \<Rightarrow> (sql_object, 'w) counted \<Rightarrow> (sql_object, 'w) counted" where
  "driver_destroy sq my driver st =
     (case driver of
        Some (Driver_Sqlite db) \<Rightarrow> SQLiteDriver_destroy sq db st
      | Some (Driver_Mysql d) \<Rightarrow> MysqlDriver_destroy my d st
      | _ \<Rightarrow> st)"

definition YaSql_loadDriver ::
  "'w sqlite \<Rightarrow> ('v, 'w) mysqlx \<Rightarrow> string \<Rightarrow> SqlDriver option \<Rightarrow> (sql_object, 'w) counted \<Rightarrow>
     (bool \<times> SqlDriver option) \<times> (sql_object, 'w) counted" where
  "YaSql_loadDriver sq my dbType driver st =
     (if dbType = ''sqlite'' then ((True, Some (Driver_Sqlite False)), driver_destroy sq my driver st)
      else if dbType = ''mysql'' then ((True, Some (Driver_Mysql MysqlDriver_new)), driver_destroy sq my driver st)
      else if dbType = ''mongodb'' then ((True, Some Driver_Mongodb), driver_destroy sq my driver st)
      else if dbType = ''postgresql'' then ((True, Some Driver_Postgresql), driver_destroy sq my driver st)
      else ((False, driver), st))"

text \<open>The drivers for MongoDB and PostgreSQL answer every call with success and do nothing.\<close>

definition YaSql_connect ::
  "'w sqlite \<Rightarrow> ('v, 'w) mysqlx \<Rightarrow> string \<Rightarrow> SqlDriver option \<Rightarrow> (sql_object, 'w) counted \<Rightarrow>
     (bool \<times> SqlDriver option) \<times> (sql_object, 'w) counted" where
  "YaSql_connect sq my uri driver st =
     (case driver of
        None \<Rightarrow> ((False, None), st)
      | Some (Driver_Sqlite db) \<Rightarrow>
          (case SQLiteDriver_connect sq uri db st of ((ok, db), st) \<Rightarrow> ((ok, Some (Driver_Sqlite db)), st))
      | Some (Driver_Mysql d) \<Rightarrow>
          (case MysqlDriver_connect my uri d st of ((ok, d), st) \<Rightarrow> ((ok, Some (Driver_Mysql d)), st))
      | Some other \<Rightarrow> ((True, Some other), st))"

definition YaSql_insert ::
  "'w sqlite \<Rightarrow> ('v, 'w) mysqlx \<Rightarrow> string \<Rightarrow> row \<Rightarrow> SqlDriver option \<Rightarrow> (sql_object, 'w) counted \<Rightarrow>
     (bool \<times> SqlDriver option) \<times> (sql_object, 'w) counted" where
  "YaSql_insert sq my table data driver st =
     (case driver of
        None \<Rightarrow> ((False, None), st)
      | Some (Driver_Sqlite db) \<Rightarrow>
          (case SQLiteDriver_insert sq table data db st of (ok, st) \<Rightarrow> ((ok, driver), st))
      | Some (Driver_Mysql d) \<Rightarrow>
          (case MysqlDriver_insert my table data d st of ((ok, d), st) \<Rightarrow> ((ok, Some (Driver_Mysql d)), st))
      | Some other \<Rightarrow> ((True, Some other), st))"

definition YaSql_update ::
  "'w sqlite \<Rightarrow> ('v, 'w) mysqlx \<Rightarrow> string \<Rightarrow> row \<Rightarrow> string \<Rightarrow> SqlDriver option \<Rightarrow>
     (sql_object, 'w) counted \<Rightarrow> (bool \<times> SqlDriver option) \<times> (sql_object, 'w) counted" where
  "YaSql_update sq my table data condition driver st =
     (case driver of
        None \<Rightarrow> ((False, None), st)
      | Some (Driver_Sqlite db) \<Rightarrow>
          (case SQLiteDriver_update sq table data condition db st of (ok, st) \<Rightarrow> ((ok, driver), st))
      | Some (Driver_Mysql d) \<Rightarrow>
          (case MysqlDriver_update my table data condition d st of
             ((ok, d), st) \<Rightarrow> ((ok, Some (Driver_Mysql d)), st))
      | Some other \<Rightarrow> ((True, Some other), st))"

definition YaSql_remove ::
  "'w sqlite \<Rightarrow> ('v, 'w) mysqlx \<Rightarrow> string \<Rightarrow> string \<Rightarrow> SqlDriver option \<Rightarrow> (sql_object, 'w) counted \<Rightarrow>
     (bool \<times> SqlDriver option) \<times> (sql_object, 'w) counted" where
  "YaSql_remove sq my table condition driver st =
     (case driver of
        None \<Rightarrow> ((False, None), st)
      | Some (Driver_Sqlite db) \<Rightarrow>
          (case SQLiteDriver_remove sq table condition db st of (ok, st) \<Rightarrow> ((ok, driver), st))
      | Some (Driver_Mysql d) \<Rightarrow>
          (case MysqlDriver_remove my table condition d st of ((ok, d), st) \<Rightarrow> ((ok, Some (Driver_Mysql d)), st))
      | Some other \<Rightarrow> ((True, Some other), st))"

definition YaSql_query ::
  "'w sqlite \<Rightarrow> ('v, 'w) mysqlx \<Rightarrow> string \<Rightarrow> SqlDriver option \<Rightarrow> (sql_object, 'w) counted \<Rightarrow>
     ((row list \<times> SqlDriver option) \<times> (sql_object, 'w) counted) option" where
  "YaSql_query sq my sql driver st =
     (case driver of
        Some (Driver_Sqlite db) \<Rightarrow>
          (case SQLiteDriver_query sq sql db st of
             None \<Rightarrow> None
           | Some (rows, st) \<Rightarrow> Some ((rows, driver), st))
      | Some (Driver_Mysql d) \<Rightarrow>
          (case MysqlDriver_query my sql d st of ((rows, d), st) \<Rightarrow> Some ((rows, Some (Driver_Mysql d)), st))
      | _ \<Rightarrow> Some (([], driver), st))"

section \<open>What the statements say\<close>

text \<open>
  A reader of SQL string literals, as the language defines them: text in single quotes, in which two
  quotes stand for one.  It reads a list of literals with commas between them.
\<close>

fun scan_literal :: "string \<Rightarrow> string \<Rightarrow> (string \<times> string) option" where
  "scan_literal acc [] = None"
| "scan_literal acc [c] = (if c = CHR 0x27 then Some (acc, []) else None)"
| "scan_literal acc (c # d # rest) =
     (if c \<noteq> CHR 0x27 then scan_literal (acc @ [c]) (d # rest)
      else if d = CHR 0x27 then scan_literal (acc @ [CHR 0x27]) rest
      else Some (acc, d # rest))"

abbreviation quotes :: "string \<Rightarrow> nat" where
  "quotes s \<equiv> count_list s (CHR 0x27)"

lemma scan_literal_length:
  "scan_literal acc s = Some (v, rest) \<Longrightarrow>
     length s + length acc + quotes acc = length v + quotes v + 1 + length rest"
  by (induction acc s arbitrary: v rest rule: scan_literal.induct) (fastforce split: if_splits)+

function read_literals :: "string \<Rightarrow> string list option" where
  "read_literals s =
     (case s of
        [] \<Rightarrow> None
      | c # cs \<Rightarrow>
          if c \<noteq> CHR 0x27 then None
          else (case scan_literal [] cs of
                  None \<Rightarrow> None
                | Some (v, rest) \<Rightarrow>
                    (case rest of
                       [] \<Rightarrow> Some [v]
                     | d # ds \<Rightarrow> if d = CHR '','' then map_option (Cons v) (read_literals ds) else None)))"
  by pat_completeness auto
termination
  by (relation "measure length") (auto dest: scan_literal_length)

declare read_literals.simps [simp del]

lemma read_literals_length:
  "read_literals s = Some vs \<Longrightarrow>
     length s + 1 = (\<Sum>v\<leftarrow>vs. length v + quotes v + 3)"
proof (induction s arbitrary: vs rule: read_literals.induct)
  case (1 s)
  from "1.prems" obtain c cs v rest where s: "s = c # cs" "c = CHR 0x27" "scan_literal [] cs = Some (v, rest)"
    and r: "(case rest of [] \<Rightarrow> Some [v] | d # ds \<Rightarrow> if d = CHR '','' then map_option (Cons v) (read_literals ds) else None) = Some vs"
    by (subst (asm) read_literals.simps) (auto split: list.splits if_splits option.splits)
  from scan_literal_length [OF s(3)] have l: "length cs = length v + quotes v + 1 + length rest" by simp
  show ?case
  proof (cases rest)
    case Nil
    with r l s show ?thesis by auto
  next
    case (Cons d ds)
    with r obtain vs' where v: "d = CHR '',''" "vs = v # vs'" "read_literals ds = Some vs'"
      by (auto split: if_splits)
    have "length ds + 1 = (\<Sum>v\<leftarrow>vs'. length v + quotes v + 3)"
      using "1.IH" s v(1,3) Cons by blast
    with v(2) Cons l s show ?thesis by simp
  qed
qed

lemma scan_literal_quoted:
  "CHR 0x27 \<notin> set v \<Longrightarrow> rest = [] \<or> hd rest \<noteq> CHR 0x27 \<Longrightarrow>
     scan_literal acc (v @ CHR 0x27 # rest) = Some (acc @ v, rest)"
proof (induction v arbitrary: acc)
  case Nil
  then show ?case by (cases rest) auto
next
  case (Cons c v)
  then obtain d ds where "v @ CHR 0x27 # rest = d # ds" by (cases v) auto
  with Cons show ?case by auto
qed

lemma comma_separated_Cons:
  "comma_separated [p] = p" "ps \<noteq> [] \<Longrightarrow> comma_separated (p # ps) = p @ '','' @ comma_separated ps"
  by (auto simp: comma_separated_def butlast_append)

lemma quoted_append: "quoted v @ rest = CHR 0x27 # v @ CHR 0x27 # rest" "quoted v = CHR 0x27 # v @ [CHR 0x27]"
  by (simp_all add: quoted_def)

lemma read_literals_quoted:
  assumes "vs \<noteq> []" "\<forall>v\<in>set vs. CHR 0x27 \<notin> set v"
  shows "read_literals (comma_separated (map quoted vs)) = Some vs"
  using assms
proof (induction vs)
  case (Cons v vs)
  show ?case
  proof (cases "vs = []")
    case True
    with Cons.prems scan_literal_quoted [of v "[]" "[]"] show ?thesis
      by (subst read_literals.simps) (simp add: comma_separated_Cons quoted_append(2))
  next
    case False
    with Cons.prems scan_literal_quoted [of v "CHR '','' # comma_separated (map quoted vs)" "[]"] Cons.IH
    show ?thesis by (subst read_literals.simps) (simp add: comma_separated_Cons quoted_append(1))
  qed
qed simp

lemma length_comma_separated_quoted:
  "vs \<noteq> [] \<Longrightarrow> length (comma_separated (map quoted vs)) + 1 = (\<Sum>v\<leftarrow>vs. length v + 3)"
proof (induction vs)
  case (Cons v vs)
  then show ?case by (cases "vs = []") (simp_all add: comma_separated_Cons quoted_def)
qed simp

lemma sum_quotes_zero:
  fixes f :: "'a \<Rightarrow> nat"
  shows "(\<Sum>v\<leftarrow>vs. f v + g v + 3) = (\<Sum>v\<leftarrow>vs. f v + 3) \<longleftrightarrow> (\<forall>v\<in>set vs. g v = 0)"
proof -
  have "(\<Sum>v\<leftarrow>vs. f v + g v + 3) = (\<Sum>v\<leftarrow>vs. f v + 3) + (\<Sum>v\<leftarrow>vs. g v)"
    by (induction vs) auto
  moreover have "(\<Sum>v\<leftarrow>vs. g v) = 0 \<longleftrightarrow> (\<forall>v\<in>set vs. g v = 0)" by (induction vs) auto
  ultimately show ?thesis by simp
qed

text \<open>
  A reader of the statement as SQLite is given it: the table and the columns it should name, then the
  literals between the parentheses.
\<close>

definition insert_head :: "string \<Rightarrow> string list \<Rightarrow> string" where
  "insert_head table columns = ''INSERT INTO '' @ table @ '' ('' @ comma_separated columns @ '') VALUES (''"

definition read_insert :: "string \<Rightarrow> string list \<Rightarrow> string \<Rightarrow> string list option" where
  "read_insert table columns sql =
     (let head = insert_head table columns; rest = drop (length head) sql in
      if take (length head) sql = head \<and> rest \<noteq> [] \<and> last rest = CHR '')'' then read_literals (butlast rest) else None)"

lemma read_insert_append:
  "read_insert table columns (insert_head table columns @ text @ '')'') = read_literals text"
  by (simp add: read_insert_def Let_def)

lemma read_insert_length:
  assumes "read_insert table columns sql = Some vs"
  shows "length sql = length (insert_head table columns) + (\<Sum>v\<leftarrow>vs. length v + quotes v + 3)"
proof -
  let ?h = "insert_head table columns"
  from assms have t: "take (length ?h) sql = ?h" "drop (length ?h) sql \<noteq> []"
    and l: "read_literals (butlast (drop (length ?h) sql)) = Some vs"
    by (auto simp: read_insert_def Let_def split: if_splits)
  have "length sql = length ?h + length (drop (length ?h) sql)" using t(1) by (metis append_take_drop_id length_append)
  moreover have "length (butlast (drop (length ?h) sql)) + 1 = length (drop (length ?h) sql)"
    using t(2) by (metis length_append_singleton append_butlast_last_id Suc_eq_plus1)
  ultimately show ?thesis using read_literals_length [OF l] by simp
qed

lemma insert_statement_parts:
  "insert_statement table data = insert_head table (map fst data) @ comma_separated (map quoted (map snd data)) @ '')''"
  by (simp add: insert_statement_def insert_head_def)

lemma in_comma_separated: "c \<noteq> CHR '','' \<Longrightarrow> c \<in> set (comma_separated parts) \<longleftrightarrow> (\<exists>p\<in>set parts. c \<in> set p)"
proof (induction parts)
  case (Cons p ps)
  then show ?case by (cases "ps = []") (auto simp: comma_separated_Cons)
qed (simp add: comma_separated_def)

lemma zero_free_insert:
  "CHR 0x00 \<notin> set (insert_statement table data) \<longleftrightarrow>
     CHR 0x00 \<notin> set table \<and> (\<forall>(c, v) \<in> set data. CHR 0x00 \<notin> set c \<and> CHR 0x00 \<notin> set v)"
  unfolding insert_statement_def by (fastforce simp: in_comma_separated quoted_def)

lemma c_string_full: "length (c_string s) \<ge> length s \<longleftrightarrow> CHR 0x00 \<notin> set s"
proof
  assume "length (c_string s) \<ge> length s"
  then have "c_string s = s"
    unfolding c_string_def by (metis append_take_drop_id drop_all append_Nil2 takeWhile_eq_take length_takeWhile_le take_all)
  then show "CHR 0x00 \<notin> set s" by (metis (full_types) c_string_def set_takeWhileD)
qed simp

text \<open>
  C36.  What SQLite is told to insert is what was passed exactly when no value holds a single quote and no
  text a null character: the one statement that \<^verbatim>\<open>insert\<close> hands to SQLite names the table and the columns,
  and its literals, read as SQL defines them, are the list of the values if and only if no value contains
  the quote character and neither the table nor a column nor a value contains the character zero.  A value
  with a quote is taken as other text or as other values, and a statement with a zero is cut there.
\<close>

theorem insert_values_exact:
  assumes "data \<noteq> []"
  shows "\<exists>sql. (\<forall>(sq :: 'w sqlite) st. SQLiteDriver_insert sq table data True st = call_on (sq_exec sq sql) st) \<and>
    (read_insert table (map fst data) sql = Some (map snd data) \<longleftrightarrow>
       (\<forall>(c, v) \<in> set data. CHR 0x27 \<notin> set v) \<and>
       CHR 0x00 \<notin> set table \<and> (\<forall>(c, v) \<in> set data. CHR 0x00 \<notin> set c \<and> CHR 0x00 \<notin> set v))"
proof -
  let ?vs = "map snd data" and ?sql = "insert_statement table data"
  have q: "(\<forall>(c, v) \<in> set data. CHR 0x27 \<notin> set v) \<longleftrightarrow> (\<forall>v\<in>set ?vs. quotes v = 0)"
    by (auto simp: count_list_0_iff)
  have full: "length ?sql = length (insert_head table (map fst data)) + (\<Sum>v\<leftarrow>?vs. length v + 3)"
    using length_comma_separated_quoted [of ?vs] assms by (simp add: insert_statement_parts)
  have more: "(\<Sum>v\<leftarrow>?vs. length v + 3) \<le> (\<Sum>v\<leftarrow>?vs. length v + quotes v + 3)"
    by (rule sum_list_mono) simp
  have "read_insert table (map fst data) (c_string ?sql) = Some ?vs \<longleftrightarrow>
      (\<forall>v\<in>set ?vs. quotes v = 0) \<and> CHR 0x00 \<notin> set ?sql"
  proof
    assume "read_insert table (map fst data) (c_string ?sql) = Some ?vs"
    from read_insert_length [OF this] full more have "length (c_string ?sql) \<ge> length ?sql"
      and l: "length (c_string ?sql) = length (insert_head table (map fst data)) + (\<Sum>v\<leftarrow>?vs. length v + quotes v + 3)"
      by simp_all
    then have z: "CHR 0x00 \<notin> set ?sql" unfolding c_string_full by simp
    with l full have "(\<Sum>v\<leftarrow>?vs. length v + quotes v + 3) = (\<Sum>v\<leftarrow>?vs. length v + 3)" by simp
    with z show "(\<forall>v\<in>set ?vs. quotes v = 0) \<and> CHR 0x00 \<notin> set ?sql" unfolding sum_quotes_zero by blast
  next
    assume a: "(\<forall>v\<in>set ?vs. quotes v = 0) \<and> CHR 0x00 \<notin> set ?sql"
    then have "c_string ?sql = ?sql" by simp
    moreover have "read_literals (comma_separated (map quoted ?vs)) = Some ?vs"
      using a assms by (intro read_literals_quoted) (auto simp: count_list_0_iff)
    ultimately show "read_insert table (map fst data) (c_string ?sql) = Some ?vs"
      by (simp only: insert_statement_parts read_insert_append)
  qed
  then show ?thesis
    unfolding q zero_free_insert using assms by (intro exI [of _ "c_string ?sql"]) (simp add: SQLiteDriver_insert_def)
qed

text \<open>One value that is two.\<close>

lemma quote_splits_value:
  "read_literals (comma_separated (map quoted [''a'' @ [CHR 0x27] @ '','' @ [CHR 0x27] @ ''b'']))
     = Some [''a'', ''b'']"
  using read_literals_quoted [of "[''a'', ''b'']"] by (simp add: comma_separated_Cons quoted_append(2))

section \<open>Connections and sessions\<close>

text \<open>The objects a driver holds.\<close>

fun held :: "SqlDriver option \<Rightarrow> sql_object \<Rightarrow> int" where
  "held (Some (Driver_Sqlite db)) Sqlite_Connection = (if db then 1 else 0)"
| "held (Some (Driver_Mysql d)) Mysql_Session = (if md_session d then 1 else 0)"
| "held _ _ = 0"

text \<open>An operation is accounted for when what is live changes as what the driver holds.\<close>

definition accounted ::
  "SqlDriver option \<Rightarrow> (sql_object, 'w) counted \<Rightarrow> SqlDriver option \<Rightarrow> (sql_object, 'w) counted \<Rightarrow> bool" where
  "accounted driver st driver' st' \<longleftrightarrow> (\<forall>obj. fst st' obj - held driver' obj = fst st obj - held driver obj)"

lemma all_objects: "(\<forall>obj. P obj) \<longleftrightarrow> P Sqlite_Connection \<and> P Sqlite_Statement \<and> P Mysql_Session"
  by (metis sql_object.exhaust)

lemma driver_destroy_live: "fst (driver_destroy sq my driver st) obj = fst st obj - held driver obj"
  by (cases driver; cases "the driver"; cases obj)
    (auto simp: driver_destroy_def SQLiteDriver_destroy_def sqlite_close_def MysqlDriver_destroy_def)

lemma loadDriver_accounted:
  "YaSql_loadDriver sq my dbType driver st = ((ok, driver'), st') \<Longrightarrow> accounted driver st driver' st'"
  by (auto simp: YaSql_loadDriver_def accounted_def all_objects driver_destroy_live MysqlDriver_new_def
      split: if_splits)

lemma sqlite_connect_accounted:
  assumes "\<And>u w a w'. sq_open sq u w = ((True, a), w') \<Longrightarrow> a"
    and "SQLiteDriver_connect sq uri db st = ((ok, db'), st')"
  shows "accounted (Some (Driver_Sqlite db)) st (Some (Driver_Sqlite db')) st'"
  using assms(2)
  by (auto simp: SQLiteDriver_connect_def accounted_def all_objects call_on_def sqlite_close_def Let_def
      split: prod.splits if_splits)

lemma sqlite_query_accounted:
  "SQLiteDriver_query sq sql db st = Some (rows, st') \<Longrightarrow> fst st' = fst st"
  by (auto simp: SQLiteDriver_query_def call_on_def Let_def split: if_splits prod.splits option.splits)

lemma accounted_same: "fst st' = fst st \<Longrightarrow> (\<And>obj. held d' obj = held d obj) \<Longrightarrow> accounted d st d' st'"
  by (simp add: accounted_def)

lemma connect_accounted:
  assumes "\<And>u w a w'. sq_open sq u w = ((True, a), w') \<Longrightarrow> a"
    and "YaSql_connect sq my uri d st = ((ok, d'), st')"
  shows "accounted d st d' st' \<or>
    (\<exists>m. d = Some (Driver_Mysql m) \<and> md_session m \<and> ok \<and>
       fst st' = (fst st)(Mysql_Session := fst st Mysql_Session + 1) \<and> held d' = held d)"
proof (cases d)
  case None
  with assms(2) show ?thesis by (auto simp: YaSql_connect_def intro: accounted_same)
next
  case (Some driver)
  show ?thesis
  proof (cases driver)
    case (Driver_Sqlite db)
    with Some assms(2) sqlite_connect_accounted [of sq uri db st, OF assms(1)] show ?thesis
      by (auto simp: YaSql_connect_def split: prod.splits)
  next
    case (Driver_Mysql m)
    have "held (Some (Driver_Mysql (m\<lparr>md_session := True\<rparr>))) = held (Some (Driver_Mysql m))" if "md_session m"
      using that by (intro ext, case_tac x) auto
    with Some Driver_Mysql assms(2) show ?thesis
      by (auto simp: YaSql_connect_def MysqlDriver_connect_def call_on_def accounted_def all_objects
          split: prod.splits sum.splits)
  qed (use Some assms(2) in \<open>auto simp: YaSql_connect_def intro: accounted_same\<close>)
qed

lemma mysql_call_keeps:
  "mysql_result m (call_on f st) = ((ok, m'), st') \<Longrightarrow> fst st' = fst st \<and> md_session m' = md_session m"
  by (auto simp: mysql_result_def call_on_def split: prod.splits sum.splits)

lemma same_session_held: "md_session m' = md_session m \<Longrightarrow>
    held (Some (Driver_Mysql m')) obj = held (Some (Driver_Mysql m)) obj"
  by (cases obj) auto

lemma insert_accounted: "YaSql_insert sq my table data d st = ((ok, d'), st') \<Longrightarrow> accounted d st d' st'"
  by (auto simp: YaSql_insert_def SQLiteDriver_insert_def MysqlDriver_insert_def
      split: option.splits SqlDriver.splits prod.splits if_splits
      intro!: accounted_same same_session_held dest!: mysql_call_keeps call_on_live)

lemma update_accounted: "YaSql_update sq my table data condition d st = ((ok, d'), st') \<Longrightarrow> accounted d st d' st'"
  by (auto simp: YaSql_update_def SQLiteDriver_update_def MysqlDriver_update_def
      split: option.splits SqlDriver.splits prod.splits if_splits
      intro!: accounted_same same_session_held dest!: mysql_call_keeps call_on_live)

lemma remove_accounted: "YaSql_remove sq my table condition d st = ((ok, d'), st') \<Longrightarrow> accounted d st d' st'"
  by (auto simp: YaSql_remove_def SQLiteDriver_remove_def MysqlDriver_remove_def
      split: option.splits SqlDriver.splits prod.splits if_splits
      intro!: accounted_same same_session_held dest!: mysql_call_keeps call_on_live)

lemma query_accounted: "YaSql_query sq my sql d st = Some ((rows, d'), st') \<Longrightarrow> accounted d st d' st'"
  by (auto simp: YaSql_query_def MysqlDriver_query_def
      split: option.splits SqlDriver.splits prod.splits if_splits sum.splits
      intro!: accounted_same same_session_held dest!: sqlite_query_accounted call_on_live)

text \<open>
  C35.  The database facade accounts for its connections: whatever operation is called, the connections,
  statements and sessions that are live change exactly as those its driver holds, so destroying the
  driver returns them all.  The exception is connecting a MySQL driver that is connected: it opens a
  session more than it holds.
\<close>

theorem sql_objects_accounted:
  assumes "\<And>u w a w'. sq_open sq u w = ((True, a), w') \<Longrightarrow> a"
  shows "(\<forall>dbType ok d' st'. YaSql_loadDriver sq my dbType d st = ((ok, d'), st') \<longrightarrow> accounted d st d' st') \<and>
    (\<forall>uri ok d' st'. YaSql_connect sq my uri d st = ((ok, d'), st') \<longrightarrow> accounted d st d' st' \<or>
       (\<exists>m. d = Some (Driver_Mysql m) \<and> md_session m \<and> ok \<and>
          fst st' = (fst st)(Mysql_Session := fst st Mysql_Session + 1) \<and> held d' = held d)) \<and>
    (\<forall>table data ok d' st'. YaSql_insert sq my table data d st = ((ok, d'), st') \<longrightarrow> accounted d st d' st') \<and>
    (\<forall>table data cond ok d' st'. YaSql_update sq my table data cond d st = ((ok, d'), st') \<longrightarrow>
       accounted d st d' st') \<and>
    (\<forall>table cond ok d' st'. YaSql_remove sq my table cond d st = ((ok, d'), st') \<longrightarrow> accounted d st d' st') \<and>
    (\<forall>sql rows d' st'. YaSql_query sq my sql d st = Some ((rows, d'), st') \<longrightarrow> accounted d st d' st') \<and>
    (\<forall>obj. fst (driver_destroy sq my d st) obj = fst st obj - held d obj)"
  using loadDriver_accounted connect_accounted [OF assms] insert_accounted update_accounted remove_accounted
    query_accounted driver_destroy_live
  by (intro conjI allI impI) (blast | simp)+

section \<open>Rows\<close>

text \<open>The rows of a result that ends are returned in order.\<close>

primrec steps_through :: "'w sqlite \<Rightarrow> string option list list \<Rightarrow> 'w \<Rightarrow> 'w \<Rightarrow> bool" where
  "steps_through sq [] w w' \<longleftrightarrow> sq_step sq w = (None, w')"
| "steps_through sq (r # rs) w w' \<longleftrightarrow> (\<exists>w1. sq_step sq w = (Some r, w1) \<and> steps_through sq rs w1 w')"

lemma fetch_rows_all:
  "steps_through sq rs w w' \<Longrightarrow>
     fetch_rows sq names acc w = Some (acc @ map (\<lambda>r. fill_row names r []) rs, w')"
proof (induction rs arbitrary: acc w)
  case Nil
  then show ?case by (subst fetch_rows.simps) simp
next
  case (Cons r rs)
  then obtain w1 where "sq_step sq w = (Some r, w1)" "steps_through sq rs w1 w'" by auto
  with Cons.IH [of w1 "acc @ [fill_row names r []]"] show ?case by (subst fetch_rows.simps) simp
qed

lemma fill_row_lookup:
  "length names = length vals \<Longrightarrow> distinct names \<Longrightarrow> i < length names \<Longrightarrow>
     map_of (fill_row names vals row) (names ! i) = Some (case vals ! i of Some s \<Rightarrow> s | None \<Rightarrow> [])"
proof (induction names vals arbitrary: i row rule: list_induct2)
  case (Cons name names val vals)
  have keep: "map_of (fill_row names vals r) name = map_of r name" for r
    using Cons.hyps Cons.prems(1)
  proof (induction names vals arbitrary: r rule: list_induct2)
    case (Cons n ns v vs)
    then show ?case by (simp add: update_conv')
  qed simp
  show ?case
  proof (cases i)
    case 0
    then show ?thesis by (simp add: keep update_conv')
  next
    case (Suc j)
    with Cons show ?thesis by simp
  qed
qed simp

text \<open>A value that the connector does not convert, such as a number, reads as the empty string.\<close>

lemma mysql_number_lost: "my_get_string my v = None \<Longrightarrow> mysql_text my v = []"
  by (simp add: mysql_text_def)

end
