(* ===== verification/Log.thy ===== *)
theory Log
  imports Prelude
begin

text \<open>
  The log, \<^verbatim>\<open>src/src/ya_log/yalog.cpp\<close>.  Of the spdlog library the model keeps the registry of logger
  names, and per logger its file, its level, whether every message is flushed and what was written;
  \<open>sinks_ok\<close> says whether the sinks of a file can be built.  A new logger of the library has the level
  \<^verbatim>\<open>info\<close>, and registering a name twice throws.  The pattern of a line, the rotation of the file and the
  text of an exception are the library's.
\<close>

datatype log_level = Level_trace | Level_debug | Level_info | Level_warn | Level_error | Level_critical

primrec level_rank :: "log_level \<Rightarrow> nat" where
  "level_rank Level_trace = 0"
| "level_rank Level_debug = 1"
| "level_rank Level_info = 2"
| "level_rank Level_warn = 3"
| "level_rank Level_error = 4"
| "level_rank Level_critical = 5"

primrec level_name :: "log_level \<Rightarrow> string" where
  "level_name Level_trace = ''trace''"
| "level_name Level_debug = ''debug''"
| "level_name Level_info = ''info''"
| "level_name Level_warn = ''warn''"
| "level_name Level_error = ''error''"
| "level_name Level_critical = ''critical''"

record spd_logger =
  sp_file :: string
  sp_level :: log_level
  sp_flush :: bool

record YaLog =
  yl_logger :: "spd_logger option"
  yl_registry :: "string list"
  yl_written :: "(string \<times> log_level \<times> string) list"
  yl_stderr :: "string list"

definition YaLog_init :: "(string \<Rightarrow> bool) \<Rightarrow> string \<Rightarrow> YaLog \<Rightarrow> YaLog" where
  "YaLog_init sinks_ok file_name log =
     (if \<not> sinks_ok file_name
      then log\<lparr>yl_stderr := yl_stderr log @ [''Log initialization failed'']\<rparr>
      else
        let log = log\<lparr>yl_logger := Some \<lparr>sp_file = file_name, sp_level = Level_info, sp_flush = False\<rparr>\<rparr> in
        if ''YaLog'' \<in> set (yl_registry log)
        then log\<lparr>yl_stderr := yl_stderr log @ [''Log initialization failed'']\<rparr>
        else log\<lparr>yl_registry := ''YaLog'' # yl_registry log,
                 yl_logger := Some \<lparr>sp_file = file_name, sp_level = Level_trace, sp_flush = True\<rparr>\<rparr>)"

definition YaLog_new :: "(string \<Rightarrow> bool) \<Rightarrow> string list \<Rightarrow> YaLog" where
  "YaLog_new sinks_ok registry =
     YaLog_init sinks_ok ''./log/ya-net.log''
       \<lparr>yl_logger = None, yl_registry = registry, yl_written = [], yl_stderr = []\<rparr>"

text \<open>The six methods that \<^verbatim>\<open>DEFINE_LOG_METHOD\<close> defines.\<close>

definition YaLog_write :: "log_level \<Rightarrow> string \<Rightarrow> YaLog \<Rightarrow> YaLog" where
  "YaLog_write level msg log =
     (case yl_logger log of
        Some logger \<Rightarrow>
          if level_rank (sp_level logger) \<le> level_rank level
          then log\<lparr>yl_written := yl_written log @ [(sp_file logger, level, msg)]\<rparr> else log
      | None \<Rightarrow> log\<lparr>yl_stderr := yl_stderr log @ [''Logger not initialized: ['' @ level_name level @ ''] '' @ msg]\<rparr>)"

definition YaLog_destroy :: "YaLog \<Rightarrow> YaLog" where
  "YaLog_destroy log =
     (if yl_logger log \<noteq> None then log\<lparr>yl_registry := removeAll ''YaLog'' (yl_registry log)\<rparr> else log)"

text \<open>
  The log as it is constructed writes every message, of every level, in the order of the calls.
  Initialising it again, with another file, replaces the logger by one that drops the two lowest
  levels: its name is registered already, and the exception skips the lines that set the level.
\<close>

lemma log_complete_until_reinit:
  assumes "sinks_ok ''./log/ya-net.log''" "''YaLog'' \<notin> set registry"
  shows "yl_written (fold (\<lambda>(l, m). YaLog_write l m) msgs (YaLog_new sinks_ok registry))
      = map (\<lambda>(l, m). (''./log/ya-net.log'', l, m)) msgs \<and>
    (sinks_ok file \<longrightarrow>
       yl_written (fold (\<lambda>(l, m). YaLog_write l m) msgs (YaLog_init sinks_ok file (YaLog_new sinks_ok registry)))
         = map (\<lambda>(l, m). (file, l, m)) (filter (\<lambda>(l, m). l \<noteq> Level_trace \<and> l \<noteq> Level_debug) msgs))"
proof -
  have fold_write: "yl_written (fold (\<lambda>(l, m). YaLog_write l m) msgs log)
      = yl_written log @ map (\<lambda>(l, m). (sp_file g, l, m))
          (filter (\<lambda>(l, m). level_rank (sp_level g) \<le> level_rank l) msgs)"
    if "yl_logger log = Some g" for log g
    using that by (induction msgs arbitrary: log) (auto simp: YaLog_write_def)
  have low: "(2::nat) \<le> level_rank l \<longleftrightarrow> l \<noteq> Level_trace \<and> l \<noteq> Level_debug" for l
    by (cases l) auto
  let ?n = "YaLog_new sinks_ok registry"
  have n: "yl_logger ?n = Some \<lparr>sp_file = ''./log/ya-net.log'', sp_level = Level_trace, sp_flush = True\<rparr>"
    "yl_written ?n = []" "''YaLog'' \<in> set (yl_registry ?n)"
    using assms by (simp_all add: YaLog_new_def YaLog_init_def)
  have i: "yl_logger (YaLog_init sinks_ok file ?n) = Some \<lparr>sp_file = file, sp_level = Level_info, sp_flush = False\<rparr>"
    "yl_written (YaLog_init sinks_ok file ?n) = []" if "sinks_ok file"
    using that n by (simp_all add: YaLog_init_def)
  show ?thesis
    using fold_write [OF n(1)] fold_write [OF i(1)] n(2) i(2) by (simp add: low)
qed

end
