(* ===== verification/Shell.thy ===== *)
theory Shell
  imports Digits
begin

text \<open>
  The interactive shell, \<^verbatim>\<open>src/src/ya_shell/yashell.cpp\<close>.  Its streams are the input stream of \<open>Digits\<close> and
  the text written so far; \<^verbatim>\<open>std::endl\<close> is a line_feed.
\<close>

section \<open>The shell\<close>

record YaShell =
  sh_running :: bool
  sh_in :: istream
  sh_out :: string

definition YaShell_new :: "istream \<Rightarrow> YaShell" where
  "YaShell_new input = \<lparr>sh_running = True, sh_in = input, sh_out = []\<rparr>"

text \<open>\<^verbatim>\<open>while (iss >> token)\<close>: the maximal runs of characters that are no white space.\<close>

function parseCommand :: "string \<Rightarrow> string list" where
  "parseCommand line =
     (let rest = dropWhile is_space line in
      if rest = [] then []
      else takeWhile (\<lambda>c. \<not> is_space c) rest # parseCommand (dropWhile (\<lambda>c. \<not> is_space c) rest))"
  by pat_completeness auto
termination
proof (relation "measure length", simp)
  fix line :: string and rest
  assume r: "rest = dropWhile is_space line" "rest \<noteq> []"
  then have h: "\<not> is_space (hd rest)" by (metis hd_dropWhile)
  obtain c cs where "rest = c # cs" using r(2) by (cases rest) auto
  with h have "length (dropWhile (\<lambda>c. \<not> is_space c) rest) < length rest"
    by (simp add: le_imp_less_Suc length_dropWhile_le)
  also have "\<dots> \<le> length line" unfolding r(1) by (rule length_dropWhile_le)
  finally show "(dropWhile (\<lambda>c. \<not> is_space c) rest, line) \<in> measure length" by simp
qed

declare parseCommand.simps [simp del]

abbreviation (input) line_feed :: char where "line_feed \<equiv> CHR 0x0A"

definition help_text :: string where
  "help_text = ''ya-net'' @ [line_feed] @ ''Usage:'' @ [line_feed] @ ''  help        Print help'' @ [line_feed] @
     ''  echo [args] print args'' @ [line_feed] @ ''  exit/quit   Exit shell'' @ [line_feed]"

text \<open>What a command prints, and whether the shell goes on.\<close>

definition executeCommand :: "string list \<Rightarrow> YaShell \<Rightarrow> YaShell" where
  "executeCommand tokens sh =
     (case tokens of
        [] \<Rightarrow> sh
      | cmd # args \<Rightarrow>
          if cmd = ''q'' \<or> cmd = ''quit'' \<or> cmd = ''exit''
          then sh\<lparr>sh_out := sh_out sh @ ''bye...'' @ [line_feed], sh_running := False\<rparr>
          else if cmd = ''echo''
          then sh\<lparr>sh_out := sh_out sh @ concat (map (\<lambda>t. t @ '' '') args) @ [line_feed]\<rparr>
          else if cmd = ''help'' then sh\<lparr>sh_out := sh_out sh @ help_text\<rparr>
          else sh\<lparr>sh_out := sh_out sh @ ''Unknown: '' @ cmd @ [line_feed]\<rparr>)"

definition stream_measure :: "istream \<Rightarrow> nat" where
  "stream_measure st = (if is_good st then Suc (length (is_rest st)) else 0)"

lemma getline_measure:
  "getline delim st str = (line, st') \<Longrightarrow> \<not> is_fail st' \<Longrightarrow> stream_measure st' < stream_measure st"
  using length_dropWhile_le [of "\<lambda>c. c \<noteq> delim" "is_rest st"]
  by (auto simp: getline_def stream_measure_def is_good_def Let_def split: list.splits if_splits)

lemma executeCommand_in: "sh_in (executeCommand tokens sh) = sh_in sh"
  by (simp add: executeCommand_def split: list.split)

function YaShell_run :: "YaShell \<Rightarrow> YaShell" where
  "YaShell_run sh =
     (if \<not> sh_running sh then sh
      else
        let sh = sh\<lparr>sh_out := sh_out sh @ ''ya-net> ''\<rparr>;
            (line, input) = getline line_feed (sh_in sh) [];
            sh = sh\<lparr>sh_in := input\<rparr>
        in if is_fail input then sh\<lparr>sh_out := sh_out sh @ [line_feed] @ ''Exit.'' @ [line_feed]\<rparr>
           else YaShell_run (executeCommand (parseCommand line) sh))"
  by pat_completeness auto
termination
  by (relation "measure (stream_measure \<circ> sh_in)")
    (auto simp: executeCommand_in dest!: getline_measure [OF sym])

declare YaShell_run.simps [simp del]

section \<open>A session of the shell\<close>

text \<open>The lines \<^verbatim>\<open>std::getline\<close> reads of a text: a final line_feed ends the last line and starts none.\<close>

function text_lines :: "string \<Rightarrow> string list" where
  "text_lines s =
     (if s = [] then []
      else takeWhile (\<lambda>c. c \<noteq> line_feed) s # text_lines (tl (dropWhile (\<lambda>c. c \<noteq> line_feed) s)))"
  by pat_completeness auto
termination
proof (relation "measure length")
  fix s :: string
  assume "s \<noteq> []"
  then have "0 < length s" by simp
  with length_dropWhile_le [of "\<lambda>c. c \<noteq> line_feed" s]
  show "(tl (dropWhile (\<lambda>c. c \<noteq> line_feed) s), s) \<in> measure length"
    by (simp only: in_measure length_tl)
qed simp

declare text_lines.simps [simp del]

definition stream_lines :: "istream \<Rightarrow> string list" where
  "stream_lines st = (if is_good st then text_lines (is_rest st) else [])"

lemma text_lines_Nil [simp]: "text_lines [] = []"
  by (subst text_lines.simps) simp

lemma text_lines_last:
  assumes "s \<noteq> []" "dropWhile (\<lambda>c. c \<noteq> line_feed) s = []"
  shows "text_lines s = [s]" "takeWhile (\<lambda>c. c \<noteq> line_feed) s = s"
proof -
  show t: "takeWhile (\<lambda>c. c \<noteq> line_feed) s = s"
    using assms(2) by (metis append_Nil2 takeWhile_dropWhile_id)
  show "text_lines s = [s]" by (subst text_lines.simps) (simp only: t assms, simp add: assms(1))
qed

lemma text_lines_Cons:
  assumes "dropWhile (\<lambda>c. c \<noteq> line_feed) s = c # rest"
  shows "text_lines s = takeWhile (\<lambda>c. c \<noteq> line_feed) s # text_lines rest"
proof -
  have "s \<noteq> []" using assms by auto
  then show ?thesis by (subst text_lines.simps) (simp only: assms list.sel if_False)
qed

lemma getline_lines:
  assumes "getline line_feed st [] = (line, st')"
  shows "stream_lines st = (if is_fail st' then [] else line # stream_lines st')"
proof (cases "is_good st")
  case good: True
  show ?thesis
  proof (cases "dropWhile (\<lambda>c. c \<noteq> line_feed) (is_rest st)")
    case Nil
    have g: "line = takeWhile (\<lambda>c. c \<noteq> line_feed) (is_rest st)"
      "st' = \<lparr>is_rest = [], is_eof = True, is_fail = (line = [])\<rparr>"
      using assms [unfolded getline_def Let_def Nil list.case] good by auto
    show ?thesis
    proof (cases "is_rest st = []")
      case True
      with g good show ?thesis by (simp add: stream_lines_def)
    next
      case False
      with g good text_lines_last [OF False Nil] show ?thesis by (simp add: stream_lines_def is_good_def)
    qed
  next
    case (Cons c rest)
    have "line = takeWhile (\<lambda>c. c \<noteq> line_feed) (is_rest st)" "st' = st\<lparr>is_rest := rest\<rparr>"
      using assms [unfolded getline_def Let_def Cons list.case] good by auto
    with good text_lines_Cons [OF Cons] show ?thesis by (simp add: stream_lines_def is_good_def)
  qed
next
  case False
  with assms show ?thesis by (auto simp: getline_def stream_lines_def)
qed

text \<open>
  The reference: the lines in order, each after a prompt, until a command ends the shell or the lines
  run out.
\<close>

fun script :: "string list \<Rightarrow> string \<Rightarrow> bool \<times> string" where
  "script [] out = (True, out @ ''ya-net> '' @ [line_feed] @ ''Exit.'' @ [line_feed])"
| "script (line # lines) out =
     (let sh = executeCommand (parseCommand line)
                 \<lparr>sh_running = True, sh_in = istream_of [], sh_out = out @ ''ya-net> ''\<rparr>
      in if sh_running sh then script lines (sh_out sh) else (False, sh_out sh))"

lemma executeCommand_any_input:
  "sh_running (executeCommand tokens (sh\<lparr>sh_in := st\<rparr>)) = sh_running (executeCommand tokens sh)"
  "sh_out (executeCommand tokens (sh\<lparr>sh_in := st\<rparr>)) = sh_out (executeCommand tokens sh)"
  by (simp_all add: executeCommand_def split: list.split)

lemma run_is_script:
  "sh_running sh \<Longrightarrow>
     (sh_running (YaShell_run sh), sh_out (YaShell_run sh)) = script (stream_lines (sh_in sh)) (sh_out sh)"
proof (induction sh rule: YaShell_run.induct)
  case (1 sh)
  obtain line st where g: "getline line_feed (sh_in sh) [] = (line, st)" by fastforce
  let ?p = "sh\<lparr>sh_out := sh_out sh @ ''ya-net> '', sh_in := st\<rparr>"
  let ?e = "executeCommand (parseCommand line) ?p"
  show ?case
  proof (cases "is_fail st")
    case True
    with 1(2) g getline_lines [OF g] show ?thesis by (subst (1 2) YaShell_run.simps) simp
  next
    case False
    have run: "YaShell_run sh = YaShell_run ?e"
      using 1(2) g False by (subst YaShell_run.simps) simp
    have q: "\<lparr>sh_running = True, sh_in = istream_of [], sh_out = sh_out sh @ ''ya-net> ''\<rparr>
        = sh\<lparr>sh_out := sh_out sh @ ''ya-net> '', sh_in := istream_of []\<rparr>" using 1(2) by simp
    have in_e: "sh_in ?e = st" by (simp add: executeCommand_in)
    show ?thesis
    proof (cases "sh_running ?e")
      case True
      have ih: "(sh_running (YaShell_run ?e), sh_out (YaShell_run ?e)) = script (stream_lines (sh_in ?e)) (sh_out ?e)"
        using 1 g False True by simp
      with getline_lines [OF g] False True run in_e show ?thesis
        by (simp add: q executeCommand_any_input)
    next
      case stop: False
      then have "YaShell_run ?e = ?e" by (subst YaShell_run.simps) simp
      with getline_lines [OF g] False stop run show ?thesis
        by (simp add: q executeCommand_any_input)
    qed
  qed
qed

text \<open>
  C40.  The shell does what its script says, and ends: whatever text it is given, \<^verbatim>\<open>run\<close> returns, and it
  has printed, after a prompt each, the answers to the lines of the text in order, up to and including
  the first line that ends it, or all of them and the farewell at the end of the input.
\<close>

theorem shell_runs_script:
  "(sh_running (YaShell_run (YaShell_new (istream_of s))), sh_out (YaShell_run (YaShell_new (istream_of s))))
     = script (text_lines s) []"
  using run_is_script [of "YaShell_new (istream_of s)"]
  by (simp add: YaShell_new_def stream_lines_def istream_of_def is_good_def)

end
