(* ===== verification/Hwinfo.thy ===== *)
theory Hwinfo
  imports Shell
begin

text \<open>
  Hardware information on Linux, \<^verbatim>\<open>src/src/ya_hwinfo\<close>.  \<open>files\<close> gives the content of a file that can be
  opened and \<open>entries\<close> the names in a directory that can be read; iterating over another one throws
  (\<open>Inl\<close> with the path).  The code for Windows is not part of a Linux build.
\<close>

type_synonym file_contents = "string \<Rightarrow> string option"
type_synonym directory_entries = "string \<Rightarrow> string list option"

text \<open>\<^verbatim>\<open>std::getline(file, str)\<close> on a file just opened, and \<open>str\<close> when it cannot be opened.\<close>

definition first_line :: "file_contents \<Rightarrow> string \<Rightarrow> string" where
  "first_line files path =
     (case files path of None \<Rightarrow> [] | Some content \<Rightarrow> takeWhile (\<lambda>c. c \<noteq> line_feed) content)"

definition file_lines :: "file_contents \<Rightarrow> string \<Rightarrow> string list" where
  "file_lines files path = (case files path of None \<Rightarrow> [] | Some content \<Rightarrow> text_lines content)"

definition starts_with :: "string \<Rightarrow> string \<Rightarrow> bool" where
  "starts_with p s \<longleftrightarrow> take (length p) s = p"

fun contains :: "string \<Rightarrow> string \<Rightarrow> bool" where
  "contains p [] = (p = [])"
| "contains p (c # cs) = (starts_with p (c # cs) \<or> contains p cs)"

section \<open>BIOS and motherboard\<close>

record BIOS =
  bi_serial_number :: string
  bi_manufacturer :: string
  bi_date :: string
  bi_version :: string

definition YaBIOS_init :: "file_contents \<Rightarrow> BIOS" where
  "YaBIOS_init files =
     \<lparr>bi_serial_number = first_line files ''/sys/class/dmi/id/bios_serial'',
      bi_manufacturer = first_line files ''/sys/class/dmi/id/bios_vendor'',
      bi_date = first_line files ''/sys/class/dmi/id/bios_date'',
      bi_version = first_line files ''/sys/class/dmi/id/bios_version''\<rparr>"

record MOTHERBOARD =
  mb_serial_number :: string
  mb_manufacturer :: string
  mb_version :: string
  mb_name :: string

definition YaMOTHERBOARD_init :: "file_contents \<Rightarrow> MOTHERBOARD" where
  "YaMOTHERBOARD_init files =
     \<lparr>mb_serial_number = first_line files ''/sys/class/dmi/id/board_serial'',
      mb_manufacturer = first_line files ''/sys/class/dmi/id/board_vendor'',
      mb_version = first_line files ''/sys/class/dmi/id/board_version'',
      mb_name = first_line files ''/sys/class/dmi/id/board_name''\<rparr>"

section \<open>Processor\<close>

definition blank :: "char \<Rightarrow> bool" where
  "blank c \<longleftrightarrow> c = CHR '' '' \<or> c = CHR 0x09"

definition trim_blanks :: "string \<Rightarrow> string" where
  "trim_blanks s = rev (dropWhile blank (rev (dropWhile blank s)))"

text \<open>The first line that holds the field's name and a colon.\<close>

fun find_field :: "string \<Rightarrow> string list \<Rightarrow> string" where
  "find_field field [] = []"
| "find_field field (line # lines) =
     (if contains field line \<and> CHR '':'' \<in> set line
      then trim_blanks (tl (dropWhile (\<lambda>c. c \<noteq> CHR '':'') line))
      else find_field field lines)"

definition get_cpu_field :: "file_contents \<Rightarrow> string \<Rightarrow> string" where
  "get_cpu_field files field = find_field field (file_lines files ''/proc/cpuinfo'')"

record CPU =
  cp_serial_number :: string
  cp_architecture :: string
  cp_manufacturer :: string
  cp_name :: string

text \<open>\<open>machine\<close> is what \<^verbatim>\<open>uname\<close> reports, \<open>None\<close> when it fails.\<close>

definition YaCPU_init :: "file_contents \<Rightarrow> string option \<Rightarrow> CPU" where
  "YaCPU_init files machine =
     (let serial = get_cpu_field files ''serial'' in
      \<lparr>cp_serial_number = (if serial = [] \<or> serial = ''Not Specified'' then [] else serial),
       cp_architecture = (case machine of Some m \<Rightarrow> m | None \<Rightarrow> []),
       cp_manufacturer = get_cpu_field files ''vendor_id'', cp_name = get_cpu_field files ''model name''\<rparr>)"

section \<open>Operating system\<close>

record OS =
  os_id :: string
  os_name :: string
  os_version :: string

definition unquote :: "string \<Rightarrow> string" where
  "unquote s = (if s \<noteq> [] \<and> hd s = CHR 0x22 \<and> last s = CHR 0x22 then butlast (tl s) else s)"

fun release_lines :: "string list \<Rightarrow> OS \<Rightarrow> OS" where
  "release_lines [] os = os"
| "release_lines (line # lines) os =
     release_lines lines
       (if starts_with ''PRETTY_NAME='' line then os\<lparr>os_name := unquote (drop 12 line)\<rparr>
        else if starts_with ''VERSION_ID='' line then os\<lparr>os_version := unquote (drop 11 line)\<rparr>
        else os)"

definition YaOS_init :: "file_contents \<Rightarrow> OS" where
  "YaOS_init files =
     (release_lines (file_lines files ''/etc/os-release'') \<lparr>os_id = [], os_name = [], os_version = []\<rparr>)
       \<lparr>os_id := first_line files ''/etc/machine-id''\<rparr>"

section \<open>Disks and graphics\<close>

record DISK =
  dk_serial_number :: string
  dk_manufacturer :: string
  dk_name :: string

definition YaDISK_init :: "file_contents \<Rightarrow> directory_entries \<Rightarrow> string + DISK list" where
  "YaDISK_init files entries =
     (case entries ''/sys/block/'' of
        None \<Rightarrow> Inl ''/sys/block/''
      | Some devs \<Rightarrow>
          Inr (map (\<lambda>dev. \<lparr>dk_serial_number = first_line files (''/sys/block/'' @ dev @ ''/device/serial''),
                           dk_manufacturer = first_line files (''/sys/block/'' @ dev @ ''/device/model''),
                           dk_name = dev\<rparr>)
                 (filter (\<lambda>dev. \<exists>p \<in> set [''hd'', ''nvme'', ''sd'']. starts_with p dev) devs)))"

record GPU =
  gp_serial_number :: string
  gp_manufacturer :: string
  gp_name :: string

definition trim_space :: "string \<Rightarrow> string" where
  "trim_space s =
     (let ws = (\<lambda>c. c \<in> set [CHR '' '', CHR 0x09, line_feed, CHR 0x0D])
      in rev (dropWhile ws (rev (dropWhile ws s))))"

definition vendor_id_to_name :: "string \<Rightarrow> string" where
  "vendor_id_to_name vid =
     (if vid = ''0x10de'' then ''NVIDIA'' else if vid = ''0x1002'' then ''AMD''
      else if vid = ''0x8086'' then ''Intel'' else [])"

definition YaGPU_init :: "file_contents \<Rightarrow> directory_entries \<Rightarrow> (string \<Rightarrow> bool) \<Rightarrow> string + GPU list" where
  "YaGPU_init files entries exists =
     (case entries ''/sys/class/drm'' of
        None \<Rightarrow> Inl ''/sys/class/drm''
      | Some names \<Rightarrow>
          Inr (map (\<lambda>name.
                 let path = ''/sys/class/drm/'' @ name @ ''/device/'' in
                 \<lparr>gp_serial_number = trim_space (first_line files (path @ ''device'')),
                  gp_manufacturer = vendor_id_to_name (trim_space (first_line files (path @ ''vendor''))),
                  gp_name = name\<rparr>)
                 (filter (\<lambda>name. starts_with ''card'' name \<and>
                            exists (''/sys/class/drm/'' @ name @ ''/device/vendor'')) names)))"

section \<open>Memory\<close>

record MEMORY =
  me_serial_number :: string
  me_manufacturer :: string

text \<open>
  The strings of an SMBIOS structure: \<^verbatim>\<open>std::string s(&data[i])\<close> reads up to the next null character, past
  the end of the data where there is none (\<open>None\<close>).  The loop that searches the end of the structure stays
  inside the data, and its result \<^verbatim>\<open>string_offset\<close> is not used.
\<close>

function string_at :: "string \<Rightarrow> nat \<Rightarrow> nat \<Rightarrow> nat \<Rightarrow> string option" where
  "string_at data i current index =
     (if i \<ge> length data then Some []
      else
        let rest = drop i data; s = takeWhile (\<lambda>c. c \<noteq> CHR 0x00) rest in
        if CHR 0x00 \<notin> set rest then None
        else if current = index then Some s
        else string_at data (i + length s + 1) (current + 1) index)"
  by pat_completeness auto
termination by (relation "measure (\<lambda>(data, i, current, index). length data - i)") auto

declare string_at.simps [simp del]

definition extract_string :: "string \<Rightarrow> nat \<Rightarrow> nat \<Rightarrow> string option" where
  "extract_string data index string_area_offset =
     (if index = 0 then Some [] else string_at data string_area_offset 1 index)"

definition memory_device :: "string \<Rightarrow> MEMORY option" where
  "memory_device data =
     (case (extract_string data (of_char (data ! 0x17)) 0x20, extract_string data (of_char (data ! 0x18)) 0x20) of
        (Some manufacturer, Some serial) \<Rightarrow> Some \<lparr>me_serial_number = serial, me_manufacturer = manufacturer\<rparr>
      | _ \<Rightarrow> None)"

fun memory_entries ::
  "file_contents \<Rightarrow> (string \<Rightarrow> bool) \<Rightarrow> string list \<Rightarrow> MEMORY list \<Rightarrow> MEMORY list option" where
  "memory_entries files is_directory [] memories = Some memories"
| "memory_entries files is_directory (name # names) memories =
     (let path = ''/sys/firmware/dmi/entries/'' @ name in
      if \<not> is_directory path \<or> \<not> starts_with ''17-'' name
      then memory_entries files is_directory names memories
      else case files (path @ ''/raw'') of
        None \<Rightarrow> memory_entries files is_directory names memories
      | Some data \<Rightarrow>
          if length data < 0x20 then memory_entries files is_directory names memories
          else (case memory_device data of
                  None \<Rightarrow> None
                | Some memory \<Rightarrow> memory_entries files is_directory names (memories @ [memory])))"

definition YaMEMORY_init ::
  "file_contents \<Rightarrow> directory_entries \<Rightarrow> (string \<Rightarrow> bool) \<Rightarrow> (string + MEMORY list) option" where
  "YaMEMORY_init files entries is_directory =
     (case entries ''/sys/firmware/dmi/entries'' of
        None \<Rightarrow> Some (Inl ''/sys/firmware/dmi/entries'')
      | Some names \<Rightarrow> map_option Inr (memory_entries files is_directory names []))"

section \<open>Network\<close>

record NETWORK =
  nw_name :: string
  nw_ipv4 :: string
  nw_ipv6 :: string
  nw_mac :: string

text \<open>
  The list of \<^verbatim>\<open>getifaddrs\<close>: per entry the interface and its address, \<open>None\<close> where there is none.  An
  address of another family is \<open>Family_other\<close>.
\<close>

datatype if_address = Family_inet string | Family_packet | Family_other

type_synonym ifaddrs = "(string \<times> if_address option) list"

fun getIp4 :: "ifaddrs \<Rightarrow> string \<Rightarrow> string" where
  "getIp4 [] iface = []"
| "getIp4 ((name, Some (Family_inet ip)) # rest) iface = (if name = iface then ip else getIp4 rest iface)"
| "getIp4 (_ # rest) iface = getIp4 rest iface"

definition getMac :: "file_contents \<Rightarrow> string \<Rightarrow> string" where
  "getMac files name = first_line files (''/sys/class/net/'' @ name @ ''/address'')"

text \<open>The list is asked for again for each interface; \<open>None\<close> is a failed call.\<close>

definition YaNETWORK_init :: "file_contents \<Rightarrow> ifaddrs option \<Rightarrow> NETWORK list" where
  "YaNETWORK_init files ifaddr =
     (case ifaddr of
        None \<Rightarrow> []
      | Some entries \<Rightarrow>
          filter (\<lambda>net. nw_mac net \<noteq> [] \<or> nw_ipv4 net \<noteq> [])
            (map (\<lambda>(iface, _). \<lparr>nw_name = iface, nw_ipv4 = getIp4 entries iface, nw_ipv6 = [],
                                 nw_mac = getMac files iface\<rparr>)
               (filter (\<lambda>(_, address). address = Some Family_packet) entries)))"

section \<open>The facade\<close>

text \<open>
  \<^verbatim>\<open>YaHwinfo\<close> constructs a reader for every call, so that each answer is of the machine as it is then,
  and copies the fields the reader's accessors give.
\<close>

record machine_state =
  mc_files :: file_contents
  mc_entries :: directory_entries
  mc_exists :: "string \<Rightarrow> bool"
  mc_is_directory :: "string \<Rightarrow> bool"
  mc_uname :: "string option"
  mc_ifaddrs :: "ifaddrs option"

definition YaHwinfo_getBIOS :: "machine_state \<Rightarrow> BIOS" where
  "YaHwinfo_getBIOS mc =
     (let ya_bios = YaBIOS_init (mc_files mc) in
      \<lparr>bi_serial_number = bi_serial_number ya_bios, bi_manufacturer = bi_manufacturer ya_bios,
       bi_date = bi_date ya_bios, bi_version = bi_version ya_bios\<rparr>)"

definition YaHwinfo_getCPU :: "machine_state \<Rightarrow> CPU" where
  "YaHwinfo_getCPU mc =
     (let ya_cpu = YaCPU_init (mc_files mc) (mc_uname mc) in
      \<lparr>cp_serial_number = cp_serial_number ya_cpu, cp_architecture = cp_architecture ya_cpu,
       cp_manufacturer = cp_manufacturer ya_cpu, cp_name = cp_name ya_cpu\<rparr>)"

definition YaHwinfo_getGPU :: "machine_state \<Rightarrow> string + GPU list" where
  "YaHwinfo_getGPU mc = YaGPU_init (mc_files mc) (mc_entries mc) (mc_exists mc)"

definition YaHwinfo_getMEMORY :: "machine_state \<Rightarrow> (string + MEMORY list) option" where
  "YaHwinfo_getMEMORY mc = YaMEMORY_init (mc_files mc) (mc_entries mc) (mc_is_directory mc)"

definition YaHwinfo_getOS :: "machine_state \<Rightarrow> OS" where
  "YaHwinfo_getOS mc =
     (let ya_os = YaOS_init (mc_files mc) in
      \<lparr>os_id = os_id ya_os, os_name = os_name ya_os, os_version = os_version ya_os\<rparr>)"

definition YaHwinfo_getDISK :: "machine_state \<Rightarrow> string + DISK list" where
  "YaHwinfo_getDISK mc = YaDISK_init (mc_files mc) (mc_entries mc)"

definition YaHwinfo_getMOTHERBOARD :: "machine_state \<Rightarrow> MOTHERBOARD" where
  "YaHwinfo_getMOTHERBOARD mc =
     (let ya_motherboard = YaMOTHERBOARD_init (mc_files mc) in
      \<lparr>mb_serial_number = mb_serial_number ya_motherboard, mb_manufacturer = mb_manufacturer ya_motherboard,
       mb_version = mb_version ya_motherboard, mb_name = mb_name ya_motherboard\<rparr>)"

definition YaHwinfo_getNETWORK :: "machine_state \<Rightarrow> NETWORK list" where
  "YaHwinfo_getNETWORK mc = YaNETWORK_init (mc_files mc) (mc_ifaddrs mc)"

section \<open>What the readers report\<close>

lemma string_at_terminated:
  assumes "CHR 0x00 \<notin> set s"
  shows "string_at (pre @ s @ CHR 0x00 # rest) (length pre) current index =
    (if current = index then Some s
     else string_at (pre @ s @ CHR 0x00 # rest) (length (pre @ s @ [CHR 0x00])) (current + 1) index)"
proof -
  have "takeWhile (\<lambda>c. c \<noteq> CHR 0x00) (s @ CHR 0x00 # rest) = s"
    using assms by (subst takeWhile_append2) auto
  then show ?thesis
    by (subst string_at.simps) (simp add: Let_def add.assoc)
qed

lemma string_at_zeros:
  "current \<le> index \<Longrightarrow> string_at (pre @ replicate k (CHR 0x00)) (length pre) current index = Some []"
proof (induction k arbitrary: pre current)
  case 0
  show ?case by (subst string_at.simps) simp
next
  case (Suc k)
  show ?case
    using string_at_terminated [of "[]" pre "replicate k (CHR 0x00)" current index]
      Suc.IH [of "current + 1" "pre @ [CHR 0x00]"] Suc.prems by simp
qed

lemma string_at_nth:
  assumes "\<forall>s \<in> set ss. CHR 0x00 \<notin> set s" "current \<le> index"
  shows "string_at (pre @ concat (map (\<lambda>s. s @ [CHR 0x00]) ss) @ replicate k (CHR 0x00)) (length pre) current index
    = Some (if index - current < length ss then ss ! (index - current) else [])"
  using assms
proof (induction ss arbitrary: pre current)
  case Nil
  then show ?case by (simp add: string_at_zeros)
next
  case (Cons s ss)
  let ?rest = "concat (map (\<lambda>s. s @ [CHR 0x00]) ss) @ replicate k (CHR 0x00)"
  have "string_at (pre @ s @ CHR 0x00 # ?rest) (length pre) current index =
    (if current = index then Some s
     else string_at (pre @ s @ CHR 0x00 # ?rest) (length (pre @ s @ [CHR 0x00])) (current + 1) index)"
    using Cons.prems by (intro string_at_terminated) simp
  moreover have "string_at ((pre @ s @ [CHR 0x00]) @ ?rest) (length (pre @ s @ [CHR 0x00])) (current + 1) index
      = Some (if index - (current + 1) < length ss then ss ! (index - (current + 1)) else [])"
    if "current \<noteq> index"
    using Cons.prems that by (intro Cons.IH) auto
  ultimately show ?case
    using Cons.prems by (cases "current = index") (auto simp: nth_Cons' less_diff_conv)
qed

text \<open>
  A memory device whose structure has the formatted length \<^verbatim>\<open>0x20\<close> is reported with the strings its
  two index bytes name: the manufacturer by byte \<^verbatim>\<open>0x17\<close>, the serial number by byte \<^verbatim>\<open>0x18\<close>, counted from
  one; an index of zero or behind the last string gives an empty one, and nothing is read past the data.
\<close>

lemma memory_device_reported:
  assumes "length header = 0x20" "\<forall>s \<in> set ss. CHR 0x00 \<notin> set s"
  shows "memory_device (header @ concat (map (\<lambda>s. s @ [CHR 0x00]) ss) @ replicate k (CHR 0x00)) =
    Some \<lparr>me_serial_number = ([] # ss @ replicate 255 []) ! of_char (header ! 0x18),
          me_manufacturer = ([] # ss @ replicate 255 []) ! of_char (header ! 0x17)\<rparr>"
proof -
  have "extract_string (header @ concat (map (\<lambda>s. s @ [CHR 0x00]) ss) @ replicate k (CHR 0x00)) n 0x20
      = Some (([] # ss @ replicate 255 []) ! n)" if "n < 256" for n
    using string_at_nth [of ss 1 n header k] assms that
    by (auto simp: extract_string_def nth_Cons' nth_append)
  moreover have "(of_char c :: nat) < 256" for c
    by simp
  ultimately show ?thesis
    using assms(1) by (simp add: memory_device_def nth_append)
qed

text \<open>
  The strings are read from \<^verbatim>\<open>0x20\<close> whatever length the structure itself gives in its second byte: in a
  structure of \<^verbatim>\<open>0x28\<close> bytes the bytes from \<^verbatim>\<open>0x20\<close> on are taken for strings.
\<close>

lemma long_structure_misread:
  "memory_device (replicate 0x17 (CHR 0x01) @ [CHR 0x01, CHR 0x02] @ replicate 0x0F (CHR 0x00) @ ''ACME'' @
     [CHR 0x00] @ ''42'' @ [CHR 0x00, CHR 0x00])
   = Some \<lparr>me_serial_number = [], me_manufacturer = []\<rparr>"
  by code_simp

text \<open>A directory that is missing ends the three readers that list one with an exception; the others report nothing.\<close>

lemma missing_directories_throw:
  assumes "\<And>d. entries d = None"
  shows "YaDISK_init files entries = Inl ''/sys/block/''"
    "YaGPU_init files entries exists = Inl ''/sys/class/drm''"
    "YaMEMORY_init files entries is_directory = Some (Inl ''/sys/firmware/dmi/entries'')"
  using assms by (simp_all add: YaDISK_init_def YaGPU_init_def YaMEMORY_init_def)

lemma trim_blanks_ends:
  assumes "s \<noteq> []" "\<not> blank (hd s)" "\<not> blank (last s)" "\<forall>c \<in> set pre. blank c" "\<forall>c \<in> set post. blank c"
  shows "trim_blanks (pre @ s @ post) = s"
proof -
  obtain c cs where s: "s = c # cs" using assms(1) by (cases s) auto
  obtain ds d where s': "s = ds @ [d]" using assms(1) by (cases s rule: rev_cases) auto
  have "dropWhile blank (pre @ s @ post) = s @ post"
    using assms s by (simp add: dropWhile_append2)
  moreover have "dropWhile blank (rev post @ d # rev ds) = d # rev ds"
    using assms(3,5) s' by (subst dropWhile_append2) auto
  ultimately show ?thesis using s' by (simp add: trim_blanks_def)
qed

lemma reported_networks:
  assumes "net \<in> set (YaNETWORK_init files (Some entries))"
  shows "(nw_name net, Some Family_packet) \<in> set entries"
    "nw_mac net = getMac files (nw_name net)"
    "nw_ipv4 net = getIp4 entries (nw_name net)"
    "nw_mac net \<noteq> [] \<or> nw_ipv4 net \<noteq> []"
  using assms by (auto simp: YaNETWORK_init_def)

text \<open>
  On a machine that shows nothing, such as a container without \<^verbatim>\<open>/sys\<close>, three questions of the facade are
  answered with empty fields, one with the architecture of \<^verbatim>\<open>uname\<close> alone, one with no adapter, and three
  end with an exception.  A field is lost in no copy.
\<close>

lemma facade_copies:
  "YaHwinfo_getBIOS mc = YaBIOS_init (mc_files mc)" "YaHwinfo_getOS mc = YaOS_init (mc_files mc)"
  "YaHwinfo_getCPU mc = YaCPU_init (mc_files mc) (mc_uname mc)"
  "YaHwinfo_getMOTHERBOARD mc = YaMOTHERBOARD_init (mc_files mc)"
  by (simp_all add: YaHwinfo_getBIOS_def YaHwinfo_getOS_def YaHwinfo_getCPU_def YaHwinfo_getMOTHERBOARD_def Let_def)

lemma facade_on_bare_machine:
  assumes "\<And>p. mc_files mc p = None" "\<And>d. mc_entries mc d = None" "mc_ifaddrs mc = None"
  shows "YaHwinfo_getBIOS mc = \<lparr>bi_serial_number = [], bi_manufacturer = [], bi_date = [], bi_version = []\<rparr>"
    "YaHwinfo_getMOTHERBOARD mc = \<lparr>mb_serial_number = [], mb_manufacturer = [], mb_version = [], mb_name = []\<rparr>"
    "YaHwinfo_getOS mc = \<lparr>os_id = [], os_name = [], os_version = []\<rparr>"
    "YaHwinfo_getCPU mc = \<lparr>cp_serial_number = [], cp_architecture = (case mc_uname mc of Some a \<Rightarrow> a | None \<Rightarrow> []),
       cp_manufacturer = [], cp_name = []\<rparr>"
    "YaHwinfo_getNETWORK mc = []"
    "isl (YaHwinfo_getDISK mc)" "isl (YaHwinfo_getGPU mc)" "\<exists>e. YaHwinfo_getMEMORY mc = Some (Inl e)"
  unfolding facade_copies
  by (simp_all add: assms(1,3) missing_directories_throw [OF assms(2)] YaBIOS_init_def YaMOTHERBOARD_init_def YaOS_init_def YaCPU_init_def YaNETWORK_init_def
      YaHwinfo_getNETWORK_def YaHwinfo_getDISK_def YaHwinfo_getGPU_def YaHwinfo_getMEMORY_def
      get_cpu_field_def first_line_def file_lines_def Let_def)

end
