(* ===== verification/HwinfoWindows.thy ===== *)
theory HwinfoWindows
  imports Hwinfo Resources
begin

text \<open>
  Hardware information on Windows: the queries of \<^verbatim>\<open>src/src/ya_hwinfo/hwinfooperator.cpp\<close> and the branches
  of the readers that use them.  The COM library is a parameter; its initialisation and the interfaces
  it hands out are counted.  A wide character has 16 bits there, and turning a wide string into a
  \<^verbatim>\<open>std::string\<close> character by character keeps the low octet of each.
\<close>

type_synonym wstring = "16 word list"

definition wide :: "string \<Rightarrow> wstring" where
  "wide s = map (\<lambda>c. word_of_nat (of_char c)) s"

definition to_std_string :: "wstring \<Rightarrow> string" where
  "to_std_string ws = map (\<lambda>w. char_of (unat w)) ws"

lemma to_std_string_wide [simp]: "to_std_string (wide s) = s"
proof -
  have "(of_char c :: nat) < 65536" for c
    by (rule less_trans [of _ 256]) simp_all
  then have "char_of (unat (word_of_nat (of_char c) :: 16 word)) = c" for c
    by (simp add: unat_of_nat)
  then show ?thesis by (induction s) (simp_all add: to_std_string_def wide_def)
qed

section \<open>Queries\<close>

datatype com_object = Com_Library | Wbem_Locator | Wbem_Services | Wbem_Enumerator | Wbem_Object

text \<open>
  The value of a property.  The bounds of an array may be unavailable, and an element that cannot be
  read is \<open>None\<close>; a null string pointer is \<open>V_bstr None\<close>.
\<close>

datatype variant =
    V_bstr_array "wstring option list option"
  | V_bstr "wstring option"
  | V_i2 "16 word"
  | V_i4 "32 word"
  | V_bool bool
  | V_other

text \<open>
  The five calls of the initialisation; a query gives the objects it found, each with the value of the
  property when it can be read.
\<close>

record 'w com =
  co_initialize :: "'w \<Rightarrow> bool \<times> 'w"
  co_security :: "'w \<Rightarrow> bool \<times> 'w"
  co_locator :: "'w \<Rightarrow> bool \<times> 'w"
  co_connect :: "'w \<Rightarrow> bool \<times> 'w"
  co_blanket :: "'w \<Rightarrow> bool \<times> 'w"
  co_exec :: "string \<Rightarrow> string \<Rightarrow> 'w \<Rightarrow> variant option list option \<times> 'w"

record WmiQuery =
  wq_svc :: bool
  wq_loc :: bool
  wq_initialized :: bool

definition WmiQuery_new :: WmiQuery where
  "WmiQuery_new = \<lparr>wq_svc = False, wq_loc = False, wq_initialized = False\<rparr>"

definition WmiQuery_initialize ::
  "'w com \<Rightarrow> WmiQuery \<Rightarrow> (com_object, 'w) counted \<Rightarrow> (bool \<times> WmiQuery) \<times> (com_object, 'w) counted" where
  "WmiQuery_initialize co wmi st =
     (case acquire_by (co_initialize co) Com_Library st of (ok, st) \<Rightarrow>
      if \<not> ok then ((False, wmi), st)
      else case call_on (co_security co) st of (ok, st) \<Rightarrow>
      if \<not> ok then ((False, wmi), st)
      else case acquire_by (co_locator co) Wbem_Locator st of (ok, st) \<Rightarrow>
      if \<not> ok then ((False, wmi), st)
      else let wmi = wmi\<lparr>wq_loc := True\<rparr> in
      case acquire_by (co_connect co) Wbem_Services st of (ok, st) \<Rightarrow>
      if \<not> ok then ((False, wmi), st)
      else let wmi = wmi\<lparr>wq_svc := True\<rparr> in
      case call_on (co_blanket co) st of (ok, st) \<Rightarrow>
      if \<not> ok then ((False, wmi), st)
      else ((True, wmi\<lparr>wq_initialized := True\<rparr>), st))"

text \<open>The text of an array of strings: the ones that can be read, quoted and separated by commas.\<close>

definition quoted_wide :: "wstring \<Rightarrow> wstring" where
  "quoted_wide ws = [0x22] @ ws @ [0x22]"

fun array_elements :: "bool \<Rightarrow> wstring option list \<Rightarrow> wstring" where
  "array_elements fst_one [] = []"
| "array_elements fst_one (None # elems) = array_elements fst_one elems"
| "array_elements fst_one (Some ws # elems) =
     (if fst_one then [] else wide '', '') @ quoted_wide ws @ array_elements False elems"

text \<open>\<open>None\<close> is the assignment from a null pointer.  Signed numbers are printed as the unsigned ones.\<close>

fun variant_text :: "variant \<Rightarrow> wstring option" where
  "variant_text (V_bstr_array None) = Some []"
| "variant_text (V_bstr_array (Some elems)) = Some (wide ''{'' @ array_elements True elems @ wide ''}'')"
| "variant_text (V_bstr None) = None"
| "variant_text (V_bstr (Some ws)) = Some (takeWhile (\<lambda>w. w \<noteq> 0) ws)"
| "variant_text (V_i2 n) = Some (wide (nat_digits (unat n)))"
| "variant_text (V_i4 n) = Some (wide (nat_digits (unat n)))"
| "variant_text (V_bool b) = Some (wide (if b then ''true'' else ''false''))"
| "variant_text V_other = Some []"

fun query_rows ::
  "variant option list \<Rightarrow> wstring list \<Rightarrow> (com_object, 'w) counted \<Rightarrow> wstring list option \<times> (com_object, 'w) counted" where
  "query_rows [] results st = (Some results, st)"
| "query_rows (None # rows) results st =
     query_rows rows results (release Wbem_Object (acquire Wbem_Object st))"
| "query_rows (Some v # rows) results st =
     (let st = acquire Wbem_Object st in
      case variant_text v of
        None \<Rightarrow> (None, st)
      | Some text \<Rightarrow> query_rows rows (results @ [text]) (release Wbem_Object st))"

definition WmiQuery_query ::
  "'w com \<Rightarrow> WmiQuery \<Rightarrow> string \<Rightarrow> string \<Rightarrow> (com_object, 'w) counted \<Rightarrow>
     wstring list option \<times> (com_object, 'w) counted" where
  "WmiQuery_query co wmi wmiClass property st =
     (if \<not> wq_initialized wmi then (Some [], st)
      else case call_on (co_exec co wmiClass property) st of
        (None, st) \<Rightarrow> (Some [], st)
      | (Some rows, st) \<Rightarrow>
          (case query_rows rows [] (acquire Wbem_Enumerator st) of
             (None, st) \<Rightarrow> (None, st)
           | (Some results, st) \<Rightarrow> (Some results, release Wbem_Enumerator st)))"

definition WmiQuery_cleanup ::
  "WmiQuery \<Rightarrow> (com_object, 'w) counted \<Rightarrow> WmiQuery \<times> (com_object, 'w) counted" where
  "WmiQuery_cleanup wmi st =
     (let st = release_if (wq_svc wmi) Wbem_Services st;
          st = release_if (wq_loc wmi) Wbem_Locator st
      in (WmiQuery_new, release Com_Library st))"

section \<open>Readers\<close>

text \<open>
  Every reader makes its queries on an object of its own, which its destructor cleans up; without a
  successful initialisation it makes none and goes by empty results.  \<open>None\<close> is a step without a
  defined meaning.
\<close>

fun run_queries ::
  "'w com \<Rightarrow> WmiQuery \<Rightarrow> (string \<times> string) list \<Rightarrow> (com_object, 'w) counted \<Rightarrow>
     wstring list list option \<times> (com_object, 'w) counted" where
  "run_queries co wmi [] st = (Some [], st)"
| "run_queries co wmi ((wmiClass, property) # queries) st =
     (case WmiQuery_query co wmi wmiClass property st of
        (None, st) \<Rightarrow> (None, st)
      | (Some rs, st) \<Rightarrow>
          (case run_queries co wmi queries st of (results, st) \<Rightarrow> (map_option (\<lambda>rss. rs # rss) results, st)))"

definition wmi_results ::
  "'w com \<Rightarrow> (string \<times> string) list \<Rightarrow> (com_object, 'w) counted \<Rightarrow>
     wstring list list option \<times> (com_object, 'w) counted" where
  "wmi_results co queries st =
     (case WmiQuery_initialize co WmiQuery_new st of
        ((ok, wmi), st) \<Rightarrow>
          (case (if ok then run_queries co wmi queries st else (Some (map (\<lambda>_. []) queries), st)) of
             (None, st) \<Rightarrow> (None, st)
           | (Some results, st) \<Rightarrow> (Some results, snd (WmiQuery_cleanup wmi st))))"

fun first_result :: "wstring list \<Rightarrow> string" where
  "first_result [] = []"
| "first_result (r # rs) = to_std_string r"

definition bios_date :: "string \<Rightarrow> string" where
  "bios_date raw =
     (if length raw \<ge> 8 then take 4 raw @ ''-'' @ take 2 (drop 4 raw) @ ''-'' @ take 2 (drop 6 raw) else [])"

definition BIOS_wmi :: "wstring list list \<Rightarrow> BIOS" where
  "BIOS_wmi rs =
     \<lparr>bi_serial_number = first_result (rs ! 0), bi_manufacturer = first_result (rs ! 1),
      bi_date = bios_date (first_result (rs ! 3)), bi_version = first_result (rs ! 2)\<rparr>"

definition YaBIOS_init_windows :: "'w com \<Rightarrow> (com_object, 'w) counted \<Rightarrow> BIOS option \<times> (com_object, 'w) counted" where
  "YaBIOS_init_windows co st =
     apfst (map_option BIOS_wmi)
       (wmi_results co [(''Win32_BIOS'', ''SerialNumber''), (''Win32_BIOS'', ''Manufacturer''),
          (''Win32_BIOS'', ''SMBIOSBIOSVersion''), (''Win32_BIOS'', ''ReleaseDate'')] st)"

definition YaMOTHERBOARD_init_windows ::
  "'w com \<Rightarrow> (com_object, 'w) counted \<Rightarrow> MOTHERBOARD option \<times> (com_object, 'w) counted" where
  "YaMOTHERBOARD_init_windows co st =
     apfst (map_option (\<lambda>rs. \<lparr>mb_serial_number = first_result (rs ! 0), mb_manufacturer = first_result (rs ! 1),
                               mb_version = first_result (rs ! 2), mb_name = first_result (rs ! 3)\<rparr>))
       (wmi_results co [(''Win32_BaseBoard'', ''SerialNumber''), (''Win32_BaseBoard'', ''Manufacturer''),
          (''Win32_BaseBoard'', ''Version''), (''Win32_BaseBoard'', ''Product'')] st)"

definition YaOS_init_windows :: "'w com \<Rightarrow> (com_object, 'w) counted \<Rightarrow> OS option \<times> (com_object, 'w) counted" where
  "YaOS_init_windows co st =
     apfst (map_option (\<lambda>rs. \<lparr>os_id = first_result (rs ! 1), os_name = first_result (rs ! 0),
                               os_version = first_result (rs ! 2)\<rparr>))
       (wmi_results co [(''Win32_OperatingSystem'', ''Caption''), (''Win32_ComputerSystemProduct'', ''UUID''),
          (''Win32_OperatingSystem'', ''Version'')] st)"

text \<open>
  \<^verbatim>\<open>std::stoi\<close>: white space, a sign and digits; a text without digits and a number outside 32 bits
  throw.  A wide character outside ASCII is neither of them.
\<close>

definition stoi :: "wstring \<Rightarrow> string + int" where
  "stoi ws =
     (let s = dropWhile is_space (map (\<lambda>w. if w < 0x80 then char_of (unat w) else CHR 0xFF) ws);
          negative = (s \<noteq> [] \<and> hd s = CHR ''-'');
          s = (if s \<noteq> [] \<and> (hd s = CHR ''-'' \<or> hd s = CHR ''+'') then tl s else s);
          digits = takeWhile is_digit s;
          n = (if negative then - int (decimal digits) else int (decimal digits))
      in if digits = [] then Inl ''invalid_argument''
         else if n < - (2 ^ 31) \<or> 2 ^ 31 \<le> n then Inl ''out_of_range'' else Inr n)"

definition architecture_name :: "int \<Rightarrow> string" where
  "architecture_name code =
     (if code = 0 then ''x86'' else if code = 9 then ''x64'' else if code = 5 then ''ARM''
      else if code = 12 then ''ARM64'' else ''Unknown'')"

definition CPU_wmi :: "wstring list list \<Rightarrow> string + CPU" where
  "CPU_wmi rs =
     (case (case rs ! 3 of [] \<Rightarrow> Inr [] | arch # _ \<Rightarrow> map_sum id architecture_name (stoi arch)) of
        Inl e \<Rightarrow> Inl e
      | Inr arch \<Rightarrow>
          Inr \<lparr>cp_serial_number = first_result (rs ! 0), cp_architecture = arch,
               cp_manufacturer = first_result (rs ! 2), cp_name = first_result (rs ! 1)\<rparr>)"

definition YaCPU_init_windows ::
  "'w com \<Rightarrow> (com_object, 'w) counted \<Rightarrow> (string + CPU) option \<times> (com_object, 'w) counted" where
  "YaCPU_init_windows co st =
     apfst (map_option CPU_wmi)
       (wmi_results co [(''Win32_Processor'', ''ProcessorId''), (''Win32_Processor'', ''Name''),
          (''Win32_Processor'', ''Manufacturer''), (''Win32_Processor'', ''Architecture'')] st)"

text \<open>Element \<open>i\<close> of a vector without a check: \<open>None\<close> behind its end.\<close>

definition element :: "'a list \<Rightarrow> nat \<Rightarrow> 'a option" where
  "element xs i = (if i < length xs then Some (xs ! i) else None)"

fun collect_rows :: "(nat \<Rightarrow> 'a list option) \<Rightarrow> nat list \<Rightarrow> 'a list \<Rightarrow> 'a list option" where
  "collect_rows row [] acc = Some acc"
| "collect_rows row (i # is) acc =
     (case row i of None \<Rightarrow> None | Some xs \<Rightarrow> collect_rows row is (acc @ xs))"

definition DISK_wmi :: "wstring list list \<Rightarrow> DISK list option" where
  "DISK_wmi rs =
     collect_rows
       (\<lambda>i. case (element (rs ! 0) i, element (rs ! 1) i, element (rs ! 2) i) of
              (Some name, Some serial, Some model) \<Rightarrow>
                Some [\<lparr>dk_serial_number = to_std_string serial, dk_manufacturer = to_std_string model,
                       dk_name = to_std_string name\<rparr>]
            | _ \<Rightarrow> None)
       [0..<length (rs ! 0)] []"

definition YaDISK_init_windows ::
  "'w com \<Rightarrow> (com_object, 'w) counted \<Rightarrow> DISK list option \<times> (com_object, 'w) counted" where
  "YaDISK_init_windows co st =
     apfst (\<lambda>r. Option.bind r DISK_wmi)
       (wmi_results co [(''Win32_DiskDrive'', ''DeviceID''), (''Win32_DiskDrive'', ''SerialNumber''),
          (''Win32_DiskDrive'', ''Model'')] st)"

definition GPU_wmi :: "wstring list list \<Rightarrow> GPU list option" where
  "GPU_wmi rs =
     collect_rows
       (\<lambda>i. case (element (rs ! 0) i, element (rs ! 1) i, element (rs ! 2) i) of
              (Some name, Some vendor, Some device) \<Rightarrow>
                Some [\<lparr>gp_serial_number = to_std_string device, gp_manufacturer = to_std_string vendor,
                       gp_name = to_std_string name\<rparr>]
            | _ \<Rightarrow> None)
       [0..<length (rs ! 0)] []"

definition YaGPU_init_windows ::
  "'w com \<Rightarrow> (com_object, 'w) counted \<Rightarrow> GPU list option \<times> (com_object, 'w) counted" where
  "YaGPU_init_windows co st =
     apfst (\<lambda>r. Option.bind r GPU_wmi)
       (wmi_results co [(''Win32_VideoController'', ''Name''), (''Win32_VideoController'', ''AdapterCompatibility''),
          (''Win32_VideoController'', ''PNPDeviceID'')] st)"

definition MEMORY_wmi :: "wstring list list \<Rightarrow> MEMORY list" where
  "MEMORY_wmi rs =
     map (\<lambda>i. \<lparr>me_serial_number = (case element (rs ! 1) i of Some s \<Rightarrow> to_std_string s | None \<Rightarrow> []),
               me_manufacturer = (case element (rs ! 0) i of Some s \<Rightarrow> to_std_string s | None \<Rightarrow> [])\<rparr>)
       [0..<length (rs ! 1)]"

definition YaMEMORY_init_windows ::
  "'w com \<Rightarrow> (com_object, 'w) counted \<Rightarrow> MEMORY list option \<times> (com_object, 'w) counted" where
  "YaMEMORY_init_windows co st =
     apfst (map_option MEMORY_wmi)
       (wmi_results co [(''Win32_PhysicalMemory'', ''Manufacturer''), (''Win32_PhysicalMemory'', ''SerialNumber'')] st)"

text \<open>
  \<^verbatim>\<open>find(c, pos)\<close>, with \<open>None\<close> for \<^verbatim>\<open>npos\<close>; adding one to \<^verbatim>\<open>npos\<close> gives zero.
\<close>

fun find_from :: "'a \<Rightarrow> 'a list \<Rightarrow> nat \<Rightarrow> nat option" where
  "find_from c [] pos = None"
| "find_from c (x # xs) 0 = (if x = c then Some 0 else map_option Suc (find_from c xs 0))"
| "find_from c (x # xs) (Suc pos) = map_option Suc (find_from c xs pos)"

fun after :: "nat option \<Rightarrow> nat" where
  "after None = 0"
| "after (Some n) = n + 1"

definition quoted_addresses :: "wstring \<Rightarrow> (string \<times> string) option" where
  "quoted_addresses ipRaw =
     (let first_quote = find_from 0x22 ipRaw 0;
          second_quote = find_from 0x22 ipRaw (after first_quote);
          third_quote = find_from 0x22 ipRaw (after second_quote);
          fourth_quote = find_from 0x22 ipRaw (after third_quote);
          between = (\<lambda>a b. to_std_string (take (b - (a + 1)) (drop (a + 1) ipRaw)))
      in case (first_quote, second_quote, third_quote, fourth_quote) of
           (Some a, Some b, Some c, Some d) \<Rightarrow> Some (between a b, between c d)
         | _ \<Rightarrow> None)"

definition NETWORK_wmi :: "wstring list list \<Rightarrow> NETWORK list option" where
  "NETWORK_wmi rs =
     collect_rows
       (\<lambda>i. if rs ! 0 ! i = [] then Some []
            else case (element (rs ! 1) i, element (rs ! 2) i) of
              (Some mac, Some ip) \<Rightarrow>
                (let (ipv4, ipv6) = (if ip = [] then ([], [])
                                     else case quoted_addresses ip of Some as \<Rightarrow> as | None \<Rightarrow> ([], []));
                     net = \<lparr>nw_name = to_std_string (rs ! 0 ! i), nw_ipv4 = ipv4, nw_ipv6 = ipv6,
                            nw_mac = to_std_string mac\<rparr>
                 in Some (if nw_name net \<noteq> [] \<or> nw_mac net \<noteq> [] \<or> nw_ipv4 net \<noteq> [] \<or> nw_ipv6 net \<noteq> []
                          then [net] else []))
            | _ \<Rightarrow> None)
       [0..<length (rs ! 0)] []"

definition YaNETWORK_init_windows ::
  "'w com \<Rightarrow> (com_object, 'w) counted \<Rightarrow> NETWORK list option \<times> (com_object, 'w) counted" where
  "YaNETWORK_init_windows co st =
     apfst (\<lambda>r. Option.bind r NETWORK_wmi)
       (wmi_results co [(''Win32_NetworkAdapter'', ''Caption''), (''Win32_NetworkAdapter'', ''MACAddress''),
          (''Win32_NetworkAdapterConfiguration'', ''IPAddress'')] st)"

section \<open>Accounts and results\<close>

lemma query_rows_live:
  "query_rows rows results st = (Some rs, st') \<Longrightarrow> fst st' = fst st"
proof (induction rows results st rule: query_rows.induct)
  case (3 v rows results st)
  then show ?case by (cases "variant_text v") (fastforce simp: Let_def)+
qed auto

lemma WmiQuery_query_live:
  "WmiQuery_query co wmi c p st = (Some rs, st') \<Longrightarrow> fst st' = fst st"
  by (auto simp: WmiQuery_query_def dest!: query_rows_live call_on_live split: if_splits prod.splits option.splits)

lemma run_queries_live:
  "run_queries co wmi qs st = (Some rs, st') \<Longrightarrow> fst st' = fst st"
proof (induction qs arbitrary: st rs)
  case (Cons q qs)
  obtain c p where q: "q = (c, p)" by (cases q)
  show ?case
    using Cons.prems Cons.IH by (auto simp: q dest!: WmiQuery_query_live split: prod.splits option.splits)
qed simp

lemma initialize_live:
  assumes "WmiQuery_initialize co WmiQuery_new st = ((ok, wmi), st')"
  shows "fst st' = (fst st)
      (Com_Library := fst st Com_Library + (if fst (co_initialize co (snd st)) then 1 else 0),
       Wbem_Locator := fst st Wbem_Locator + (if wq_loc wmi then 1 else 0),
       Wbem_Services := fst st Wbem_Services + (if wq_svc wmi then 1 else 0))"
  using assms
  by (auto simp: WmiQuery_initialize_def WmiQuery_new_def acquire_by_def call_on_def acquire_def Let_def fun_eq_iff
      split: prod.splits if_splits)

lemma wmi_results_live:
  assumes "wmi_results co qs st = (Some rs, st')"
  shows "fst st' = (fst st)
    (Com_Library := fst st Com_Library - (if fst (co_initialize co (snd st)) then 0 else 1))"
proof -
  obtain ok wmi st1 where i: "WmiQuery_initialize co WmiQuery_new st = ((ok, wmi), st1)"
    by (metis prod.exhaust)
  obtain rs' st2 where q: "(if ok then run_queries co wmi qs st1 else (Some (map (\<lambda>_. []) qs), st1)) = (Some rs', st2)"
    and st': "st' = snd (WmiQuery_cleanup wmi st2)"
    using assms i by (auto simp: wmi_results_def split: prod.splits option.splits)
  have "fst st2 = fst st1"
    using q by (auto dest: run_queries_live split: if_splits)
  then show ?thesis
    using initialize_live [OF i] by (auto simp: st' WmiQuery_cleanup_def Let_def fun_eq_iff)
qed

text \<open>
  A reader that comes to its end has released every interface it got from the COM library, and the
  library itself exactly when it was initialised; where the initialisation fails, it is released without
  having been acquired.
\<close>

lemma wmi_interfaces_released:
  assumes "(\<exists>bios. YaBIOS_init_windows co st = (Some bios, st')) \<or> (\<exists>cpu. YaCPU_init_windows co st = (Some cpu, st')) \<or>
    (\<exists>disks. YaDISK_init_windows co st = (Some disks, st')) \<or> (\<exists>gpus. YaGPU_init_windows co st = (Some gpus, st')) \<or>
    (\<exists>mems. YaMEMORY_init_windows co st = (Some mems, st')) \<or>
    (\<exists>board. YaMOTHERBOARD_init_windows co st = (Some board, st')) \<or>
    (\<exists>nets. YaNETWORK_init_windows co st = (Some nets, st')) \<or> (\<exists>os. YaOS_init_windows co st = (Some os, st'))"
  shows "fst st' obj = fst st obj - (if obj = Com_Library \<and> \<not> fst (co_initialize co (snd st)) then 1 else 0)"
proof -
  have live: "fst s' obj = fst st obj - (if obj = Com_Library \<and> \<not> fst (co_initialize co (snd st)) then 1 else 0)"
    if "wmi_results co qs st = (Some rs, s')" for qs rs s'
    using wmi_results_live [OF that] by simp
  show ?thesis
    using assms
    by (auto simp: YaBIOS_init_windows_def YaCPU_init_windows_def YaDISK_init_windows_def YaGPU_init_windows_def
        YaMEMORY_init_windows_def YaMOTHERBOARD_init_windows_def YaNETWORK_init_windows_def YaOS_init_windows_def
        apfst_def map_prod_def Option.bind_eq_Some_conv split: prod.splits dest!: live)
qed

section \<open>Addresses of an adapter\<close>

lemma find_from_hit: "c \<notin> set ys \<Longrightarrow> find_from c (xs @ ys @ c # zs) (length xs) = Some (length xs + length ys)"
proof (induction xs)
  case Nil
  then show ?case by (induction ys) auto
qed simp

lemma find_from_miss: "c \<notin> set (drop n xs) \<Longrightarrow> find_from c xs n = None"
  by (induction c xs n rule: find_from.induct) auto

lemma quoted_addresses_two:
  assumes "(0x22 :: 16 word) \<notin> set pre" "0x22 \<notin> set a" "0x22 \<notin> set m" "0x22 \<notin> set b"
  shows "quoted_addresses (pre @ quoted_wide a @ m @ quoted_wide b @ post) = Some (to_std_string a, to_std_string b)"
proof -
  let ?s = "pre @ quoted_wide a @ m @ quoted_wide b @ post"
  have "find_from 0x22 ?s 0 = Some (length pre)"
    using find_from_hit [of "0x22" pre "[]"] assms by (simp add: quoted_wide_def)
  moreover have "find_from 0x22 ?s (length pre + 1) = Some (length pre + 1 + length a)"
    using find_from_hit [of "0x22" a "pre @ [0x22]"] assms by (simp add: quoted_wide_def)
  moreover have "find_from 0x22 ?s (length pre + 1 + length a + 1) = Some (length pre + 1 + length a + 1 + length m)"
    using find_from_hit [of "0x22" m "pre @ [0x22] @ a @ [0x22]"] assms by (simp add: quoted_wide_def)
  moreover have "find_from 0x22 ?s (length pre + 1 + length a + 1 + length m + 1)
      = Some (length pre + 1 + length a + 1 + length m + 1 + length b)"
    using find_from_hit [of "0x22" b "pre @ [0x22] @ a @ [0x22] @ m @ [0x22]"] assms
    by (simp add: quoted_wide_def add.assoc)
  ultimately show ?thesis
    by (simp add: quoted_addresses_def Let_def) (simp add: quoted_wide_def)
qed

lemma quoted_addresses_one:
  assumes "(0x22 :: 16 word) \<notin> set pre" "0x22 \<notin> set a" "0x22 \<notin> set post"
  shows "quoted_addresses (pre @ quoted_wide a @ post) = None"
proof -
  let ?s = "pre @ quoted_wide a @ post"
  have "find_from 0x22 ?s 0 = Some (length pre)"
    using find_from_hit [of "0x22" pre "[]"] assms by (simp add: quoted_wide_def)
  moreover have "find_from 0x22 ?s (length pre + 1) = Some (length pre + 1 + length a)"
    using find_from_hit [of "0x22" a "pre @ [0x22]"] assms by (simp add: quoted_wide_def)
  moreover have "find_from 0x22 ?s (length pre + 1 + length a + 1) = None"
    using assms by (intro find_from_miss) (simp add: quoted_wide_def)
  ultimately show ?thesis by (simp add: quoted_addresses_def Let_def)
qed

text \<open>
  What the query prints of the addresses of an adapter is read back when there are at least two of them;
  the only address of an adapter is dropped.
\<close>

lemma adapter_addresses_read:
  assumes "\<forall>ip \<in> set ips. 0x22 \<notin> set ip"
  shows "map_option quoted_addresses (variant_text (V_bstr_array (Some (map Some ips)))) =
    Some (case ips of a # b # _ \<Rightarrow> Some (to_std_string a, to_std_string b) | _ \<Rightarrow> None)"
proof -
  have sep: "(0x22 :: 16 word) \<notin> set (wide ''{'')" "(0x22 :: 16 word) \<notin> set (wide '', '')" "(0x22 :: 16 word) \<notin> set (wide ''}'')"
    by (simp_all add: wide_def)
  consider "ips = []" | a where "ips = [a]" | a b cs where "ips = a # b # cs"
    by (metis neq_Nil_conv)
  then show ?thesis
  proof cases
    case 1
    then show ?thesis using sep by (simp add: quoted_addresses_def Let_def find_from_miss)
  next
    case 2
    then show ?thesis using quoted_addresses_one [of "wide ''{''" a "wide ''}''"] sep assms by simp
  next
    case (3 a b cs)
    then show ?thesis
      using quoted_addresses_two [of "wide ''{''" a "wide '', ''" b "array_elements False (map Some cs) @ wide ''}''"]
        sep assms by simp
  qed
qed

lemma collect_rows_Some:
  "(\<exists>ys. collect_rows row is acc = Some ys) \<longleftrightarrow> (\<forall>i \<in> set is. row i \<noteq> None)"
  by (induction "is" arbitrary: acc) (auto split: option.splits)

text \<open>The disks and the graphics adapters need as many answers to the second and third query as to the first.\<close>

lemma disks_defined_iff:
  "(\<exists>disks. DISK_wmi [names, serials, models] = Some disks) \<longleftrightarrow>
     length names \<le> length serials \<and> length names \<le> length models"
proof -
  have "(\<forall>i < length names. i < length serials \<and> i < length models) \<longleftrightarrow>
      length names \<le> length serials \<and> length names \<le> length models"
    by (meson le_trans not_le order_refl)
  then show ?thesis
    by (auto simp: DISK_wmi_def collect_rows_Some element_def)
qed

end
