(* ===== verification/Tools_Witnesses.thy ===== *)
theory Tools_Witnesses
  imports Utils Messaging Http Json Config Sql Log HwinfoWindows
begin

text \<open>
  Runs of the general libraries: the properties of the utilities, the message-passing modules, the
  HTTP server, the JSON and configuration wrappers and the databases at concrete inputs, with small
  providers in the place of the external libraries.
\<close>

section \<open>Utilities\<close>

definition sample_evp :: "(unit, unit, unit, unit) evp" where
  "sample_evp = \<lparr>evp_alloc = (\<lambda>_ w. (True, w)), evp_key_length = (\<lambda>_. 1), evp_iv_length = (\<lambda>_. 1),
     evp_block_size = (\<lambda>_. 1), evp_EncryptInit = (\<lambda>_ _ _. Some ()),
     evp_EncryptUpdate = (\<lambda>_ d n. Some ((), take (nat n) d)), evp_EncryptFinal = (\<lambda>_. Some [7]),
     evp_DecryptInit = (\<lambda>_ _ _. Some ()), evp_DecryptUpdate = (\<lambda>_ d n. Some ((), butlast (take (nat n) d))),
     evp_DecryptFinal = (\<lambda>_. Some []), evp_MD_size = (\<lambda>_. 0), evp_DigestInit = (\<lambda>_. None),
     evp_DigestUpdate = (\<lambda>_ _. None), evp_DigestFinal = (\<lambda>_. None), evp_keygen_init = (\<lambda>_. 0),
     evp_set_bits = (\<lambda>_ _. 0), evp_keygen = (\<lambda>_ w. (None, w)), evp_mem_bio = (), evp_mem_buf = (\<lambda>_. ()),
     evp_BIO_read = (\<lambda>_ _. ([], ())), evp_write_PUBKEY = (\<lambda>_ _. None), evp_write_PrivateKey = (\<lambda>_ _. None),
     evp_read_PUBKEY = (\<lambda>_. Some ()), evp_read_PrivateKey = (\<lambda>_. Some ()), evp_encrypt_init = (\<lambda>_. 0),
     evp_encrypt = (\<lambda>_ _ w. (None, w)), evp_encrypt_length = (\<lambda>_ _. None), evp_decrypt_init = (\<lambda>_. 0),
     evp_decrypt = (\<lambda>_ _. None), evp_decrypt_length = (\<lambda>_ _. None), evp_SignInit = (\<lambda>_. (0, ())),
     evp_SignUpdate = (\<lambda>_ _. (0, ())), evp_SignFinal_length = (\<lambda>_. (0, 0)),
     evp_SignFinal = (\<lambda>_ w. ((0, []), w)), evp_VerifyInit = (\<lambda>_. (0, ())), evp_VerifyUpdate = (\<lambda>_ _. (0, ())),
     evp_VerifyFinal = (\<lambda>_ _. 0)\<rparr>"

lemma sample_cipher_correct: "cipher_correct sample_evp cipher"
  by (simp add: cipher_correct_def sample_evp_def)

theorem cipher_round_trip_witness:
  "\<exists>ciphertext st' st''.
     Cipher_Encrypt sample_evp [1, 2, 3] [] [9, 9] [4] EVP_aes_256_cbc (\<lambda>_. 0, ()) = Some ((True, ciphertext), st') \<and>
     Cipher_Decrypt sample_evp ciphertext [] [9, 9] [4] EVP_aes_256_cbc st' = Some ((True, [1, 2, 3]), st'') \<and>
     fst st'' = (\<lambda>_. 0)"
proof -
  have "evp_key_length sample_evp EVP_aes_256_cbc \<le> length [9, 9 :: u8]"
    "evp_iv_length sample_evp EVP_aes_256_cbc \<le> length [4 :: u8]"
    "length [1, 2, 3 :: u8] + evp_block_size sample_evp EVP_aes_256_cbc < 2 ^ 31"
    "\<And>w. fst (evp_alloc sample_evp Cipher_Ctx w)" by (simp_all add: sample_evp_def)
  from cipher_round_trip [OF sample_cipher_correct this, where st = "(\<lambda>_. 0, ())" and old = "[]" and old' = "[]"]
  show ?thesis by auto
qed

lemma wrappers_release_objects_instance:
  "\<exists>r st'. RSA_Encrypt sample_evp [] [] (\<lambda>_. 0, ()) = Some (r, st') \<and> fst st' = (\<lambda>_. 0)(Pkey_Ctx := 1) \<and> r = None"
proof -
  have "\<exists>st'. RSA_Encrypt sample_evp [] [] (\<lambda>_. 0, ()) = Some (None, st') \<and> fst st' Pkey_Ctx = 1"
    using RSA_Encrypt_leaks [of sample_evp "()" "()" "[]" "()" "()" "[]" "\<lambda>_. 0"] by (simp add: sample_evp_def)
  then obtain st' where r: "RSA_Encrypt sample_evp [] [] (\<lambda>_. 0, ()) = Some (None, st')" "fst st' Pkey_Ctx = 1" by blast
  from wrappers_release_objects [of sample_evp "[]" "[]" "[]" "[]" EVP_des_cbc "(\<lambda>_. 0, ())" EVP_md5 EVP_PKEY_RSA]
  have "fst st' = (\<lambda>_. 0) \<or> fst st' = (\<lambda>_. 0)(Pkey_Ctx := 1)" using r(1) by (cases st') auto
  with r show ?thesis by auto
qed

section \<open>Message passing\<close>

definition sample_nng_lib :: "nat nng_lib" where
  "sample_nng_lib = \<lparr>ng_open = (\<lambda>_ w. ((0, Suc w), Suc w)), ng_set_ms = (\<lambda>_ _ _ w. (0, w)),
     ng_subscribe = (\<lambda>_ _ w. (0, w)), ng_listen = (\<lambda>_ _ w. (0, w)), ng_dial = (\<lambda>_ _ w. (7, w)),
     ng_dialer_of = (\<lambda>_ _. 0), ng_listener_of = (\<lambda>_ _. 0), ng_dialer_close = (\<lambda>_ w. w),
     ng_listener_close = (\<lambda>_ w. w), ng_close = (\<lambda>_ w. w), ng_msg_alloc = (\<lambda>_ w. (0, w)),
     ng_sendmsg = (\<lambda>_ _ w. (0, w)), ng_recvmsg = (\<lambda>_ w. ((5, []), w)), ng_send = (\<lambda>_ _ w. (0, w)),
     ng_recv = (\<lambda>_ w. ((0, []), w)), ng_strerror = (\<lambda>_. ''e'')\<rparr>"

definition sample_net :: "nat net" where
  "sample_net = \<lparr>nt_sockets = [1], nt_messages = 0, nt_world = 1\<rparr>"

theorem modules_close_what_they_open_witness:
  "fst (Requester_new sample_nng_lib ''u'' sample_net) = Inl (CommException ''Failed to dial u: e'') \<and>
   nt_sockets (snd (Requester_new sample_nng_lib ''u'' sample_net)) = [1]"
proof -
  have "fresh_sockets sample_nng_lib sample_net" by (simp add: fresh_sockets_def sample_nng_lib_def sample_net_def)
  from modules_close_what_they_open [OF this, of "''u''" Role_PUSHER Role_VOTER]
  have "balanced (Requester_destroy sample_nng_lib) re_socket sample_net (Requester_new sample_nng_lib ''u'' sample_net)" by blast
  moreover have "fst (Requester_new sample_nng_lib ''u'' sample_net) = Inl (CommException ''Failed to dial u: e'')"
    by (simp add: Requester_new_def net_open_def net_call_def sample_nng_lib_def sample_net_def)
  ultimately show ?thesis
    by (cases "Requester_new sample_nng_lib ''u'' sample_net") (simp add: balanced_def sample_net_def)
qed

lemma request_text_delivered_instance:
  "string_from_buffer (strcpy_into ''....'' ''abc'') = Inr ''abc'' \<and>
   string_from_buffer (strcpy_into ''wxyz'' [CHR ''a'', CHR 0x00, CHR ''c'']) = Inr [CHR ''a'', CHR 0x00, CHR ''y'']"
proof -
  have a: "string_from_buffer (strcpy_into ''....'' ''abc'') = Inr ''abc''"
    using request_text_delivered [of "''....''" "''abc''"] by simp
  have "length ''wxyz'' = length [CHR ''a'', CHR 0x00, CHR ''c''] + 1" by simp
  from request_text_delivered [OF this, THEN conjunct2, rule_format, of "''a''" "''c''"] a
  show ?thesis by simp
qed

section \<open>The HTTP server\<close>

definition sample_http :: "unit nng_http" where
  "sample_http = \<lparr>nh_url_parse = (\<lambda>_ w. (True, w)), nh_server_hold = (\<lambda>w. (True, w)),
     nh_tls_alloc = (\<lambda>w. (True, w)), nh_tls_own_cert = (\<lambda>_ _ w. (True, w)), nh_set_tls = (\<lambda>w. (True, w)),
     nh_handler_alloc = (\<lambda>_ w. (True, w)), nh_add_handler = (\<lambda>_ w. (True, w)),
     nh_server_start = (\<lambda>w. (True, w)), nh_server_stop = (\<lambda>w. ((), w))\<rparr>"

lemma sample_http_start: "\<exists>h st. Http_start sample_http 80 Http_new (\<lambda>_. 0, ()) = (Inr h, st)"
  by (simp add: Http_start_def sample_http_def Http_new_def acquire_by_def call_on_def http_configure_tls_def
      acquire_def release_def)

theorem http_server_never_stops_witness:
  "\<exists>h st. Http_start sample_http 80 Http_new (\<lambda>_. 0, ()) = (Inr h, st) \<and> Http_stop sample_http h st = (h, st) \<and>
     fst st Http_Server = 1"
proof -
  obtain h st where s: "Http_start sample_http 80 Http_new (\<lambda>_. 0, ()) = (Inr h, st)"
    using sample_http_start by blast
  have "Http_stop sample_http h st = (h, st)"
    using http_server_never_stops [OF http_reachable.http_start [OF http_reachable.http_new s]] by blast
  moreover have "fst st Http_Server = 1"
    using http_server_never_stops [OF http_reachable.http_new, THEN conjunct2, THEN conjunct1, rule_format, OF s]
    by simp
  ultimately show ?thesis using s by blast
qed

section \<open>JSON\<close>

datatype sample_doc = Doc_String string | Doc_Int int | Doc_Bool bool | Doc_Double nat | Doc_Ints "int list"
  | Doc_Object "(string \<times> sample_doc) list"

definition sample_json :: "(sample_doc, nat) nlohmann" where
  "sample_json = \<lparr>nj_object = Doc_Object [], nj_parse = (\<lambda>_. Inr (Doc_Object [])),
     nj_extract = (\<lambda>_ d. (None, d)), nj_dump = (\<lambda>_. Inr ''{}''),
     nj_at = (\<lambda>d k. case d of Doc_Object m \<Rightarrow> (case map_of m k of Some v \<Rightarrow> Inr v | None \<Rightarrow> Inl nj_out_of_range)
                    | _ \<Rightarrow> Inl nj_type_error),
     nj_assign = (\<lambda>d k v. case d of Doc_Object m \<Rightarrow> Inr (Doc_Object ((k, v) # m)) | _ \<Rightarrow> Inl nj_type_error),
     nj_items = (\<lambda>d. case d of Doc_Ints is \<Rightarrow> map Doc_Int is | _ \<Rightarrow> [d]),
     nj_is_integer = (\<lambda>d. case d of Doc_Int _ \<Rightarrow> True | _ \<Rightarrow> False),
     nj_is_object = (\<lambda>d. case d of Doc_Object _ \<Rightarrow> True | _ \<Rightarrow> False),
     nj_get_string = (\<lambda>d. case d of Doc_String s \<Rightarrow> Inr s | _ \<Rightarrow> Inl nj_type_error),
     nj_get_int = (\<lambda>d. case d of Doc_Int i \<Rightarrow> Inr i | _ \<Rightarrow> Inl nj_type_error),
     nj_get_bool = (\<lambda>d. case d of Doc_Bool b \<Rightarrow> Inr b | _ \<Rightarrow> Inl nj_type_error),
     nj_get_double = (\<lambda>d. case d of Doc_Double r \<Rightarrow> Inr r | _ \<Rightarrow> Inl nj_type_error),
     nj_of_string = Doc_String, nj_of_int = Doc_Int, nj_of_bool = Doc_Bool, nj_of_double = Doc_Double,
     nj_of_ints = Doc_Ints, nj_what = (\<lambda>_. [])\<rparr>"

lemma sample_json_laws: "nlohmann_laws sample_json"
  by (auto simp: nlohmann_laws_def sample_json_def split: sample_doc.splits)

lemma json_set_get_instance:
  "\<exists>d. Json_setArray sample_json (Doc_Object []) ''k'' [1, 2] = Inr d \<and> Json_getArray sample_json d ''k'' = Inr [1, 2]"
proof -
  have "nj_is_object sample_json (Doc_Object [])" "nj_dump sample_json (Doc_Object []) = Inr ''{}''"
    "nj_parse sample_json ''{}'' = Inr (Doc_Object [])" by (simp_all add: sample_json_def)
  from json_set_get [OF sample_json_laws this(1,1,2,3), of "''k''" "[]" 0 True 0 "[1, 2]",
      THEN conjunct2, THEN conjunct2, THEN conjunct2, THEN conjunct2, THEN conjunct1]
  show ?thesis by blast
qed

section \<open>Configuration\<close>

datatype sample_toml_node = Node_Int int | Node_Array "sample_toml_node list" | Node_Table "(string \<times> sample_toml_node) list"

fun sample_lookup :: "sample_toml_node \<Rightarrow> string \<Rightarrow> sample_toml_node option" where
  "sample_lookup (Node_Table m) k = map_of m k"
| "sample_lookup _ k = None"

definition sample_path :: "sample_toml_node \<Rightarrow> string \<Rightarrow> sample_toml_node option" where
  "sample_path t p =
     (let first = takeWhile (\<lambda>c. c \<noteq> CHR ''.'') p; rest = dropWhile (\<lambda>c. c \<noteq> CHR ''.'') p in
      if rest = [] then sample_lookup t first else Option.bind (sample_lookup t first) (\<lambda>n. sample_lookup n (tl rest)))"

fun sample_insert :: "sample_toml_node \<Rightarrow> string \<Rightarrow> sample_toml_node \<Rightarrow> sample_toml_node" where
  "sample_insert (Node_Table m) k v = Node_Table ((k, v) # m)"
| "sample_insert _ k v = Node_Table [(k, v)]"

definition sample_toml_lib :: "(sample_toml_node, unit) toml_lib" where
  "sample_toml_lib = \<lparr>tm_parse = (\<lambda>_. None), tm_print = (\<lambda>_. []), tm_at_path = sample_path,
     tm_as_array = (\<lambda>n. case n of Node_Array ns \<Rightarrow> Some ns | _ \<Rightarrow> None), tm_kind = (\<lambda>_. Toml_Other),
     tm_int = (\<lambda>n. case n of Node_Int i \<Rightarrow> Some i | _ \<Rightarrow> None), tm_double = (\<lambda>_. None),
     tm_string = (\<lambda>_. None), tm_bool = (\<lambda>_. None), tm_insert = sample_insert, tm_of_array = Node_Array,
     tm_to_json = (\<lambda>_. []), tm_to_yaml = (\<lambda>_. [])\<rparr>"

lemma sample_lookup_insert: "sample_lookup (sample_insert t k v) k' = (if k' = k then Some v else sample_lookup t k')"
  by (cases t) auto

lemma sample_path_simple: "simple_key k \<Longrightarrow> sample_path t k = sample_lookup t k"
proof -
  assume "simple_key k"
  then have "takeWhile (\<lambda>c. c \<noteq> CHR ''.'') k = k" "dropWhile (\<lambda>c. c \<noteq> CHR ''.'') k = []"
    by (auto simp: simple_key_def takeWhile_eq_all_conv dropWhile_eq_Nil_conv)
  then show ?thesis by (simp only: sample_path_def Let_def) simp
qed

lemma sample_path_dotted: "simple_key k \<Longrightarrow> sample_path t (k @ CHR ''.'' # rest) = Option.bind (sample_lookup t k) (\<lambda>n. sample_lookup n rest)"
proof -
  assume "simple_key k"
  then have "takeWhile (\<lambda>c. c \<noteq> CHR ''.'') (k @ CHR ''.'' # rest) = k"
    "dropWhile (\<lambda>c. c \<noteq> CHR ''.'') (k @ CHR ''.'' # rest) = CHR ''.'' # rest"
    by (auto simp: simple_key_def takeWhile_tail dropWhile_append)
  then show ?thesis by (simp add: sample_path_def)
qed

lemma sample_toml_laws: "toml_laws sample_toml_lib"
  by (simp add: toml_laws_def sample_toml_lib_def sample_path_simple sample_path_dotted sample_lookup_insert)

lemma config_set_get_instance:
  "Config_get sample_toml_lib (tm_int sample_toml_lib) ''k'' 0 (Config_set sample_toml_lib Node_Int ''k'' 5 (Node_Table [])) = 5 \<and>
   Config_get sample_toml_lib (tm_int sample_toml_lib) ''k.x'' 0 (Config_set sample_toml_lib Node_Int ''k.x'' 5 (Node_Table [])) = 0"
proof -
  have k: "simple_key ''k''" by (simp add: simple_key_def)
  have v: "\<And>v. tm_int sample_toml_lib (Node_Int v) = Some v" by (simp add: sample_toml_lib_def)
  have e: "Config_get sample_toml_lib (tm_int sample_toml_lib) ''k.x'' 0 (Node_Table []) = 0"
    by (simp add: Config_get_def sample_toml_lib_def sample_path_def)
  from config_set_get [OF sample_toml_laws k, of "tm_int sample_toml_lib" Node_Int, OF v, of 0 5 "Node_Table []" "[]"] show ?thesis
    by (auto simp: e dest!: spec [of _ "''x''"])
qed

section \<open>Databases\<close>

theorem insert_values_exact_witness:
  "(\<exists>sql. (\<forall>(sq :: unit sqlite) st. SQLiteDriver_insert sq ''users'' [(''name'', ''Alice''), (''age'', ''25'')] True st
        = call_on (sq_exec sq sql) st) \<and> read_insert ''users'' [''name'', ''age''] sql = Some [''Alice'', ''25'']) \<and>
   (\<exists>sql. (\<forall>(sq :: unit sqlite) st. SQLiteDriver_insert sq ''users'' [(''name'', [CHR 0x27])] True st
        = call_on (sq_exec sq sql) st) \<and> read_insert ''users'' [''name''] sql \<noteq> Some [[CHR 0x27]])"
  using insert_values_exact [where 'w = unit, of "[(''name'', ''Alice''), (''age'', ''25'')]" "''users''"]
    insert_values_exact [where 'w = unit, of "[(''name'', [CHR 0x27])]" "''users''"] by simp

definition sample_sqlite :: "unit sqlite" where
  "sample_sqlite = \<lparr>sq_open = (\<lambda>_ w. ((True, True), w)), sq_close = (\<lambda>w. w), sq_exec = (\<lambda>_ w. (True, w)),
     sq_prepare = (\<lambda>_ w. (None, w)), sq_step = (\<lambda>w. (None, w))\<rparr>"

definition sample_mysql :: "(unit, unit) mysqlx" where
  "sample_mysql = \<lparr>my_session = (\<lambda>_ w. (Inr (), w)), my_insert = (\<lambda>_ _ _ w. (Inr (), w)),
     my_update = (\<lambda>_ _ _ w. (Inr (), w)), my_remove = (\<lambda>_ _ w. (Inr (), w)),
     my_sql = (\<lambda>_ w. (Inr ([], [], None), w)), my_is_null = (\<lambda>_. False), my_get_string = (\<lambda>_. None),
     my_close = (\<lambda>w. w)\<rparr>"

theorem sql_objects_accounted_witness:
  "\<exists>d' st'. YaSql_connect sample_sqlite sample_mysql ''u'' (Some (Driver_Sqlite True)) (\<lambda>_. 1, ()) = ((True, d'), st') \<and>
     accounted (Some (Driver_Sqlite True)) (\<lambda>_. 1, ()) d' st'"
proof -
  have law: "\<And>u w a w'. sq_open sample_sqlite u w = ((True, a), w') \<Longrightarrow> a" by (simp add: sample_sqlite_def)
  have "\<exists>d' st'. YaSql_connect sample_sqlite sample_mysql ''u'' (Some (Driver_Sqlite True)) (\<lambda>_. 1, ()) = ((True, d'), st')"
    by (simp add: YaSql_connect_def SQLiteDriver_connect_def call_on_def sample_sqlite_def Let_def
        sqlite_close_def acquire_def release_def)
  then obtain d' st' where c:
    "YaSql_connect sample_sqlite sample_mysql ''u'' (Some (Driver_Sqlite True)) (\<lambda>_. 1, ()) = ((True, d'), st')" by blast
  have "accounted (Some (Driver_Sqlite True)) (\<lambda>_. 1, ()) d' st'"
    using sql_objects_accounted [of sample_sqlite sample_mysql "Some (Driver_Sqlite True)" "(\<lambda>_. 1, ())", OF law,
        THEN conjunct2, THEN conjunct1, rule_format, OF _ c] by auto
  with c show ?thesis by blast
qed

section \<open>Log and hardware information\<close>

lemma log_complete_until_reinit_instance:
  "yl_written (fold (\<lambda>(l, m). YaLog_write l m) [(Level_debug, ''a''), (Level_warn, ''b'')] (YaLog_new (\<lambda>_. True) []))
     = [(''./log/ya-net.log'', Level_debug, ''a''), (''./log/ya-net.log'', Level_warn, ''b'')] \<and>
   yl_written (fold (\<lambda>(l, m). YaLog_write l m) [(Level_debug, ''a''), (Level_warn, ''b'')]
       (YaLog_init (\<lambda>_. True) ''x.log'' (YaLog_new (\<lambda>_. True) []))) = [(''x.log'', Level_warn, ''b'')]"
  using log_complete_until_reinit [of "\<lambda>_. True" "[]" "[(Level_debug, ''a''), (Level_warn, ''b'')]" "''x.log''"] by simp

text \<open>A memory device with two strings: the second is its manufacturer, the first its serial number.\<close>

lemma memory_device_reported_instance:
  "memory_device ((replicate 0x17 (CHR 0x11) @ [CHR 0x02, CHR 0x01] @ replicate 7 (CHR 0x00)) @
       concat (map (\<lambda>s. s @ [CHR 0x00]) [''42'', ''ACME'']) @ replicate 1 (CHR 0x00))
     = Some \<lparr>me_serial_number = ''42'', me_manufacturer = ''ACME''\<rparr>"
  by (subst memory_device_reported) (simp_all add: nth_append numeral_eq_Suc)

definition com_sample :: "unit com" where
  "com_sample = \<lparr>co_initialize = (\<lambda>w. (True, w)), co_security = (\<lambda>w. (True, w)), co_locator = (\<lambda>w. (True, w)),
     co_connect = (\<lambda>w. (False, w)), co_blanket = (\<lambda>w. (True, w)), co_exec = (\<lambda>_ _ w. (Some [], w))\<rparr>"

lemma wmi_interfaces_released_instance:
  "fst (snd (YaOS_init_windows com_sample ((\<lambda>_. 0), ()))) Wbem_Locator = 0"
proof -
  have "YaOS_init_windows com_sample ((\<lambda>_. 0), ()) =
      (Some \<lparr>os_id = [], os_name = [], os_version = []\<rparr>, snd (YaOS_init_windows com_sample ((\<lambda>_. 0), ())))"
    by (simp add: YaOS_init_windows_def wmi_results_def WmiQuery_initialize_def com_sample_def acquire_by_def
        call_on_def acquire_def WmiQuery_new_def)
  then have "\<exists>os. YaOS_init_windows com_sample ((\<lambda>_. 0), ()) = (Some os, snd (YaOS_init_windows com_sample ((\<lambda>_. 0), ())))"
    by blast
  from wmi_interfaces_released [OF disjI2 [OF disjI2 [OF disjI2 [OF disjI2 [OF disjI2 [OF disjI2 [OF disjI2 [OF this]]]]]]], of Wbem_Locator]
  show ?thesis by (simp add: com_sample_def)
qed

end
