(* ===== verification/Spec2Isabelle.thy ===== *)
theory Spec2Isabelle
  imports EndToEnd_Witnesses Demo_Witnesses Tools_Witnesses
begin

text \<open>
  \<^bold>\<open>YoAuthorize: a verification of the licensing system.\<close>

  YoAuthorize lets an application ask whether a customer may use it.  A vendor issues signed license
  files.  On the customer's machine a service holds the license, authenticates itself to the
  applications that connect to its Unix socket, counts their sessions against the license and tells
  them which features they have.  An application links the client library; it can also validate a
  license in its own process, as the demonstration program with its window does.  Beside the licensing
  system the repository holds a toolkit of general libraries.  This development models the C++ of these
  programs and libraries, from the bytes of a frame to the programs' main functions, and proves what
  makes them correct.

  \<^bold>\<open>The parts and how they interact.\<close>

  \<^item> \<^verbatim>\<open>src/src/ya_license_crypto\<close>: a layer over OpenSSL (keys, signatures, key agreement, the sealed
    records' cipher, hashes, random bytes), the handshake transcript and the derivation of the
    session keys.  Theories \<^verbatim>\<open>Crypto\<close> and \<^verbatim>\<open>Transcript\<close>.
  \<^item> \<^verbatim>\<open>src/src/ya_license_protocol\<close>: the frame codec (\<^verbatim>\<open>Frame\<close>), the encrypted records
    (\<^verbatim>\<open>RecordLayer\<close>), the envelope and its nine messages (\<^verbatim>\<open>Messages\<close>) and the two sides
    of the handshake (\<^verbatim>\<open>Handshake\<close>).
  \<^item> \<^verbatim>\<open>src/src/ya_license_core\<close>: the validation of a license (\<^verbatim>\<open>License\<close>), the table of sessions
    (\<^verbatim>\<open>Session\<close>, with its abstract specification in \<^verbatim>\<open>SessionSpec\<close>) and the identity of a machine
    (\<^verbatim>\<open>MachineIdentity\<close>).
  \<^item> \<^verbatim>\<open>src/src/ya_license_transport\<close>: the stream socket and its listener.  Theory \<^verbatim>\<open>UnixSocket\<close>.
  \<^item> \<^verbatim>\<open>src/src/ya_license_service\<close>: configuration (\<^verbatim>\<open>ServiceConfig\<close>), keys (\<^verbatim>\<open>KeyStore\<close>), the
    state machine of one connection (\<^verbatim>\<open>Connection\<close>), many connections over one session table
    (\<^verbatim>\<open>Seats\<close>), and the loops and the program (\<^verbatim>\<open>Service\<close>).
  \<^item> \<^verbatim>\<open>src/src/ya_license_sdk\<close>: the client object with its heartbeat thread (\<^verbatim>\<open>Client\<close>) and the
    authorization without a service (\<^verbatim>\<open>LocalAuthorizer\<close>).
  \<^item> \<^verbatim>\<open>src/tools/license_generator\<close>: the issuer of licenses and its command line program
    (\<^verbatim>\<open>Issuer\<close>, \<^verbatim>\<open>Generator\<close>).
  \<^item> \<^verbatim>\<open>src/samples/TestYoQt\<close>: the window that authorizes from a file or activates online and enables
    its protected actions by the features of the license (\<^verbatim>\<open>DemoWindow\<close>).
  \<^item> \<^verbatim>\<open>src/src/ya_communicate\<close>: a peer-to-peer node (\<^verbatim>\<open>P2P\<close>, on the numbers and text streams of
    \<^verbatim>\<open>Digits\<close>), seven modules for patterns of message passing (\<^verbatim>\<open>Messaging\<close>) and an HTTP server
    (\<^verbatim>\<open>Http\<close>).
  \<^item> The rest of the toolkit: \<^verbatim>\<open>src/src/ya_utils\<close> (\<^verbatim>\<open>Utils\<close>), \<^verbatim>\<open>ya_json\<close> (\<^verbatim>\<open>Json\<close>), \<^verbatim>\<open>ya_config\<close>
    (\<^verbatim>\<open>Config\<close>), \<^verbatim>\<open>ya_sql\<close> (\<^verbatim>\<open>Sql\<close>), \<^verbatim>\<open>ya_shell\<close> (\<^verbatim>\<open>Shell\<close>), \<^verbatim>\<open>ya_log\<close> (\<^verbatim>\<open>Log\<close>) and \<^verbatim>\<open>ya_hwinfo\<close> (\<^verbatim>\<open>Hwinfo\<close>
    for Linux, \<^verbatim>\<open>HwinfoWindows\<close> for Windows).  \<^verbatim>\<open>Resources\<close> counts the objects that these wrappers
    allocate through the libraries they wrap.

  \<^verbatim>\<open>Prelude\<close> holds the lemmas that the components share, \<^verbatim>\<open>Posix\<close> the system calls on files, and
  \<^verbatim>\<open>EndToEnd\<close> what the client library and the service do together, \<^verbatim>\<open>VendorToWindow\<close> what an issued license does
  in the window.  The theories whose names end in
  \<^verbatim>\<open>Witnesses\<close> apply the properties to concrete runs.

  The client library connects, shakes hands, sends an authorize message and then heartbeats.  The
  service passes each frame to the connection, which passes it to the handshake until that is
  established and to the message handlers afterwards; these call the session table.  The issuer and
  the validator meet in the bytes of a license.

  \<^bold>\<open>How the model corresponds to the code.\<close>

  A struct or class is a \<^verbatim>\<open>record\<close> with one field per member and a prefix per type, an enumeration a
  \<^verbatim>\<open>datatype\<close> whose constructors carry the enumeration's name, and an operation
  \<^verbatim>\<open>Class::method\<close> the definition \<^verbatim>\<open>Class_method\<close>, from the state before to the result and
  the state after.  A routine with many exits is cut into definitions where the code has a
  natural joint; each names the routine it is a part of.  Integers are words of their width, so that
  additions wrap where the code's do.  A result structure with an error code is a sum.  An
  \<^verbatim>\<open>unordered_map\<close> is an association list read with \<^verbatim>\<open>map_of\<close>.  Secrets that the code cleanses are
  overwritten in the state.  A null pointer that the code would follow, and a loop that never ends,
  is the value \<^verbatim>\<open>None\<close>; loops that wait for the system or draw random numbers are partial functions
  into \<^verbatim>\<open>option\<close>, every other loop is a function with a termination proof, and no fuel is used
  anywhere.

  Code that is not part of the sources is a parameter, a record of functions: OpenSSL
  (\<^verbatim>\<open>ossl\<close>), the FlatBuffers code that the build generates from the two schemas (\<^verbatim>\<open>fb\<close> and
  \<^verbatim>\<open>lf\<close>), the TOML parser (\<^verbatim>\<open>tp\<close>), files and time (\<^verbatim>\<open>px\<close> and \<^verbatim>\<open>fs\<close>) and
  sockets (\<^verbatim>\<open>so\<close>, and \<^verbatim>\<open>nn\<close> and \<^verbatim>\<open>ng\<close> for those of nng), Qt (\<^verbatim>\<open>qt\<close>), the ciphers and keys of \<^verbatim>\<open>ya_utils\<close>
  (\<^verbatim>\<open>evp\<close>), nng's HTTP server (\<^verbatim>\<open>nh\<close>), nlohmann's JSON (\<^verbatim>\<open>nj\<close>), toml++ (\<^verbatim>\<open>tm\<close>), SQLite and MySQL (\<^verbatim>\<open>sq\<close>,
  \<^verbatim>\<open>my\<close>) and COM (\<^verbatim>\<open>co\<close>).  Calls with an effect take and return the state of the world, of which the model
  knows nothing.  What a property needs of a parameter is a named hypothesis that states
  documented behaviour: that opening inverts sealing (\<^verbatim>\<open>aead_correct\<close>), that the two sides of a key
  agreement agree (\<^verbatim>\<open>x25519_symmetric\<close>), that a signature verifies (\<^verbatim>\<open>ed25519_pair\<close>), that the
  generated code reads what it built (\<^verbatim>\<open>fb_codec\<close>, \<^verbatim>\<open>license_codec\<close>), that a read returns at
  most what was asked for (\<^verbatim>\<open>posix_bounded\<close>), that interruptions end (\<^verbatim>\<open>interrupts_end\<close>), that a
  connected socket is a stream (\<^verbatim>\<open>stream\<close>), that a cipher decrypts what it encrypted
  (\<^verbatim>\<open>cipher_correct\<close>), that a new socket has a number that is not in use (\<^verbatim>\<open>fresh_sockets\<close>), that a
  message sent on one socket of a node arrives on another one's and that a client waits for its answer
  (\<^verbatim>\<open>carries\<close>, \<^verbatim>\<open>waits_for\<close>).  The theories
  \<^verbatim>\<open>Sample_Providers\<close>, \<^verbatim>\<open>Core_Witnesses\<close> and \<^verbatim>\<open>Tools_Witnesses\<close> hold instances that satisfy them and compute.

  Mutexes make the operations of an object atomic, so that a history of an object is a sequence of
  operations: \<^verbatim>\<open>client_reachable\<close>, \<^verbatim>\<open>server_reachable\<close>, \<^verbatim>\<open>manager_reachable\<close>, \<^verbatim>\<open>conn_reachable\<close>,
  \<^verbatim>\<open>sdk_reachable\<close>, \<^verbatim>\<open>window_reachable\<close> and \<^verbatim>\<open>http_reachable\<close> are the states after any such history, and invariants are proved by
  rule induction.  \<^verbatim>\<open>house_history\<close> holds any number of connections that share one session table, whose
  frames come in any order; \<^verbatim>\<open>seat_history\<close> is its specification, a set of seated connections.  What another thread does to a blocking call reaches it through the results of its
  system calls.

  \<^bold>\<open>What is proved.\<close>

  \<^item> The protocol: a handshake with a trusted service ends established on both sides
    (\<^verbatim>\<open>handshake_establishes_both\<close>), a client is established only with a service that signed its own
    transcript (\<^verbatim>\<open>client_states_safe\<close>), the service only by the right finished message; records are
    delivered unchanged and in order, no two frames are sealed under one nonce and no frame is accepted twice; failures are
    final and erase the keys; versions are negotiated to the greatest common one.
  \<^item> The formats: frames, messages and transcripts have one encoding and round trip, decoders
    accept at most one type and return well-typed messages, and errors come in a fixed order.
  \<^item> The core: a license is accepted exactly when it is signed, valid and for this product and
    machine; what the issuer issues the validator accepts; the session table implements a map
    with fresh ids and never exceeds the limit; the machine identity determines its components.
  \<^item> The service: access is granted only within the license, an expired license closes, a
    connection changes no session but its own, any number of connections implement a room with the
    license's number of seats (\<^verbatim>\<open>connections_refine_seats\<close>) and the table is what the active ones hold
    (\<^verbatim>\<open>table_is_the_active_connections\<close>), a run of the service leaves no session behind, and
    configuration and keys are within bounds before anything is served.
  \<^item> Both together: a client that is entitled is served with the features of the license, and a live
    session stays valid, where the cipher seals the answers and the transport carries the frames
    (\<^verbatim>\<open>entitled_client_is_served\<close>, \<^verbatim>\<open>live_session_stays_valid\<close>).  A license the vendor
    issued enables in the customer's window exactly the actions it names
    (\<^verbatim>\<open>issued_license_opens_window\<close>).
  \<^item> The client library: a feature is granted only on the word of an authenticated service and only in
    the valid state, and expiry, revocation and shutdown are final (\<^verbatim>\<open>ended_client_grants_nothing\<close>).  Local authorization is the license check.
  \<^item> The transport: reads and writes are exact and closing is final.
  \<^item> The demonstration window: its protected actions are enabled only by a license that was accepted
    under the key it shows, whatever is clicked, typed or received; signals of the network never meet a
    missing reply; an activation request goes over HTTPS only.
  \<^item> The toolkit: what was encrypted is decrypted, and the wrappers release what they allocate except
    in the cases the code forgets, which are stated; every messaging module closes the one socket it
    opened, and the five that check their address refuse exactly what is outside the language of their
    regular expression; the HTTP server cannot be
    stopped; the values that an \<^verbatim>\<open>INSERT\<close> reaches SQLite with are exact only without quotes and zeros; JSON values and settings are read back
    as they were set; the shell answers its script and ends; the strings of a memory device are
    found where its structure has the expected length; the hardware facade hands on what its readers
    find, and on a machine that shows nothing three of its questions end with an exception.
  \<^item> The peer-to-peer node: its table is ordered and consistent, nodes understand each other's
    messages, and an empty message ends the process, which is a defect of the code.
  \<^item> Termination: creating a session returns exactly when the entropy source lets it; the
    generator ends on every command line, the shell on every input.

  The interfaces are locales, each interpreted on the model's definitions: length-prefixed fields and
  big-endian numbers (\<^verbatim>\<open>Prelude\<close>, \<^verbatim>\<open>Transcript\<close>), the header and the record channel, the codec
  of a message (nine interpretations), the session table that a connection relies on, the reader
  of exact numbers of bytes that the frame readers rely on, the lifetime of a module that owns a socket
  (seven interpretations).

  \<^bold>\<open>Not modelled.\<close>

  The hosted back end in other languages, vendored and generated code.  Of the modelled programs: the
  wait between two heartbeats, the signal handler (its flag is a predicate on the world), the moves of
  transport objects, and timing; the layout of the window; the conversion of a timer to floating-point
  units; the patterns and the rotation of the log; what the messaging modules print; forwarding methods
  of the classes that hide an implementation; \<^verbatim>\<open>src/src/ya_log/log/yalog.cpp\<close>, which no build file names;
  two threads inside one call of a connection, which has no mutex of its own and which the service never
  shares.
\<close>

end
